(* ===== verification/Prelude.thy ===== *)
theory Prelude
  imports Main "HOL-Library.AList" "HOL-Library.Sublist"
begin

text \<open>
  The JavaScript substrate shared by the components of the Azure IoT SDK for Node.js:
  dynamically typed values with their truthiness and \<open>typeof\<close>, string objects as
  association lists in insertion order, the string methods the SDK calls
  (\<open>split\<close>, \<open>indexOf\<close>, \<open>substring\<close>), decimal printing, thrown errors as the left
  side of a sum, and the generic lemmas the component proofs use.

  Strings are lists of \<^typ>\<open>char\<close>: the model covers strings whose UTF-16 code units are
  below 256. Numbers are integers: the SDK does no fractional arithmetic on the values
  modelled here. Property enumeration follows insertion order.
\<close>

section \<open>Collections of proof rules\<close>

named_theorems js_simps \<open>evaluation rules for JavaScript values and results\<close>

section \<open>Values\<close>

text \<open>
  \<open>JFun n\<close> is a reference to function number \<open>n\<close>; \<open>JBuf\<close> is a Node \<open>Buffer\<close>,
  \<open>JDate\<close> a \<open>Date\<close> by its time value.
\<close>

datatype jsval =
    JUndef
  | JNull
  | JBool bool
  | JNum int
  | JStr string
  | JFun nat
  | JBuf string
  | JDate int
  | JArr "jsval list"
  | JObj "(string \<times> jsval) list"

fun truthy :: "jsval \<Rightarrow> bool" where
  "truthy JUndef = False"
| "truthy JNull = False"
| "truthy (JBool b) = b"
| "truthy (JNum n) = (n \<noteq> 0)"
| "truthy (JStr s) = (s \<noteq> [])"
| "truthy _ = True"

abbreviation falsy :: "jsval \<Rightarrow> bool" where
  "falsy v \<equiv> \<not> truthy v"

fun js_typeof :: "jsval \<Rightarrow> string" where
  "js_typeof JUndef = ''undefined''"
| "js_typeof (JBool b) = ''boolean''"
| "js_typeof (JNum n) = ''number''"
| "js_typeof (JStr s) = ''string''"
| "js_typeof (JFun f) = ''function''"
| "js_typeof _ = ''object''"

fun is_str :: "jsval \<Rightarrow> bool" where
  "is_str (JStr s) = True"
| "is_str _ = False"

fun is_num :: "jsval \<Rightarrow> bool" where
  "is_num (JNum n) = True"
| "is_num _ = False"

fun is_bool :: "jsval \<Rightarrow> bool" where
  "is_bool (JBool n) = True"
| "is_bool _ = False"

fun is_fun :: "jsval \<Rightarrow> bool" where
  "is_fun (JFun n) = True"
| "is_fun _ = False"

fun is_date :: "jsval \<Rightarrow> bool" where
  "is_date (JDate n) = True"
| "is_date _ = False"

text \<open>\<open>v === null || v === undefined || v === ''\<close>, a guard the service library repeats.\<close>

definition is_blank :: "jsval \<Rightarrow> bool" where
  "is_blank v \<longleftrightarrow> v = JNull \<or> v = JUndef \<or> v = JStr []"

lemma typeof_string_iff [simp]: "js_typeof v = ''string'' \<longleftrightarrow> is_str v"
  by (cases v) auto

lemma typeof_number_iff [simp]: "js_typeof v = ''number'' \<longleftrightarrow> is_num v"
  by (cases v) auto

lemma typeof_function_iff [simp]: "js_typeof v = ''function'' \<longleftrightarrow> is_fun v"
  by (cases v) auto

lemma is_str_conv: "is_str v \<longleftrightarrow> (\<exists>s. v = JStr s)"
  by (cases v) auto

lemma is_num_conv: "is_num v \<longleftrightarrow> (\<exists>n. v = JNum n)"
  by (cases v) auto

lemma is_fun_conv: "is_fun v \<longleftrightarrow> (\<exists>n. v = JFun n)"
  by (cases v) auto

section \<open>Property tables\<close>

text \<open>
  An object literal is an association list; writing an existing key keeps its place,
  writing a new one appends it, which is what \<^const>\<open>AList.update\<close> does.
\<close>

type_synonym 'v dict = "(string \<times> 'v) list"

abbreviation dset :: "string \<Rightarrow> 'v \<Rightarrow> 'v dict \<Rightarrow> 'v dict" where
  "dset k v d \<equiv> AList.update k v d"

abbreviation dkeys :: "'v dict \<Rightarrow> string list" where
  "dkeys d \<equiv> map fst d"

definition has_key :: "string \<Rightarrow> 'v dict \<Rightarrow> bool" where
  "has_key k d \<longleftrightarrow> map_of d k \<noteq> None"

text \<open>Reading a property: a missing one is \<open>undefined\<close>.\<close>

definition dget :: "jsval dict \<Rightarrow> string \<Rightarrow> jsval" where
  "dget d k = (case map_of d k of Some v \<Rightarrow> v | None \<Rightarrow> JUndef)"

fun jget :: "jsval \<Rightarrow> string \<Rightarrow> jsval" where
  "jget (JObj d) k = dget d k"
| "jget _ k = JUndef"

text \<open>The same for tables of strings: a missing entry is falsy.\<close>

definition sget :: "string dict \<Rightarrow> string \<Rightarrow> jsval" where
  "sget d k = (case map_of d k of Some v \<Rightarrow> JStr v | None \<Rightarrow> JUndef)"

lemma map_of_dset [simp]: "map_of (dset k v d) = (map_of d)(k \<mapsto> v)"
  by (rule update_conv')

lemma has_key_dset [simp]: "has_key k (dset j v d) \<longleftrightarrow> k = j \<or> has_key k d"
  by (simp add: has_key_def)

lemma has_key_iff: "has_key k d \<longleftrightarrow> k \<in> set (dkeys d)"
  by (simp add: has_key_def map_of_eq_None_iff)

lemma dget_Nil [simp]: "dget [] j = JUndef"
  and dget_Cons [simp]: "dget ((k, v) # d) j = (if j = k then v else dget d j)"
  by (simp_all add: dget_def)

lemma dget_dset [simp]: "dget (dset k v d) j = (if j = k then v else dget d j)"
  by (simp add: dget_def)

lemma sget_dset [simp]: "sget (dset k v d) j = (if j = k then JStr v else sget d j)"
  by (simp add: sget_def)

lemma dkeys_dset_mem [simp]: "k \<in> set (dkeys d) \<Longrightarrow> dkeys (dset k v d) = dkeys d"
  by (induction d) auto

lemma dset_new: "k \<notin> fst ` set d \<Longrightarrow> dset k v d = d @ [(k, v)]"
  by (induction d) auto

lemma set_dkeys_dset: "set (dkeys (dset k v d)) = insert k (set (dkeys d))"
  by (induction d) auto

lemma distinct_dkeys_dset [simp]: "distinct (dkeys d) \<Longrightarrow> distinct (dkeys (dset k v d))"
  by (rule distinct_update)

text \<open>\<open>xs[i]\<close>: out of range is undefined.\<close>

definition nth_opt :: "'a list \<Rightarrow> nat \<Rightarrow> 'a option" where
  "nth_opt xs i = (if i < length xs then Some (xs ! i) else None)"

section \<open>Errors and results\<close>

text \<open>
  The error constructors of \<open>node/common/core/lib/errors.js\<close> and of
  \<open>blob_upload_errors.js\<close>, with the built-in ones the SDK throws.
\<close>

datatype error_kind =
    Error
  | ReferenceError
  | TypeError
  | SyntaxError
  | URIError
  | ArgumentError
  | DeviceMaximumQueueDepthExceededError
  | DeviceNotFoundError
  | FormatError
  | UnauthorizedError
  | NotImplementedError
  | NotConnectedError
  | IotHubQuotaExceededError
  | MessageTooLargeError
  | InternalServerError
  | ServiceUnavailableError
  | IotHubNotFoundError
  | JobNotFoundError
  | TooManyDevicesError
  | ThrottlingError
  | DeviceAlreadyExistsError
  | InvalidEtagError
  | TimeoutError
  | BadDeviceResponseError
  | GatewayTimeoutError
  | DeviceTimeoutError
  | BlobSasError
  | BlobUploadNotificationError

text \<open>An error object: its constructor, its message and what the SDK attaches to it.\<close>

record js_error =
  err_kind :: error_kind
  err_message :: string
  err_props :: "jsval dict"

definition mk_error :: "error_kind \<Rightarrow> string \<Rightarrow> js_error" where
  "mk_error k m = \<lparr>err_kind = k, err_message = m, err_props = []\<rparr>"

text \<open>\<open>prototype.name\<close> of the error classes, and \<open>Error.prototype.toString\<close>.\<close>

fun error_name :: "error_kind \<Rightarrow> string" where
  "error_name Error = ''Error''"
| "error_name ReferenceError = ''ReferenceError''"
| "error_name TypeError = ''TypeError''"
| "error_name SyntaxError = ''SyntaxError''"
| "error_name URIError = ''URIError''"
| "error_name ArgumentError = ''ArgumentError''"
| "error_name DeviceMaximumQueueDepthExceededError = ''DeviceMaximumQueueDepthExceededError''"
| "error_name DeviceNotFoundError = ''DeviceNotFoundError''"
| "error_name FormatError = ''FormatError''"
| "error_name UnauthorizedError = ''UnauthorizedError''"
| "error_name NotImplementedError = ''NotImplementedError''"
| "error_name NotConnectedError = ''NotConnectedError''"
| "error_name IotHubQuotaExceededError = ''IotHubQuotaExceededError''"
| "error_name MessageTooLargeError = ''MessageTooLargeError''"
| "error_name InternalServerError = ''InternalServerError''"
| "error_name ServiceUnavailableError = ''ServiceUnavailableError''"
| "error_name IotHubNotFoundError = ''IotHubNotFoundError''"
| "error_name JobNotFoundError = ''JobNotFoundError''"
| "error_name TooManyDevicesError = ''TooManyDevicesError''"
| "error_name ThrottlingError = ''ThrottlingError''"
| "error_name DeviceAlreadyExistsError = ''DeviceAlreadyExistsError''"
| "error_name InvalidEtagError = ''InvalidEtagError''"
| "error_name TimeoutError = ''TimeoutError''"
| "error_name BadDeviceResponseError = ''BadDeviceResponseError''"
| "error_name GatewayTimeoutError = ''GatewayTimeoutError''"
| "error_name DeviceTimeoutError = ''DeviceTimeoutError''"
| "error_name BlobSasError = ''BlobSasError''"
| "error_name BlobUploadNotificationError = ''BlobUploadNotificationError''"

definition error_text :: "js_error \<Rightarrow> string" where
  "error_text e = (if err_message e = [] then error_name (err_kind e)
                   else error_name (err_kind e) @ '': '' @ err_message e)"

definition attach :: "string \<Rightarrow> jsval \<Rightarrow> js_error \<Rightarrow> js_error" where
  "attach p v e = e\<lparr>err_props := dset p v (err_props e)\<rparr>"

lemma err_kind_mk_error [simp]: "err_kind (mk_error k m) = k"
  and err_message_mk_error [simp]: "err_message (mk_error k m) = m"
  and err_props_mk_error [simp]: "err_props (mk_error k m) = []"
  by (simp_all add: mk_error_def)

lemma err_kind_attach [simp]: "err_kind (attach p v e) = err_kind e"
  and err_message_attach [simp]: "err_message (attach p v e) = err_message e"
  and err_props_attach [simp]: "err_props (attach p v e) = dset p v (err_props e)"
  by (simp_all add: attach_def)

type_synonym 'a res = "js_error + 'a"

abbreviation throw :: "error_kind \<Rightarrow> string \<Rightarrow> 'a res" where
  "throw k m \<equiv> Inl (mk_error k m)"

fun res_bind :: "'a res \<Rightarrow> ('a \<Rightarrow> 'b res) \<Rightarrow> 'b res" where
  "res_bind (Inl e) f = Inl e"
| "res_bind (Inr x) f = f x"

text \<open>\<open>throws k r\<close>: the call ended with an exception of kind \<open>k\<close>.\<close>

definition throws :: "error_kind \<Rightarrow> 'a res \<Rightarrow> bool" where
  "throws k r \<longleftrightarrow> (case r of Inl e \<Rightarrow> err_kind e = k | Inr _ \<Rightarrow> False)"

definition returns :: "'a res \<Rightarrow> bool" where
  "returns r \<longleftrightarrow> (case r of Inl e \<Rightarrow> False | Inr _ \<Rightarrow> True)"

lemma throws_Inl [simp]: "throws k (Inl e) \<longleftrightarrow> err_kind e = k"
  and throws_Inr [simp]: "\<not> throws k (Inr x)"
  and returns_Inl [simp]: "\<not> returns (Inl e)"
  and returns_Inr [simp]: "returns (Inr x)"
  by (simp_all add: throws_def returns_def)

lemma res_bind_Inr_iff: "res_bind r f = Inr y \<longleftrightarrow> (\<exists>x. r = Inr x \<and> f x = Inr y)"
  by (cases r) auto

text \<open>A list without one of its elements.\<close>

definition drop_nth :: "nat \<Rightarrow> 'a list \<Rightarrow> 'a list" where
  "drop_nth k xs = take k xs @ drop (Suc k) xs"

end
