(* ===== verification/JS_Strings.thy ===== *)
theory JS_Strings
  imports Prelude
begin

text \<open>
  The string functions of the language that the SDK calls, as executable definitions:
  \<open>split\<close>, \<open>join\<close>, \<open>indexOf\<close>, \<open>toLowerCase\<close>, decimal conversion,
  \<open>encodeURIComponent\<close> and \<open>decodeURIComponent\<close>, with the laws the components rely on:
  splitting inverts joining, decimal conversion is injective, decoding inverts encoding,
  and an encoded string contains no separator.
\<close>

section \<open>Splitting and joining\<close>

fun split_on :: "(char \<Rightarrow> bool) \<Rightarrow> string \<Rightarrow> string list" where
  "split_on p [] = [[]]"
| "split_on p (c # cs) =
     (if p c then [] # split_on p cs
      else (case split_on p cs of [] \<Rightarrow> [[c]] | w # ws \<Rightarrow> (c # w) # ws))"

function split_go :: "string \<Rightarrow> string \<Rightarrow> string \<Rightarrow> string list" where
  "split_go sep acc [] = [rev acc]"
| "split_go sep acc (c # cs) =
     (if sep \<noteq> [] \<and> prefix sep (c # cs)
      then rev acc # split_go sep [] (drop (length sep) (c # cs))
      else split_go sep (c # acc) cs)"
  by pat_completeness auto
termination
  by (relation "measure (\<lambda>(sep, acc, s). length s)") (auto simp: Suc_le_eq)

text \<open>\<open>s.split(sep)\<close>\<close>

definition js_split :: "string \<Rightarrow> string \<Rightarrow> string list" where
  "js_split sep s = (if sep = [] then map (\<lambda>c. [c]) s else split_go sep [] s)"

fun js_join :: "string \<Rightarrow> string list \<Rightarrow> string" where
  "js_join sep [] = []"
| "js_join sep [w] = w"
| "js_join sep (w # ws) = w @ sep @ js_join sep ws"

lemma split_on_not_Nil [simp]: "split_on p s \<noteq> []"
  by (cases s) (auto split: list.splits)

lemma split_go_single:
  "split_go [d] acc s = (case split_on (\<lambda>c. c = d) s of [] \<Rightarrow> [] | w # ws \<Rightarrow> (rev acc @ w) # ws)"
proof (induction "[d]" acc s rule: split_go.induct)
  case (1 acc)
  show ?case by simp
next
  case (2 acc c cs)
  obtain w ws where w: "split_on (\<lambda>c. c = d) cs = w # ws"
    by (cases "split_on (\<lambda>c. c = d) cs") auto
  show ?case
    using 2 w by (cases "c = d") auto
qed

lemma js_split_single: "js_split [d] s = split_on (\<lambda>c. c = d) s"
  by (cases "split_on (\<lambda>c. c = d) s") (auto simp: js_split_def split_go_single)

lemma split_on_no_sep [simp]: "(\<forall>c\<in>set s. \<not> p c) \<Longrightarrow> split_on p s = [s]"
  by (induction s) auto

lemma split_on_append:
  "(\<forall>c\<in>set w. \<not> p c) \<Longrightarrow> p d \<Longrightarrow> split_on p (w @ d # s) = w # split_on p s"
  by (induction w) auto

lemma js_join_Cons: "ws \<noteq> [] \<Longrightarrow> js_join sep (w # ws) = w @ sep @ js_join sep ws"
  by (cases ws) auto

lemma split_on_join:
  assumes "ws \<noteq> []" and "\<forall>w\<in>set ws. \<forall>c\<in>set w. \<not> p c" and "p d"
  shows "split_on p (js_join [d] ws) = ws"
  using assms
proof (induction ws)
  case Nil
  then show ?case by simp
next
  case (Cons w ws)
  show ?case
  proof (cases "ws = []")
    case True
    with Cons.prems show ?thesis by simp
  next
    case False
    with Cons show ?thesis by (simp add: js_join_Cons split_on_append)
  qed
qed

lemma set_js_join: "set (js_join sep ws) \<subseteq> set sep \<union> (\<Union>w\<in>set ws. set w)"
  by (induction sep ws rule: js_join.induct) auto

lemma js_join_append_last: "ws \<noteq> [] \<Longrightarrow> js_join sep (ws @ [w]) = js_join sep ws @ sep @ w"
  by (induction ws rule: induct_list012) auto

section \<open>Searching\<close>

fun index_of :: "string \<Rightarrow> string \<Rightarrow> nat option" where
  "index_of p [] = (if p = [] then Some 0 else None)"
| "index_of p (c # cs) = (if prefix p (c # cs) then Some 0 else map_option Suc (index_of p cs))"

definition contains :: "string \<Rightarrow> string \<Rightarrow> bool" where
  "contains p s \<longleftrightarrow> index_of p s \<noteq> None"

lemma index_of_prefix [simp]: "prefix p s \<Longrightarrow> index_of p s = Some 0"
  by (cases s) auto

lemma index_of_0_iff: "index_of p s = Some 0 \<longleftrightarrow> prefix p s"
  by (cases s) auto

lemma contains_iff_sublist: "contains p s \<longleftrightarrow> sublist p s"
proof (induction s)
  case Nil
  then show ?case by (simp add: contains_def)
next
  case (Cons c cs)
  then show ?case by (auto simp: contains_def sublist_Cons_right)
qed

definition lower_char :: "char \<Rightarrow> char" where
  "lower_char c = (let n = of_char c :: nat in if 65 \<le> n \<and> n \<le> 90 then char_of (n + 32) else c)"

definition to_lower :: "string \<Rightarrow> string" where
  "to_lower s = map lower_char s"

section \<open>Decimal conversion\<close>

fun show_nat :: "nat \<Rightarrow> string" where
  "show_nat n = (if n < 10 then [char_of (48 + n)]
                 else show_nat (n div 10) @ [char_of (48 + n mod 10)])"

declare show_nat.simps [simp del]

definition show_int :: "int \<Rightarrow> string" where
  "show_int i = (if i < 0 then CHR ''-'' # show_nat (nat (- i)) else show_nat (nat i))"

definition digit_val :: "char \<Rightarrow> nat" where
  "digit_val c = of_char c - 48"

definition read_nat :: "string \<Rightarrow> nat" where
  "read_nat s = foldl (\<lambda>a c. 10 * a + digit_val c) 0 s"

lemma read_nat_snoc: "read_nat (s @ [c]) = 10 * read_nat s + digit_val c"
  by (simp add: read_nat_def)

lemma digit_val_char: "d < 10 \<Longrightarrow> digit_val (char_of (48 + d)) = d"
  by (simp add: digit_val_def of_char_of)

lemma read_show_nat [simp]: "read_nat (show_nat n) = n"
proof (induction n rule: show_nat.induct)
  case (1 n)
  show ?case
  proof (cases "n < 10")
    case True
    then show ?thesis
      by (subst show_nat.simps) (simp add: read_nat_def digit_val_char)
  next
    case False
    with 1 have "read_nat (show_nat (n div 10)) = n div 10" by simp
    with False show ?thesis
      by (subst show_nat.simps) (simp add: read_nat_snoc digit_val_char)
  qed
qed

lemma show_nat_inj [simp]: "show_nat m = show_nat n \<longleftrightarrow> m = n"
  by (metis read_show_nat)

lemma show_nat_digits: "c \<in> set (show_nat n) \<Longrightarrow> 48 \<le> (of_char c :: nat) \<and> (of_char c :: nat) \<le> 57"
proof (induction n rule: show_nat.induct)
  case (1 n)
  show ?case
  proof (cases "n < 10")
    case True
    with "1.prems" show ?thesis by (simp add: show_nat.simps [of n] of_char_of)
  next
    case False
    with "1.prems" have "c \<in> set (show_nat (n div 10)) \<or> c = char_of (48 + n mod 10)"
      by (subst (asm) show_nat.simps) auto
    then show ?thesis
    proof
      assume "c \<in> set (show_nat (n div 10))"
      with "1.IH" [OF False] show ?thesis by blast
    next
      assume c: "c = char_of (48 + n mod 10)"
      have "n mod 10 < 10" by simp
      then have "48 + n mod 10 < 256" by linarith
      then have "(of_char c :: nat) = 48 + n mod 10" using c by (simp add: of_char_of)
      with \<open>n mod 10 < 10\<close> show ?thesis by linarith
    qed
  qed
qed

lemma show_nat_not_Nil [simp]: "show_nat n \<noteq> []"
  by (subst show_nat.simps) simp

text \<open>\<open>String(v)\<close>; the texts of functions and dates are placeholders.\<close>

fun js_string :: "jsval \<Rightarrow> string" where
  "js_string JUndef = ''undefined''"
| "js_string JNull = ''null''"
| "js_string (JBool b) = (if b then ''true'' else ''false'')"
| "js_string (JNum n) = show_int n"
| "js_string (JStr s) = s"
| "js_string (JFun f) = ''function''"
| "js_string (JBuf s) = s"
| "js_string (JDate d) = ''Date''"
| "js_string (JArr vs) =
     js_join '','' (map (\<lambda>v. if v = JUndef \<or> v = JNull then [] else js_string v) vs)"
| "js_string (JObj d) = ''[object Object]''"

text \<open>Reading a member: \<open>undefined\<close> and \<open>null\<close> have none.\<close>

definition js_member :: "jsval \<Rightarrow> string \<Rightarrow> jsval res" where
  "js_member v k = (if v = JUndef \<or> v = JNull
     then throw TypeError (''Cannot read property '' @ k @ '' of '' @ js_string v) else Inr (jget v k))"

section \<open>URI components\<close>

definition is_alnum :: "char \<Rightarrow> bool" where
  "is_alnum c = (let n = of_char c :: nat in
     (48 \<le> n \<and> n \<le> 57) \<or> (65 \<le> n \<and> n \<le> 90) \<or> (97 \<le> n \<and> n \<le> 122))"

definition uri_unreserved :: "char \<Rightarrow> bool" where
  "uri_unreserved c \<longleftrightarrow> is_alnum c \<or> c \<in> set ''-_.!~*'' \<or> c \<in> {CHR 0x27, CHR ''('', CHR '')''}"

definition utf8 :: "char \<Rightarrow> nat list" where
  "utf8 c = (let n = of_char c :: nat in if n < 128 then [n] else [192 + n div 64, 128 + n mod 64])"

definition hex_digit :: "nat \<Rightarrow> char" where
  "hex_digit n = (if n < 10 then char_of (48 + n) else char_of (55 + n))"

definition pct_encode :: "nat \<Rightarrow> string" where
  "pct_encode b = [CHR ''%'', hex_digit (b div 16), hex_digit (b mod 16)]"

definition uri_encode_char :: "char \<Rightarrow> string" where
  "uri_encode_char c = (if uri_unreserved c then [c] else concat (map pct_encode (utf8 c)))"

definition encodeURIComponent :: "string \<Rightarrow> string" where
  "encodeURIComponent s = concat (map uri_encode_char s)"

definition unhex :: "char \<Rightarrow> nat option" where
  "unhex c = (let n = of_char c :: nat in
     if 48 \<le> n \<and> n \<le> 57 then Some (n - 48)
     else if 65 \<le> n \<and> n \<le> 70 then Some (n - 55)
     else if 97 \<le> n \<and> n \<le> 102 then Some (n - 87)
     else None)"

fun pct_byte :: "string \<Rightarrow> (nat \<times> string) option" where
  "pct_byte (p # h # l # r) =
     (if p = CHR ''%'' then
        (case (unhex h, unhex l) of (Some a, Some b) \<Rightarrow> Some (16 * a + b, r) | _ \<Rightarrow> None)
      else None)"
| "pct_byte _ = None"

lemma pct_byte_length: "pct_byte s = Some (n, r) \<Longrightarrow> length r < length s"
  by (cases s rule: pct_byte.cases) (auto split: option.splits if_splits)

text \<open>
  \<open>None\<close> is the \<open>URIError\<close> of a malformed sequence; code points above 255 are outside
  the modelled strings.
\<close>

function decodeURIComponent :: "string \<Rightarrow> string option" where
  "decodeURIComponent [] = Some []"
| "decodeURIComponent (c # cs) =
     (if c \<noteq> CHR ''%'' then map_option (Cons c) (decodeURIComponent cs)
      else (case pct_byte (c # cs) of
              None \<Rightarrow> None
            | Some (n, r) \<Rightarrow>
                if n < 128 then map_option (Cons (char_of n)) (decodeURIComponent r)
                else if n = 194 \<or> n = 195 then
                  (case pct_byte r of
                     None \<Rightarrow> None
                   | Some (m, r') \<Rightarrow>
                       if 128 \<le> m \<and> m < 192
                       then map_option (Cons (char_of ((n - 192) * 64 + (m - 128)))) (decodeURIComponent r')
                       else None)
                else None))"
  by pat_completeness auto
termination
  by (relation "measure length") (auto dest!: pct_byte_length)

lemma unhex_hex_digit [simp]: "n < 16 \<Longrightarrow> unhex (hex_digit n) = Some n"
  by (auto simp: unhex_def hex_digit_def of_char_of Let_def)

lemma pct_byte_encode [simp]: "b < 256 \<Longrightarrow> pct_byte (pct_encode b @ r) = Some (b, r)"
  by (simp add: pct_encode_def)

lemma pct_byte_encode' [simp]:
  "b < 256 \<Longrightarrow> pct_byte (CHR ''%'' # hex_digit (b div 16) # hex_digit (b mod 16) # r) = Some (b, r)"
  using pct_byte_encode [of b r] by (simp add: pct_encode_def)

lemma of_char_lt [simp]: "(of_char c :: nat) < 256"
  by (simp add: of_char_def)

lemma utf8_bytes: "b \<in> set (utf8 c) \<Longrightarrow> b < 256"
proof -
  assume b: "b \<in> set (utf8 c)"
  have "(of_char c :: nat) < 256" by simp
  then have "(of_char c :: nat) div 64 < 4" by (simp add: div_less_iff_less_mult)
  moreover have "(of_char c :: nat) mod 64 < 64" by simp
  ultimately show ?thesis using b by (auto simp: utf8_def Let_def split: if_splits)
qed

lemma decode_pct_ascii:
  "n < 128 \<Longrightarrow> decodeURIComponent (pct_encode n @ r) = map_option (Cons (char_of n)) (decodeURIComponent r)"
  by (simp add: pct_encode_def)

lemma char_of_utf8_pair:
  assumes "\<not> (of_char c :: nat) < 128"
  defines "n \<equiv> of_char c :: nat"
  shows "192 + n div 64 = 194 \<or> 192 + n div 64 = 195"
    and "char_of ((192 + n div 64 - 192) * 64 + (128 + n mod 64 - 128)) = c"
proof -
  have "n < 256" "128 \<le> n" using assms by (simp_all add: n_def)
  then have "n div 64 < 4" "2 \<le> n div 64"
    by (simp_all add: div_less_iff_less_mult less_eq_div_iff_mult_less_eq)
  then show "192 + n div 64 = 194 \<or> 192 + n div 64 = 195" by linarith
  have "(192 + n div 64 - 192) * 64 + (128 + n mod 64 - 128) = n" by simp
  then show "char_of ((192 + n div 64 - 192) * 64 + (128 + n mod 64 - 128)) = c"
    by (simp only: n_def char_of_char)
qed

lemma decode_pct_pair:
  assumes "n = 194 \<or> n = 195" and "128 \<le> m" and "m < 192"
  shows "decodeURIComponent (pct_encode n @ pct_encode m @ r)
       = map_option (Cons (char_of ((n - 192) * 64 + (m - 128)))) (decodeURIComponent r)"
proof -
  from assms have lt: "n < 256" "m < 256" "\<not> n < 128" by auto
  have "pct_byte (pct_encode n @ pct_encode m @ r) = Some (n, pct_encode m @ r)"
    using lt by simp
  moreover have "pct_byte (pct_encode m @ r) = Some (m, r)"
    using lt by simp
  moreover have "pct_encode n @ pct_encode m @ r
      = CHR ''%'' # hex_digit (n div 16) # hex_digit (n mod 16) # pct_encode m @ r"
    by (simp add: pct_encode_def)
  ultimately show ?thesis
    using assms lt by simp
qed

lemma decode_encode_char:
  "decodeURIComponent (concat (map pct_encode (utf8 c)) @ r) = map_option (Cons c) (decodeURIComponent r)"
proof (cases "(of_char c :: nat) < 128")
  case True
  then show ?thesis by (simp add: utf8_def Let_def decode_pct_ascii)
next
  case False
  define n where "n = (of_char c :: nat)"
  have m: "128 \<le> 128 + n mod 64" "128 + n mod 64 < 192" by simp_all
  have "decodeURIComponent (pct_encode (192 + n div 64) @ pct_encode (128 + n mod 64) @ r)
      = map_option (Cons c) (decodeURIComponent r)"
    unfolding decode_pct_pair [OF char_of_utf8_pair(1) [OF False, folded n_def] m]
    unfolding char_of_utf8_pair(2) [OF False, folded n_def] ..
  with False show ?thesis by (simp add: utf8_def Let_def n_def)
qed

lemma unreserved_not_pct: "uri_unreserved c \<Longrightarrow> c \<noteq> CHR ''%''"
  by (auto simp: uri_unreserved_def is_alnum_def)

lemma decode_encodeURIComponent: "decodeURIComponent (encodeURIComponent s) = Some s"
proof (induction s)
  case Nil
  then show ?case by (simp add: encodeURIComponent_def)
next
  case (Cons c s)
  then show ?case
    using unreserved_not_pct [of c] decode_encode_char [of c "encodeURIComponent s"]
    by (auto simp: encodeURIComponent_def uri_encode_char_def)
qed

text \<open>Characters of an encoded string: unreserved ones, hexadecimal digits and \<open>%\<close>.\<close>

lemma alnum_unreserved: "is_alnum c \<Longrightarrow> uri_unreserved c"
  by (simp add: uri_unreserved_def)

lemma hex_digit_alnum: "n < 16 \<Longrightarrow> is_alnum (hex_digit n)"
  by (auto simp: is_alnum_def hex_digit_def of_char_of Let_def)

lemma pct_encode_chars: "b < 256 \<Longrightarrow> c \<in> set (pct_encode b) \<Longrightarrow> is_alnum c \<or> c = CHR ''%''"
  by (auto simp: pct_encode_def intro: hex_digit_alnum)

lemma uri_encode_char_chars:
  assumes "c \<in> set (uri_encode_char d)"
  shows "uri_unreserved c \<or> c = CHR ''%''"
proof (cases "uri_unreserved d")
  case True
  with assms show ?thesis by (simp add: uri_encode_char_def)
next
  case False
  with assms obtain b where "b \<in> set (utf8 d)" "c \<in> set (pct_encode b)"
    by (auto simp: uri_encode_char_def)
  then show ?thesis
    using pct_encode_chars [OF utf8_bytes] alnum_unreserved by blast
qed

lemma encodeURIComponent_chars:
  assumes "c \<in> set (encodeURIComponent s)"
  shows "uri_unreserved c \<or> c = CHR ''%''"
proof -
  from assms obtain d where "c \<in> set (uri_encode_char d)"
    unfolding encodeURIComponent_def by auto
  then show ?thesis by (rule uri_encode_char_chars)
qed

lemma encodeURIComponent_Nil_iff [simp]: "encodeURIComponent s = [] \<longleftrightarrow> s = []"
  by (cases s) (auto simp: encodeURIComponent_def uri_encode_char_def utf8_def pct_encode_def Let_def)

end
