(* ===== verification/Common_Core.thy ===== *)
theory Common_Core
  imports JS_Strings
begin

text \<open>
  The package \<open>azure-iot-common\<close> (\<open>node/common/core/lib\<close>): \<open>dictionary.js\<close>,
  \<open>connection_string.js\<close>, \<open>endpoint.js\<close>, \<open>authorization.js\<close> and
  \<open>shared_access_signature.js\<close>, with the device and service wrappers of the last two
  modules. The HMAC of Node's \<open>crypto\<close> module is the parameter \<open>hmac\<close>, a function of the
  base64 password and of the text to sign.
\<close>

section \<open>Key-value dictionaries\<close>

text \<open>One element of the source: \<open>indexOf('=')\<close> and the two \<open>substring\<close> calls.\<close>

definition dict_entry :: "string \<Rightarrow> (string \<times> string) option" where
  "dict_entry e = (case index_of ''='' e of
       None \<Rightarrow> None
     | Some pos \<Rightarrow>
         (let name = take pos e; val = drop (Suc pos) e
          in if name \<noteq> [] \<and> val \<noteq> [] then Some (name, val) else None))"

definition dict_step :: "string dict \<Rightarrow> string \<Rightarrow> string dict" where
  "dict_step d e = (case dict_entry e of None \<Rightarrow> d | Some (k, v) \<Rightarrow> dset k v d)"

definition createDictionary :: "jsval \<Rightarrow> string \<Rightarrow> string dict" where
  "createDictionary source separator = foldl dict_step [] (js_split separator (js_string source))"

text \<open>\<open>Object.keys(dict).forEach(key => target[key] = dict[key])\<close> on a fresh target.\<close>

definition copy_props :: "'v dict \<Rightarrow> 'v dict" where
  "copy_props d = foldl (\<lambda>c (k, v). dset k v c) [] d"

definition missing_field :: "string list \<Rightarrow> 'v dict \<Rightarrow> string option" where
  "missing_field req d = find (\<lambda>k. \<not> has_key k d) req"

section \<open>Connection strings\<close>

definition ConnectionString_parse :: "jsval \<Rightarrow> string list \<Rightarrow> string dict res" where
  "ConnectionString_parse source requiredFields =
     (let dict = createDictionary source '';'' in
      case missing_field requiredFields dict of
        Some key \<Rightarrow> throw ArgumentError (''The connection string is missing the property: '' @ key)
      | None \<Rightarrow> Inr (copy_props dict))"

text \<open>\<open>node/device/core/lib/connection_string.js\<close> and \<open>node/service/lib/connection_string.js\<close>\<close>

definition Device_ConnectionString_parse :: "jsval \<Rightarrow> string dict res" where
  "Device_ConnectionString_parse source =
     res_bind (ConnectionString_parse source [''HostName'', ''DeviceId'']) (\<lambda>cn.
       if (truthy (sget cn ''SharedAccessKey'') \<and> truthy (sget cn ''x509''))
          \<or> (falsy (sget cn ''SharedAccessKey'') \<and> falsy (sget cn ''x509''))
       then throw ArgumentError ''The connection string must contain either a SharedAccessKey or x509=true''
       else Inr cn)"

definition Service_ConnectionString_parse :: "jsval \<Rightarrow> string dict res" where
  "Service_ConnectionString_parse source =
     ConnectionString_parse source [''HostName'', ''SharedAccessKeyName'', ''SharedAccessKey'']"

section \<open>Endpoints\<close>

definition devicePath :: "string \<Rightarrow> string" where
  "devicePath ident = ''/devices/'' @ ident"

definition eventPath :: "string \<Rightarrow> string" where
  "eventPath ident = devicePath ident @ ''/messages/events''"

definition messagePath :: "string \<Rightarrow> string" where
  "messagePath ident = devicePath ident @ ''/messages/devicebound''"

definition feedbackPath :: "string \<Rightarrow> string \<Rightarrow> string" where
  "feedbackPath ident lockToken = messagePath ident @ ''/'' @ lockToken"

definition versionQueryString :: string where
  "versionQueryString = ''?api-version=2016-09-30-preview''"

section \<open>Authorization\<close>

text \<open>\<open>Math.ceil(Date.now() / 1000 + 3600)\<close>, with the clock in milliseconds as argument.\<close>

definition anHourFromNow :: "int \<Rightarrow> int" where
  "anHourFromNow now = - ((- now) div 1000) + 3600"

fun to_hex :: "nat \<Rightarrow> string" where
  "to_hex n = (if n < 16 then [if n < 10 then char_of (48 + n) else char_of (87 + n)]
               else to_hex (n div 16) @ to_hex (n mod 16))"

declare to_hex.simps [simp del]

text \<open>The class \<open>[!'()*]\<close> and the replacement function.\<close>

definition strict_special :: "char \<Rightarrow> bool" where
  "strict_special c \<longleftrightarrow> c \<in> set ''!()*'' \<or> c = CHR 0x27"

definition strict_char :: "char \<Rightarrow> string" where
  "strict_char c = (if strict_special c then CHR ''%'' # to_hex (of_char c) else [c])"

definition encodeUriComponentStrict :: "string \<Rightarrow> string" where
  "encodeUriComponentStrict str = concat (map strict_char (encodeURIComponent str))"

definition stringToSign :: "string \<Rightarrow> string \<Rightarrow> string" where
  "stringToSign resourceUri expiry = resourceUri @ [CHR 0x0A] @ expiry"

type_synonym hmac = "string \<Rightarrow> string \<Rightarrow> string"

section \<open>Shared access signatures\<close>

text \<open>A signature object is its table of properties \<open>_key\<close>, \<open>sr\<close>, \<open>skn\<close>, \<open>se\<close>, \<open>sig\<close>.\<close>

type_synonym sas = "jsval dict"

definition sas_signature :: "hmac \<Rightarrow> sas \<Rightarrow> string" where
  "sas_signature hmac s = encodeUriComponentStrict
     (hmac (js_string (dget s ''_key''))
           (stringToSign (js_string (dget s ''sr'')) (js_string (dget s ''se''))))"

definition throwRef :: "string \<Rightarrow> jsval \<Rightarrow> 'a res" where
  "throwRef name v = throw ReferenceError (''Argument '' @ [CHR 0x27] @ name @ [CHR 0x27] @ '' is '' @ js_string v)"

definition SharedAccessSignature_create ::
  "hmac \<Rightarrow> jsval \<Rightarrow> jsval \<Rightarrow> jsval \<Rightarrow> jsval \<Rightarrow> sas res" where
  "SharedAccessSignature_create hmac resourceUri keyName key expiry =
     (if falsy resourceUri then throwRef ''resourceUri'' resourceUri
      else if falsy key then throwRef ''key'' key
      else if falsy expiry then throwRef ''expiry'' expiry
      else
        let s = [(''_key'', key), (''sr'', resourceUri)];
            s = (if truthy keyName
                 then dset ''skn'' (JStr (encodeUriComponentStrict (js_string keyName))) s else s);
            s = dset ''se'' expiry s
        in Inr (dset ''sig'' (JStr (sas_signature hmac s)) s))"

text \<open>\<open>toString\<close>: one round of the \<open>forEach\<close> over \<open>sr\<close>, \<open>sig\<close>, \<open>skn\<close>, \<open>se\<close>.\<close>

definition sas_segment :: "sas \<Rightarrow> string \<Rightarrow> string \<Rightarrow> string" where
  "sas_segment s out key =
     (if truthy (dget s key) then
        (if last out \<noteq> CHR '' '' then out @ ''&'' else out) @ key @ ''='' @ js_string (dget s key)
      else out)"

definition SharedAccessSignature_toString :: "sas \<Rightarrow> string" where
  "SharedAccessSignature_toString s =
     foldl (sas_segment s) ''SharedAccessSignature '' [''sr'', ''sig'', ''skn'', ''se'']"

definition SharedAccessSignature_extend :: "hmac \<Rightarrow> sas \<Rightarrow> jsval \<Rightarrow> (sas \<times> string) res" where
  "SharedAccessSignature_extend hmac s expiry =
     (if falsy expiry then throw ReferenceError (''expiry is '' @ js_string expiry)
      else let s = dset ''se'' expiry s;
               s = dset ''sig'' (JStr (sas_signature hmac s)) s
           in Inr (s, SharedAccessSignature_toString s))"

text \<open>The class \<open>\s\<close> of regular expressions, within the modelled characters.\<close>

definition is_space :: "char \<Rightarrow> bool" where
  "is_space c = (let n = of_char c :: nat in (9 \<le> n \<and> n \<le> 13) \<or> n = 32 \<or> n = 160)"

text \<open>\<open>String.prototype.trim\<close>.\<close>

definition js_trim :: "string \<Rightarrow> string" where
  "js_trim s = rev (dropWhile is_space (rev (dropWhile is_space s)))"

definition SharedAccessSignature_parse :: "jsval \<Rightarrow> string list \<Rightarrow> sas res" where
  "SharedAccessSignature_parse source requiredFields =
     (case split_on is_space (js_string source) of
        [p0, p1] \<Rightarrow>
          if \<not> contains ''SharedAccessSignature'' p0 then throw FormatError ''Malformed signature''
          else
            (let dict = createDictionary (JStr p1) ''&'' in
             case missing_field requiredFields dict of
               Some key \<Rightarrow> throw ArgumentError (''The shared access signature is missing the property: '' @ key)
             | None \<Rightarrow> Inr (map (\<lambda>(k, v). (k, JStr v)) (copy_props dict)))
      | _ \<Rightarrow> throw FormatError ''Malformed signature'')"

text \<open>\<open>node/device/core/lib/shared_access_signature.js\<close>\<close>

definition Device_SAS_create :: "hmac \<Rightarrow> jsval \<Rightarrow> jsval \<Rightarrow> jsval \<Rightarrow> jsval \<Rightarrow> sas res" where
  "Device_SAS_create hmac host deviceId key expiry =
     SharedAccessSignature_create hmac
       (JStr (encodeUriComponentStrict (js_string host @ ''/devices/'' @ js_string deviceId)))
       JNull key expiry"

definition Device_SAS_parse :: "jsval \<Rightarrow> sas res" where
  "Device_SAS_parse source = SharedAccessSignature_parse source [''sr'', ''sig'', ''se'']"

text \<open>\<open>node/service/lib/shared_access_signature.js\<close>\<close>

definition Service_SAS_create :: "hmac \<Rightarrow> jsval \<Rightarrow> jsval \<Rightarrow> jsval \<Rightarrow> jsval \<Rightarrow> sas res" where
  "Service_SAS_create hmac host policy key expiry = SharedAccessSignature_create hmac host policy key expiry"

definition Service_SAS_parse :: "jsval \<Rightarrow> sas res" where
  "Service_SAS_parse source = SharedAccessSignature_parse source [''sr'', ''sig'', ''skn'', ''se'']"

section \<open>Laws of the key-value format\<close>

text \<open>
  The abstract format: pairs written \<open>key=value\<close> and joined by a separator. A pair is
  well formed when its key has no \<open>=\<close>, neither part has the separator and neither is empty.
\<close>

definition print_pair :: "string \<times> string \<Rightarrow> string" where
  "print_pair kv = fst kv @ ''='' @ snd kv"

definition print_pairs :: "char \<Rightarrow> string dict \<Rightarrow> string" where
  "print_pairs sep kvs = js_join [sep] (map print_pair kvs)"

definition wf_pair :: "char \<Rightarrow> string \<times> string \<Rightarrow> bool" where
  "wf_pair sep kv \<longleftrightarrow> fst kv \<noteq> [] \<and> snd kv \<noteq> [] \<and> CHR ''='' \<notin> set (fst kv)
     \<and> sep \<notin> set (fst kv) \<and> sep \<notin> set (snd kv)"

lemma index_of_eq_append: "CHR ''='' \<notin> set k \<Longrightarrow> index_of ''='' (k @ CHR ''='' # v) = Some (length k)"
  by (induction k) auto

lemma dict_entry_print_pair: "wf_pair sep kv \<Longrightarrow> dict_entry (print_pair kv) = Some kv"
  by (simp add: dict_entry_def print_pair_def wf_pair_def index_of_eq_append)

lemma foldl_dset_map_of:
  "map_of (foldl (\<lambda>c (k, v). dset k v c) d kvs) = map_of (rev kvs @ d)"
  by (induction kvs arbitrary: d) (auto simp: map_add_def fun_eq_iff split: option.splits)

lemma foldl_dset_distinct:
  "distinct (map fst kvs) \<Longrightarrow> set (map fst kvs) \<inter> set (map fst d) = {}
   \<Longrightarrow> foldl (\<lambda>c (k, v). dset k v c) d kvs = d @ kvs"
proof (induction kvs arbitrary: d)
  case Nil
  then show ?case by simp
next
  case (Cons kv kvs)
  obtain k v where kv: "kv = (k, v)" by (cases kv)
  with Cons.prems have "dset k v d = d @ [(k, v)]" by (simp add: dset_new)
  with Cons kv show ?case by auto
qed

lemma foldl_dict_step_print:
  "\<forall>kv\<in>set kvs. wf_pair sep kv \<Longrightarrow>
   foldl dict_step d (map print_pair kvs) = foldl (\<lambda>c (k, v). dset k v c) d kvs"
  by (induction kvs arbitrary: d) (auto simp: dict_step_def dict_entry_print_pair)

lemma copy_props_distinct: "distinct (map fst d) \<Longrightarrow> copy_props d = d"
  by (simp add: copy_props_def foldl_dset_distinct)

lemma distinct_dict_step: "distinct (map fst d) \<Longrightarrow> distinct (map fst (dict_step d e))"
  by (auto simp: dict_step_def distinct_update split: option.splits)

lemma distinct_foldl_dict_step: "distinct (map fst d) \<Longrightarrow> distinct (map fst (foldl dict_step d es))"
  by (induction es arbitrary: d) (auto simp: distinct_dict_step)

lemma distinct_createDictionary: "distinct (map fst (createDictionary v sep))"
  by (simp add: createDictionary_def distinct_foldl_dict_step)

lemma missing_field_None: "missing_field req d = None \<longleftrightarrow> (\<forall>k\<in>set req. has_key k d)"
  by (auto simp: missing_field_def find_None_iff)

text \<open>
  What a parser of the format promises for its separator; \<open>ConnectionString\<close> and
  \<open>SharedAccessSignature\<close> are the two instances.
\<close>

locale keyed_format =
  fixes sep :: char
  assumes sep_not_eq: "sep \<noteq> CHR ''=''"
begin

lemma print_pair_no_sep: "wf_pair sep kv \<Longrightarrow> sep \<notin> set (print_pair kv)"
  using sep_not_eq by (auto simp: wf_pair_def print_pair_def)

lemma split_print:
  assumes "kvs \<noteq> []" and "\<forall>kv\<in>set kvs. wf_pair sep kv"
  shows "js_split [sep] (print_pairs sep kvs) = map print_pair kvs"
proof -
  have "\<forall>w\<in>set (map print_pair kvs). \<forall>c\<in>set w. c \<noteq> sep"
    using assms(2) print_pair_no_sep by fastforce
  with assms(1) show ?thesis
    unfolding js_split_single print_pairs_def by (intro split_on_join) auto
qed

lemma parse_print:
  assumes "kvs \<noteq> []" and "\<forall>kv\<in>set kvs. wf_pair sep kv"
  shows "createDictionary (JStr (print_pairs sep kvs)) [sep] = copy_props kvs"
  using assms
  by (simp add: createDictionary_def split_print foldl_dict_step_print copy_props_def)

lemma parse_print_distinct:
  assumes "kvs \<noteq> []" and "\<forall>kv\<in>set kvs. wf_pair sep kv" and "distinct (map fst kvs)"
  shows "createDictionary (JStr (print_pairs sep kvs)) [sep] = kvs"
  using assms by (simp add: parse_print copy_props_distinct)

end

interpretation conn_format: keyed_format "CHR '';''"
  by unfold_locales simp

interpretation sas_format: keyed_format "CHR ''&''"
  by unfold_locales simp

section \<open>Laws of the strict URI encoding\<close>

definition token_char :: "char \<Rightarrow> bool" where
  "token_char c \<longleftrightarrow> is_alnum c \<or> c \<in> set ''-_.~%''"

lemma to_hex_small: "n < 16 \<Longrightarrow> to_hex n = [if n < 10 then char_of (48 + n) else char_of (87 + n)]"
  and to_hex_large: "\<not> n < 16 \<Longrightarrow> to_hex n = to_hex (n div 16) @ to_hex (n mod 16)"
  by (subst to_hex.simps, simp)+

lemma char_of_digits:
  "char_of (49::nat) = CHR ''1''" "char_of (50::nat) = CHR ''2''" "char_of (55::nat) = CHR ''7''"
  "char_of (56::nat) = CHR ''8''" "char_of (57::nat) = CHR ''9''" "char_of (97::nat) = CHR ''a''"
  by (simp_all add: char_of_eq_iff)

lemma to_hex_specials:
  "to_hex 33 = ''21''" "to_hex 39 = ''27''" "to_hex 40 = ''28''" "to_hex 41 = ''29''" "to_hex 42 = ''2a''"
  by (simp_all add: to_hex_small to_hex_large char_of_digits)

lemma char_of_specials:
  "char_of (33::nat) = CHR ''!''" "char_of (39::nat) = CHR 0x27" "char_of (40::nat) = CHR ''(''"
  "char_of (41::nat) = CHR '')''" "char_of (42::nat) = CHR ''*''"
  by (simp_all add: char_of_eq_iff)

lemma strict_char_specials:
  "strict_char (CHR ''!'') = ''%21''" "strict_char (CHR 0x27) = ''%27''"
  "strict_char (CHR ''('') = ''%28''" "strict_char (CHR '')'') = ''%29''"
  "strict_char (CHR ''*'') = ''%2a''"
  unfolding strict_char_def by (simp_all add: strict_special_def to_hex_specials)

lemma strict_special_cases:
  "strict_special c \<Longrightarrow>
   c = CHR ''!'' \<or> c = CHR 0x27 \<or> c = CHR ''('' \<or> c = CHR '')'' \<or> c = CHR ''*''"
  by (simp add: strict_special_def) blast

lemma strict_special_token: "strict_special c \<Longrightarrow> d \<in> set (strict_char c) \<Longrightarrow> token_char d"
  by (drule strict_special_cases) (elim disjE; simp add: strict_char_specials token_char_def is_alnum_def; elim disjE; simp)

lemma unreserved_token: "uri_unreserved c \<Longrightarrow> \<not> strict_special c \<Longrightarrow> token_char c"
  by (auto simp: uri_unreserved_def token_char_def strict_special_def)

lemma strict_char_token:
  assumes "uri_unreserved c \<or> c = CHR ''%''" and "d \<in> set (strict_char c)"
  shows "token_char d"
proof (cases "strict_special c")
  case True
  then show ?thesis using assms(2) by (rule strict_special_token)
next
  case False
  with assms(2) have "d = c" by (simp add: strict_char_def)
  with False assms(1) unreserved_token show ?thesis by (auto simp: token_char_def)
qed

lemma encodeUriComponentStrict_token:
  assumes "c \<in> set (encodeUriComponentStrict s)"
  shows "token_char c"
proof -
  from assms obtain d where "d \<in> set (encodeURIComponent s)" "c \<in> set (strict_char d)"
    by (auto simp: encodeUriComponentStrict_def)
  then show ?thesis using encodeURIComponent_chars strict_char_token by blast
qed

lemma alnum_not_special: "is_alnum c \<Longrightarrow> \<not> strict_special c"
  by (auto simp: strict_special_def is_alnum_def)

lemma strict_char_alnum: "is_alnum c \<or> c = CHR ''%'' \<Longrightarrow> strict_char c = [c]"
proof -
  assume "is_alnum c \<or> c = CHR ''%''"
  moreover have "\<not> strict_special (CHR ''%'')" by (simp add: strict_special_def)
  ultimately have "\<not> strict_special c" using alnum_not_special by blast
  then show ?thesis by (simp add: strict_char_def)
qed

lemma strict_pct_encode: "b < 256 \<Longrightarrow> concat (map strict_char (pct_encode b)) = pct_encode b"
  using pct_encode_chars [of b] by (simp add: pct_encode_def strict_char_alnum)

lemma strict_pct_encodes:
  "(\<forall>b\<in>set bs. b < 256) \<Longrightarrow>
   concat (map strict_char (concat (map pct_encode bs))) = concat (map pct_encode bs)"
  by (induction bs) (auto simp: strict_pct_encode)

lemma decode_strict_special:
  "strict_special c \<Longrightarrow>
   decodeURIComponent (strict_char c @ r) = map_option (Cons c) (decodeURIComponent r)"
  by (drule strict_special_cases) (elim disjE; simp add: strict_char_specials unhex_def char_of_specials)

lemma decode_strict_char:
  "decodeURIComponent (concat (map strict_char (uri_encode_char c)) @ r)
   = map_option (Cons c) (decodeURIComponent r)"
proof (cases "uri_unreserved c")
  case True
  then have "c \<noteq> CHR ''%''" by (rule unreserved_not_pct)
  with True show ?thesis
    using decode_strict_special [of c r]
    by (cases "strict_special c") (simp_all add: uri_encode_char_def strict_char_def)
next
  case False
  then show ?thesis
    using strict_pct_encodes [of "utf8 c"] utf8_bytes [of _ c] decode_encode_char [of c r]
    by (simp add: uri_encode_char_def)
qed

lemma decode_encodeUriComponentStrict: "decodeURIComponent (encodeUriComponentStrict s) = Some s"
proof (induction s)
  case Nil
  then show ?case by (simp add: encodeUriComponentStrict_def encodeURIComponent_def)
next
  case (Cons c s)
  then show ?case
    using decode_strict_char [of c "encodeUriComponentStrict s"]
    by (simp add: encodeUriComponentStrict_def encodeURIComponent_def)
qed

section \<open>The printed form of a signature\<close>

definition sas_keys :: "string list" where
  "sas_keys = [''sr'', ''sig'', ''skn'', ''se'']"

definition sas_pairs :: "sas \<Rightarrow> string list \<Rightarrow> string dict" where
  "sas_pairs s ks = map (\<lambda>k. (k, js_string (dget s k))) (filter (\<lambda>k. truthy (dget s k)) ks)"

definition ends_ok :: "string \<Rightarrow> bool" where
  "ends_ok v \<longleftrightarrow> v \<noteq> [] \<and> last v \<noteq> CHR '' ''"

lemma print_pairs_snoc:
  "kvs \<noteq> [] \<Longrightarrow> print_pairs sep (kvs @ [kv]) = print_pairs sep kvs @ [sep] @ print_pair kv"
  by (simp add: print_pairs_def js_join_append_last)

lemma last_print_pairs:
  "kvs \<noteq> [] \<Longrightarrow> ends_ok (snd (last kvs)) \<Longrightarrow>
   print_pairs sep kvs \<noteq> [] \<and> last (print_pairs sep kvs) \<noteq> CHR '' ''"
proof (induction kvs rule: rev_induct)
  case Nil
  then show ?case by simp
next
  case (snoc kv kvs)
  then have "last (print_pair kv) \<noteq> CHR '' ''" "print_pair kv \<noteq> []"
    by (auto simp: print_pair_def ends_ok_def)
  then show ?case
    by (cases "kvs = []") (simp_all add: print_pairs_snoc, simp add: print_pairs_def)
qed

lemma foldl_sas_segment:
  assumes "\<forall>k\<in>set ks. truthy (dget s k) \<longrightarrow> ends_ok (js_string (dget s k))"
    and "acc \<noteq> [] \<longrightarrow> ends_ok (snd (last acc))"
    and "last pre = CHR '' ''"
  shows "foldl (sas_segment s) (pre @ print_pairs (CHR ''&'') acc) ks
       = pre @ print_pairs (CHR ''&'') (acc @ sas_pairs s ks)"
  using assms(1,2)
proof (induction ks arbitrary: acc)
  case Nil
  then show ?case by (simp add: sas_pairs_def)
next
  case (Cons k ks)
  let ?v = "js_string (dget s k)"
  show ?case
  proof (cases "truthy (dget s k)")
    case False
    with Cons show ?thesis by (simp add: sas_segment_def sas_pairs_def)
  next
    case True
    with Cons.prems have ok: "ends_ok ?v" by simp
    have "sas_segment s (pre @ print_pairs (CHR ''&'') acc) k
        = pre @ print_pairs (CHR ''&'') (acc @ [(k, ?v)])"
    proof (cases "acc = []")
      case True
      then show ?thesis
        using \<open>truthy (dget s k)\<close> assms(3)
        by (simp add: sas_segment_def print_pairs_def print_pair_def)
    next
      case False
      with Cons.prems last_print_pairs [of acc "CHR ''&''"] show ?thesis
        using \<open>truthy (dget s k)\<close>
        by (simp add: sas_segment_def print_pairs_snoc) (simp add: print_pair_def)
    qed
    with Cons.IH [of "acc @ [(k, ?v)]"] Cons.prems(1) ok True show ?thesis
      by (simp add: sas_pairs_def)
  qed
qed

lemma toString_print_pairs:
  assumes "\<forall>k\<in>set sas_keys. truthy (dget s k) \<longrightarrow> ends_ok (js_string (dget s k))"
  shows "SharedAccessSignature_toString s
       = ''SharedAccessSignature '' @ print_pairs (CHR ''&'') (sas_pairs s sas_keys)"
  using foldl_sas_segment [of sas_keys s "[]" "''SharedAccessSignature ''"] assms
  by (simp add: SharedAccessSignature_toString_def sas_keys_def print_pairs_def)

text \<open>A value that survives printing and parsing: not empty, no white space, no \<open>&\<close>.\<close>

definition sas_value :: "string \<Rightarrow> bool" where
  "sas_value v \<longleftrightarrow> v \<noteq> [] \<and> (\<forall>c\<in>set v. \<not> is_space c \<and> c \<noteq> CHR ''&'')"

lemma is_space_blank [simp]: "is_space (CHR '' '')"
  by (simp add: is_space_def)

lemma sas_value_ends_ok: "sas_value v \<Longrightarrow> ends_ok v"
  using last_in_set [of v] is_space_blank unfolding sas_value_def ends_ok_def by metis

lemma alnum_not_space: "is_alnum c \<Longrightarrow> \<not> is_space c \<and> c \<noteq> CHR ''&''"
proof -
  assume "is_alnum c"
  then have "48 \<le> (of_char c :: nat) \<and> (of_char c :: nat) \<le> 122"
    unfolding is_alnum_def Let_def by linarith
  moreover from this have "c \<noteq> CHR ''&''" by (intro notI) simp
  ultimately show ?thesis by (simp add: is_space_def Let_def)
qed

lemma token_char_not_space: "token_char c \<Longrightarrow> \<not> is_space c \<and> c \<noteq> CHR ''&''"
proof -
  assume "token_char c"
  then consider "is_alnum c" | "c = CHR ''-''" | "c = CHR ''_''" | "c = CHR ''.''"
    | "c = CHR ''~''" | "c = CHR ''%''"
    unfolding token_char_def by (simp del: of_char_eq_iff) blast
  then show ?thesis
    by cases (simp add: alnum_not_space, simp_all add: is_space_def)
qed

lemma strict_char_not_Nil: "strict_char c \<noteq> []"
  by (simp add: strict_char_def)

lemma encodeUriComponentStrict_Nil_iff [simp]: "encodeUriComponentStrict v = [] \<longleftrightarrow> v = []"
proof -
  have "encodeUriComponentStrict v = [] \<longleftrightarrow> encodeURIComponent v = []"
    by (simp add: encodeUriComponentStrict_def strict_char_not_Nil)
  then show ?thesis by simp
qed

lemma sas_value_encoded: "v \<noteq> [] \<Longrightarrow> sas_value (encodeUriComponentStrict v)"
  using encodeUriComponentStrict_token token_char_not_space by (auto simp: sas_value_def)

lemma sas_value_show_int: "0 \<le> n \<Longrightarrow> sas_value (show_int n)"
proof -
  assume "0 \<le> n"
  then have n: "show_int n = show_nat (nat n)" by (simp add: show_int_def)
  have "is_alnum c" if "c \<in> set (show_nat (nat n))" for c
    using show_nat_digits [OF that] by (simp add: is_alnum_def)
  then show ?thesis by (auto simp: sas_value_def n dest: alnum_not_space)
qed

lemma sas_key_alnum: "k \<in> set sas_keys \<Longrightarrow> list_all is_alnum k"
  by (simp add: sas_keys_def) (elim disjE; simp add: is_alnum_def)

lemma sas_key_no_space: "k \<in> set sas_keys \<Longrightarrow> c \<in> set k \<Longrightarrow> \<not> is_space c"
  using sas_key_alnum [of k] alnum_not_space unfolding list_all_iff by blast

lemma wf_sas_pair: "k \<in> set sas_keys \<Longrightarrow> sas_value v \<Longrightarrow> wf_pair (CHR ''&'') (k, v)"
proof -
  assume k: "k \<in> set sas_keys" and v: "sas_value v"
  from k have "k \<noteq> []" "CHR ''='' \<notin> set k" "CHR ''&'' \<notin> set k"
    unfolding sas_keys_def by (simp_all, (elim disjE; simp)+)
  with v show ?thesis unfolding wf_pair_def sas_value_def by simp metis
qed

lemma js_join_chars: "c \<in> set (js_join [d] ws) \<Longrightarrow> c = d \<or> (\<exists>w\<in>set ws. c \<in> set w)"
  using set_js_join [of "[d]" ws] by auto

lemma is_space_punct [simp]: "\<not> is_space (CHR ''='')" "\<not> is_space (CHR ''&'')"
  by (simp_all add: is_space_def)

lemma print_pairs_no_space:
  assumes "\<forall>kv\<in>set kvs. fst kv \<in> set sas_keys \<and> sas_value (snd kv)"
    and "c \<in> set (print_pairs (CHR ''&'') kvs)"
  shows "\<not> is_space c"
proof -
  from assms(2) consider "c = CHR ''&''" | kv where "kv \<in> set kvs" "c \<in> set (print_pair kv)"
    using js_join_chars [of c "CHR ''&''" "map print_pair kvs"] by (auto simp: print_pairs_def)
  then show ?thesis
  proof cases
    case 1
    then show ?thesis by simp
  next
    case 2
    then have "c \<in> set (fst kv) \<or> c = CHR ''='' \<or> c \<in> set (snd kv)"
      by (simp add: print_pair_def) blast
    moreover have "fst kv \<in> set sas_keys" "sas_value (snd kv)" using 2(1) assms(1) by auto
    ultimately show ?thesis
      using sas_key_no_space is_space_punct unfolding sas_value_def by metis
  qed
qed

lemma sas_scheme_no_space: "\<forall>c\<in>set ''SharedAccessSignature''. \<not> is_space c"
  by (simp add: is_space_def)

lemma map_fst_sas_pairs: "map fst (sas_pairs s ks) = filter (\<lambda>k. truthy (dget s k)) ks"
  by (simp add: sas_pairs_def comp_def)

lemma distinct_sas_keys: "distinct sas_keys"
  by (simp add: sas_keys_def)

text \<open>Parsing a printed signature gives back its truthy fields, as strings.\<close>

lemma parse_toString:
  assumes val: "\<forall>k\<in>set sas_keys. truthy (dget s k) \<longrightarrow> sas_value (js_string (dget s k))"
    and req: "\<forall>k\<in>set req. k \<in> set sas_keys \<and> truthy (dget s k)" and ne: "req \<noteq> []"
  shows "SharedAccessSignature_parse (JStr (SharedAccessSignature_toString s)) req
       = Inr (map (\<lambda>(k, v). (k, JStr v)) (sas_pairs s sas_keys))"
proof -
  let ?kvs = "sas_pairs s sas_keys"
  let ?b = "print_pairs (CHR ''&'') ?kvs"
  have kvs: "\<forall>kv\<in>set ?kvs. fst kv \<in> set sas_keys \<and> sas_value (snd kv)"
    using val by (auto simp: sas_pairs_def)
  have dk: "distinct (map fst ?kvs)" unfolding map_fst_sas_pairs using distinct_sas_keys by simp
  have nn: "?kvs \<noteq> []"
    using req ne by (cases req) (auto simp: sas_pairs_def filter_empty_conv)
  have "SharedAccessSignature_toString s = ''SharedAccessSignature'' @ CHR '' '' # ?b"
    using toString_print_pairs [of s] val sas_value_ends_ok by simp
  moreover have "split_on is_space ?b = [?b]"
    using print_pairs_no_space [OF kvs] by (intro split_on_no_sep) blast
  ultimately have parts: "split_on is_space (SharedAccessSignature_toString s) = [''SharedAccessSignature'', ?b]"
    by (simp only: split_on_append [OF sas_scheme_no_space is_space_blank])
  have dict: "createDictionary (JStr ?b) ''&'' = ?kvs"
    using sas_format.parse_print_distinct [OF nn _ dk] kvs wf_sas_pair by (metis prod.collapse)
  have "k \<in> set (map fst ?kvs)" if "k \<in> set req" for k
    using req that unfolding map_fst_sas_pairs by simp
  then have "missing_field req ?kvs = None"
    by (simp add: missing_field_None has_key_iff)
  then show ?thesis
    unfolding SharedAccessSignature_parse_def js_string.simps parts
    by (simp add: dict copy_props_distinct [OF dk] contains_def)
qed

lemma show_int_truthy: "truthy (JNum n) \<longleftrightarrow> n \<noteq> 0"
  by simp

lemma dict_sas_keys: "sas_pairs s sas_keys =
   (if truthy (dget s ''sr'') then [(''sr'', js_string (dget s ''sr''))] else []) @
   (if truthy (dget s ''sig'') then [(''sig'', js_string (dget s ''sig''))] else []) @
   (if truthy (dget s ''skn'') then [(''skn'', js_string (dget s ''skn''))] else []) @
   (if truthy (dget s ''se'') then [(''se'', js_string (dget s ''se''))] else [])"
  by (simp add: sas_pairs_def sas_keys_def)

section \<open>Properties\<close>

lemma parse_print_pairs:
  assumes "kvs \<noteq> []" and "\<forall>kv\<in>set kvs. wf_pair (CHR '';'') kv" and "distinct (map fst kvs)"
    and "set req \<subseteq> set (map fst kvs)"
  shows "ConnectionString_parse (JStr (print_pairs (CHR '';'') kvs)) req = Inr kvs"
proof -
  have "missing_field req kvs = None"
    using assms(4) by (auto simp: missing_field_None has_key_iff)
  then show ?thesis
    using conn_format.parse_print_distinct [OF assms(1-3)] copy_props_distinct [OF assms(3)]
    by (simp add: ConnectionString_parse_def)
qed



text \<open>A dictionary keeps, for every key, the value of the last element \<open>key=value\<close> of the
  source with both parts non-empty, and ignores every other element.\<close>

lemma createDictionary_last_wins:
  "map_of (createDictionary source sep)
   = map_of (rev (List.map_filter dict_entry (js_split sep (js_string source))))"
proof -
  have "map_of (foldl dict_step d es) = map_of (rev (List.map_filter dict_entry es) @ d)" for d es
    by (induction es arbitrary: d)
      (auto simp: dict_step_def List.map_filter_simps map_add_def fun_eq_iff split: option.splits)
  from this [of "[]"] show ?thesis by (simp add: createDictionary_def)
qed

lemma copy_createDictionary: "copy_props (createDictionary v sep) = createDictionary v sep"
  by (rule copy_props_distinct) (rule distinct_createDictionary)

lemma ConnectionString_parse_cases:
  "ConnectionString_parse source req =
     (case missing_field req (createDictionary source '';'') of
        Some key \<Rightarrow> throw ArgumentError (''The connection string is missing the property: '' @ key)
      | None \<Rightarrow> Inr (createDictionary source '';''))"
  by (simp add: ConnectionString_parse_def copy_createDictionary Let_def split: option.split)

definition no_empty :: "string dict \<Rightarrow> bool" where
  "no_empty d \<longleftrightarrow> (\<forall>k. map_of d k \<noteq> Some [])"

lemma no_empty_dict_step: "no_empty d \<Longrightarrow> no_empty (dict_step d e)"
  by (auto simp: no_empty_def dict_step_def dict_entry_def Let_def split: option.splits if_splits)

lemma no_empty_foldl: "no_empty d \<Longrightarrow> no_empty (foldl dict_step d es)"
  by (induction es arbitrary: d) (auto simp: no_empty_dict_step)

lemma no_empty_createDictionary: "no_empty (createDictionary v sep)"
  unfolding createDictionary_def by (rule no_empty_foldl) (simp add: no_empty_def)

lemma truthy_sget: "no_empty d \<Longrightarrow> truthy (sget d k) \<longleftrightarrow> has_key k d"
  by (auto simp: no_empty_def sget_def has_key_def split: option.splits)

lemma missing_field_Some:
  "missing_field req d = Some k \<longleftrightarrow> (\<exists>pre post. req = pre @ k # post \<and> \<not> has_key k d \<and> (\<forall>j\<in>set pre. has_key j d))"
proof
  assume "missing_field req d = Some k"
  then show "\<exists>pre post. req = pre @ k # post \<and> \<not> has_key k d \<and> (\<forall>j\<in>set pre. has_key j d)"
    unfolding missing_field_def
  proof (induction req)
    case (Cons r req)
    show ?case
    proof (cases "has_key r d")
      case True
      with Cons obtain pre post where "req = pre @ k # post" "\<not> has_key k d" "\<forall>j\<in>set pre. has_key j d"
        by auto
      with True show ?thesis by (intro exI [of _ "r # pre"] exI [of _ post]) simp
    next
      case False
      with Cons.prems show ?thesis by (intro exI [of _ "[]"] exI [of _ req]) simp
    qed
  qed simp
next
  assume "\<exists>pre post. req = pre @ k # post \<and> \<not> has_key k d \<and> (\<forall>j\<in>set pre. has_key j d)"
  then obtain pre post where "req = pre @ k # post" "\<not> has_key k d" "\<forall>j\<in>set pre. has_key j d"
    by blast
  then show "missing_field req d = Some k"
    unfolding missing_field_def by (induction pre arbitrary: req) auto
qed

text \<open>A device connection string is accepted exactly when it names the host and the device and
  gives exactly one of a shared access key and \<open>x509\<close>; every rejection is an \<open>ArgumentError\<close>, and
  an accepted string yields the parsed dictionary.\<close>

lemma Device_ConnectionString_accepts:
  "Device_ConnectionString_parse source =
     (let d = createDictionary source '';'' in
      if \<not> has_key ''HostName'' d
      then throw ArgumentError ''The connection string is missing the property: HostName''
      else if \<not> has_key ''DeviceId'' d
      then throw ArgumentError ''The connection string is missing the property: DeviceId''
      else if has_key ''SharedAccessKey'' d = has_key ''x509'' d
      then throw ArgumentError ''The connection string must contain either a SharedAccessKey or x509=true''
      else Inr d)"
  using truthy_sget [OF no_empty_createDictionary [of source "'';''"]]
  by (simp add: Device_ConnectionString_parse_def ConnectionString_parse_cases missing_field_def Let_def)

text \<open>A required field of a connection string or of a shared access signature that has no
  non-empty value is reported by name, the first one in the order of the list.\<close>

lemma ConnectionString_missing_field:
  "ConnectionString_parse source req
     = throw ArgumentError (''The connection string is missing the property: '' @ k) \<longleftrightarrow>
   (\<exists>pre post. req = pre @ k # post \<and> \<not> has_key k (createDictionary source '';'')
      \<and> list_all (\<lambda>j. has_key j (createDictionary source '';'')) pre)"
  unfolding ConnectionString_parse_cases list_all_iff missing_field_Some [symmetric]
  by (auto simp: mk_error_def split: option.splits)

lemma device_sas_text:
  assumes "truthy key" and "0 < n" and "\<And>k m. hmac k m \<noteq> []"
  shows "let sr = encodeUriComponentStrict (host @ ''/devices/'' @ deviceId) in
    \<exists>s. Device_SAS_create hmac (JStr host) (JStr deviceId) key (JNum n) = Inr s
    \<and> Device_SAS_parse (JStr (SharedAccessSignature_toString s))
      = Inr [(''sr'', JStr sr),
             (''sig'', JStr (encodeUriComponentStrict (hmac (js_string key) (stringToSign sr (show_int n))))),
             (''se'', JStr (show_int n))]
    \<and> decodeURIComponent sr = Some (host @ ''/devices/'' @ deviceId)"
proof -
  define sr where "sr = encodeUriComponentStrict (host @ ''/devices/'' @ deviceId)"
  let ?sig = "encodeUriComponentStrict (hmac (js_string key) (stringToSign sr (show_int n)))"
  let ?s = "[(''_key'', key), (''sr'', JStr sr), (''se'', JNum n), (''sig'', JStr ?sig)]"
  have create: "Device_SAS_create hmac (JStr host) (JStr deviceId) key (JNum n) = Inr ?s"
    using assms(1,2) by (simp add: Device_SAS_create_def SharedAccessSignature_create_def sr_def
        sas_signature_def dget_def Let_def)
  have vals: "sas_value sr" "sas_value ?sig" "sas_value (show_int n)"
    using assms(2,3) by (simp_all add: sr_def sas_value_encoded sas_value_show_int)
  then have "\<forall>k\<in>set sas_keys. truthy (dget ?s k) \<longrightarrow> sas_value (js_string (dget ?s k))"
    by (simp add: sas_keys_def dget_def)
  moreover have "\<forall>k\<in>set [''sr'', ''sig'', ''se'']. k \<in> set sas_keys \<and> truthy (dget ?s k)"
    using vals assms(2) by (simp add: sas_keys_def dget_def sas_value_def)
  ultimately have "Device_SAS_parse (JStr (SharedAccessSignature_toString ?s))
      = Inr (map (\<lambda>(k, v). (k, JStr v)) (sas_pairs ?s sas_keys))"
    unfolding Device_SAS_parse_def by (intro parse_toString) simp_all
  also have "sas_pairs ?s sas_keys = [(''sr'', sr), (''sig'', ?sig), (''se'', show_int n)]"
    using vals assms(2) by (simp add: dict_sas_keys dget_def sas_value_def)
  finally show ?thesis
    using create by (simp add: sr_def decode_encodeUriComponentStrict)
qed

text \<open>C9: the token a device client presents survives its text form: parsing the printed signature
  gives back the encoded resource, the encoded HMAC of the resource and expiry, and the expiry, and
  decoding the resource gives the host and the device.\<close>

theorem Device_SAS_roundtrip:
  assumes "truthy key" and "0 < n" and "\<And>k m. hmac k m \<noteq> []"
  shows "let sr = encodeUriComponentStrict (host @ ''/devices/'' @ deviceId) in
    \<exists>s. Device_SAS_create hmac (JStr host) (JStr deviceId) key (JNum n) = Inr s
    \<and> Device_SAS_parse (JStr (SharedAccessSignature_toString s))
      = Inr [(''sr'', JStr sr),
             (''sig'', JStr (encodeUriComponentStrict (hmac (js_string key) (stringToSign sr (show_int n))))),
             (''se'', JStr (show_int n))]
    \<and> decodeURIComponent sr = Some (host @ ''/devices/'' @ deviceId)"
  using assms by (rule device_sas_text)

theorem Device_SAS_roundtrip_witness:
  "\<exists>s. Device_SAS_create (\<lambda>k m. ''x'' @ k @ m) (JStr ''hub'') (JStr ''dev'') (JStr ''k'') (JNum 5) = Inr s
    \<and> returns (Device_SAS_parse (JStr (SharedAccessSignature_toString s)))"
  using Device_SAS_roundtrip [of "JStr ''k''" 5 "\<lambda>k m. ''x'' @ k @ m" "''hub''" "''dev''"]
  by (auto simp: Let_def)

lemma service_sas_text:
  assumes "truthy key" and "0 < n" and "policy \<noteq> []" and "sas_value host" and "\<And>k m. hmac k m \<noteq> []"
  shows "\<exists>s. Service_SAS_create hmac (JStr host) (JStr policy) key (JNum n) = Inr s
    \<and> Service_SAS_parse (JStr (SharedAccessSignature_toString s))
      = Inr [(''sr'', JStr host),
             (''sig'', JStr (encodeUriComponentStrict (hmac (js_string key) (stringToSign host (show_int n))))),
             (''skn'', JStr (encodeUriComponentStrict policy)),
             (''se'', JStr (show_int n))]"
proof -
  let ?sig = "encodeUriComponentStrict (hmac (js_string key) (stringToSign host (show_int n)))"
  let ?s = "[(''_key'', key), (''sr'', JStr host), (''skn'', JStr (encodeUriComponentStrict policy)),
             (''se'', JNum n), (''sig'', JStr ?sig)]"
  have "host \<noteq> []" using assms(4) by (simp add: sas_value_def)
  then have create: "Service_SAS_create hmac (JStr host) (JStr policy) key (JNum n) = Inr ?s"
    using assms(1-3) by (simp add: Service_SAS_create_def SharedAccessSignature_create_def
        sas_signature_def dget_def Let_def)
  have vals: "sas_value ?sig" "sas_value (show_int n)" "sas_value (encodeUriComponentStrict policy)"
    using assms(2,3,5) by (simp_all add: sas_value_encoded sas_value_show_int)
  then have "\<forall>k\<in>set sas_keys. truthy (dget ?s k) \<longrightarrow> sas_value (js_string (dget ?s k))"
    using assms(4) by (simp add: sas_keys_def dget_def)
  moreover have "\<forall>k\<in>set sas_keys. k \<in> set sas_keys \<and> truthy (dget ?s k)"
    using vals assms(2-4) by (simp add: sas_keys_def dget_def sas_value_def)
  ultimately have "SharedAccessSignature_parse (JStr (SharedAccessSignature_toString ?s)) sas_keys
      = Inr (map (\<lambda>(k, v). (k, JStr v)) (sas_pairs ?s sas_keys))"
    by (intro parse_toString) (simp_all add: sas_keys_def)
  moreover have "sas_pairs ?s sas_keys
      = [(''sr'', host), (''sig'', ?sig), (''skn'', encodeUriComponentStrict policy), (''se'', show_int n)]"
    using vals assms(2-4) by (simp add: dict_sas_keys dget_def sas_value_def)
  ultimately show ?thesis
    using create by (simp add: Service_SAS_parse_def sas_keys_def)
qed

text \<open>The service token survives its text form in the same way, with the encoded name of the
  policy as its key name.\<close>

lemma Service_SAS_roundtrip:
  assumes "truthy key" and "0 < n" and "policy \<noteq> []" and "sas_value host" and "\<And>k m. hmac k m \<noteq> []"
  shows "\<exists>s. Service_SAS_create hmac (JStr host) (JStr policy) key (JNum n) = Inr s
    \<and> Service_SAS_parse (JStr (SharedAccessSignature_toString s))
      = Inr [(''sr'', JStr host),
             (''sig'', JStr (encodeUriComponentStrict (hmac (js_string key) (stringToSign host (show_int n))))),
             (''skn'', JStr (encodeUriComponentStrict policy)),
             (''se'', JStr (show_int n))]"
  using assms by (rule service_sas_text)

lemma Service_SAS_roundtrip_example:
  "\<exists>s. Service_SAS_create (\<lambda>k m. ''x'' @ k @ m) (JStr ''hub'') (JStr ''owner'') (JStr ''k'') (JNum 5) = Inr s
    \<and> returns (Service_SAS_parse (JStr (SharedAccessSignature_toString s)))"
proof -
  have "sas_value ''hub''" by (simp add: sas_value_def is_space_def)
  then show ?thesis
    using Service_SAS_roundtrip [of "JStr ''k''" 5 "''owner''" "''hub''" "\<lambda>k m. ''x'' @ k @ m"] by auto
qed

text \<open>Extending a signature gives the object, and the text, that creating it with the new expiry
  would have given.\<close>

lemma extend_create:
  assumes "SharedAccessSignature_create hmac r p k e1 = Inr s" and "truthy e2"
  shows "\<exists>s2. SharedAccessSignature_create hmac r p k e2 = Inr s2
     \<and> SharedAccessSignature_extend hmac s e2 = Inr (s2, SharedAccessSignature_toString s2)"
  using assms
  by (auto simp: SharedAccessSignature_create_def SharedAccessSignature_extend_def throwRef_def
      sas_signature_def dget_def Let_def split: if_splits)

lemma extend_create_witness:
  "\<exists>s s2. SharedAccessSignature_create (\<lambda>k m. k @ m) (JStr ''r'') JNull (JStr ''k'') (JNum 1) = Inr s
     \<and> SharedAccessSignature_create (\<lambda>k m. k @ m) (JStr ''r'') JNull (JStr ''k'') (JNum 2) = Inr s2
     \<and> SharedAccessSignature_extend (\<lambda>k m. k @ m) s (JNum 2) = Inr (s2, SharedAccessSignature_toString s2)"
  using extend_create [of "\<lambda>k m. k @ m" "JStr ''r''" JNull "JStr ''k''" "JNum 1" _ "JNum 2"]
  by (simp add: SharedAccessSignature_create_def)

text \<open>A signature that is extended again and again, as the connection of a service does, with the text of the last extension.\<close>

fun extend_all :: "hmac \<Rightarrow> sas \<Rightarrow> jsval list \<Rightarrow> (sas \<times> string) res" where
  "extend_all hmac s [] = Inr (s, SharedAccessSignature_toString s)"
| "extend_all hmac s (e # es) = res_bind (SharedAccessSignature_extend hmac s e) (\<lambda>(s', t). extend_all hmac s' es)"

text \<open>C10: extending a signature any number of times is the same as creating it once with the last expiry: the object and its
  text are those that \<open>create\<close> gives for that expiry.\<close>

theorem sas_extend_is_create:
  assumes "SharedAccessSignature_create hmac r p k e0 = Inr s" and "list_all truthy es" and "es \<noteq> []"
  shows "\<exists>s'. SharedAccessSignature_create hmac r p k (last es) = Inr s'
    \<and> extend_all hmac s es = Inr (s', SharedAccessSignature_toString s')"
  using assms
proof (induction es arbitrary: e0 s)
  case (Cons e es)
  obtain s1 where s1: "SharedAccessSignature_create hmac r p k e = Inr s1"
    "SharedAccessSignature_extend hmac s e = Inr (s1, SharedAccessSignature_toString s1)"
    using extend_create [OF Cons.prems(1), of e] Cons.prems(2) by auto
  show ?case
  proof (cases es)
    case Nil
    with s1 show ?thesis by simp
  next
    case (Cons e' es')
    with Cons.IH [OF s1(1)] Cons.prems(2) s1(2) show ?thesis by simp
  qed
qed simp

theorem sas_extend_is_create_witness:
  "\<exists>s s'. SharedAccessSignature_create (\<lambda>k m. k @ m) (JStr ''r'') (JStr ''p'') (JStr ''k'') (JNum 1) = Inr s
     \<and> SharedAccessSignature_create (\<lambda>k m. k @ m) (JStr ''r'') (JStr ''p'') (JStr ''k'') (JNum 3) = Inr s'
     \<and> extend_all (\<lambda>k m. k @ m) s [JNum 2, JNum 3] = Inr (s', SharedAccessSignature_toString s')"
proof -
  obtain s where s: "SharedAccessSignature_create (\<lambda>k m. k @ m) (JStr ''r'') (JStr ''p'') (JStr ''k'') (JNum 1) = Inr s"
    by (simp add: SharedAccessSignature_create_def)
  from sas_extend_is_create [OF s, of "[JNum 2, JNum 3]"] s show ?thesis by simp
qed

text \<open>The strict encoding is injective, produces only unreserved characters and percent
  escapes, and decodes to its input.\<close>

lemma encodeUriComponentStrict_correct:
  "decodeURIComponent (encodeUriComponentStrict s) = Some s
   \<and> list_all token_char (encodeUriComponentStrict s)"
  using decode_encodeUriComponentStrict encodeUriComponentStrict_token by (simp add: list_all_iff)

text \<open>\<open>anHourFromNow\<close> is the least whole number of seconds at least an hour after the clock.\<close>

lemma anHourFromNow_bounds:
  "1000 * (anHourFromNow now - 3600) \<ge> now \<and> 1000 * (anHourFromNow now - 3600) < now + 1000"
proof -
  define q r where "q = (- now) div 1000" and "r = (- now) mod 1000"
  then have "now = - (1000 * q) - r" "0 \<le> r" "r < 1000"
    using mult_div_mod_eq [of 1000 "- now"] by (simp_all, linarith?)
  then show ?thesis unfolding anHourFromNow_def q_def [symmetric] by simp
qed

end
