(* ===== verification/Common_Message.thy ===== *)
theory Common_Message
  imports Common_Core
begin

text \<open>
  Messages and their wire forms: \<open>properties.js\<close>, \<open>message.js\<close> and \<open>results.js\<close> of
  \<open>node/common/core/lib\<close>, \<open>amqp_message.js\<close> of \<open>node/common/transport/amqp/lib\<close> and
  \<open>http.js\<close> of \<open>node/common/transport/http/lib\<close>. \<open>JSON.parse\<close> is the argument
  \<open>json_parse\<close>, with \<open>None\<close> for a \<open>SyntaxError\<close>; a response of the \<open>https\<close> module is the
  sequence of events it emits.
\<close>

section \<open>Custom properties\<close>

type_synonym properties = "(string \<times> jsval) list"

definition Properties :: properties where
  "Properties = []"

definition Properties_add :: "properties \<Rightarrow> string \<Rightarrow> jsval \<Rightarrow> properties \<times> bool" where
  "Properties_add ps itemKey itemValue =
     (if itemKey = ''Authorization'' \<or> itemKey = ''iothub-to'' then (ps, False)
      else (ps @ [(itemKey, itemValue)], True))"

definition Properties_getItem :: "properties \<Rightarrow> int \<Rightarrow> (string \<times> jsval) option" where
  "Properties_getItem ps index =
     (if index \<ge> 0 \<and> index < int (length ps) then Some (ps ! nat index) else None)"

definition Properties_count :: "properties \<Rightarrow> nat" where
  "Properties_count ps = length ps"

section \<open>Messages\<close>

record message =
  msg_data :: jsval
  msg_properties :: properties
  msg_messageId :: jsval
  msg_to :: jsval
  msg_expiryTimeUtc :: jsval
  msg_lockToken :: jsval
  msg_correlationId :: jsval
  msg_userId :: jsval
  msg_ack :: jsval

text \<open>The constructor; \<open>ack\<close> is set by applications only, so it starts undefined.\<close>

definition Message :: "jsval \<Rightarrow> message" where
  "Message data = \<lparr>msg_data = data, msg_properties = Properties, msg_messageId = JStr [],
     msg_to = JStr [], msg_expiryTimeUtc = JNull, msg_lockToken = JStr [],
     msg_correlationId = JStr [], msg_userId = JStr [], msg_ack = JUndef\<rparr>"

definition Message_getData :: "message \<Rightarrow> jsval" where
  "Message_getData m = msg_data m"

text \<open>
  \<open>new Buffer(data)\<close>: the UTF-8 bytes of a string, the bytes of an array, fresh memory for a
  size (its contents are the argument \<open>alloc\<close>), a \<open>TypeError\<close> otherwise.
\<close>

fun byte_of :: "jsval \<Rightarrow> char" where
  "byte_of (JNum n) = char_of (nat (n mod 256))"
| "byte_of _ = char_of (0::nat)"

fun new_Buffer :: "(nat \<Rightarrow> string) \<Rightarrow> jsval \<Rightarrow> jsval res" where
  "new_Buffer alloc (JStr s) = Inr (JBuf (concat (map (\<lambda>c. map char_of (utf8 c)) s)))"
| "new_Buffer alloc (JArr vs) = Inr (JBuf (map byte_of vs))"
| "new_Buffer alloc (JNum n) = (if n < 0 then throw TypeError ''Invalid size'' else Inr (JBuf (alloc (nat n))))"
| "new_Buffer alloc (JBuf b) = Inr (JBuf b)"
| "new_Buffer alloc _ = throw TypeError ''must start with number, buffer, array or string''"

fun is_buffer :: "jsval \<Rightarrow> bool" where
  "is_buffer (JBuf b) = True"
| "is_buffer _ = False"

definition Message_getBytes :: "(nat \<Rightarrow> string) \<Rightarrow> message \<Rightarrow> jsval res" where
  "Message_getBytes alloc m =
     (if is_buffer (msg_data m) then Inr (msg_data m) else new_Buffer alloc (msg_data m))"

section \<open>Results\<close>

text \<open>The result classes of \<open>results.js\<close>; each keeps the object the transport returned.\<close>

datatype result =
    MessageEnqueued jsval
  | MessageCompleted jsval
  | MessageRejected jsval
  | MessageAbandoned jsval
  | Connected jsval
  | Disconnected jsval jsval
  | TransportConfigured jsval
  | SharedAccessSignatureUpdated bool

section \<open>AMQP messages\<close>

record amqp_message =
  am_properties :: "jsval dict"
  am_applicationProperties :: "jsval dict option"
  am_body :: "jsval option"

definition put_truthy :: "string \<Rightarrow> jsval \<Rightarrow> jsval dict \<Rightarrow> jsval dict" where
  "put_truthy k v d = (if truthy v then dset k v d else d)"

text \<open>\<open>ensureApplicationPropertiesCreated\<close>\<close>

definition ensure_app :: "jsval dict option \<Rightarrow> jsval dict" where
  "ensure_app a = (case a of None \<Rightarrow> [] | Some d \<Rightarrow> d)"

text \<open>The loop \<open>for (index = 0; index < propsCount; index++)\<close> over \<open>getItem(index)\<close>.\<close>

definition copy_item :: "properties \<Rightarrow> jsval dict \<Rightarrow> nat \<Rightarrow> jsval dict" where
  "copy_item ps d index = (case Properties_getItem ps (int index) of
       None \<Rightarrow> d
     | Some (k, v) \<Rightarrow> dset k v d)"

definition AmqpMessage_fromMessage :: "message option \<Rightarrow> amqp_message res" where
  "AmqpMessage_fromMessage m = (case m of
       None \<Rightarrow> throw ReferenceError (''message is '' @ [CHR 0x27] @ ''undefined'' @ [CHR 0x27])
     | Some message \<Rightarrow>
         (let props = put_truthy ''messageId'' (msg_messageId message)
                        (put_truthy ''absoluteExpiryTime'' (msg_expiryTimeUtc message)
                          (put_truthy ''to'' (msg_to message) []));
              app = (if truthy (msg_ack message)
                     then Some (dset ''iothub-ack'' (msg_ack message) (ensure_app None)) else None);
              n = Properties_count (msg_properties message);
              app = (if n > 0
                     then Some (foldl (copy_item (msg_properties message)) (ensure_app app) [0..<n])
                     else app);
              body = Message_getData message
          in Inr \<lparr>am_properties = props, am_applicationProperties = app,
                  am_body = (if truthy body then Some body else None)\<rparr>))"

section \<open>HTTP requests and responses\<close>

record http_response =
  statusCode :: int
  statusMessage :: string
  resp_headers :: "string dict"

record http_options =
  ho_host :: jsval
  ho_path :: jsval
  ho_method :: jsval
  ho_headers :: jsval
  ho_x509 :: "(jsval \<times> jsval \<times> jsval) option"

text \<open>
  What \<open>buildRequest\<close> gives to \<open>https.request\<close>, after the swap of the optional argument
  \<open>x509Options\<close> with the callback; the second component is the callback.
\<close>

definition Http_buildRequest ::
  "jsval \<Rightarrow> jsval \<Rightarrow> jsval \<Rightarrow> jsval \<Rightarrow> jsval \<Rightarrow> jsval \<Rightarrow> http_options \<times> jsval" where
  "Http_buildRequest verb path httpHeaders host x509Options callback =
     (let (x509, done) = (if falsy callback \<and> js_typeof x509Options = ''function''
                          then (JNull, x509Options) else (x509Options, callback))
      in (\<lparr>ho_host = host, ho_path = path, ho_method = verb, ho_headers = httpHeaders,
           ho_x509 = (if truthy x509
                      then Some (jget x509 ''cert'', jget x509 ''key'', jget x509 ''passphrase'')
                      else None)\<rparr>, done))"

text \<open>The events of a request and of its response, and the calls of \<open>done\<close> they cause.\<close>

datatype http_event =
    RequestError js_error
  | ResponseError js_error
  | ResponseData string
  | ResponseEnd

record http_call =
  hc_err :: "js_error option"
  hc_body :: "string option"
  hc_response :: "http_response option"

definition Http_onResponse ::
  "http_response \<Rightarrow> string \<times> http_call list \<Rightarrow> http_event \<Rightarrow> string \<times> http_call list" where
  "Http_onResponse response st ev = (case (st, ev) of
       ((body, calls), RequestError e) \<Rightarrow>
         (body, calls @ [\<lparr>hc_err = Some e, hc_body = None, hc_response = None\<rparr>])
     | ((body, calls), ResponseError e) \<Rightarrow>
         (body, calls @ [\<lparr>hc_err = Some e, hc_body = None, hc_response = None\<rparr>])
     | ((body, calls), ResponseData chunk) \<Rightarrow> (body @ chunk, calls)
     | ((body, calls), ResponseEnd) \<Rightarrow>
         (body, calls @ [\<lparr>hc_err = (if statusCode response \<ge> 300
                                     then Some (mk_error Error (statusMessage response)) else None),
                           hc_body = Some body, hc_response = Some response\<rparr>]))"

definition Http_exchange :: "http_response \<Rightarrow> http_event list \<Rightarrow> http_call list" where
  "Http_exchange response evs = snd (foldl (Http_onResponse response) ([], []) evs)"

text \<open>One header of a response, in the order of the chain of \<open>else if\<close>.\<close>

definition strip_quotes :: "string \<Rightarrow> string" where
  "strip_quotes v = (if length v \<le> 1 then v else take (length v - 2) (drop 1 v))"

definition toMessage_header :: "message \<Rightarrow> string \<times> string \<Rightarrow> message" where
  "toMessage_header msg h = (case h of (item, v) \<Rightarrow>
     if contains ''iothub-'' item then
       (if to_lower item = ''iothub-messageid'' then msg\<lparr>msg_messageId := JStr v\<rparr>
        else if to_lower item = ''iothub-to'' then msg\<lparr>msg_to := JStr v\<rparr>
        else if to_lower item = ''iothub-expiry'' then msg\<lparr>msg_expiryTimeUtc := JStr v\<rparr>
        else if to_lower item = ''iothub-correlationid'' then msg\<lparr>msg_correlationId := JStr v\<rparr>
        else if contains ''iothub-app-'' item
        then msg\<lparr>msg_properties := fst (Properties_add (msg_properties msg) item (JStr v))\<rparr>
        else msg)
     else if to_lower item = ''etag'' then msg\<lparr>msg_lockToken := JStr (strip_quotes v)\<rparr>
     else msg)"

definition Http_toMessage :: "http_response \<Rightarrow> jsval \<Rightarrow> message option" where
  "Http_toMessage response body =
     (if statusCode response < 300
      then Some (foldl toMessage_header (Message body) (resp_headers response))
      else None)"

text \<open>
  \<open>parseErrorBody\<close>: a body that is no JSON, or has no string \<open>Message\<close> (a \<open>TypeError\<close> inside the
  \<open>try\<close>), gives null; the result is the pair of message and code.
\<close>

definition Http_parseErrorBody ::
  "(string \<Rightarrow> jsval option) \<Rightarrow> string \<Rightarrow> (string \<times> string) option" where
  "Http_parseErrorBody json_parse body = (case json_parse body of
       None \<Rightarrow> None
     | Some jsonErr \<Rightarrow> (case jget jsonErr ''Message'' of
           JStr m \<Rightarrow>
             (let errParts = js_split '';'' m;
                  errMessage = nth_opt errParts 1;
                  errCode = nth_opt (js_split '':'' (hd errParts)) 1
              in case (errCode, errMessage) of
                   (Some c, Some e) \<Rightarrow> if c \<noteq> [] \<and> e \<noteq> [] then Some (e, c) else None
                 | _ \<Rightarrow> None)
         | _ \<Rightarrow> None))"

section \<open>Laws\<close>

lemma Properties_getItem_iff:
  "Properties_getItem ps i = Some kv \<longleftrightarrow> 0 \<le> i \<and> nat i < length ps \<and> ps ! nat i = kv"
  by (auto simp: Properties_getItem_def)

lemma foldl_copy_item_suffix:
  "foldl (copy_item ps) d [n..<length ps] = foldl (\<lambda>d (k, v). dset k v d) d (drop n ps)"
proof (induction "length ps - n" arbitrary: n d)
  case 0
  then show ?case by simp
next
  case (Suc m)
  then have n: "n < length ps" by simp
  have "copy_item ps d n = (case ps ! n of (k, v) \<Rightarrow> dset k v d)"
    using n by (simp add: copy_item_def Properties_getItem_def)
  moreover have "drop n ps = ps ! n # drop (Suc n) ps" using n by (rule Cons_nth_drop_Suc [symmetric])
  moreover have "[n..<length ps] = n # [Suc n..<length ps]" using n by (rule upt_conv_Cons)
  ultimately show ?case using Suc(1) [of "Suc n"] Suc(2) by simp
qed

text \<open>The index loop is the plain iteration over the list of properties.\<close>

lemma foldl_copy_item:
  "foldl (copy_item ps) d [0..<length ps] = foldl (\<lambda>d (k, v). dset k v d) d ps"
  using foldl_copy_item_suffix [of ps d 0] by simp

section \<open>Properties\<close>

text \<open>The AMQP form of a message carries every custom property under its key with its last
  value, and \<open>iothub-ack\<close> when the application asked for one and no custom property overrides
  it; it has an \<open>applicationProperties\<close> object exactly when there is something to put in it.\<close>

lemma AmqpMessage_applicationProperties:
  "\<exists>am. AmqpMessage_fromMessage (Some m) = Inr am
     \<and> (am_applicationProperties am = None \<longleftrightarrow> falsy (msg_ack m) \<and> msg_properties m = [])
     \<and> map_of (ensure_app (am_applicationProperties am))
       = map_of (rev (msg_properties m) @ (if truthy (msg_ack m) then [(''iothub-ack'', msg_ack m)] else []))"
  by (auto simp: AmqpMessage_fromMessage_def Let_def foldl_copy_item foldl_dset_map_of ensure_app_def
      Properties_count_def)

text \<open>A custom property is stored under the next index, read back by it, and nothing else
  changes; the two reserved names are refused and leave the collection as it was.\<close>

lemma Properties_add_getItem:
  "(if k \<in> {''Authorization'', ''iothub-to''} then Properties_add ps k v = (ps, False)
    else \<exists>ps'. Properties_add ps k v = (ps', True)
      \<and> Properties_count ps' = Suc (Properties_count ps)
      \<and> (\<forall>i. Properties_getItem ps' i
             = (if i = int (Properties_count ps) then Some (k, v) else Properties_getItem ps i)))"
  by (auto simp: Properties_add_def Properties_count_def Properties_getItem_def nth_append)

lemma Http_onResponse_data:
  "foldl (Http_onResponse r) (b, cs) (map ResponseData chunks) = (b @ concat chunks, cs)"
  by (induction chunks arbitrary: b) (auto simp: Http_onResponse_def)

text \<open>A response that arrives in any number of chunks calls \<open>done\<close> exactly once, with the
  concatenated body and an error exactly when the status is 300 or more.\<close>

lemma Http_exchange_once:
  "Http_exchange r (map ResponseData chunks @ [ResponseEnd]) =
     [\<lparr>hc_err = (if statusCode r \<ge> 300 then Some (mk_error Error (statusMessage r)) else None),
       hc_body = Some (concat chunks), hc_response = Some r\<rparr>]"
  by (simp add: Http_exchange_def Http_onResponse_data Http_onResponse_def)

end
