(* ===== verification/Error_Translation.thy ===== *)
theory Error_Translation
  imports Common_Message
begin

text \<open>
  The tables that turn an error of a wire protocol into an error of the SDK:
  \<open>http_errors.js\<close>, \<open>mqtt-translate-error.js\<close>, \<open>amqp_common_errors.js\<close>,
  \<open>amqp_device_errors.js\<close>, \<open>amqp_service_errors.js\<close>, \<open>twin_errors.js\<close> and the method
  \<open>translateError\<close> of \<open>rest_api_client.js\<close>. What a translator promises its clients, that
  the original error stays attached and the message is kept, is the locale
  \<open>error_translator\<close>.
\<close>

section \<open>Device HTTP transport\<close>

definition http_error_kind :: "int \<Rightarrow> error_kind" where
  "http_error_kind status =
     (if status = 400 then ArgumentError
      else if status = 401 then UnauthorizedError
      else if status = 403 then IotHubQuotaExceededError
      else if status = 404 then DeviceNotFoundError
      else if status = 413 then MessageTooLargeError
      else if status = 500 then InternalServerError
      else if status = 503 then ServiceUnavailableError
      else Error)"

definition response_val :: "http_response \<Rightarrow> jsval" where
  "response_val r = JObj [(''statusCode'', JNum (statusCode r)), (''statusMessage'', JStr (statusMessage r)),
     (''headers'', JObj (map (\<lambda>(k, v). (k, JStr v)) (resp_headers r)))]"

definition Http_translateError :: "string \<Rightarrow> jsval \<Rightarrow> http_response \<Rightarrow> js_error" where
  "Http_translateError message body response =
     attach ''responseBody'' body
       (attach ''response'' (response_val response)
         (mk_error (http_error_kind (statusCode response)) message))"

section \<open>MQTT transport\<close>

definition mqtt_error_kind :: "string \<Rightarrow> error_kind" where
  "mqtt_error_kind m =
     (if contains ''client disconnecting'' m then NotConnectedError
      else if contains ''Invalid topic'' m then FormatError
      else if contains ''No connection to broker'' m then NotConnectedError
      else if contains ''Unacceptable protocol version'' m then NotImplementedError
      else if contains ''Identifier rejected'' m then UnauthorizedError
      else if contains ''Server unavailable'' m then ServiceUnavailableError
      else if contains ''Bad username or password'' m then UnauthorizedError
      else if contains ''Not authorized'' m then UnauthorizedError
      else if contains ''unrecognized packet type'' m then InternalServerError
      else Error)"

definition error_val :: "js_error \<Rightarrow> jsval" where
  "error_val e = JObj ((''message'', JStr (err_message e)) # err_props e)"

definition Mqtt_translateError :: "js_error \<Rightarrow> js_error" where
  "Mqtt_translateError mqttError =
     attach ''transportError'' (error_val mqttError)
       (mk_error (mqtt_error_kind (err_message mqttError))
         (''mqtt.js returned '' @ err_message mqttError @ '' error''))"

section \<open>AMQP transports\<close>

text \<open>
  An error of the AMQP library: the name of its constructor, whether it is an instance of
  \<open>amqp10.Errors.AuthenticationError\<close>, and its \<open>condition\<close>: undefined, a string or an object
  with a \<open>contents\<close> field.
\<close>

record amqp_error =
  ae_constructor :: string
  ae_isAuthenticationError :: bool
  ae_condition :: jsval

definition amqp_error_val :: "amqp_error \<Rightarrow> jsval" where
  "amqp_error_val e = JObj [(''constructor'', JStr (ae_constructor e)), (''condition'', ae_condition e)]"

definition amqp_condition_kind :: "jsval \<Rightarrow> error_kind" where
  "amqp_condition_kind c =
     (if c = JStr ''amqp:not-found'' then DeviceNotFoundError
      else if c = JStr ''amqp:unauthorized-access'' then UnauthorizedError
      else if c = JStr ''amqp:internal-error'' then InternalServerError
      else if c = JStr ''com.microsoft:timeout'' then ServiceUnavailableError
      else if c = JStr ''amqp:link-message-size-exceeded'' then MessageTooLargeError
      else if c = JStr ''amqp:resource-limit-exceeded'' then IotHubQuotaExceededError
      else if c = JStr ''com.microsoft:argument-out-of-range'' then ArgumentError
      else Error)"

definition AmqpCommon_translateError :: "string \<Rightarrow> amqp_error \<Rightarrow> js_error" where
  "AmqpCommon_translateError message amqpError =
     attach ''amqpError'' (amqp_error_val amqpError)
       (mk_error
         (if truthy (ae_condition amqpError) then amqp_condition_kind (ae_condition amqpError)
          else if ae_isAuthenticationError amqpError then UnauthorizedError
          else Error) message)"

text \<open>
  The guard the two specialised tables share; reading \<open>contents\<close> of an undefined or null
  condition throws.
\<close>

definition amqp_limit_exceeded :: "amqp_error \<Rightarrow> bool res" where
  "amqp_limit_exceeded e =
     (if ae_constructor e \<noteq> ''AMQPError'' then Inr False
      else if ae_condition e = JUndef \<or> ae_condition e = JNull
      then throw TypeError (''Cannot read property contents of '' @ js_string (ae_condition e))
      else Inr (jget (ae_condition e) ''contents'' = JStr ''amqp:resource-limit-exceeded''))"

definition AmqpDevice_translateError :: "string \<Rightarrow> amqp_error \<Rightarrow> js_error res" where
  "AmqpDevice_translateError message amqpError =
     res_bind (amqp_limit_exceeded amqpError) (\<lambda>lim.
       Inr (attach ''amqpError'' (amqp_error_val amqpError)
         (if lim then mk_error IotHubQuotaExceededError message
          else AmqpCommon_translateError message amqpError)))"

definition AmqpService_translateError :: "string \<Rightarrow> amqp_error \<Rightarrow> js_error res" where
  "AmqpService_translateError message amqpError =
     res_bind (amqp_limit_exceeded amqpError) (\<lambda>lim.
       Inr (attach ''amqpError'' (amqp_error_val amqpError)
         (if lim then mk_error DeviceMaximumQueueDepthExceededError message
          else AmqpCommon_translateError message amqpError)))"

section \<open>Device twins\<close>

text \<open>\<open>switch (status)\<close> compares with \<open>===\<close>: only a number matches.\<close>

definition twin_error_kind :: "jsval \<Rightarrow> error_kind" where
  "twin_error_kind status =
     (if status = JNum 400 then ArgumentError
      else if status = JNum 401 then UnauthorizedError
      else if status = JNum 403 then IotHubQuotaExceededError
      else if status = JNum 404 then DeviceNotFoundError
      else if status = JNum 413 then MessageTooLargeError
      else if status = JNum 500 then InternalServerError
      else if status = JNum 503 then ServiceUnavailableError
      else if status = JNum 504 then ServiceUnavailableError
      else if status = JNum 429 then ThrottlingError
      else if status = JNum 412 then InvalidEtagError
      else Error)"

definition Twin_translateError :: "jsval \<Rightarrow> jsval \<Rightarrow> js_error" where
  "Twin_translateError response status =
     attach ''response'' response (mk_error (twin_error_kind status) '''')"

section \<open>Service REST calls\<close>

definition rest_error_kind :: "int \<Rightarrow> string option \<Rightarrow> error_kind" where
  "rest_error_kind status code =
     (if status = 400 then ArgumentError
      else if status = 401 then UnauthorizedError
      else if status = 403 then TooManyDevicesError
      else if status = 404 then
        (if code = Some ''DeviceNotFound'' then DeviceNotFoundError
         else if code = Some ''IotHubNotFound'' then IotHubNotFoundError
         else Error)
      else if status = 408 then DeviceTimeoutError
      else if status = 409 then DeviceAlreadyExistsError
      else if status = 412 then InvalidEtagError
      else if status = 429 then ThrottlingError
      else if status = 500 then InternalServerError
      else if status = 502 then BadDeviceResponseError
      else if status = 503 then ServiceUnavailableError
      else if status = 504 then GatewayTimeoutError
      else Error)"

definition RestApiClient_translateError ::
  "(string \<Rightarrow> jsval option) \<Rightarrow> string \<Rightarrow> http_response \<Rightarrow> js_error" where
  "RestApiClient_translateError json_parse body response =
     (let errorContent = Http_parseErrorBody json_parse body;
          message = (case errorContent of Some (m, _) \<Rightarrow> m | None \<Rightarrow> ''Error: '' @ body);
          kind = rest_error_kind (statusCode response) (map_option snd errorContent)
      in attach ''responseBody'' (JStr body)
          (attach ''response'' (response_val response)
            (mk_error kind (if statusCode response = 404 \<and> kind = Error then ''Not found'' else message))))"

section \<open>What a translator promises\<close>

text \<open>
  \<open>tr m x\<close> translates the wire error \<open>x\<close> with the message \<open>m\<close>: the kind depends on the wire
  error only and the wire error itself is found under \<open>slot\<close>.
\<close>

locale error_translator =
  fixes tr :: "string \<Rightarrow> 'x \<Rightarrow> js_error"
    and kind :: "'x \<Rightarrow> error_kind"
    and original :: "'x \<Rightarrow> jsval"
    and slot :: string
  assumes tr_kind: "err_kind (tr m x) = kind x"
    and tr_original: "dget (err_props (tr m x)) slot = original x"
    and tr_message: "err_message (tr m x) = m"
begin

lemma tr_same_kind: "kind x = kind y \<Longrightarrow> err_kind (tr m x) = err_kind (tr n y)"
  by (simp add: tr_kind)

lemma tr_recovers:
  assumes "inj original" and "tr m x = tr n y"
  shows "m = n \<and> x = y"
proof -
  have "original x = original y" by (metis assms(2) tr_original)
  moreover have "m = n" by (metis assms(2) tr_message)
  ultimately show ?thesis using assms(1) by (simp add: inj_eq)
qed

end

interpretation device_http: error_translator
  "\<lambda>m (body, r). Http_translateError m body r" "\<lambda>(body, r). http_error_kind (statusCode r)"
  "\<lambda>(body, r). response_val r" "''response''"
  by unfold_locales (auto simp: Http_translateError_def)

interpretation amqp_common: error_translator
  AmqpCommon_translateError
  "\<lambda>e. if truthy (ae_condition e) then amqp_condition_kind (ae_condition e)
       else if ae_isAuthenticationError e then UnauthorizedError else Error"
  amqp_error_val "''amqpError''"
  by unfold_locales (simp_all add: AmqpCommon_translateError_def)

section \<open>Properties\<close>

text \<open>For one and the same AMQP error the device and the service library report the same
  kind of error, the same message and attach the same original, except that a
  \<open>resource-limit-exceeded\<close> link error is a quota error for a device and a full device queue for
  the service; both throw on the same malformed errors.\<close>

lemma Amqp_translators_agree:
  "(\<exists>e. AmqpDevice_translateError m x = Inl e \<and> AmqpService_translateError m x = Inl e
        \<and> ae_constructor x = ''AMQPError'' \<and> ae_condition x \<in> {JUndef, JNull})
   \<or> (\<exists>d s. AmqpDevice_translateError m x = Inr d \<and> AmqpService_translateError m x = Inr s
        \<and> err_message d = m \<and> err_message s = m \<and> err_props d = err_props s
        \<and> dget (err_props d) ''amqpError'' = amqp_error_val x
        \<and> (if err_kind d = err_kind s then err_kind d = err_kind (AmqpCommon_translateError m x)
           else err_kind d = IotHubQuotaExceededError \<and> err_kind s = DeviceMaximumQueueDepthExceededError
             \<and> jget (ae_condition x) ''contents'' = JStr ''amqp:resource-limit-exceeded''))"
proof (cases "amqp_limit_exceeded x")
  case (Inl e)
  then show ?thesis
    by (auto simp: AmqpDevice_translateError_def AmqpService_translateError_def amqp_limit_exceeded_def
        split: if_splits)
next
  case (Inr lim)
  then show ?thesis
    by (cases lim) (auto simp: AmqpDevice_translateError_def AmqpService_translateError_def
        AmqpCommon_translateError_def amqp_limit_exceeded_def split: if_splits)
qed

text \<open>The REST translation keeps the response and its body on the error, takes the message from
  the body when the body parses (and from the raw body otherwise), and yields a generic \<open>Error\<close>
  exactly for a status outside its table or a 404 that names neither device nor hub.\<close>

lemma RestApiClient_translateError_correct:
  "let e = RestApiClient_translateError jp body r; c = Http_parseErrorBody jp body in
   dget (err_props e) ''response'' = response_val r
   \<and> dget (err_props e) ''responseBody'' = JStr body
   \<and> (err_kind e = Error \<longleftrightarrow>
        (if statusCode r = 404 then map_option snd c \<notin> {Some ''DeviceNotFound'', Some ''IotHubNotFound''}
         else statusCode r \<notin> {400, 401, 403, 408, 409, 412, 429, 500, 502, 503, 504}))
   \<and> err_message e = (if statusCode r = 404 \<and> err_kind e = Error then ''Not found''
                      else case c of Some (m, _) \<Rightarrow> m | None \<Rightarrow> ''Error: '' @ body)"
  by (simp add: RestApiClient_translateError_def Let_def rest_error_kind_def)

end
