(* ===== verification/Device_Client.thy ===== *)
theory Device_Client
  imports Error_Translation "HOL-Library.Multiset"
begin

text \<open>
  The device client of \<open>node/device/core/lib/client.js\<close>: its constructor, its state machine,
  its receiver, the renewal of its token and its public methods.

  The machine runs on the package \<open>machina\<close>. Of that package the model uses: \<open>handle\<close> runs the
  handler of the current state for an input, \<open>transition\<close> to another state runs \<open>_onExit\<close>, then
  \<open>_onEnter\<close>, and \<open>deferUntilTransition\<close> keeps an input until a transition to the named state (or
  any). When and in which order the kept inputs are handled again is left open: \<open>Replay\<close> may take
  any kept input that fits the current state, so what is proved holds for every such order.

  A call into the transport is an effect and leaves a \<open>pending\<close> entry, the continuation the
  transport calls once with its outcome. A callback that the code runs after a transition is a
  frame of \<open>todo\<close>, because kept inputs are handled inside that transition, before it.
\<close>

section \<open>State\<close>

datatype cstate = SDisconnected | SConnecting | SConnected | SDisconnecting | SUpdatingSas

text \<open>
  The callbacks the client passes around: absent, the user's function number \<open>n\<close>, and the
  closures of the source: the one of \<open>startReceiver\<close>, the one of the catch-all handler around
  the caller's callback, the one of \<open>_renewSharedAccessSignature\<close>.
\<close>

datatype callback = NoCb | UserCb nat | EmitErrorCb | ForwardErrorCb callback | RenewCb

datatype input =
    IOpen callback
  | IClose callback
  | ISendEvent message callback
  | ISendEventBatch "message list" callback
  | IUpdateSas string callback
  | IComplete message callback
  | IAbandon message callback
  | IReject message callback
  | IStartReceiver
  | IGetTwin callback jsval

datatype effect =
    TConnect
  | TDisconnect
  | TSendEvent message
  | TSendEventBatch "message list"
  | TUpdateSas string
  | TComplete message
  | TAbandon message
  | TReject message
  | TGetReceiver
  | TSetOptions jsval
  | TOnDisconnect
  | TRemoveOnDisconnect
  | ReceiverOnMessage
  | ReceiverOnMethod string nat
  | ReceiverOnError
  | ReceiverRemoveAllMessage
  | BlobUpdateSas string
  | BlobUpload jsval jsval jsval callback
  | TwinUpdateSas
  | TwinFromDeviceClient callback jsval
  | Invoked nat "js_error option" "result option"
  | EmitError js_error
  | EmitDisconnect result
  | EmitMessage message
  | EmitSasUpdated
  | Thrown js_error

text \<open>
  The three callbacks given to \<open>_closeTransport\<close>: the user's own (in \<open>connecting\<close>), and the
  wrappers of \<open>connected\<close> and \<open>updating_sas\<close>, which transition again first; the last one calls
  the user's callback without the guard.
\<close>

datatype close_mode = CloseDirect | CloseWrapped | CloseUnguarded

datatype pending =
    POpen callback
  | PClose callback close_mode
  | PSend callback
  | PSasRaw callback
  | PSas callback
  | PSasConnect callback
  | PReceiver
  | POptions callback bool

datatype frame =
    FSafe callback "js_error option" "result option"
  | FClosed callback close_mode "js_error option" "result option"

record client =
  cl_state :: cstate
  cl_deferred :: "(cstate option \<times> input) list"
  cl_pending :: "pending list"
  cl_todo :: "frame list"
  cl_receiver :: bool
  cl_listeners :: nat
  cl_ticks :: nat
  cl_methods :: "nat dict"
  cl_connectionString :: jsval
  cl_timeout :: "nat option"
  cl_armed :: "nat list"
  cl_nextTimer :: nat
  cl_blob :: bool
  cl_twin :: bool
  tr_canConnect :: bool
  tr_canDisconnect :: bool
  tr_methodResponse :: bool
  tr_setOptions :: bool

type_synonym outcome = "js_error option \<times> result option"

section \<open>Callbacks\<close>

fun invoke :: "callback \<Rightarrow> js_error option \<Rightarrow> result option \<Rightarrow> effect list" where
  "invoke NoCb err res = [Thrown (mk_error TypeError ''callback is not a function'')]"
| "invoke (UserCb n) err res = [Invoked n err res]"
| "invoke EmitErrorCb err res = (case err of Some e \<Rightarrow> [EmitError e] | None \<Rightarrow> [])"
| "invoke (ForwardErrorCb cb) err res = (case err of Some e \<Rightarrow> invoke cb (Some e) None | None \<Rightarrow> [])"
| "invoke RenewCb err res = (case err of Some e \<Rightarrow> [EmitError e] | None \<Rightarrow> [EmitSasUpdated])"

definition safeCallback :: "callback \<Rightarrow> js_error option \<Rightarrow> result option \<Rightarrow> effect list" where
  "safeCallback cb err res = (if cb = NoCb then [] else invoke cb err res)"

section \<open>Timers\<close>

text \<open>The time until a timer renews the token, in milliseconds.\<close>

definition sasRenewalInterval :: int where
  "sasRenewalInterval = 2700000"

definition arm_renewal :: "client \<Rightarrow> client" where
  "arm_renewal c = c\<lparr>cl_timeout := Some (cl_nextTimer c), cl_armed := cl_nextTimer c # cl_armed c,
     cl_nextTimer := Suc (cl_nextTimer c)\<rparr>"

definition clear_renewal :: "client \<Rightarrow> client" where
  "clear_renewal c = (case cl_timeout c of
       None \<Rightarrow> c
     | Some t \<Rightarrow> c\<lparr>cl_armed := removeAll t (cl_armed c)\<rparr>)"

section \<open>The receiver\<close>

definition client_connectReceiver :: "client \<Rightarrow> client \<times> effect list" where
  "client_connectReceiver c = (c\<lparr>cl_pending := cl_pending c @ [PReceiver]\<rparr>, [TGetReceiver])"

text \<open>The callback of \<open>getReceiver\<close>.\<close>

definition client_onReceiver :: "client \<Rightarrow> js_error option \<Rightarrow> client \<times> effect list" where
  "client_onReceiver c err = (case err of
       None \<Rightarrow> (c\<lparr>cl_receiver := True\<rparr>,
          ReceiverOnMessage # map (\<lambda>(m, cb). ReceiverOnMethod m cb) (cl_methods c) @ [ReceiverOnError])
     | Some e \<Rightarrow> (c, [Thrown (mk_error Error (''Transport failed to start receiving messages: '' @ err_message e))]))"

definition client_disconnectReceiver :: "client \<Rightarrow> client \<times> effect list" where
  "client_disconnectReceiver c =
     (if cl_receiver c then (c\<lparr>cl_receiver := False\<rparr>, [ReceiverRemoveAllMessage]) else (c, []))"

section \<open>The state machine\<close>

text \<open>\<open>_onExit\<close> and \<open>_onEnter\<close> of the state \<open>connected\<close>, and \<open>fsm.transition\<close>.\<close>

definition connected_onExit :: "client \<Rightarrow> client \<times> effect list" where
  "connected_onExit c = client_disconnectReceiver c"

definition connected_onEnter :: "client \<Rightarrow> client \<times> effect list" where
  "connected_onEnter c =
     (if \<not> cl_receiver c \<and> cl_listeners c > 0 then client_connectReceiver c else (c, []))"

definition fsm_transition :: "cstate \<Rightarrow> client \<Rightarrow> client \<times> effect list" where
  "fsm_transition s c =
     (if s = cl_state c then (c, [])
      else let (c1, e1) = (if cl_state c = SConnected then connected_onExit c else (c, []));
               c2 = c1\<lparr>cl_state := s\<rparr>;
               (c3, e3) = (if s = SConnected then connected_onEnter c2 else (c2, []))
           in (c3, e1 @ e3))"

definition defer_until :: "cstate option \<Rightarrow> input \<Rightarrow> client \<Rightarrow> client" where
  "defer_until s i c = c\<lparr>cl_deferred := cl_deferred c @ [(s, i)]\<rparr>"

definition push_frame :: "frame \<Rightarrow> client \<Rightarrow> client" where
  "push_frame f c = c\<lparr>cl_todo := f # cl_todo c\<rparr>"

definition add_pending :: "pending \<Rightarrow> client \<Rightarrow> client" where
  "add_pending p c = c\<lparr>cl_pending := cl_pending c @ [p]\<rparr>"

text \<open>\<open>onDisconnected\<close> and \<open>_closeTransport\<close>\<close>

definition closeTransport_done ::
  "client \<Rightarrow> callback \<Rightarrow> close_mode \<Rightarrow> js_error option \<Rightarrow> result option \<Rightarrow> client \<times> effect list" where
  "closeTransport_done c cb safe err res =
     (let (c1, e1) = fsm_transition SDisconnected c in (push_frame (FClosed cb safe err res) c1, e1))"

definition client_closeTransport :: "client \<Rightarrow> callback \<Rightarrow> close_mode \<Rightarrow> client \<times> effect list" where
  "client_closeTransport c cb safe =
     (let c1 = clear_renewal c in
      if tr_canDisconnect c then (add_pending (PClose cb safe) c1, [TDisconnect])
      else closeTransport_done c1 cb safe None (Some (Disconnected JUndef JUndef)))"

text \<open>\<open>transportConnectedCallback\<close> and the handler \<open>open\<close> of the state \<open>disconnected\<close>.\<close>

definition transportConnected :: "client \<Rightarrow> callback \<Rightarrow> js_error option \<Rightarrow> result option \<Rightarrow> client \<times> effect list" where
  "transportConnected c cb err res =
     (let (c1, e1) = fsm_transition (if err \<noteq> None then SDisconnected else SConnected) c
      in (push_frame (FSafe cb err res) c1, e1))"

definition disconnected_open :: "client \<Rightarrow> callback \<Rightarrow> client \<times> effect list" where
  "disconnected_open c cb =
     (let (c1, e1) = fsm_transition SConnecting c in
      if tr_canConnect c1 then (add_pending (POpen cb) c1, e1 @ [TConnect])
      else let (c2, e2) = transportConnected c1 cb None (Some (Connected JUndef)) in (c2, e1 @ e2))"

fun input_callback :: "input \<Rightarrow> callback" where
  "input_callback (IOpen cb) = cb"
| "input_callback (IClose cb) = cb"
| "input_callback (ISendEvent m cb) = cb"
| "input_callback (ISendEventBatch ms cb) = cb"
| "input_callback (IUpdateSas s cb) = cb"
| "input_callback (IComplete m cb) = cb"
| "input_callback (IAbandon m cb) = cb"
| "input_callback (IReject m cb) = cb"
| "input_callback IStartReceiver = NoCb"
| "input_callback (IGetTwin cb t) = cb"

definition disconnected_handle :: "client \<Rightarrow> input \<Rightarrow> client \<times> effect list" where
  "disconnected_handle c i = (case i of
       IOpen cb \<Rightarrow> disconnected_open c cb
     | IClose cb \<Rightarrow> (c, safeCallback cb None (Some (Disconnected JUndef JUndef)))
     | IUpdateSas sas cb \<Rightarrow> (add_pending (PSasRaw cb) c, [TUpdateSas sas])
     | IStartReceiver \<Rightarrow> disconnected_open (defer_until (Some SConnected) i c) EmitErrorCb
     | _ \<Rightarrow> disconnected_open (defer_until (Some SConnected) i c) (ForwardErrorCb (input_callback i)))"

definition connecting_handle :: "client \<Rightarrow> input \<Rightarrow> client \<times> effect list" where
  "connecting_handle c i = (case i of
       IClose cb \<Rightarrow> client_closeTransport c cb CloseDirect
     | _ \<Rightarrow> (defer_until None i c, []))"

definition connected_updateSas :: "client \<Rightarrow> string \<Rightarrow> callback \<Rightarrow> client \<times> effect list" where
  "connected_updateSas c sas cb =
     (let (c1, e1) = fsm_transition SUpdatingSas c in
      if \<not> cl_blob c1 then
        (c1, e1 @ [Thrown (mk_error TypeError ''Cannot read property updateSharedAccessSignature of undefined'')])
      else (add_pending (PSas cb) c1,
            e1 @ [BlobUpdateSas sas] @ (if cl_twin c1 then [TwinUpdateSas] else []) @ [TUpdateSas sas]))"

definition connected_close :: "client \<Rightarrow> callback \<Rightarrow> close_mode \<Rightarrow> client \<times> effect list" where
  "connected_close c cb safe =
     (let (c1, e1) = fsm_transition SDisconnecting c; (c2, e2) = client_closeTransport c1 cb safe
      in (c2, e1 @ e2))"

definition connected_handle :: "client \<Rightarrow> input \<Rightarrow> client \<times> effect list" where
  "connected_handle c i = (case i of
       IOpen cb \<Rightarrow> (c, safeCallback cb None (Some (Connected JUndef)))
     | IClose cb \<Rightarrow> connected_close c cb CloseWrapped
     | ISendEvent m cb \<Rightarrow> (add_pending (PSend cb) c, [TSendEvent m])
     | ISendEventBatch ms cb \<Rightarrow> (add_pending (PSend cb) c, [TSendEventBatch ms])
     | IUpdateSas sas cb \<Rightarrow> connected_updateSas c sas cb
     | IComplete m cb \<Rightarrow> (add_pending (PSend cb) c, [TComplete m])
     | IAbandon m cb \<Rightarrow> (add_pending (PSend cb) c, [TAbandon m])
     | IReject m cb \<Rightarrow> (add_pending (PSend cb) c, [TReject m])
     | IStartReceiver \<Rightarrow> (if cl_receiver c then (c, []) else client_connectReceiver c)
     | IGetTwin cb twin \<Rightarrow> (c, [TwinFromDeviceClient cb twin]))"

definition disconnecting_handle :: "client \<Rightarrow> input \<Rightarrow> client \<times> effect list" where
  "disconnecting_handle c i = (defer_until None i c, [])"

definition updating_sas_handle :: "client \<Rightarrow> input \<Rightarrow> client \<times> effect list" where
  "updating_sas_handle c i = (case i of
       IClose cb \<Rightarrow> connected_close c cb CloseUnguarded
     | _ \<Rightarrow> (defer_until None i c, []))"

text \<open>\<open>fsm.handle\<close>: the handler of the current state.\<close>

definition fsm_handle :: "client \<Rightarrow> input \<Rightarrow> client \<times> effect list" where
  "fsm_handle c i = (case cl_state c of
       SDisconnected \<Rightarrow> disconnected_handle c i
     | SConnecting \<Rightarrow> connecting_handle c i
     | SConnected \<Rightarrow> connected_handle c i
     | SDisconnecting \<Rightarrow> disconnecting_handle c i
     | SUpdatingSas \<Rightarrow> updating_sas_handle c i)"

section \<open>Continuations\<close>

text \<open>\<open>safeUpdateSasCallback\<close> and the callback the transport calls with the updated token.\<close>

definition safeUpdateSasCallback ::
  "client \<Rightarrow> callback \<Rightarrow> js_error option \<Rightarrow> result option \<Rightarrow> client \<times> effect list" where
  "safeUpdateSasCallback c cb err res =
     (let (c1, e1) = fsm_transition (if err \<noteq> None then SDisconnected else SConnected) c
      in (push_frame (FSafe cb err res) c1, e1))"

definition needToReconnect :: "result option \<Rightarrow> bool" where
  "needToReconnect r = (r = Some (SharedAccessSignatureUpdated True))"

definition sas_updated :: "client \<Rightarrow> callback \<Rightarrow> outcome \<Rightarrow> client \<times> effect list" where
  "sas_updated c cb out = (case out of
       (Some e, _) \<Rightarrow> safeUpdateSasCallback c cb (Some e) None
     | (None, None) \<Rightarrow> (c, [Thrown (mk_error TypeError ''Cannot read property constructor of undefined'')])
     | (None, Some r) \<Rightarrow>
         if needToReconnect (Some r) then
           (let (c1, e1) = fsm_transition SConnecting c in (add_pending (PSasConnect cb) c1, e1 @ [TConnect]))
         else safeUpdateSasCallback (arm_renewal c) cb None (Some (SharedAccessSignatureUpdated False)))"

definition sas_reconnected :: "client \<Rightarrow> callback \<Rightarrow> outcome \<Rightarrow> client \<times> effect list" where
  "sas_reconnected c cb out = (case fst out of
       Some e \<Rightarrow> safeUpdateSasCallback c cb (Some e) None
     | None \<Rightarrow> safeUpdateSasCallback (arm_renewal c) cb None (Some (SharedAccessSignatureUpdated False)))"

text \<open>The callback of \<open>setOptions\<close> in \<open>setOptions\<close> (guarded) and \<open>setTransportOptions\<close>.\<close>

definition options_set :: "callback \<Rightarrow> bool \<Rightarrow> js_error option \<Rightarrow> effect list" where
  "options_set cb guarded err =
     (if guarded then safeCallback cb err None
      else case err of Some e \<Rightarrow> invoke cb (Some e) None
                     | None \<Rightarrow> invoke cb None (Some (TransportConfigured JUndef)))"

text \<open>
  The transport calls the continuation \<open>p\<close> with an outcome. \<open>PSasRaw\<close> is the user's own callback,
  given to the transport as it is: the transports guard it on an error only.
\<close>

definition client_resume :: "client \<Rightarrow> pending \<Rightarrow> outcome \<Rightarrow> client \<times> effect list" where
  "client_resume c p out = (case p of
       POpen cb \<Rightarrow>
         (let (c1, e1) = transportConnected c cb (fst out) (snd out)
          in (c1, [TRemoveOnDisconnect, TOnDisconnect] @ e1))
     | PClose cb safe \<Rightarrow>
         (let (c1, e1) = closeTransport_done c cb safe (fst out) (snd out)
          in (c1, TRemoveOnDisconnect # e1))
     | PSend cb \<Rightarrow> (c, safeCallback cb (fst out) (snd out))
     | PSasRaw cb \<Rightarrow> (c, if fst out = None then invoke cb None (snd out) else safeCallback cb (fst out) (snd out))
     | PSas cb \<Rightarrow> sas_updated c cb out
     | PSasConnect cb \<Rightarrow> sas_reconnected c cb out
     | PReceiver \<Rightarrow> client_onReceiver c (fst out)
     | POptions cb guarded \<Rightarrow> (c, options_set cb guarded (fst out)))"

text \<open>A callback that runs after a transition and the inputs handled inside it.\<close>

definition run_frame :: "client \<Rightarrow> frame \<Rightarrow> client \<times> effect list" where
  "run_frame c f = (case f of
       FSafe cb err res \<Rightarrow> (c, safeCallback cb err res)
     | FClosed cb mode err res \<Rightarrow>
         (if mode = CloseDirect then (c, safeCallback cb err res)
          else let (c1, e1) = fsm_transition SDisconnected c
               in (c1, e1 @ (if mode = CloseWrapped then safeCallback cb err res else invoke cb err res))))"

section \<open>Construction\<close>

text \<open>
  The transport is known by what it offers: \<open>connect\<close>, \<open>disconnect\<close>, \<open>sendMethodResponse\<close> and
  \<open>setOptions\<close>; \<open>None\<close> is a falsy transport.
\<close>

type_synonym transport_caps = "bool \<times> bool \<times> bool \<times> bool"

definition client_init :: "transport_caps \<Rightarrow> jsval \<Rightarrow> bool \<Rightarrow> client" where
  "client_init caps connStr blob = (case caps of (con, dis, mr, so) \<Rightarrow>
     \<lparr>cl_state = SDisconnected, cl_deferred = [], cl_pending = [], cl_todo = [], cl_receiver = False,
      cl_listeners = 0, cl_ticks = 0, cl_methods = [], cl_connectionString = connStr,
      cl_timeout = None, cl_armed = [], cl_nextTimer = 0, cl_blob = blob, cl_twin = False,
      tr_canConnect = con, tr_canDisconnect = dis, tr_methodResponse = mr, tr_setOptions = so\<rparr>)"

definition Client :: "transport_caps option \<Rightarrow> jsval \<Rightarrow> bool \<Rightarrow> client res" where
  "Client transport connStr blob = (case transport of
       None \<Rightarrow> throw ReferenceError (''transport is '' @ [CHR 0x27] @ ''undefined'' @ [CHR 0x27])
     | Some caps \<Rightarrow>
         if falsy connStr then Inr (client_init caps connStr blob)
         else res_bind (Device_ConnectionString_parse connStr) (\<lambda>cn.
           Inr (if truthy (sget cn ''SharedAccessKey'') then arm_renewal (client_init caps connStr blob)
                else client_init caps connStr blob)))"

text \<open>The configuration given to the transport and to the blob upload client.\<close>

definition Client_config_fromConnectionString :: "hmac \<Rightarrow> int \<Rightarrow> jsval \<Rightarrow> jsval dict res" where
  "Client_config_fromConnectionString hmac now connStr =
     (if falsy connStr then throw ReferenceError (''connStr is '' @ [CHR 0x27] @ js_string connStr @ [CHR 0x27])
      else res_bind (Device_ConnectionString_parse connStr) (\<lambda>cn.
        let config = [(''host'', sget cn ''HostName''), (''deviceId'', sget cn ''DeviceId''),
                      (''hubName'', JStr (hd (js_split ''.'' (js_string (sget cn ''HostName'')))))] in
        if has_key ''SharedAccessKey'' cn then
          res_bind (Device_SAS_create hmac (sget cn ''HostName'') (sget cn ''DeviceId'')
                     (sget cn ''SharedAccessKey'') (JNum (anHourFromNow now))) (\<lambda>sas.
            Inr (dset ''sharedAccessSignature'' (JStr (SharedAccessSignature_toString sas)) config))
        else Inr config))"

definition Client_fromConnectionString ::
  "hmac \<Rightarrow> int \<Rightarrow> (jsval dict \<Rightarrow> transport_caps) \<Rightarrow> jsval \<Rightarrow> (jsval dict \<times> client) res" where
  "Client_fromConnectionString hmac now Transport connStr =
     res_bind (Client_config_fromConnectionString hmac now connStr) (\<lambda>config.
       res_bind (Client (Some (Transport config)) connStr True) (\<lambda>c. Inr (config, c)))"

definition Client_config_fromSharedAccessSignature :: "jsval \<Rightarrow> jsval dict res" where
  "Client_config_fromSharedAccessSignature sasText =
     (if falsy sasText then throw ReferenceError (''sharedAccessSignature is '' @ [CHR 0x27] @ js_string sasText @ [CHR 0x27])
      else res_bind (Device_SAS_parse sasText) (\<lambda>sas.
        case decodeURIComponent (js_string (dget sas ''sr'')) of
          None \<Rightarrow> throw URIError ''URI malformed''
        | Some decodedUri \<Rightarrow>
            (let uriSegments = js_split ''/'' decodedUri in
             Inr [(''host'', JStr (hd uriSegments)), (''deviceId'', JStr (last uriSegments)),
                  (''hubName'', JStr (hd (js_split ''.'' (hd uriSegments)))),
                  (''sharedAccessSignature'', sasText)])))"

definition Client_fromSharedAccessSignature ::
  "(jsval dict \<Rightarrow> transport_caps) \<Rightarrow> jsval \<Rightarrow> (jsval dict \<times> client) res" where
  "Client_fromSharedAccessSignature Transport sasText =
     res_bind (Client_config_fromSharedAccessSignature sasText) (\<lambda>config.
       res_bind (Client (Some (Transport config)) JNull True) (\<lambda>c. Inr (config, c)))"

section \<open>Public methods\<close>

definition Client_open :: "client \<Rightarrow> callback \<Rightarrow> client \<times> effect list" where
  "Client_open c cb = fsm_handle c (IOpen cb)"

definition Client_close :: "client \<Rightarrow> callback \<Rightarrow> client \<times> effect list" where
  "Client_close c cb = fsm_handle c (IClose cb)"

definition Client_sendEvent :: "client \<Rightarrow> message \<Rightarrow> callback \<Rightarrow> client \<times> effect list" where
  "Client_sendEvent c m cb = fsm_handle c (ISendEvent m cb)"

definition Client_sendEventBatch :: "client \<Rightarrow> message list \<Rightarrow> callback \<Rightarrow> client \<times> effect list" where
  "Client_sendEventBatch c ms cb = fsm_handle c (ISendEventBatch ms cb)"

definition Client_updateSharedAccessSignature ::
  "client \<Rightarrow> string \<Rightarrow> callback \<Rightarrow> (client \<times> effect list) res" where
  "Client_updateSharedAccessSignature c sas cb =
     (if sas = [] then throw ReferenceError ''sharedAccessSignature is falsy''
      else Inr (fsm_handle c (IUpdateSas sas cb)))"

definition message_guard :: "message option \<Rightarrow> (message \<Rightarrow> 'a) \<Rightarrow> 'a res" where
  "message_guard m f = (case m of
       None \<Rightarrow> throw ReferenceError (''message is '' @ [CHR 0x27] @ ''undefined'' @ [CHR 0x27])
     | Some x \<Rightarrow> Inr (f x))"

definition Client_complete :: "client \<Rightarrow> message option \<Rightarrow> callback \<Rightarrow> (client \<times> effect list) res" where
  "Client_complete c m cb = message_guard m (\<lambda>x. fsm_handle c (IComplete x cb))"

definition Client_reject :: "client \<Rightarrow> message option \<Rightarrow> callback \<Rightarrow> (client \<times> effect list) res" where
  "Client_reject c m cb = message_guard m (\<lambda>x. fsm_handle c (IReject x cb))"

definition Client_abandon :: "client \<Rightarrow> message option \<Rightarrow> callback \<Rightarrow> (client \<times> effect list) res" where
  "Client_abandon c m cb = message_guard m (\<lambda>x. fsm_handle c (IAbandon x cb))"

definition Client_getTwin :: "client \<Rightarrow> callback \<Rightarrow> jsval \<Rightarrow> client \<times> effect list" where
  "Client_getTwin c cb twin = fsm_handle c (IGetTwin cb twin)"

definition Client_setTransportOptions :: "client \<Rightarrow> jsval \<Rightarrow> callback \<Rightarrow> (client \<times> effect list) res" where
  "Client_setTransportOptions c options cb =
     (if falsy options then throw ReferenceError ''options cannot be falsy.''
      else if \<not> tr_setOptions c then throw NotImplementedError ''setOptions does not exist on this transport''
      else Inr (add_pending (POptions cb False) c,
                [TSetOptions (JObj [(''http'', JObj [(''receivePolicy'', options)])])]))"

definition Client_setOptions :: "client \<Rightarrow> jsval \<Rightarrow> callback \<Rightarrow> (client \<times> effect list) res" where
  "Client_setOptions c options cb =
     (if falsy options then throw ReferenceError ''options cannot be falsy.''
      else if \<not> tr_setOptions c then throw TypeError ''this._transport.setOptions is not a function''
      else Inr (add_pending (POptions cb True) c, [TSetOptions options]))"

definition Client_uploadToBlob ::
  "client \<Rightarrow> jsval \<Rightarrow> jsval \<Rightarrow> jsval \<Rightarrow> callback \<Rightarrow> (client \<times> effect list) res" where
  "Client_uploadToBlob c blobName stream streamLength cb =
     (if falsy blobName then throw ReferenceError (''blobName cannot be '' @ [CHR 0x27] @ js_string blobName @ [CHR 0x27])
      else if falsy stream then throw ReferenceError (''stream cannot be '' @ [CHR 0x27] @ js_string stream @ [CHR 0x27])
      else if falsy streamLength
      then throw ReferenceError (''streamLength cannot be '' @ [CHR 0x27] @ js_string streamLength @ [CHR 0x27])
      else if \<not> cl_blob c then throw TypeError ''Cannot read property uploadToBlob of undefined''
      else Inr (c, [BlobUpload blobName stream streamLength cb]))"

text \<open>The events \<open>newListener\<close> and \<open>removeListener\<close> for listeners of \<open>message\<close>, and the tick.\<close>

definition client_onMessage :: "client \<Rightarrow> client" where
  "client_onMessage c = c\<lparr>cl_listeners := Suc (cl_listeners c), cl_ticks := Suc (cl_ticks c)\<rparr>"

definition client_removeMessageListener :: "client \<Rightarrow> client \<times> effect list" where
  "client_removeMessageListener c =
     (if cl_listeners c = 0 then (c, [])
      else let c1 = c\<lparr>cl_listeners := cl_listeners c - 1\<rparr>
           in if cl_receiver c1 \<and> cl_listeners c1 = 0 then client_disconnectReceiver c1 else (c1, []))"

definition client_tick :: "client \<Rightarrow> client \<times> effect list" where
  "client_tick c = fsm_handle (c\<lparr>cl_ticks := cl_ticks c - 1\<rparr>) IStartReceiver"

definition client_disconnectHandler :: "client \<Rightarrow> jsval \<Rightarrow> client \<times> effect list" where
  "client_disconnectHandler c err =
     (let (c1, e1) = fsm_transition SDisconnected c in (c1, e1 @ [EmitDisconnect (Disconnected err JUndef)]))"

text \<open>
  The names a plain object inherits: reading one of them from the empty map of method callbacks
  gives a truthy value.
\<close>

definition object_prototype :: "string list" where
  "object_prototype = [''constructor'', ''toString'', ''toLocaleString'', ''valueOf'', ''hasOwnProperty'',
     ''isPrototypeOf'', ''propertyIsEnumerable'', ''__defineGetter__'', ''__defineSetter__'',
     ''__lookupGetter__'', ''__lookupSetter__'', ''__proto__'']"

definition validateDeviceMethodInputs :: "client \<Rightarrow> jsval \<Rightarrow> jsval \<Rightarrow> (string \<times> nat) res" where
  "validateDeviceMethodInputs c methodName callback =
     (if falsy methodName
      then throw ReferenceError (''methodName cannot be '' @ [CHR 0x27] @ js_string methodName @ [CHR 0x27])
      else case methodName of
        JStr name \<Rightarrow>
          if falsy callback
          then throw ReferenceError (''callback cannot be '' @ [CHR 0x27] @ js_string callback @ [CHR 0x27])
          else (case callback of
              JFun f \<Rightarrow>
                if \<not> tr_methodResponse c
                then throw Error ''The transport for this client does not support device methods''
                else if has_key name (cl_methods c) \<or> name \<in> set object_prototype
                then throw Error ''A handler for this method has already been registered with the client.''
                else Inr (name, f)
            | _ \<Rightarrow> throw TypeError (''callback'' @ [CHR 0x27] @ ''s type is '' @ [CHR 0x27] @ js_typeof callback
                     @ [CHR 0x27] @ ''. A function reference was expected.''))
      | _ \<Rightarrow> throw TypeError (''methodName'' @ [CHR 0x27] @ ''s type is '' @ [CHR 0x27] @ js_typeof methodName
               @ [CHR 0x27] @ ''. A string was expected.''))"

definition Client_onDeviceMethod :: "client \<Rightarrow> jsval \<Rightarrow> jsval \<Rightarrow> (client \<times> effect list) res" where
  "Client_onDeviceMethod c methodName callback =
     res_bind (validateDeviceMethodInputs c methodName callback) (\<lambda>(name, f).
       let c1 = c\<lparr>cl_methods := dset name f (cl_methods c)\<rparr>
       in Inr (if cl_receiver c1 then (c1, [ReceiverOnMethod name f]) else client_connectReceiver c1))"

text \<open>\<open>_renewSharedAccessSignature\<close>, the timer's callback.\<close>

definition client_renewSas :: "hmac \<Rightarrow> int \<Rightarrow> client \<Rightarrow> (client \<times> effect list) res" where
  "client_renewSas hmac now c =
     res_bind (Device_ConnectionString_parse (cl_connectionString c)) (\<lambda>cn.
       res_bind (Device_SAS_create hmac (sget cn ''HostName'') (sget cn ''DeviceId'')
                  (sget cn ''SharedAccessKey'') (JNum (anHourFromNow now))) (\<lambda>sas.
         Client_updateSharedAccessSignature c (SharedAccessSignature_toString sas) RenewCb))"

section \<open>Executions\<close>

text \<open>
  A label tells which input the application (or a timer) submitted. Applications, timers and the
  transport run only when no frame is left; kept inputs may be handled at any time.
\<close>

datatype label = Submit input | Internal

inductive client_step :: "client \<Rightarrow> label \<Rightarrow> effect list \<Rightarrow> client \<Rightarrow> bool" where
  step_submit: "cl_todo c = [] \<Longrightarrow> fsm_handle c i = (c', es) \<Longrightarrow> client_step c (Submit i) es c'"
| step_replay: "k < length (cl_deferred c) \<Longrightarrow> cl_deferred c ! k = (u, i) \<Longrightarrow>
    u = None \<or> u = Some (cl_state c) \<Longrightarrow>
    fsm_handle (c\<lparr>cl_deferred := drop_nth k (cl_deferred c)\<rparr>) i = (c', es) \<Longrightarrow>
    client_step c Internal es c'"
| step_frame: "cl_todo c = f # fs \<Longrightarrow> run_frame (c\<lparr>cl_todo := fs\<rparr>) f = (c', es) \<Longrightarrow>
    client_step c Internal es c'"
| step_resume: "cl_todo c = [] \<Longrightarrow> k < length (cl_pending c) \<Longrightarrow>
    client_resume (c\<lparr>cl_pending := drop_nth k (cl_pending c)\<rparr>) (cl_pending c ! k) out = (c', es) \<Longrightarrow>
    client_step c Internal es c'"
| step_listen: "cl_todo c = [] \<Longrightarrow> client_step c Internal [] (client_onMessage c)"
| step_unlisten: "cl_todo c = [] \<Longrightarrow> client_removeMessageListener c = (c', es) \<Longrightarrow>
    client_step c Internal es c'"
| step_tick: "cl_todo c = [] \<Longrightarrow> cl_ticks c > 0 \<Longrightarrow> client_tick c = (c', es) \<Longrightarrow>
    client_step c (Submit IStartReceiver) es c'"
| step_disconnect: "cl_todo c = [] \<Longrightarrow> client_disconnectHandler c err = (c', es) \<Longrightarrow>
    client_step c Internal es c'"
| step_method: "cl_todo c = [] \<Longrightarrow> Client_onDeviceMethod c name f = Inr (c', es) \<Longrightarrow>
    client_step c Internal es c'"
| step_timer: "cl_todo c = [] \<Longrightarrow> t \<in> set (cl_armed c) \<Longrightarrow>
    fsm_handle (c\<lparr>cl_armed := removeAll t (cl_armed c)\<rparr>) (IUpdateSas sas RenewCb) = (c', es) \<Longrightarrow>
    client_step c (Submit (IUpdateSas sas RenewCb)) es c'"

inductive client_run :: "client \<Rightarrow> label list \<Rightarrow> effect list \<Rightarrow> client \<Rightarrow> bool" where
  run_refl: "client_run c [] [] c"
| run_step: "client_run c ls es c' \<Longrightarrow> client_step c' l es' c'' \<Longrightarrow> client_run c (ls @ [l]) (es @ es') c''"

inductive_cases run_refl_elim: "client_run c [] es c'"

section \<open>Data operations\<close>

text \<open>The inputs that ask for a data operation, and the transport call each of them is for.\<close>

fun data_request :: "input \<Rightarrow> effect option" where
  "data_request (ISendEvent m cb) = Some (TSendEvent m)"
| "data_request (ISendEventBatch ms cb) = Some (TSendEventBatch ms)"
| "data_request (IComplete m cb) = Some (TComplete m)"
| "data_request (IAbandon m cb) = Some (TAbandon m)"
| "data_request (IReject m cb) = Some (TReject m)"
| "data_request _ = None"

fun is_data :: "effect \<Rightarrow> bool" where
  "is_data (TSendEvent m) = True"
| "is_data (TSendEventBatch ms) = True"
| "is_data (TComplete m) = True"
| "is_data (TAbandon m) = True"
| "is_data (TReject m) = True"
| "is_data _ = False"

definition requests :: "input list \<Rightarrow> effect multiset" where
  "requests is = mset (List.map_filter data_request is)"

definition kept :: "client \<Rightarrow> effect multiset" where
  "kept c = requests (map snd (cl_deferred c))"

definition done_data :: "effect list \<Rightarrow> effect multiset" where
  "done_data es = mset (filter is_data es)"

fun submitted :: "label list \<Rightarrow> input list" where
  "submitted [] = []"
| "submitted (Submit i # ls) = i # submitted ls"
| "submitted (Internal # ls) = submitted ls"

lemma submitted_append [simp]: "submitted (ls @ ls') = submitted ls @ submitted ls'"
  by (induction ls rule: submitted.induct) auto

lemma requests_simps [simp]:
  "requests [] = {#}"
  "requests (is @ js) = requests is + requests js"
  "requests (i # is) = (case data_request i of None \<Rightarrow> {#} | Some e \<Rightarrow> {#e#}) + requests is"
  by (auto simp: requests_def map_filter_simps List.map_filter_def split: option.splits)

lemma done_data_simps [simp]:
  "done_data [] = {#}"
  "done_data (es @ fs) = done_data es + done_data fs"
  "done_data (e # es) = (if is_data e then {#e#} else {#}) + done_data es"
  by (auto simp: done_data_def)

text \<open>A computation that neither touches the kept inputs nor calls a data operation.\<close>

definition quiet :: "client \<Rightarrow> client \<times> effect list \<Rightarrow> bool" where
  "quiet c r \<longleftrightarrow> cl_deferred (fst r) = cl_deferred c \<and> done_data (snd r) = {#}"

named_theorems quiet_rules \<open>computations without a data operation\<close>

lemma done_data_invoke [simp]: "done_data (invoke cb err res) = {#}"
  by (induction cb err res rule: invoke.induct) (auto split: option.splits)

lemma done_data_safeCallback [simp]: "done_data (safeCallback cb err res) = {#}"
  by (simp add: safeCallback_def)

lemma done_data_methods [simp]: "done_data (map (\<lambda>(m, cb). ReceiverOnMethod m cb) ms) = {#}"
  by (induction ms) auto

lemma deferred_simps [simp]:
  "cl_deferred (arm_renewal c) = cl_deferred c" "cl_deferred (clear_renewal c) = cl_deferred c"
  "cl_deferred (push_frame f c) = cl_deferred c" "cl_deferred (add_pending p c) = cl_deferred c"
  "cl_deferred (defer_until s i c) = cl_deferred c @ [(s, i)]"
  by (simp_all add: arm_renewal_def clear_renewal_def push_frame_def add_pending_def defer_until_def
      split: option.splits)

lemma quiet_connectReceiver [quiet_rules]: "quiet c (client_connectReceiver c)"
  and quiet_onReceiver [quiet_rules]: "quiet c (client_onReceiver c e)"
  and quiet_disconnectReceiver [quiet_rules]: "quiet c (client_disconnectReceiver c)"
  by (auto simp: quiet_def client_connectReceiver_def client_onReceiver_def client_disconnectReceiver_def
      split: option.splits)

lemma quiet_transition [quiet_rules]: "quiet c (fsm_transition s c)"
  by (auto simp: quiet_def fsm_transition_def connected_onExit_def connected_onEnter_def
      client_connectReceiver_def client_disconnectReceiver_def Let_def split: prod.splits if_splits)

lemma quiet_transition_simps [simp]:
  "cl_deferred (fst (fsm_transition s c)) = cl_deferred c" "done_data (snd (fsm_transition s c)) = {#}"
  using quiet_transition [of c s] by (simp_all add: quiet_def)

lemmas quiet_defs = quiet_def case_prod_beta Let_def

lemma quiet_closeTransport_done [quiet_rules]: "quiet c (closeTransport_done c cb m e r)"
  by (simp add: closeTransport_done_def quiet_defs)

lemma quiet_closeTransport [quiet_rules]: "quiet c (client_closeTransport c cb m)"
  using quiet_closeTransport_done [of "clear_renewal c" cb m]
  by (simp add: client_closeTransport_def quiet_defs)

lemma quiet_connected_close [quiet_rules]: "quiet c (connected_close c cb m)"
  using quiet_closeTransport [of "fst (fsm_transition SDisconnecting c)" cb m]
  by (simp add: connected_close_def quiet_defs)

lemma quiet_transportConnected [quiet_rules]: "quiet c (transportConnected c cb e r)"
  by (simp add: transportConnected_def quiet_defs)

lemma quiet_disconnected_open [quiet_rules]: "quiet c (disconnected_open c cb)"
  using quiet_transportConnected [of "fst (fsm_transition SConnecting c)" cb]
  by (simp add: disconnected_open_def quiet_defs)

lemma quiet_connected_updateSas [quiet_rules]: "quiet c (connected_updateSas c sas cb)"
  by (simp add: connected_updateSas_def quiet_defs)

lemma quiet_safeUpdateSasCallback [quiet_rules]: "quiet c (safeUpdateSasCallback c cb e r)"
  by (simp add: safeUpdateSasCallback_def quiet_defs)

lemma quiet_sas_updated [quiet_rules]: "quiet c (sas_updated c cb out)"
  using quiet_safeUpdateSasCallback [of "arm_renewal c" cb] quiet_safeUpdateSasCallback [of c cb]
  by (cases out) (simp add: sas_updated_def quiet_defs split: option.split)

lemma quiet_sas_reconnected [quiet_rules]: "quiet c (sas_reconnected c cb out)"
  using quiet_safeUpdateSasCallback [of "arm_renewal c" cb] quiet_safeUpdateSasCallback [of c cb]
  by (simp add: sas_reconnected_def quiet_defs split: option.split)

lemma quiet_resume [quiet_rules]: "quiet c (client_resume c p out)"
  using quiet_rules
  by (cases p) (simp_all add: client_resume_def options_set_def quiet_defs split: option.split)

lemma quiet_run_frame [quiet_rules]: "quiet c (run_frame c f)"
  by (cases f) (simp_all add: run_frame_def quiet_defs)

lemma quiet_removeMessageListener [quiet_rules]: "quiet c (client_removeMessageListener c)"
  by (simp add: client_removeMessageListener_def client_disconnectReceiver_def quiet_defs)

lemma quiet_disconnectHandler [quiet_rules]: "quiet c (client_disconnectHandler c e)"
  by (simp add: client_disconnectHandler_def quiet_defs)

lemma quiet_onDeviceMethod: "Client_onDeviceMethod c n f = Inr r \<Longrightarrow> quiet c r"
  by (auto simp: Client_onDeviceMethod_def client_connectReceiver_def quiet_defs res_bind_Inr_iff split: if_splits)

text \<open>Handling an input performs its data operation or keeps the input, and changes nothing else.\<close>

definition balanced :: "client \<Rightarrow> input \<Rightarrow> client \<times> effect list \<Rightarrow> bool" where
  "balanced c i r \<longleftrightarrow> kept (fst r) + done_data (snd r) = kept c + requests [i]"

lemma balanced_quiet: "quiet c r \<Longrightarrow> data_request i = None \<Longrightarrow> balanced c i r"
  by (simp add: balanced_def quiet_def kept_def)

lemma balanced_deferred_open: "balanced c i (disconnected_open (defer_until s i c) cb)"
  using quiet_disconnected_open [of "defer_until s i c" cb] by (simp add: balanced_def quiet_def kept_def)

lemma balanced_defer: "balanced c i (defer_until s i c, [])"
  by (simp add: balanced_def kept_def)

lemma quiet_trivial: "done_data es = {#} \<Longrightarrow> quiet c (c, es)" "done_data es = {#} \<Longrightarrow> quiet c (add_pending p c, es)"
  by (simp_all add: quiet_def)

lemma balanced_disconnected: "balanced c i (disconnected_handle c i)"
  by (cases i) (simp_all add: disconnected_handle_def balanced_deferred_open balanced_quiet quiet_rules quiet_trivial)

lemma balanced_connecting: "balanced c i (connecting_handle c i)"
  by (cases i) (simp_all add: connecting_handle_def balanced_defer balanced_quiet quiet_rules)

lemma balanced_connected: "balanced c i (connected_handle c i)"
proof (cases i)
  case IStartReceiver
  then show ?thesis
    using quiet_connectReceiver [of c] by (simp add: connected_handle_def balanced_quiet quiet_trivial)
qed (simp_all add: connected_handle_def balanced_quiet quiet_rules quiet_trivial,
     simp_all add: balanced_def kept_def)

lemma balanced_updating: "balanced c i (updating_sas_handle c i)"
  by (cases i) (simp_all add: updating_sas_handle_def balanced_defer balanced_quiet quiet_rules)

lemma balanced_handle: "balanced c i (fsm_handle c i)"
  by (simp add: fsm_handle_def disconnecting_handle_def balanced_defer balanced_disconnected
      balanced_connecting balanced_connected balanced_updating split: cstate.split)

section \<open>Conservation of data operations\<close>

lemma kept_drop_nth:
  assumes "k < length (cl_deferred c)" and "cl_deferred c ! k = (u, i)"
  shows "kept (c\<lparr>cl_deferred := drop_nth k (cl_deferred c)\<rparr>) + requests [i] = kept c"
proof -
  have "cl_deferred c = take k (cl_deferred c) @ (u, i) # drop (Suc k) (cl_deferred c)"
    using id_take_nth_drop [OF assms(1)] assms(2) by simp
  then have "kept c = requests (map snd (take k (cl_deferred c) @ (u, i) # drop (Suc k) (cl_deferred c)))"
    by (simp only: kept_def)
  then show ?thesis by (simp add: kept_def drop_nth_def)
qed

lemma kept_cong: "cl_deferred c = cl_deferred d \<Longrightarrow> kept c = kept d"
  by (simp add: kept_def)

lemma quiet_balance: "quiet c (c', es) \<Longrightarrow> kept c' + done_data es = kept c"
  by (simp add: quiet_def kept_def)

lemma quiet_same: "quiet (c\<lparr>cl_todo := fs\<rparr>) r \<longleftrightarrow> quiet c r" "quiet (c\<lparr>cl_pending := ps\<rparr>) r \<longleftrightarrow> quiet c r"
  by (simp_all add: quiet_def)

lemma step_balance:
  "client_step c l es c' \<Longrightarrow> kept c' + done_data es = kept c + requests (submitted [l])"
proof (induction rule: client_step.induct)
  case (step_submit c i c' es)
  then show ?case using balanced_handle [of c i] by (simp add: balanced_def)
next
  case (step_replay k c u i c' es)
  then show ?case
    using balanced_handle [of "c\<lparr>cl_deferred := drop_nth k (cl_deferred c)\<rparr>" i] kept_drop_nth [of k c u i]
    by (simp add: balanced_def)
next
  case (step_frame c f fs c' es)
  then show ?case
    using quiet_run_frame [of "c\<lparr>cl_todo := fs\<rparr>" f] by (simp add: quiet_same quiet_balance)
next
  case (step_resume c k out c' es)
  then show ?case
    using quiet_resume [of "c\<lparr>cl_pending := drop_nth k (cl_pending c)\<rparr>" "cl_pending c ! k" out]
    by (simp add: quiet_same quiet_balance)
next
  case (step_listen c)
  then show ?case by (simp add: client_onMessage_def kept_def)
next
  case (step_unlisten c c' es)
  then show ?case using quiet_removeMessageListener [of c] by (simp add: quiet_balance)
next
  case (step_tick c c' es)
  then show ?case
    using balanced_handle [of "c\<lparr>cl_ticks := cl_ticks c - 1\<rparr>" IStartReceiver]
    by (simp add: balanced_def client_tick_def kept_def)
next
  case (step_disconnect c err c' es)
  then show ?case using quiet_disconnectHandler [of c err] by (simp add: quiet_balance)
next
  case (step_method c name f c' es)
  then show ?case using quiet_onDeviceMethod by (force simp: quiet_balance)
next
  case (step_timer c t sas c' es)
  then show ?case
    using balanced_handle [of "c\<lparr>cl_armed := removeAll t (cl_armed c)\<rparr>" "IUpdateSas sas RenewCb"]
    by (simp add: balanced_def kept_def)
qed

lemma run_balance:
  "client_run c ls es c' \<Longrightarrow> kept c' + done_data es = kept c + requests (submitted ls)"
proof (induction rule: client_run.induct)
  case (run_refl c)
  then show ?case by simp
next
  case (run_step c ls es c' l es' c'')
  then have "kept c'' + (done_data es + done_data es') = kept c + requests (submitted ls) + requests (submitted [l])"
    using step_balance [OF run_step(2)] by (metis add.assoc add.commute)
  then show ?case by simp
qed

text \<open>Data operations are called in the state \<open>connected\<close> only.\<close>

lemma quiet_no_data: "quiet c (c', es) \<Longrightarrow> e \<in> set es \<Longrightarrow> \<not> is_data e"
  by (auto simp: quiet_def done_data_def filter_empty_conv)

lemma handle_data_connected:
  assumes "fsm_handle c i = (c', es)" and "e \<in> set es" and "is_data e"
  shows "cl_state c = SConnected"
proof (rule ccontr)
  assume n: "cl_state c \<noteq> SConnected"
  have "quiet (defer_until s i c) (disconnected_open (defer_until s i c) cb)" for s cb
    by (rule quiet_disconnected_open)
  with n assms(1) have "done_data es = {#}"
    using quiet_closeTransport [of c] quiet_connected_close [of c] quiet_disconnected_open [of c]
    by (cases i; cases "cl_state c")
      (auto simp: fsm_handle_def disconnected_handle_def connecting_handle_def disconnecting_handle_def
        updating_sas_handle_def quiet_def dest!: arg_cong [of _ _ snd])
  with assms(2,3) show False by (auto simp: done_data_def filter_empty_conv)
qed

lemma step_data_connected:
  "client_step c l es c' \<Longrightarrow> e \<in> set es \<Longrightarrow> is_data e \<Longrightarrow> cl_state c = SConnected"
proof (induction rule: client_step.induct)
  case (step_submit c i c' es)
  then show ?case using handle_data_connected by blast
next
  case (step_replay k c u i c' es)
  then show ?case
    using handle_data_connected [of "c\<lparr>cl_deferred := drop_nth k (cl_deferred c)\<rparr>" i c' es e] by simp
next
  case (step_frame c f fs c' es)
  then show ?case
    using quiet_run_frame [of "c\<lparr>cl_todo := fs\<rparr>" f] quiet_no_data by (metis quiet_same(1))
next
  case (step_resume c k out c' es)
  then show ?case
    using quiet_resume [of "c\<lparr>cl_pending := drop_nth k (cl_pending c)\<rparr>" "cl_pending c ! k" out]
      quiet_no_data by (metis quiet_same(2))
next
  case (step_unlisten c c' es)
  then show ?case using quiet_removeMessageListener [of c] quiet_no_data by metis
next
  case (step_tick c c' es)
  then show ?case
    using handle_data_connected [of "c\<lparr>cl_ticks := cl_ticks c - 1\<rparr>" IStartReceiver c' es e]
    by (simp add: client_tick_def)
next
  case (step_disconnect c err c' es)
  then show ?case using quiet_disconnectHandler [of c err] quiet_no_data by metis
next
  case (step_method c name f c' es)
  then show ?case using quiet_onDeviceMethod quiet_no_data by blast
next
  case (step_timer c t sas c' es)
  then show ?case
    using handle_data_connected [of "c\<lparr>cl_armed := removeAll t (cl_armed c)\<rparr>" _ c' es e] by simp
qed simp

section \<open>Properties\<close>

text \<open>C1: whatever the application, the timers, the transport and the order in which kept inputs are
  handled again do, every request for a data operation (event, batch, complete, abandon, reject)
  submitted to a fresh client is either still kept by it or was passed to the transport, each
  exactly as often as it was submitted: no request is lost, none is doubled and none is invented.\<close>

theorem client_conserves_requests:
  assumes "client_run (client_init caps connStr blob) ls es c"
  shows "kept c + done_data es = requests (submitted ls)"
proof -
  have "kept (client_init caps connStr blob) = {#}" by (cases caps) (simp add: client_init_def kept_def)
  with run_balance [OF assms] show ?thesis by simp
qed

text \<open>C2: in every execution the transport is asked to send or to settle a message only in a step that
  starts in the state \<open>connected\<close>.\<close>

theorem client_data_only_connected:
  assumes "client_step c l es c'" and "e \<in> set es" and "is_data e"
  shows "cl_state c = SConnected"
  using assms by (rule step_data_connected)

abbreviation hub :: client where
  "hub \<equiv> client_init (True, True, True, True) JNull True"

lemma hub_send:
  "client_run hub [Submit (ISendEvent m cb)] [TConnect]
     (hub\<lparr>cl_state := SConnecting, cl_deferred := [(Some SConnected, ISendEvent m cb)],
          cl_pending := [POpen (ForwardErrorCb cb)]\<rparr>)"
  using run_step [OF run_refl step_submit, of hub "ISendEvent m cb"]
  by (simp add: client_init_def fsm_handle_def disconnected_handle_def disconnected_open_def defer_until_def
      add_pending_def fsm_transition_def Let_def)

theorem client_conserves_requests_witness:
  "\<exists>c. client_run hub [Submit (ISendEvent (Message (JStr ''x'')) NoCb)] [TConnect] c
     \<and> kept c = {#TSendEvent (Message (JStr ''x''))#}"
  using hub_send [of "Message (JStr ''x'')" NoCb]
    client_conserves_requests [of "(True, True, True, True)" JNull True
      "[Submit (ISendEvent (Message (JStr ''x'')) NoCb)]" "[TConnect]"]
  by (auto intro!: exI)

theorem client_data_only_connected_witness:
  "cl_state (hub\<lparr>cl_state := SConnected\<rparr>) = SConnected
   \<and> client_step (hub\<lparr>cl_state := SConnected\<rparr>) (Submit (ISendEvent (Message JNull) NoCb))
       [TSendEvent (Message JNull)] (hub\<lparr>cl_state := SConnected, cl_pending := [PSend NoCb]\<rparr>)"
proof -
  have s: "client_step (hub\<lparr>cl_state := SConnected\<rparr>) (Submit (ISendEvent (Message JNull) NoCb))
       [TSendEvent (Message JNull)] (hub\<lparr>cl_state := SConnected, cl_pending := [PSend NoCb]\<rparr>)"
    by (rule step_submit) (simp_all add: client_init_def fsm_handle_def connected_handle_def add_pending_def)
  then show ?thesis using client_data_only_connected [OF s] by simp
qed

lemma transition_state [simp]: "cl_state (fst (fsm_transition s c)) = s"
  by (auto simp: fsm_transition_def connected_onExit_def connected_onEnter_def client_connectReceiver_def
      client_disconnectReceiver_def Let_def split: prod.splits if_splits)

lemma transition_frames [simp]: "cl_todo (fst (fsm_transition s c)) = cl_todo c"
  by (auto simp: fsm_transition_def connected_onExit_def connected_onEnter_def client_connectReceiver_def
      client_disconnectReceiver_def Let_def split: prod.splits if_splits)

lemma transition_caps [simp]:
  "tr_canConnect (fst (fsm_transition s c)) = tr_canConnect c"
  "tr_canDisconnect (fst (fsm_transition s c)) = tr_canDisconnect c"
  "cl_blob (fst (fsm_transition s c)) = cl_blob c" "cl_twin (fst (fsm_transition s c)) = cl_twin c"
  by (auto simp: fsm_transition_def connected_onExit_def connected_onEnter_def client_connectReceiver_def
      client_disconnectReceiver_def Let_def split: prod.splits if_splits)

lemma state_simps [simp]:
  "cl_state (arm_renewal c) = cl_state c" "cl_state (clear_renewal c) = cl_state c"
  "cl_state (push_frame f c) = cl_state c" "cl_state (add_pending p c) = cl_state c"
  "cl_state (defer_until s i c) = cl_state c" "cl_todo (push_frame f c) = f # cl_todo c"
  "cl_todo (arm_renewal c) = cl_todo c" "cl_todo (clear_renewal c) = cl_todo c"
  "cl_todo (add_pending p c) = cl_todo c" "tr_canDisconnect (clear_renewal c) = tr_canDisconnect c"
  by (simp_all add: arm_renewal_def clear_renewal_def push_frame_def add_pending_def defer_until_def
      split: option.splits)

lemma add_pending_simps [simp]:
  "cl_pending (add_pending p c) = cl_pending c @ [p]" "cl_receiver (add_pending p c) = cl_receiver c"
  by (simp_all add: add_pending_def)

lemma transition_same [simp]: "cl_state c = s \<Longrightarrow> fsm_transition s c = (c, [])"
  by (simp add: fsm_transition_def)

text \<open>C11: renewing the token of a connected client: the blob client, the twin and the transport get the
  new token in this order; an error of the update or of the reconnection leaves the machine
  disconnected, success leaves it connected, and in each case the user's callback runs exactly
  once, with that error or with a \<open>SharedAccessSignatureUpdated\<close> result.\<close>

theorem client_sas_update_cycle:
  assumes "cl_state c = SConnected" and "cl_blob c" and "Client_updateSharedAccessSignature c sas cb = Inr (c1, es)"
  shows "cl_state c1 = SUpdatingSas \<and> last (cl_pending c1) = PSas cb
    \<and> filter (\<lambda>e. e \<in> {BlobUpdateSas sas, TwinUpdateSas, TUpdateSas sas}) es
      = BlobUpdateSas sas # (if cl_twin c then [TwinUpdateSas] else []) @ [TUpdateSas sas]
    \<and> (\<forall>e r d. cl_state d = SUpdatingSas \<longrightarrow>
         (let d1 = fst (client_resume d (PSas cb) (Some e, r)) in
            cl_state d1 = SDisconnected \<and> cl_todo d1 = FSafe cb (Some e) None # cl_todo d)
         \<and> (let d1 = fst (client_resume d (PSas cb) (None, Some (SharedAccessSignatureUpdated False))) in
            cl_state d1 = SConnected
            \<and> cl_todo d1 = FSafe cb None (Some (SharedAccessSignatureUpdated False)) # cl_todo d)
         \<and> (let (d1, es1) = client_resume d (PSas cb) (None, Some (SharedAccessSignatureUpdated True));
                d2 = fst (client_resume d1 (PSasConnect cb) (Some e, r));
                d3 = fst (client_resume d1 (PSasConnect cb) (None, r)) in
            cl_state d1 = SConnecting \<and> cl_todo d1 = cl_todo d \<and> last es1 = TConnect
            \<and> last (cl_pending d1) = PSasConnect cb
            \<and> cl_state d2 = SDisconnected \<and> cl_todo d2 = FSafe cb (Some e) None # cl_todo d
            \<and> cl_state d3 = SConnected
            \<and> cl_todo d3 = FSafe cb None (Some (SharedAccessSignatureUpdated False)) # cl_todo d))"
proof -
  have "connected_updateSas c sas cb = (c1, es)"
    using assms(1,3) by (auto simp: Client_updateSharedAccessSignature_def fsm_handle_def connected_handle_def
        split: if_splits)
  with assms(2) have c1: "c1 = add_pending (PSas cb) (fst (fsm_transition SUpdatingSas c))"
    and es: "es = snd (fsm_transition SUpdatingSas c) @ [BlobUpdateSas sas]
        @ (if cl_twin c then [TwinUpdateSas] else []) @ [TUpdateSas sas]"
    by (auto simp: connected_updateSas_def case_prod_beta Let_def)
  have "filter (\<lambda>e. e \<in> {BlobUpdateSas sas, TwinUpdateSas, TUpdateSas sas}) (snd (fsm_transition SUpdatingSas c)) = []"
    using assms(1) by (simp add: fsm_transition_def connected_onExit_def client_disconnectReceiver_def)
  then show ?thesis
    by (simp add: c1 es client_resume_def sas_updated_def sas_reconnected_def safeUpdateSasCallback_def
        needToReconnect_def case_prod_beta Let_def)
qed

theorem client_sas_update_cycle_witness:
  "cl_state (fst (fsm_handle (hub\<lparr>cl_state := SConnected\<rparr>) (IUpdateSas ''s'' NoCb))) = SUpdatingSas"
proof -
  let ?c = "hub\<lparr>cl_state := SConnected\<rparr>"
  obtain c1 es where h: "fsm_handle ?c (IUpdateSas ''s'' NoCb) = (c1, es)" by fastforce
  then have "Client_updateSharedAccessSignature ?c ''s'' NoCb = Inr (c1, es)"
    by (simp add: Client_updateSharedAccessSignature_def)
  then have "cl_state c1 = SUpdatingSas"
    using client_sas_update_cycle [of ?c "''s''" NoCb c1 es] by (simp add: client_init_def)
  with h show ?thesis by simp
qed

text \<open>C27: closing a connected client asks the transport to disconnect and stops the receiver; whatever
  the transport answers, the machine ends disconnected and the callback, if any, runs exactly
  once with that answer.\<close>

theorem client_close_ends_disconnected:
  assumes "cl_state c = SConnected" and "tr_canDisconnect c"
  shows "let (c1, es) = Client_close c cb;
             (c2, es2) = client_resume c1 (PClose cb CloseWrapped) (err, res);
             (c3, es3) = run_frame (c2\<lparr>cl_todo := tl (cl_todo c2)\<rparr>) (hd (cl_todo c2)) in
         cl_state c1 = SDisconnecting \<and> TDisconnect \<in> set es \<and> \<not> cl_receiver c1
         \<and> last (cl_pending c1) = PClose cb CloseWrapped
         \<and> cl_state c2 = SDisconnected \<and> cl_todo c3 = cl_todo c
         \<and> cl_state c3 = SDisconnected \<and> es3 = safeCallback cb err res"
proof -
  let ?c1 = "fst (fsm_transition SDisconnecting c)"
  have r: "\<not> cl_receiver ?c1"
    using assms(1) by (simp add: fsm_transition_def connected_onExit_def client_disconnectReceiver_def)
  have "Client_close c cb = (add_pending (PClose cb CloseWrapped) (clear_renewal ?c1),
      snd (fsm_transition SDisconnecting c) @ [TDisconnect])"
    using assms by (simp add: Client_close_def fsm_handle_def connected_handle_def connected_close_def
        client_closeTransport_def case_prod_beta Let_def)
  moreover have "\<not> cl_receiver (clear_renewal ?c1)"
    using r by (simp add: clear_renewal_def split: option.split)
  ultimately show ?thesis
    by (simp add: client_resume_def closeTransport_done_def run_frame_def case_prod_beta Let_def)
qed

theorem client_close_ends_disconnected_witness:
  "cl_state (fst (Client_close (hub\<lparr>cl_state := SConnected\<rparr>) (UserCb 1))) = SDisconnecting"
  using client_close_ends_disconnected [of "hub\<lparr>cl_state := SConnected\<rparr>" "UserCb 1"]
  by (simp add: client_init_def case_prod_beta Let_def)

lemma split_device_resource:
  assumes "CHR ''/'' \<notin> set h" and "CHR ''/'' \<notin> set d"
  shows "js_split ''/'' (h @ ''/devices/'' @ d) = [h, ''devices'', d]"
proof -
  have "js_join ''/'' [h, ''devices'', d] = h @ ''/devices/'' @ d" by simp
  moreover have "js_split ''/'' (js_join ''/'' [h, ''devices'', d]) = [h, ''devices'', d]"
    unfolding js_split_single using assms by (intro split_on_join) auto
  ultimately show ?thesis by simp
qed

text \<open>C17: the configuration that \<open>fromSharedAccessSignature\<close> derives from the token which
  \<open>fromConnectionString\<close> generates is the configuration \<open>fromConnectionString\<close> used: host, device,
  hub name and token agree.\<close>

theorem client_config_roundtrip:
  assumes "Device_ConnectionString_parse connStr = Inr cn" and "truthy connStr"
    and "map_of cn ''HostName'' = Some h" and "map_of cn ''DeviceId'' = Some d"
    and "map_of cn ''SharedAccessKey'' = Some k" and "k \<noteq> []"
    and "CHR ''/'' \<notin> set h" and "CHR ''/'' \<notin> set d"
    and "0 \<le> now" and "\<And>k m. hmac k m \<noteq> []"
  shows "\<exists>config tok. Client_config_fromConnectionString hmac now connStr = Inr config
     \<and> dget config ''sharedAccessSignature'' = JStr tok
     \<and> Client_config_fromSharedAccessSignature (JStr tok) = Inr config"
proof -
  have n: "0 < anHourFromNow now"
  proof -
    have "(- now) div 1000 \<le> 0" using assms(9) by (simp add: div_nonpos_pos_le0)
    then show ?thesis by (simp add: anHourFromNow_def)
  qed
  let ?sr = "encodeUriComponentStrict (h @ ''/devices/'' @ d)"
  have "truthy (JStr k)" using assms(6) by simp
  from device_sas_text [of "JStr k" "anHourFromNow now" hmac h d, OF this n assms(10), unfolded Let_def] obtain sas pairs where
    create: "Device_SAS_create hmac (JStr h) (JStr d) (JStr k) (JNum (anHourFromNow now)) = Inr sas"
    and parse: "Device_SAS_parse (JStr (SharedAccessSignature_toString sas)) = Inr ((''sr'', JStr ?sr) # pairs)"
    and dec: "decodeURIComponent ?sr = Some (h @ ''/devices/'' @ d)"
    by blast
  have ne: "SharedAccessSignature_toString sas \<noteq> []"
    using parse by (auto simp: Device_SAS_parse_def SharedAccessSignature_parse_def)
  show ?thesis
    using assms(1-5) create parse dec ne split_device_resource [OF assms(7,8)]
    by (simp add: Client_config_fromConnectionString_def Client_config_fromSharedAccessSignature_def
        sget_def has_key_def Let_def)
qed

theorem client_config_roundtrip_witness:
  "\<exists>config. Client_config_fromConnectionString (\<lambda>k m. ''x'' @ k @ m) 0 (JStr ''HostName=h;DeviceId=d;SharedAccessKey=k'')
     = Inr config"
proof -
  let ?cn = "[(''HostName'', ''h''), (''DeviceId'', ''d''), (''SharedAccessKey'', ''k'')]"
  have "createDictionary (JStr (print_pairs (CHR '';'') ?cn)) '';'' = ?cn"
    by (rule conn_format.parse_print_distinct) (simp_all add: wf_pair_def)
  then have "createDictionary (JStr ''HostName=h;DeviceId=d;SharedAccessKey=k'') '';'' = ?cn"
    by (simp add: print_pairs_def print_pair_def)
  then have "Device_ConnectionString_parse (JStr ''HostName=h;DeviceId=d;SharedAccessKey=k'') = Inr ?cn"
    by (simp add: Device_ConnectionString_parse_def ConnectionString_parse_cases missing_field_def has_key_def sget_def)
  from client_config_roundtrip [OF this, of "''h''" "''d''" "''k''" 0 "\<lambda>k m. ''x'' @ k @ m"]
  show ?thesis by auto
qed

text \<open>When an implicit connection fails, the error is reported to the sender's callback but the
  event stays queued: after a later successful \<open>open\<close> the very same event is sent and the
  callback runs a second time, with the success of the transport.\<close>

lemma client_failed_open_keeps_event:
  "\<exists>ls es c. client_run hub ls es c
     \<and> submitted ls = [ISendEvent m (UserCb n), IOpen NoCb]
     \<and> filter (\<lambda>x. is_data x \<or> (\<exists>e r. x = Invoked n e r)) es
       = [Invoked n (Some err) None, TSendEvent m, Invoked n None (Some r)]"
proof -
  let ?i = "ISendEvent m (UserCb n)" and ?f = "ForwardErrorCb (UserCb n)"
  let ?q = "[(Some SConnected, ?i)]"
  define c1 where "c1 = hub\<lparr>cl_state := SConnecting, cl_deferred := ?q, cl_pending := [POpen ?f]\<rparr>"
  define c2 where "c2 = hub\<lparr>cl_deferred := ?q, cl_todo := [FSafe ?f (Some err) None]\<rparr>"
  define c3 where "c3 = hub\<lparr>cl_deferred := ?q\<rparr>"
  define c4 where "c4 = hub\<lparr>cl_state := SConnecting, cl_deferred := ?q, cl_pending := [POpen NoCb]\<rparr>"
  define c5 where "c5 = hub\<lparr>cl_state := SConnected, cl_deferred := ?q, cl_todo := [FSafe NoCb None None]\<rparr>"
  define c6 where "c6 = hub\<lparr>cl_state := SConnected, cl_pending := [PSend (UserCb n)], cl_todo := [FSafe NoCb None None]\<rparr>"
  define c7 where "c7 = hub\<lparr>cl_state := SConnected, cl_pending := [PSend (UserCb n)]\<rparr>"
  note defs = c1_def c2_def c3_def c4_def c5_def c6_def c7_def client_init_def drop_nth_def Let_def
  have 1: "client_run hub [Submit ?i] [TConnect] c1"
    using hub_send by (simp add: defs)
  have 2: "client_step c1 Internal [TRemoveOnDisconnect, TOnDisconnect] c2"
    by (rule step_resume [where k = 0 and out = "(Some err, None)"])
      (simp_all add: defs client_resume_def transportConnected_def fsm_transition_def push_frame_def)
  have 3: "client_step c2 Internal [Invoked n (Some err) None] c3"
    by (rule step_frame [where f = "FSafe ?f (Some err) None" and fs = "[]"]) (simp_all add: defs run_frame_def safeCallback_def)
  have 4: "client_step c3 (Submit (IOpen NoCb)) [TConnect] c4"
    by (rule step_submit) (simp_all add: defs fsm_handle_def disconnected_handle_def disconnected_open_def
        fsm_transition_def add_pending_def)
  have 5: "client_step c4 Internal [TRemoveOnDisconnect, TOnDisconnect] c5"
    by (rule step_resume [where k = 0 and out = "(None, None)"])
      (simp_all add: defs client_resume_def transportConnected_def fsm_transition_def push_frame_def connected_onEnter_def)
  have 6: "client_step c5 Internal [TSendEvent m] c6"
    by (rule step_replay [where k = 0 and u = "Some SConnected" and i = ?i])
      (simp_all add: defs fsm_handle_def connected_handle_def add_pending_def)
  have 7: "client_step c6 Internal [] c7"
    by (rule step_frame [where f = "FSafe NoCb None None" and fs = "[]"]) (simp_all add: defs run_frame_def safeCallback_def)
  have 8: "client_step c7 Internal [Invoked n None (Some r)] (hub\<lparr>cl_state := SConnected\<rparr>)"
    by (rule step_resume [where k = 0 and out = "(None, Some r)"])
      (simp_all add: defs client_resume_def safeCallback_def)
  note run = run_step [OF run_step [OF run_step [OF run_step [OF run_step [OF run_step [OF run_step [OF 1 2] 3] 4] 5] 6] 7] 8]
  show ?thesis by (intro exI conjI, rule run) simp_all
qed

text \<open>A token renewed by the application arms a second renewal timer beside the one of the
  constructor, and closing the client cancels only the newer one: a timer stays armed on a
  closed client.\<close>

lemma client_close_leaves_timer:
  assumes "cl_state c = SConnected" and "tr_canDisconnect c" and "cl_timeout c = Some t" and "t \<in> set (cl_armed c)"
    and "t < cl_nextTimer c" and "cl_listeners c = 0"
  shows "let c1 = fst (client_resume (c\<lparr>cl_state := SUpdatingSas\<rparr>) (PSas cb) (None, Some (SharedAccessSignatureUpdated False)));
             c2 = fst (Client_close c1 NoCb);
             c3 = fst (client_resume c2 (PClose NoCb CloseWrapped) (None, None))
         in cl_state c3 = SDisconnected \<and> t \<in> set (cl_armed c3)"
  using assms
  by (simp add: client_resume_def sas_updated_def needToReconnect_def safeUpdateSasCallback_def fsm_transition_def
      connected_onEnter_def arm_renewal_def push_frame_def Client_close_def fsm_handle_def connected_handle_def
      connected_close_def connected_onExit_def client_disconnectReceiver_def client_closeTransport_def
      clear_renewal_def add_pending_def closeTransport_done_def Let_def)

lemma client_close_leaves_timer_example:
  "0 \<in> set (cl_armed (fst (client_resume (fst (Client_close (fst (client_resume (hub\<lparr>cl_state := SUpdatingSas, cl_timeout := Some 0,
     cl_armed := [0], cl_nextTimer := 1\<rparr>) (PSas NoCb) (None, Some (SharedAccessSignatureUpdated False)))) NoCb))
     (PClose NoCb CloseWrapped) (None, None))))"
  using client_close_leaves_timer [of "hub\<lparr>cl_state := SConnected, cl_timeout := Some 0, cl_armed := [0], cl_nextTimer := 1\<rparr>" 0 NoCb]
  by (simp add: client_init_def Let_def)

end
