(* ===== verification/Device_Twin.thy ===== *)
theory Device_Twin
  imports Error_Translation
begin

text \<open>
  The device twin of \<open>node/device/core/lib/twin.js\<close>: the subscription to the twin topics, the
  requests with their identifiers, responses and timeouts, the cached properties and the change
  events.

  The functions of \<open>lodash\<close> and \<open>traverse\<close> that the module calls, and \<open>JSON\<close>, are the fields of
  \<open>twin_env\<close>. Events of the twin receiver and of the timers are operations of the model; what the
  twin calls outside itself is its list of effects.
\<close>

section \<open>State\<close>

text \<open>
  \<open>te_merge\<close> is \<open>_.merge\<close>, \<open>te_prune\<close> the removal of null members by \<open>traverse\<close>, \<open>te_paths\<close> the paths
  that \<open>traverse(...).forEach\<close> visits and \<open>te_at\<close> is \<open>_.at\<close> for one path.
\<close>

record twin_env =
  te_parse :: "string \<Rightarrow> jsval option"
  te_stringify :: "jsval \<Rightarrow> string"
  te_merge :: "jsval \<Rightarrow> jsval \<Rightarrow> jsval"
  te_prune :: "jsval \<Rightarrow> jsval"
  te_paths :: "jsval \<Rightarrow> string list list"
  te_at :: "jsval \<Rightarrow> string \<Rightarrow> jsval"

text \<open>The callbacks: \<open>done(err, twin)\<close> of the user, the empty one, and \<open>done(err)\<close> of an update.\<close>

datatype twin_done = TwinDone nat | IgnoreDone

datatype request_kont = KUpdate jsval nat | KGet twin_done

record twin_request =
  rq_rid :: int
  rq_listening :: bool
  rq_kont :: request_kont

record twin_subscription =
  sb_response :: bool
  sb_post :: bool
  sb_done :: twin_done

record twin =
  tw_rid :: int
  tw_receiver :: bool
  tw_requests :: "twin_request list"
  tw_subscriptions :: "twin_subscription list"
  tw_posts :: nat
  tw_properties :: "(jsval \<times> jsval) option"

record twin_response =
  rs_rid :: jsval
  rs_status :: jsval
  rs_body :: jsval

datatype twin_effect =
    SendTwinRequest string string int string
  | GetTwinReceiver
  | TReceiverOn string
  | TReceiverRemoveListener string
  | TReceiverRemoveAll string
  | ClientOnSasUpdated
  | CallTwinDone nat "js_error option"
  | CallUpdateDone nat "js_error option"
  | TwinEmit string jsval
  | TwinThrow js_error

definition Twin :: twin where
  "Twin = \<lparr>tw_rid = 4200, tw_receiver = False, tw_requests = [], tw_subscriptions = [], tw_posts = 0,
           tw_properties = None\<rparr>"

fun call_done :: "twin_done \<Rightarrow> js_error option \<Rightarrow> twin_effect list" where
  "call_done (TwinDone n) err = [CallTwinDone n err]"
| "call_done IgnoreDone err = []"

section \<open>Cached properties\<close>

definition Twin_mergePatch :: "twin_env \<Rightarrow> jsval \<Rightarrow> jsval \<Rightarrow> jsval" where
  "Twin_mergePatch env dest patch = te_prune env (te_merge env dest patch)"

text \<open>\<open>reported\<close> carries the function \<open>update\<close>.\<close>

definition Twin_clearCachedProperties :: "twin \<Rightarrow> twin" where
  "Twin_clearCachedProperties tw = tw\<lparr>tw_properties := Some (JObj [(''update'', JFun 0)], JObj [])\<rparr>"

definition Twin_fireChangeEvents :: "twin_env \<Rightarrow> jsval \<Rightarrow> twin_effect list" where
  "Twin_fireChangeEvents env desired =
     TwinEmit ''properties.desired'' desired #
     concat (map (\<lambda>p. let path = js_join ''.'' p in
                   if path \<noteq> [] then [TwinEmit (''properties.desired.'' @ path) (te_at env desired path)] else [])
             (te_paths env desired))"

text \<open>\<open>toString('ascii')\<close> of a buffer keeps the low seven bits of each byte.\<close>

definition ascii_text :: "jsval \<Rightarrow> string" where
  "ascii_text body = map (\<lambda>c. char_of ((of_char c :: nat) mod 128)) (js_string body)"

definition Twin_onServicePost :: "twin_env \<Rightarrow> twin \<Rightarrow> jsval \<Rightarrow> twin \<times> twin_effect list" where
  "Twin_onServicePost env tw body = (case te_parse env (ascii_text body) of
       None \<Rightarrow> (tw, [TwinThrow (mk_error SyntaxError ''Unexpected token'')])
     | Some patch \<Rightarrow> (case tw_properties tw of
           None \<Rightarrow> (tw, [TwinThrow (mk_error TypeError ''Cannot read property desired of undefined'')])
         | Some (reported, desired) \<Rightarrow>
             (tw\<lparr>tw_properties := Some (reported, Twin_mergePatch env desired patch)\<rparr>,
              Twin_fireChangeEvents env patch)))"

definition twin_object :: "twin \<Rightarrow> jsval" where
  "twin_object tw = (case tw_properties tw of
       None \<Rightarrow> JObj []
     | Some (reported, desired) \<Rightarrow>
         JObj [(''properties'', JObj [(''reported'', reported), (''desired'', desired)])])"

definition Twin_handleNewListener :: "twin_env \<Rightarrow> twin \<Rightarrow> string \<Rightarrow> twin_effect list" where
  "Twin_handleNewListener env tw eventName =
     (if prefix ''properties.desired'' eventName then
        (let v = te_at env (twin_object tw) eventName in if truthy v then [TwinEmit eventName v] else [])
      else [])"

section \<open>Requests\<close>

definition Twin_sendTwinRequest ::
  "twin \<Rightarrow> string \<Rightarrow> string \<Rightarrow> string \<Rightarrow> request_kont \<Rightarrow> twin \<times> twin_effect list" where
  "Twin_sendTwinRequest tw verb resource body k =
     (if \<not> tw_receiver tw then
        (tw\<lparr>tw_rid := tw_rid tw + 1\<rparr>, [TwinThrow (mk_error TypeError ''Cannot read property on of undefined'')])
      else (tw\<lparr>tw_rid := tw_rid tw + 1,
               tw_requests := tw_requests tw @ [\<lparr>rq_rid = tw_rid tw, rq_listening = True, rq_kont = k\<rparr>]\<rparr>,
            [TReceiverOn ''response'', SendTwinRequest verb resource (tw_rid tw) body]))"

definition Twin_updateReportedProperties :: "twin_env \<Rightarrow> twin \<Rightarrow> jsval \<Rightarrow> nat \<Rightarrow> twin \<times> twin_effect list" where
  "Twin_updateReportedProperties env tw state done =
     Twin_sendTwinRequest tw ''PATCH'' ''/properties/reported/'' (te_stringify env state) (KUpdate state done)"

definition Twin_getPropertiesFromService :: "twin \<Rightarrow> twin_done \<Rightarrow> twin \<times> twin_effect list" where
  "Twin_getPropertiesFromService tw done =
     Twin_sendTwinRequest (Twin_clearCachedProperties tw) ''GET'' ''/'' '' '' (KGet done)"

text \<open>The \<open>done\<close> of an update and of a GET.\<close>

definition update_finished :: "twin_env \<Rightarrow> twin \<Rightarrow> jsval \<Rightarrow> nat \<Rightarrow> js_error option \<Rightarrow> twin \<times> twin_effect list" where
  "update_finished env tw state done err = (case err of
       Some e \<Rightarrow> (tw, [CallUpdateDone done (Some e)])
     | None \<Rightarrow> (case tw_properties tw of
           None \<Rightarrow> (tw, [TwinThrow (mk_error TypeError ''Cannot read property reported of undefined'')])
         | Some (reported, desired) \<Rightarrow>
             (tw\<lparr>tw_properties := Some (Twin_mergePatch env reported state, desired)\<rparr>, [CallUpdateDone done None])))"

definition get_finished :: "twin_env \<Rightarrow> twin \<Rightarrow> twin_done \<Rightarrow> js_error option \<Rightarrow> jsval \<Rightarrow> twin \<times> twin_effect list" where
  "get_finished env tw done err body = (case err of
       Some e \<Rightarrow> (tw, call_done done (Some e))
     | None \<Rightarrow> (case te_parse env (ascii_text body) of
           None \<Rightarrow> (tw, [TwinThrow (mk_error SyntaxError ''Unexpected token'')])
         | Some props \<Rightarrow> (case tw_properties tw of
               None \<Rightarrow> (tw, [TwinThrow (mk_error TypeError ''Cannot read property desired of undefined'')])
             | Some (reported, desired) \<Rightarrow>
                 (let desired' = Twin_mergePatch env desired (jget props ''desired'');
                      reported' = Twin_mergePatch env reported (jget props ''reported'')
                  in (tw\<lparr>tw_properties := Some (reported', desired')\<rparr>,
                      Twin_fireChangeEvents env desired' @ call_done done None)))))"

definition request_finished ::
  "twin_env \<Rightarrow> twin \<Rightarrow> request_kont \<Rightarrow> js_error option \<Rightarrow> jsval \<Rightarrow> twin \<times> twin_effect list" where
  "request_finished env tw k err body = (case k of
       KUpdate state done \<Rightarrow> update_finished env tw state done err
     | KGet done \<Rightarrow> get_finished env tw done err body)"

text \<open>\<open>cleanupAndReturn\<close>: the request's handler and timer go, then its \<open>done\<close> runs.\<close>

definition request_cleanup ::
  "twin_env \<Rightarrow> twin \<Rightarrow> twin_request \<Rightarrow> js_error option \<Rightarrow> jsval \<Rightarrow> twin \<times> twin_effect list" where
  "request_cleanup env tw r err body =
     (let tw1 = tw\<lparr>tw_requests := filter (\<lambda>q. rq_rid q \<noteq> rq_rid r) (tw_requests tw)\<rparr>;
          (tw2, es) = request_finished env tw1 (rq_kont r) err body
      in (tw2, TReceiverRemoveListener ''response'' # es))"

definition response_val_twin :: "twin_response \<Rightarrow> jsval" where
  "response_val_twin resp = JObj [(''$rid'', rs_rid resp), (''status'', rs_status resp), (''body'', rs_body resp)]"

text \<open>\<open>handleResponse\<close> of one request.\<close>

definition handleResponse ::
  "twin_env \<Rightarrow> twin_response \<Rightarrow> twin \<times> twin_effect list \<Rightarrow> twin_request \<Rightarrow> twin \<times> twin_effect list" where
  "handleResponse env resp acc r =
     (if js_string (rs_rid resp) = show_int (rq_rid r) then
        (let (tw, es) = (if js_string (rs_status resp) = ''200'' \<or> js_string (rs_status resp) = ''204''
                         then request_cleanup env (fst acc) r None (rs_body resp)
                         else request_cleanup env (fst acc) r
                                (Some (Twin_translateError (response_val_twin resp) (rs_status resp))) JUndef)
         in (tw, snd acc @ es))
      else acc)"

text \<open>The event \<open>response\<close>: every handler attached at that moment runs.\<close>

definition Twin_onResponse :: "twin_env \<Rightarrow> twin \<Rightarrow> twin_response \<Rightarrow> twin \<times> twin_effect list" where
  "Twin_onResponse env tw resp =
     foldl (handleResponse env resp) (tw, []) (filter rq_listening (tw_requests tw))"

definition Twin_onRequestTimeout :: "twin_env \<Rightarrow> twin \<Rightarrow> int \<Rightarrow> twin \<times> twin_effect list" where
  "Twin_onRequestTimeout env tw rid = (case find (\<lambda>r. rq_rid r = rid) (tw_requests tw) of
       None \<Rightarrow> (tw, [])
     | Some r \<Rightarrow> request_cleanup env tw r (Some (mk_error TimeoutError ''message timed out'')) JNull)"

section \<open>Subscription\<close>

definition Twin_subscribe :: "twin \<Rightarrow> twin_done \<Rightarrow> twin \<times> twin_effect list" where
  "Twin_subscribe tw done =
     (tw\<lparr>tw_subscriptions := tw_subscriptions tw @ [\<lparr>sb_response = False, sb_post = False, sb_done = done\<rparr>],
         tw_posts := Suc (tw_posts tw)\<rparr>,
      [TReceiverOn ''subscribed'', TReceiverOn ''error'', TReceiverOn ''response'', TReceiverOn ''post''])"

definition subscription_cleanup :: "twin_effect list" where
  "subscription_cleanup = [TReceiverRemoveListener ''subscribed'', TReceiverRemoveListener ''error'']"

text \<open>\<open>handleSubscribed\<close>: \<open>some\<close> marks the named topic, \<open>every\<close> tests whether both are marked.\<close>

definition mark_topic :: "string \<Rightarrow> twin_subscription \<Rightarrow> twin_subscription" where
  "mark_topic eventName s =
     (if eventName = ''response'' then s\<lparr>sb_response := True\<rparr>
      else if eventName = ''post'' then s\<lparr>sb_post := True\<rparr> else s)"

definition both_topics :: "twin_subscription \<Rightarrow> bool" where
  "both_topics s \<longleftrightarrow> sb_response s \<and> sb_post s"

definition finish_subscription :: "twin \<times> twin_effect list \<Rightarrow> twin_subscription \<Rightarrow> twin \<times> twin_effect list" where
  "finish_subscription acc s =
     (let (tw, es) = Twin_getPropertiesFromService (fst acc) (sb_done s)
      in (tw, snd acc @ subscription_cleanup @ es))"

definition Twin_onSubscribed :: "twin \<Rightarrow> string \<Rightarrow> twin \<times> twin_effect list" where
  "Twin_onSubscribed tw eventName =
     (if eventName = ''response'' \<or> eventName = ''post'' then
        (let subs = map (mark_topic eventName) (tw_subscriptions tw) in
         foldl finish_subscription (tw\<lparr>tw_subscriptions := filter (\<lambda>s. \<not> both_topics s) subs\<rparr>, [])
           (filter both_topics subs))
      else (tw, []))"

definition Twin_onSubscribeError :: "twin \<Rightarrow> jsval \<Rightarrow> twin \<times> twin_effect list" where
  "Twin_onSubscribeError tw topic =
     (tw\<lparr>tw_subscriptions := []\<rparr>,
      concat (map (\<lambda>s. subscription_cleanup
        @ call_done (sb_done s) (Some (mk_error ServiceUnavailableError (''failed to subscribe to '' @ js_string topic))))
        (tw_subscriptions tw)))"

definition Twin_onSubscribeTimeout :: "twin \<Rightarrow> nat \<Rightarrow> twin \<times> twin_effect list" where
  "Twin_onSubscribeTimeout tw k =
     (if k < length (tw_subscriptions tw) then
        (tw\<lparr>tw_subscriptions := take k (tw_subscriptions tw) @ drop (Suc k) (tw_subscriptions tw)\<rparr>,
         subscription_cleanup @ call_done (sb_done (tw_subscriptions tw ! k))
           (Some (mk_error TimeoutError ''subscription to twin messages timed out'')))
      else (tw, []))"

text \<open>The callback of \<open>getTwinReceiver\<close> in \<open>_connectSubscribeAndGetProperties\<close>.\<close>

definition Twin_connectSubscribeAndGetProperties :: "twin \<Rightarrow> twin \<times> twin_effect list" where
  "Twin_connectSubscribeAndGetProperties tw = (tw, [GetTwinReceiver])"

definition Twin_onReceiver :: "twin \<Rightarrow> twin_done \<Rightarrow> js_error option \<Rightarrow> twin \<times> twin_effect list" where
  "Twin_onReceiver tw done err = (case err of
       Some e \<Rightarrow> (tw, call_done done (Some e))
     | None \<Rightarrow> Twin_subscribe (tw\<lparr>tw_receiver := True\<rparr>) done)"

text \<open>
  \<open>fromDeviceClient\<close>: the client is known by its transport's \<open>getTwinReceiver\<close> and by the twin it
  already has; the result is the twin the client has afterwards.
\<close>

definition Twin_fromDeviceClient ::
  "bool \<Rightarrow> bool \<Rightarrow> twin option \<Rightarrow> nat option \<Rightarrow> (twin option \<times> twin_effect list) res" where
  "Twin_fromDeviceClient client hasTwinReceiver clientTwin done =
     (if \<not> client then throw ReferenceError ''client parameter is required''
      else case done of
        None \<Rightarrow> throw ReferenceError ''done parameter is required''
      | Some n \<Rightarrow> (case clientTwin of
          Some tw \<Rightarrow> (let (tw1, es) = Twin_getPropertiesFromService tw (TwinDone n) in Inr (Some tw1, es))
        | None \<Rightarrow>
            if \<not> hasTwinReceiver then
              Inr (None, [CallTwinDone n (Some (mk_error NotImplementedError ''transport does not support Twin''))])
            else (let (tw1, es) = Twin_connectSubscribeAndGetProperties Twin
                  in Inr (Some tw1, ClientOnSasUpdated # es))))"

text \<open>
  \<open>removeAllListeners('response')\<close> also detaches the handlers of the requests under way: only
  their timers are left.
\<close>

definition Twin_updateSharedAccessSignature :: "twin \<Rightarrow> twin \<times> twin_effect list" where
  "Twin_updateSharedAccessSignature tw =
     (if \<not> tw_receiver tw
      then (tw, [TwinThrow (mk_error TypeError ''Cannot read property removeAllListeners of undefined'')])
      else (tw\<lparr>tw_requests := map (\<lambda>r. r\<lparr>rq_listening := False\<rparr>) (tw_requests tw), tw_posts := 0\<rparr>,
            [TReceiverRemoveAll ''response'', TReceiverRemoveAll ''post'']))"

section \<open>Executions\<close>

datatype twin_event =
    EvReceiver twin_done "js_error option"
  | EvSubscribed string
  | EvSubscribeError jsval
  | EvSubscribeTimeout nat
  | EvResponse twin_response
  | EvRequestTimeout int
  | EvPost jsval
  | EvUpdate jsval nat
  | EvGet twin_done
  | EvSasUpdate

text \<open>One event; a \<open>post\<close> runs every attached handler.\<close>

fun post_all :: "twin_env \<Rightarrow> nat \<Rightarrow> twin \<Rightarrow> jsval \<Rightarrow> twin \<times> twin_effect list" where
  "post_all env 0 tw body = (tw, [])"
| "post_all env (Suc n) tw body =
     (let (tw1, es1) = Twin_onServicePost env tw body; (tw2, es2) = post_all env n tw1 body in (tw2, es1 @ es2))"

fun twin_handle :: "twin_env \<Rightarrow> twin \<Rightarrow> twin_event \<Rightarrow> twin \<times> twin_effect list" where
  "twin_handle env tw (EvReceiver done err) = Twin_onReceiver tw done err"
| "twin_handle env tw (EvSubscribed n) = Twin_onSubscribed tw n"
| "twin_handle env tw (EvSubscribeError t) = Twin_onSubscribeError tw t"
| "twin_handle env tw (EvSubscribeTimeout k) = Twin_onSubscribeTimeout tw k"
| "twin_handle env tw (EvResponse r) = Twin_onResponse env tw r"
| "twin_handle env tw (EvRequestTimeout rid) = Twin_onRequestTimeout env tw rid"
| "twin_handle env tw (EvPost body) = post_all env (tw_posts tw) tw body"
| "twin_handle env tw (EvUpdate state n) = Twin_updateReportedProperties env tw state n"
| "twin_handle env tw (EvGet done) = Twin_getPropertiesFromService tw done"
| "twin_handle env tw EvSasUpdate = Twin_updateSharedAccessSignature tw"

fun twin_run :: "twin_env \<Rightarrow> twin \<Rightarrow> twin_event list \<Rightarrow> twin \<times> twin_effect list" where
  "twin_run env tw [] = (tw, [])"
| "twin_run env tw (ev # evs) =
     (let (tw1, es1) = twin_handle env tw ev; (tw2, es2) = twin_run env tw1 evs in (tw2, es1 @ es2))"

section \<open>The invariant\<close>

text \<open>Requests under way have distinct identifiers, all of them below the next one.\<close>

definition twin_wf :: "twin \<Rightarrow> bool" where
  "twin_wf tw \<longleftrightarrow> distinct (map rq_rid (tw_requests tw)) \<and> (\<forall>r\<in>set (tw_requests tw). rq_rid r < tw_rid tw)"

definition rids :: "twin \<Rightarrow> int set" where
  "rids tw = rq_rid ` set (tw_requests tw)"

fun sent_rid :: "twin_effect \<Rightarrow> int option" where
  "sent_rid (SendTwinRequest v r rid b) = Some rid"
| "sent_rid _ = None"

definition sent :: "twin_effect list \<Rightarrow> int list" where
  "sent es = List.map_filter sent_rid es"

lemma sent_simps [simp]:
  "sent [] = []" "sent (es @ fs) = sent es @ sent fs"
  "sent (e # es) = (case sent_rid e of None \<Rightarrow> sent es | Some r \<Rightarrow> r # sent es)"
  by (auto simp: sent_def List.map_filter_def split: option.splits)

text \<open>
  What every operation keeps: it sends increasing identifiers from the counter on, never lowers
  the counter, preserves well-formedness, and a request under way afterwards was under way
  before or is new.
\<close>

definition good_step :: "twin \<Rightarrow> twin \<times> twin_effect list \<Rightarrow> bool" where
  "good_step tw r \<longleftrightarrow> twin_wf (fst r) \<and> tw_rid tw \<le> tw_rid (fst r)
     \<and> sorted_wrt (<) (sent (snd r)) \<and> (\<forall>x\<in>set (sent (snd r)). tw_rid tw \<le> x \<and> x < tw_rid (fst r))
     \<and> rids (fst r) \<subseteq> rids tw \<union> {tw_rid tw..<tw_rid (fst r)}"

lemma good_step_refl: "twin_wf tw \<Longrightarrow> sent es = [] \<Longrightarrow> good_step tw (tw, es)"
  by (simp add: good_step_def)

lemma good_step_trans:
  assumes "good_step tw (tw1, es1)" and "good_step tw1 (tw2, es2)"
  shows "good_step tw (tw2, es1 @ es2)"
  using assms unfolding good_step_def by (fastforce simp: sorted_wrt_append)

lemma good_step_silent:
  "good_step tw (tw', es) \<Longrightarrow> sent fs = sent es \<Longrightarrow> good_step tw (tw', fs)"
  by (simp add: good_step_def)

text \<open>An operation that only changes properties, flags or subscriptions, or drops requests.\<close>

lemma good_step_shrink:
  assumes "twin_wf tw" and "tw_rid tw' = tw_rid tw" and "sent es = []"
    and "map rq_rid (tw_requests tw') = map rq_rid (filter P (tw_requests tw))"
  shows "good_step tw (tw', es)"
proof -
  have "rids tw' \<subseteq> rids tw"
    using arg_cong [OF assms(4), of set] by (auto simp: rids_def)
  moreover have "distinct (map rq_rid (tw_requests tw'))"
    unfolding assms(4) using assms(1) by (simp add: twin_wf_def distinct_map_filter)
  moreover have "rq_rid r < tw_rid tw" if "r \<in> set (tw_requests tw')" for r
    using that \<open>rids tw' \<subseteq> rids tw\<close> assms(1) by (auto simp: rids_def twin_wf_def)
  ultimately show ?thesis using assms(2,3) by (auto simp: good_step_def twin_wf_def)
qed

lemma good_step_same_requests:
  assumes "twin_wf tw" and "tw_rid tw' = tw_rid tw" and "tw_requests tw' = tw_requests tw" and "sent es = []"
  shows "good_step tw (tw', es)"
  using good_step_shrink [OF assms(1,2,4), of "\<lambda>_. True"] assms(3) by simp

lemma sent_call_done [simp]: "sent (call_done d e) = []"
  by (cases d) auto

lemma sent_change_events [simp]: "sent (Twin_fireChangeEvents env d) = []"
proof -
  have "sent (concat (map (\<lambda>p. let path = js_join ''.'' p in
      if path \<noteq> [] then [TwinEmit (''properties.desired.'' @ path) (te_at env d path)] else []) ps)) = []" for ps
    by (induction ps) (auto simp: Let_def)
  then show ?thesis by (simp add: Twin_fireChangeEvents_def)
qed

lemma wf_sendTwinRequest: "twin_wf tw \<Longrightarrow> good_step tw (Twin_sendTwinRequest tw v r b k)"
  by (auto simp: good_step_def twin_wf_def rids_def Twin_sendTwinRequest_def)

lemma request_finished_frame:
  "tw_requests (fst (request_finished env tw k err body)) = tw_requests tw
   \<and> tw_rid (fst (request_finished env tw k err body)) = tw_rid tw
   \<and> sent (snd (request_finished env tw k err body)) = []"
  by (simp add: request_finished_def update_finished_def get_finished_def Let_def
      split: request_kont.split option.split)

lemma request_cleanup_frame:
  "tw_requests (fst (request_cleanup env tw r err body)) = filter (\<lambda>q. rq_rid q \<noteq> rq_rid r) (tw_requests tw)
   \<and> tw_rid (fst (request_cleanup env tw r err body)) = tw_rid tw
   \<and> sent (snd (request_cleanup env tw r err body)) = []"
  using request_finished_frame [of env "tw\<lparr>tw_requests := filter (\<lambda>q. rq_rid q \<noteq> rq_rid r) (tw_requests tw)\<rparr>"]
  by (simp add: request_cleanup_def case_prod_beta Let_def)

lemma wf_request_cleanup: "twin_wf tw \<Longrightarrow> good_step tw (request_cleanup env tw r err body)"
  using request_cleanup_frame [of env tw r err body]
    good_step_shrink [of tw "fst (request_cleanup env tw r err body)" "snd (request_cleanup env tw r err body)"]
  by (metis prod.collapse)

lemma good_step_cat:
  assumes "good_step tw acc" and "twin_wf (fst acc) \<Longrightarrow> good_step (fst acc) st"
  shows "good_step tw (fst st, snd acc @ snd st)"
proof -
  have "twin_wf (fst acc)" using assms(1) by (simp add: good_step_def)
  with assms have "good_step tw (fst acc, snd acc)" "good_step (fst acc) (fst st, snd st)" by simp_all
  then show ?thesis by (rule good_step_trans)
qed

lemma wf_handleResponse: "good_step tw acc \<Longrightarrow> good_step tw (handleResponse env resp acc r)"
  using good_step_cat [of tw acc] wf_request_cleanup
  by (simp add: handleResponse_def case_prod_beta Let_def)

lemma wf_onResponse: "twin_wf tw \<Longrightarrow> good_step tw (Twin_onResponse env tw resp)"
proof -
  have "good_step tw acc \<Longrightarrow> good_step tw (foldl (handleResponse env resp) acc rs)" for acc rs
    by (induction rs arbitrary: acc) (auto simp: wf_handleResponse)
  then show "twin_wf tw \<Longrightarrow> ?thesis" by (simp add: Twin_onResponse_def good_step_refl)
qed

lemma wf_getProperties: "twin_wf tw \<Longrightarrow> good_step tw (Twin_getPropertiesFromService tw d)"
  using wf_sendTwinRequest [of "Twin_clearCachedProperties tw" "''GET''" "''/''" "'' ''" "KGet d"]
  by (simp add: Twin_getPropertiesFromService_def Twin_clearCachedProperties_def good_step_def twin_wf_def rids_def)

lemma sent_subscription_cleanup [simp]: "sent subscription_cleanup = []"
  by (simp add: subscription_cleanup_def)

lemma wf_finish_subscription: "good_step tw acc \<Longrightarrow> good_step tw (finish_subscription acc s)"
  using good_step_silent [OF good_step_cat [of tw acc "Twin_getPropertiesFromService (fst acc) (sb_done s)"],
      of "snd acc @ subscription_cleanup @ snd (Twin_getPropertiesFromService (fst acc) (sb_done s))"]
    wf_getProperties
  by (simp add: finish_subscription_def case_prod_beta Let_def)

lemma wf_onSubscribed: "twin_wf tw \<Longrightarrow> good_step tw (Twin_onSubscribed tw n)"
proof -
  assume wf: "twin_wf tw"
  have "good_step tw acc \<Longrightarrow> good_step tw (foldl finish_subscription acc ss)" for acc ss
    by (induction ss arbitrary: acc) (auto simp: wf_finish_subscription)
  moreover have "good_step tw (tw\<lparr>tw_subscriptions := ss\<rparr>, [])" for ss
    using wf by (intro good_step_same_requests) simp_all
  ultimately show ?thesis using wf by (simp add: Twin_onSubscribed_def Let_def good_step_refl)
qed

lemma wf_onServicePost: "twin_wf tw \<Longrightarrow> good_step tw (Twin_onServicePost env tw body)"
  by (cases "te_parse env (ascii_text body)"; cases "tw_properties tw")
    (auto simp: Twin_onServicePost_def intro!: good_step_same_requests)

lemma wf_post_all: "twin_wf tw \<Longrightarrow> good_step tw (post_all env n tw body)"
proof (induction n arbitrary: tw)
  case 0
  then show ?case by (simp add: good_step_refl)
next
  case (Suc n)
  then show ?case
    using good_step_cat [OF wf_onServicePost [OF Suc.prems, of env body], of "post_all env n (fst (Twin_onServicePost env tw body)) body"]
    by (simp add: case_prod_beta Let_def)
qed

lemma sent_concat_nil: "(\<And>x. x \<in> set xs \<Longrightarrow> sent (f x) = []) \<Longrightarrow> sent (concat (map f xs)) = []"
  by (induction xs) auto

lemma wf_twin_handle: "twin_wf tw \<Longrightarrow> good_step tw (twin_handle env tw ev)"
proof (cases ev)
  case (EvReceiver d err)
  assume "twin_wf tw"
  then show ?thesis unfolding EvReceiver
    by (cases err) (auto simp: Twin_onReceiver_def Twin_subscribe_def intro!: good_step_same_requests)
next
  case (EvRequestTimeout rid)
  assume "twin_wf tw"
  then show ?thesis unfolding EvRequestTimeout
    by (simp add: Twin_onRequestTimeout_def wf_request_cleanup good_step_refl split: option.split)
next
  case (EvSubscribeError t)
  assume "twin_wf tw"
  then show ?thesis unfolding EvSubscribeError
    by (auto simp: Twin_onSubscribeError_def intro!: good_step_same_requests sent_concat_nil)
next
  case (EvSubscribeTimeout k)
  assume "twin_wf tw"
  then show ?thesis unfolding EvSubscribeTimeout
    by (auto simp: Twin_onSubscribeTimeout_def intro!: good_step_same_requests)
next
  case EvSasUpdate
  assume wf: "twin_wf tw"
  show ?thesis unfolding EvSasUpdate
  proof (cases "tw_receiver tw")
    case True
    have "good_step tw (tw\<lparr>tw_requests := map (\<lambda>r. r\<lparr>rq_listening := False\<rparr>) (tw_requests tw), tw_posts := 0\<rparr>,
        [TReceiverRemoveAll ''response'', TReceiverRemoveAll ''post''])"
      by (rule good_step_shrink [OF wf, where P = "\<lambda>_. True"]) (simp_all add: comp_def)
    with True show "good_step tw (twin_handle env tw EvSasUpdate)"
      by (simp add: Twin_updateSharedAccessSignature_def)
  qed (simp add: Twin_updateSharedAccessSignature_def good_step_refl [OF wf])
qed (simp_all add: wf_onSubscribed wf_onResponse wf_post_all wf_getProperties wf_sendTwinRequest
    Twin_updateReportedProperties_def)

lemma wf_twin_run: "twin_wf tw \<Longrightarrow> good_step tw (twin_run env tw evs)"
proof (induction evs arbitrary: tw)
  case Nil
  then show ?case by (simp add: good_step_refl)
next
  case (Cons ev evs)
  then show ?case
    using good_step_cat [OF wf_twin_handle [OF Cons.prems, of env ev], of "twin_run env (fst (twin_handle env tw ev)) evs"]
    by (simp add: case_prod_beta Let_def)
qed

lemma twin_wf_Twin: "twin_wf Twin"
  by (simp add: twin_wf_def Twin_def)

section \<open>Properties\<close>

text \<open>In every sequence of events the identifiers of the requests a twin sends start at 4200 and
  increase strictly, and the requests under way have distinct identifiers.\<close>

lemma twin_rids_increase:
  "let (tw, es) = twin_run env Twin evs in
   sorted_wrt (<) (sent es) \<and> list_all (\<lambda>x. 4200 \<le> x \<and> x < tw_rid tw) (sent es)
   \<and> distinct (map rq_rid (tw_requests tw))"
  using wf_twin_run [OF twin_wf_Twin, of env evs]
  by (auto simp: good_step_def twin_wf_def Twin_def list_all_iff case_prod_beta Let_def)

lemma foldl_handleResponse_other:
  "(\<And>r. r \<in> set rs \<Longrightarrow> js_string (rs_rid resp) \<noteq> show_int (rq_rid r)) \<Longrightarrow>
   foldl (handleResponse env resp) acc rs = acc"
  by (induction rs arbitrary: acc) (auto simp: handleResponse_def)

lemma show_int_inj: "0 \<le> m \<Longrightarrow> 0 \<le> n \<Longrightarrow> show_int m = show_int n \<longleftrightarrow> m = n"
  by (auto simp: show_int_def)

lemma handleResponse_single:
  assumes "distinct (map rq_rid rs)" and "r \<in> set rs" and "\<forall>q\<in>set rs. 0 \<le> rq_rid q"
    and "js_string (rs_rid resp) = show_int (rq_rid r)"
  shows "foldl (handleResponse env resp) acc rs = handleResponse env resp acc r"
proof -
  from assms(2) obtain xs ys where rs: "rs = xs @ r # ys" by (auto simp: in_set_conv_decomp)
  have ne: "js_string (rs_rid resp) \<noteq> show_int (rq_rid q)" if "q \<in> set xs \<union> set ys" for q
  proof -
    have "rq_rid q \<noteq> rq_rid r" using assms(1) that unfolding rs by (auto simp: image_iff)
    moreover have "0 \<le> rq_rid q" "0 \<le> rq_rid r" using assms(3) that rs by auto
    ultimately show ?thesis by (simp add: assms(4) show_int_inj)
  qed
  show ?thesis by (simp add: rs foldl_handleResponse_other ne)
qed

text \<open>A response reaches exactly the request with its identifier: that request leaves the requests
  under way and its continuation runs once, with the body for status 200 or 204 and with a
  translated error otherwise; every other request stays as it was. A response with no such
  request changes nothing.\<close>

lemma twin_response_matches:
  assumes "twin_wf tw" and "\<forall>q\<in>set (tw_requests tw). 0 \<le> rq_rid q"
  shows "(\<forall>r\<in>set (tw_requests tw). rq_listening r \<and> js_string (rs_rid resp) = show_int (rq_rid r) \<longrightarrow>
            Twin_onResponse env tw resp
            = (if js_string (rs_status resp) \<in> {''200'', ''204''}
               then request_cleanup env tw r None (rs_body resp)
               else request_cleanup env tw r (Some (Twin_translateError (response_val_twin resp) (rs_status resp))) JUndef)
            \<and> tw_requests (fst (Twin_onResponse env tw resp)) = remove1 r (tw_requests tw))
       \<and> ((\<forall>r\<in>set (tw_requests tw). rq_listening r \<longrightarrow> js_string (rs_rid resp) \<noteq> show_int (rq_rid r)) \<longrightarrow>
            Twin_onResponse env tw resp = (tw, []))"
proof (intro conjI ballI impI)
  fix r assume r: "r \<in> set (tw_requests tw)" "rq_listening r \<and> js_string (rs_rid resp) = show_int (rq_rid r)"
  let ?rs = "filter rq_listening (tw_requests tw)"
  have "foldl (handleResponse env resp) (tw, []) ?rs = handleResponse env resp (tw, []) r"
    using assms r by (intro handleResponse_single) (auto simp: twin_wf_def distinct_map_filter)
  then show eq: "Twin_onResponse env tw resp
      = (if js_string (rs_status resp) \<in> {''200'', ''204''}
         then request_cleanup env tw r None (rs_body resp)
         else request_cleanup env tw r (Some (Twin_translateError (response_val_twin resp) (rs_status resp))) JUndef)"
    using r by (simp add: Twin_onResponse_def handleResponse_def)
  have "filter (\<lambda>q. rq_rid q \<noteq> rq_rid r) (tw_requests tw) = filter (\<lambda>q. q \<noteq> r) (tw_requests tw)"
    using assms(1) r(1) by (intro filter_cong) (auto simp: twin_wf_def distinct_map inj_on_def)
  also have "\<dots> = remove1 r (tw_requests tw)"
    using assms(1) by (simp add: twin_wf_def distinct_map distinct_remove1_removeAll removeAll_filter_not_eq)
      (metis)
  finally show "tw_requests (fst (Twin_onResponse env tw resp)) = remove1 r (tw_requests tw)"
    using eq request_cleanup_frame by simp
next
  assume "\<forall>r\<in>set (tw_requests tw). rq_listening r \<longrightarrow> js_string (rs_rid resp) \<noteq> show_int (rq_rid r)"
  then show "Twin_onResponse env tw resp = (tw, [])"
    unfolding Twin_onResponse_def by (intro foldl_handleResponse_other) auto
qed

definition demo_env :: twin_env where
  "demo_env = \<lparr>te_parse = (\<lambda>_. Some (JObj [])), te_stringify = js_string,
     te_merge = (\<lambda>d p. case (d, p) of (JObj x, JObj y) \<Rightarrow> JObj (foldl (\<lambda>c (k, v). dset k v c) x (rev y)) | _ \<Rightarrow> d),
     te_prune = (\<lambda>d. case d of JObj x \<Rightarrow> JObj (map (\<lambda>(k, v). (k, if v = JNull then JUndef else v)) x) | _ \<Rightarrow> d),
     te_paths = (\<lambda>_. []), te_at = jget\<rparr>"

definition demo_twin :: twin where
  "demo_twin = Twin\<lparr>tw_receiver := True, tw_rid := 4201, tw_properties := Some (JObj [], JObj []),
     tw_requests := [\<lparr>rq_rid = 4200, rq_listening = True, rq_kont = KUpdate (JObj []) 7\<rparr>]\<rparr>"

lemma twin_response_matches_example:
  "tw_requests (fst (Twin_onResponse demo_env demo_twin \<lparr>rs_rid = JNum 4200, rs_status = JNum 200, rs_body = JNull\<rparr>)) = []"
proof -
  let ?r = "\<lparr>rq_rid = 4200, rq_listening = True, rq_kont = KUpdate (JObj []) 7\<rparr>"
  have reqs: "tw_requests demo_twin = [?r]" and wf: "twin_wf demo_twin"
    and nn: "\<forall>q\<in>set (tw_requests demo_twin). 0 \<le> rq_rid q"
    by (simp_all add: demo_twin_def twin_wf_def)
  let ?resp = "\<lparr>rs_rid = JNum 4200, rs_status = JNum 200, rs_body = JNull\<rparr>"
  have "?r \<in> set (tw_requests demo_twin)" "rq_listening ?r \<and> js_string (rs_rid ?resp) = show_int (rq_rid ?r)"
    by (simp_all add: reqs)
  with twin_response_matches [of demo_twin ?resp demo_env, OF wf nn]
  have "tw_requests (fst (Twin_onResponse demo_env demo_twin ?resp)) = remove1 ?r (tw_requests demo_twin)"
    by blast
  then show ?thesis by (simp only: reqs remove1.simps if_True refl)
qed




lemma dget_foldl_dset: "dget (foldl (\<lambda>c (k, v). dset k v c) d (rev p)) k
    = (case map_of p k of Some v \<Rightarrow> v | None \<Rightarrow> dget d k)"
  by (simp add: dget_def foldl_dset_map_of map_add_def split: option.split)

lemma dget_map_val: "dget (map (\<lambda>(k, v). (k, f v)) d) k = (case map_of d k of Some v \<Rightarrow> f v | None \<Rightarrow> JUndef)"
  by (simp add: dget_def map_of_map split: option.split)


text \<open>A failed request whose status arrives as a string, which is how the MQTT receiver delivers it, is
  always reported as a generic \<open>Error\<close>, for every status.\<close>

lemma twin_string_status_generic:
  assumes "js_string (rs_rid resp) = show_int (rq_rid r)" and "rs_status resp = JStr st"
    and "st \<noteq> ''200''" and "st \<noteq> ''204''" and "rq_kont r = KUpdate patch n"
  shows "\<exists>e. snd (handleResponse env resp (tw, []) r) = [TReceiverRemoveListener ''response'', CallUpdateDone n (Some e)]
     \<and> err_kind e = Error \<and> dget (err_props e) ''response'' = response_val_twin resp"
  using assms
  by (simp add: handleResponse_def request_cleanup_def request_finished_def update_finished_def
      Twin_translateError_def twin_error_kind_def)

lemma twin_string_status_generic_witness:
  "\<exists>e. snd (handleResponse demo_env \<lparr>rs_rid = JStr (show_int 4200), rs_status = JStr ''404'', rs_body = JNull\<rparr> (demo_twin, [])
         \<lparr>rq_rid = 4200, rq_listening = True, rq_kont = KUpdate (JObj []) 7\<rparr>)
       = [TReceiverRemoveListener ''response'', CallUpdateDone 7 (Some e)] \<and> err_kind e = Error"
  using twin_string_status_generic [of "\<lparr>rs_rid = JStr (show_int 4200), rs_status = JStr ''404'', rs_body = JNull\<rparr>"
      "\<lparr>rq_rid = 4200, rq_listening = True, rq_kont = KUpdate (JObj []) 7\<rparr>" "''404''" "JObj []" 7 demo_env demo_twin]
  by auto

end
