(* ===== verification/Device_Services.thy ===== *)
theory Device_Services
  imports Error_Translation
begin

text \<open>
  Device methods and file upload: \<open>device_method_request.js\<close> and \<open>device_method_response.js\<close> of
  \<open>node/device/core/lib/device_method\<close>, and the modules of \<open>node/device/core/lib/blob_upload\<close>.
  \<open>JSON\<close>, the name and version in \<open>package.json\<close> and the storage library are arguments; the
  outcomes of network calls are arguments of the continuations.
\<close>

section \<open>Device methods\<close>

record method_request =
  mq_requestId :: string
  mq_methodName :: string
  mq_payload :: jsval

text \<open>The check both constructors make of \<open>requestId\<close> and of the method's name.\<close>

definition nonempty_string :: "string \<Rightarrow> jsval \<Rightarrow> string res" where
  "nonempty_string name v = (case v of
       JStr s \<Rightarrow> if s = [] then throw Error (name @ '' must not be an empty string'') else Inr s
     | _ \<Rightarrow> throw ReferenceError (name @ '' must be a string''))"

definition DeviceMethodRequest ::
  "(string \<Rightarrow> jsval option) \<Rightarrow> jsval \<Rightarrow> jsval \<Rightarrow> jsval \<Rightarrow> method_request res" where
  "DeviceMethodRequest json_parse requestId methodName body =
     res_bind (nonempty_string ''requestId'' requestId) (\<lambda>rid.
       res_bind (nonempty_string ''methodName'' methodName) (\<lambda>name.
         if body = JUndef \<or> body = JNull
         then throw TypeError (''Cannot read property toString of '' @ js_string body)
         else case json_parse (js_string body) of
           None \<Rightarrow> throw SyntaxError ''Unexpected token''
         | Some v \<Rightarrow> Inr \<lparr>mq_requestId = rid, mq_methodName = name, mq_payload = v\<rparr>))"

record method_response =
  mr_requestId :: string
  mr_isResponseComplete :: bool
  mr_status :: jsval
  mr_payload :: jsval

definition DeviceMethodResponse :: "jsval \<Rightarrow> bool \<Rightarrow> method_response res" where
  "DeviceMethodResponse requestId transport =
     res_bind (nonempty_string ''requestId'' requestId) (\<lambda>rid.
       if \<not> transport then throw ReferenceError (''transport is '' @ [CHR 0x27] @ ''undefined'' @ [CHR 0x27])
       else Inr \<lparr>mr_requestId = rid, mr_isResponseComplete = False, mr_status = JNull, mr_payload = JNull\<rparr>)"

text \<open>
  \<open>send\<close>: the new object and the call \<open>sendMethodResponse(this, done)\<close> it makes. A thrown error
  leaves the object as it was.
\<close>

definition DeviceMethodResponse_send ::
  "method_response \<Rightarrow> jsval \<Rightarrow> jsval \<Rightarrow> jsval \<Rightarrow> (method_response \<times> jsval) res" where
  "DeviceMethodResponse_send mr status payload done =
     (if mr_isResponseComplete mr
      then throw Error ''This response has already ended. Cannot end the same response more than once.''
      else if \<not> is_num status
      then throw ReferenceError (''\"status\" is \"'' @ js_string status @ ''\". Expected a number.'')
      else if is_fun payload \<and> done \<noteq> JUndef then throw Error ''Callback must be the last argument''
      else let (pl, cb) = (if is_fun payload then (JNull, payload) else (payload, done))
           in Inr (mr\<lparr>mr_status := status, mr_payload := pl, mr_isResponseComplete := True\<rparr>, cb))"

text \<open>What the client builds for one incoming call (\<open>_addMethodCallback\<close> of \<open>client.js\<close>).\<close>

definition client_methodMessage ::
  "(string \<Rightarrow> jsval option) \<Rightarrow> jsval \<Rightarrow> jsval \<Rightarrow> jsval \<Rightarrow> (method_request \<times> method_response) res" where
  "client_methodMessage json_parse requestId methodName body =
     res_bind (DeviceMethodRequest json_parse requestId methodName body) (\<lambda>request.
       res_bind (DeviceMethodResponse requestId True) (\<lambda>response. Inr (request, response)))"

text \<open>A sequence of calls of \<open>send\<close> and the responses passed to the transport.\<close>

fun send_all :: "method_response \<Rightarrow> (jsval \<times> jsval \<times> jsval) list \<Rightarrow> method_response list" where
  "send_all mr [] = []"
| "send_all mr ((st, pl, cb) # calls) = (case DeviceMethodResponse_send mr st pl cb of
       Inl e \<Rightarrow> send_all mr calls
     | Inr (mr', cb') \<Rightarrow> mr' # send_all mr' calls)"

section \<open>File upload API\<close>

record file_upload_api =
  fu_deviceId :: jsval
  fu_hostname :: jsval

definition cannot_be :: "string \<Rightarrow> jsval \<Rightarrow> 'a res" where
  "cannot_be name v = throw ReferenceError (name @ '' cannot be '' @ [CHR 0x27] @ js_string v @ [CHR 0x27])"

definition FileUploadApi :: "jsval \<Rightarrow> jsval \<Rightarrow> file_upload_api res" where
  "FileUploadApi deviceId hostname =
     (if falsy deviceId then cannot_be ''deviceId'' deviceId
      else if falsy hostname then cannot_be ''hostname'' hostname
      else Inr \<lparr>fu_deviceId = deviceId, fu_hostname = hostname\<rparr>)"

text \<open>The part both calls share: a string authorizes by header, anything else is x509 options.\<close>

definition with_auth :: "jsval \<Rightarrow> jsval dict \<Rightarrow> jsval dict \<times> jsval" where
  "with_auth auth headers =
     (if is_str auth then (dset ''Authorization'' auth headers, JNull) else (headers, auth))"

definition FileUploadApi_getBlobSharedAccessSignature ::
  "string \<Rightarrow> file_upload_api \<Rightarrow> jsval \<Rightarrow> jsval \<Rightarrow> http_options res" where
  "FileUploadApi_getBlobSharedAccessSignature userAgent api blobName auth =
     (if falsy blobName then cannot_be ''blobName'' blobName
      else if falsy auth then cannot_be ''auth'' auth
      else
        let path = devicePath (js_string (fu_deviceId api)) @ ''/files/'' @ js_string blobName @ versionQueryString;
            (headers, x509) = with_auth auth [(''Accept'', JStr ''application/json''), (''Host'', fu_hostname api),
                                              (''User-Agent'', JStr userAgent)]
        in Inr (fst (Http_buildRequest (JStr ''GET'') (JStr path) (JObj headers) (fu_hostname api) x509 (JFun 0))))"

text \<open>The callback: the error with the response attached, or the parsed body.\<close>

definition getBlobSas_onResponse ::
  "(string \<Rightarrow> jsval option) \<Rightarrow> http_call \<Rightarrow> (js_error option \<times> jsval) res" where
  "getBlobSas_onResponse json_parse call = (case hc_err call of
       Some e \<Rightarrow> Inr (Some (attach ''response'' (case hc_response call of Some r \<Rightarrow> response_val r | None \<Rightarrow> JUndef)
                       (attach ''responseBody'' (case hc_body call of Some b \<Rightarrow> JStr b | None \<Rightarrow> JUndef) e)), JUndef)
     | None \<Rightarrow> (case json_parse (case hc_body call of Some b \<Rightarrow> b | None \<Rightarrow> ''undefined'') of
           None \<Rightarrow> throw SyntaxError ''Unexpected token''
         | Some v \<Rightarrow> Inr (None, v)))"

definition FileUploadApi_notifyUploadComplete ::
  "(jsval \<Rightarrow> string) \<Rightarrow> string \<Rightarrow> file_upload_api \<Rightarrow> jsval \<Rightarrow> jsval \<Rightarrow> jsval \<Rightarrow> (http_options \<times> string) res" where
  "FileUploadApi_notifyUploadComplete json_stringify userAgent api correlationId auth uploadResult =
     (if falsy correlationId then cannot_be ''correlationId'' correlationId
      else if falsy auth then cannot_be ''auth'' auth
      else if falsy uploadResult then cannot_be ''uploadResult'' uploadResult
      else
        let path = devicePath (js_string (fu_deviceId api)) @ ''/files/notifications/''
                     @ encodeURIComponent (js_string correlationId) @ versionQueryString;
            body = json_stringify uploadResult;
            (headers, x509) = with_auth auth [(''Host'', fu_hostname api), (''User-Agent'', JStr userAgent),
               (''Content-Type'', JStr ''application/json; charset=utf-8''),
               (''Content-Length'', JNum (int (length body))),
               (''iothub-name'', JStr (hd (js_split ''.'' (js_string (fu_hostname api)))))]
        in Inr (fst (Http_buildRequest (JStr ''POST'') (JStr path) (JObj headers) (fu_hostname api) x509 (JFun 0)), body))"

section \<open>Upload results and the storage client\<close>

record blob_upload_result =
  bu_isSuccess :: bool
  bu_statusCode :: jsval
  bu_statusDescription :: jsval

definition BlobUploadResult :: "bool \<Rightarrow> jsval \<Rightarrow> jsval \<Rightarrow> blob_upload_result" where
  "BlobUploadResult isSuccess code desc =
     \<lparr>bu_isSuccess = isSuccess, bu_statusCode = code, bu_statusDescription = desc\<rparr>"

definition BlobUploadResult_fromAzureStorageCallbackArgs ::
  "js_error option \<Rightarrow> jsval \<Rightarrow> jsval \<Rightarrow> blob_upload_result res" where
  "BlobUploadResult_fromAzureStorageCallbackArgs err body response =
     (if err = None \<and> (falsy body \<or> falsy response)
      then throw ReferenceError ''if err is null, body and response must be supplied''
      else case err of
        Some e \<Rightarrow> Inr (BlobUploadResult False
            (if truthy response then jget response ''statusCode'' else JNum (- 1))
            (if truthy response then jget response ''body'' else JStr (err_message e)))
      | None \<Rightarrow> Inr (BlobUploadResult True (jget response ''statusCode'') (jget response ''body'')))"

definition upload_result_val :: "blob_upload_result \<Rightarrow> jsval" where
  "upload_result_val r = JObj [(''isSuccess'', JBool (bu_isSuccess r)), (''statusCode'', bu_statusCode r),
     (''statusDescription'', bu_statusDescription r)]"

text \<open>The calls of the storage API: host, token, container, blob, stream and length.\<close>

definition BlobUploader_uploadToBlob ::
  "jsval \<Rightarrow> jsval \<Rightarrow> jsval \<Rightarrow> (jsval \<times> jsval \<times> jsval \<times> jsval \<times> jsval \<times> jsval) res" where
  "BlobUploader_uploadToBlob blobInfo stream streamLength =
     (if falsy blobInfo then cannot_be ''blobInfo'' blobInfo
      else if falsy stream then cannot_be ''stream'' stream
      else if falsy streamLength then cannot_be ''streamLength'' streamLength
      else if falsy (jget blobInfo ''hostName'') \<or> falsy (jget blobInfo ''containerName'')
           \<or> falsy (jget blobInfo ''blobName'') \<or> falsy (jget blobInfo ''sasToken'')
      then throw ArgumentError ''Invalid upload parameters''
      else Inr (jget blobInfo ''hostName'', jget blobInfo ''sasToken'', jget blobInfo ''containerName'',
                jget blobInfo ''blobName'', stream, streamLength))"

section \<open>The blob upload client\<close>

record blob_upload_client =
  bc_config :: "jsval dict"
  bc_api :: file_upload_api

definition BlobUploadClient :: "jsval dict option \<Rightarrow> blob_upload_client res" where
  "BlobUploadClient config = (case config of
       None \<Rightarrow> cannot_be ''config'' JUndef
     | Some cfg \<Rightarrow> res_bind (FileUploadApi (dget cfg ''deviceId'') (dget cfg ''host'')) (\<lambda>api.
         Inr \<lparr>bc_config = cfg, bc_api = api\<rparr>))"

definition BlobUploadClient_updateSharedAccessSignature :: "blob_upload_client \<Rightarrow> jsval \<Rightarrow> blob_upload_client" where
  "BlobUploadClient_updateSharedAccessSignature c sas =
     c\<lparr>bc_config := dset ''sharedAccessSignature'' sas (bc_config c)\<rparr>"

definition upload_auth :: "blob_upload_client \<Rightarrow> jsval" where
  "upload_auth c = (if truthy (dget (bc_config c) ''x509'') then dget (bc_config c) ''x509''
                    else dget (bc_config c) ''sharedAccessSignature'')"

text \<open>
  One upload: the outcomes of the three calls are the arguments (the token, the upload, the
  notification); the result lists what was asked of the network, and the argument of \<open>done\<close>.
\<close>

datatype upload_call =
    AskSas http_options
  | Upload "jsval \<times> jsval \<times> jsval \<times> jsval \<times> jsval \<times> jsval"
  | Notify blob_upload_result http_options string

definition notify_outcome :: "js_error option \<Rightarrow> js_error option" where
  "notify_outcome err = map_option (\<lambda>e. attach ''innerError'' (error_val e)
     (mk_error BlobUploadNotificationError ''Could not notify the IoT Hub of the file upload completion.'')) err"

definition BlobUploadClient_uploadToBlob ::
  "(string \<Rightarrow> jsval option) \<Rightarrow> (jsval \<Rightarrow> string) \<Rightarrow> string \<Rightarrow> blob_upload_client \<Rightarrow> jsval \<Rightarrow> jsval \<Rightarrow> jsval \<Rightarrow>
   http_call \<Rightarrow> js_error option \<times> jsval \<times> jsval \<Rightarrow> js_error option \<Rightarrow> (upload_call list \<times> js_error option) res" where
  "BlobUploadClient_uploadToBlob json_parse json_stringify userAgent c blobName stream streamLength sasCall stored notified =
     (let auth = upload_auth c in
      res_bind (FileUploadApi_getBlobSharedAccessSignature userAgent (bc_api c) blobName auth) (\<lambda>ask.
      res_bind (getBlobSas_onResponse json_parse sasCall) (\<lambda>(err, uploadParams). case err of
          Some e \<Rightarrow> Inr ([AskSas ask], Some (attach ''innerError'' (error_val e)
                      (mk_error BlobSasError ''Could not obtain blob shared access signature.'')))
        | None \<Rightarrow>
            res_bind (BlobUploader_uploadToBlob uploadParams stream streamLength) (\<lambda>up.
            res_bind (BlobUploadResult_fromAzureStorageCallbackArgs (fst stored) (fst (snd stored)) (snd (snd stored))) (\<lambda>r.
            res_bind (FileUploadApi_notifyUploadComplete json_stringify userAgent (bc_api c)
                       (jget uploadParams ''correlationId'') auth (upload_result_val r)) (\<lambda>(opts, body).
              Inr ([AskSas ask, Upload up, Notify r opts body], notify_outcome notified)))))))"

section \<open>Laws\<close>

lemma send_complete: "mr_isResponseComplete mr \<Longrightarrow> send_all mr calls = []"
  by (induction mr calls rule: send_all.induct) (auto simp: DeviceMethodResponse_send_def)

lemma send_Inr:
  "DeviceMethodResponse_send mr st pl cb = Inr (mr', cb') \<Longrightarrow>
   mr_isResponseComplete mr' \<and> mr_requestId mr' = mr_requestId mr \<and> mr_status mr' = st \<and> is_num st"
  by (auto simp: DeviceMethodResponse_send_def Let_def split: if_splits)

lemma uploadResult_success:
  "BlobUploadResult_fromAzureStorageCallbackArgs err body resp = Inr r \<Longrightarrow> bu_isSuccess r \<longleftrightarrow> err = None"
  by (cases err) (auto simp: BlobUploadResult_fromAzureStorageCallbackArgs_def BlobUploadResult_def split: if_splits)

lemma notify_request:
  "FileUploadApi_notifyUploadComplete js ua api cid auth res = Inr (opts, body) \<Longrightarrow>
   ho_method opts = JStr ''POST'' \<and> ho_host opts = fu_hostname api"
  by (auto simp: FileUploadApi_notifyUploadComplete_def cannot_be_def Http_buildRequest_def Let_def case_prod_beta
      split: if_splits)

lemma notify_outcome_kind:
  "(notify_outcome err = None \<longleftrightarrow> err = None)
   \<and> (\<forall>e. notify_outcome err = Some e \<longrightarrow> err_kind e = BlobUploadNotificationError)"
  by (auto simp: notify_outcome_def)

section \<open>Properties\<close>

text \<open>However often and with whatever arguments \<open>send\<close> is called on a response, at most one response
  reaches the transport; it is the first call with a numeric status and a well-placed callback,
  and it carries the request's identifier and that status.\<close>

lemma method_response_once:
  "case send_all mr calls of
     [] \<Rightarrow> mr_isResponseComplete mr \<or> list_all (\<lambda>(st, pl, cb). \<not> is_num st \<or> (is_fun pl \<and> cb \<noteq> JUndef)) calls
   | [mr'] \<Rightarrow> \<not> mr_isResponseComplete mr \<and> mr_isResponseComplete mr' \<and> mr_requestId mr' = mr_requestId mr
        \<and> (\<exists>pl cb. (mr_status mr', pl, cb) \<in> set calls \<and> is_num (mr_status mr'))
   | _ \<Rightarrow> False"
proof (induction mr calls rule: send_all.induct)
  case (1 mr)
  then show ?case by simp
next
  case (2 mr st pl cb calls)
  show ?case
  proof (cases "DeviceMethodResponse_send mr st pl cb")
    case (Inl e)
    then have "mr_isResponseComplete mr \<or> \<not> is_num st \<or> (is_fun pl \<and> cb \<noteq> JUndef)"
      by (auto simp: DeviceMethodResponse_send_def Let_def split: if_splits)
    with 2(1) [OF Inl] Inl show ?thesis by (auto split: list.splits)
  next
    case (Inr r)
    obtain mr' cb' where r: "r = (mr', cb')" by (cases r)
    have "\<not> mr_isResponseComplete mr"
      using Inr by (auto simp: DeviceMethodResponse_send_def split: if_splits)
    with send_Inr [OF Inr [unfolded r]] Inr r show ?thesis
      by (simp add: send_complete) blast
  qed
qed

lemma method_response_once_example:
  "\<exists>mr mr'. DeviceMethodResponse (JStr ''7'') True = Inr mr
     \<and> send_all mr [(JStr ''x'', JNull, JUndef), (JNum 200, JNull, JUndef), (JNum 500, JNull, JUndef)] = [mr']
     \<and> mr_isResponseComplete mr' \<and> mr_requestId mr' = mr_requestId mr"
proof -
  obtain mr where mr: "DeviceMethodResponse (JStr ''7'') True = Inr mr" "\<not> mr_isResponseComplete mr"
    by (simp add: DeviceMethodResponse_def nonempty_string_def)
  then obtain mr' where mr': "send_all mr [(JStr ''x'', JNull, JUndef), (JNum 200, JNull, JUndef), (JNum 500, JNull, JUndef)] = [mr']"
    by (simp add: DeviceMethodResponse_send_def)
  with method_response_once [of mr "[(JStr ''x'', JNull, JUndef), (JNum 200, JNull, JUndef), (JNum 500, JNull, JUndef)]"]
  have "mr_isResponseComplete mr' \<and> mr_requestId mr' = mr_requestId mr" by (simp only: list.case)
  with mr(1) mr' show ?thesis by blast
qed


definition demo_upload_client :: blob_upload_client where
  "demo_upload_client = \<lparr>bc_config = [(''sharedAccessSignature'', JStr ''sas'')],
     bc_api = \<lparr>fu_deviceId = JStr ''d'', fu_hostname = JStr ''h''\<rparr>\<rparr>"

definition demo_upload_params :: jsval where
  "demo_upload_params = JObj [(''hostName'', JStr ''s''), (''containerName'', JStr ''c''), (''blobName'', JStr ''b''),
     (''sasToken'', JStr ''t''), (''correlationId'', JStr ''i'')]"


end
