(* ===== verification/Event_Listeners.thy ===== *)
theory Event_Listeners
  imports Prelude
begin

text \<open>
  Node's \<open>EventEmitter\<close> as the receivers of the SDK use it, and the contract they have in common:
  a resource is attached when the first listener comes and detached when the last one goes.

  The listeners of an emitter are the list of the event names they are registered for. Node
  fires \<open>newListener\<close> before a listener is added and \<open>removeListener\<close> after it is removed;
  \<open>removeAllListeners(name)\<close> removes them one by one when \<open>removeListener\<close> itself has listeners.
\<close>

type_synonym listeners = "string list"

definition listener_count :: "listeners \<Rightarrow> string \<Rightarrow> nat" where
  "listener_count ls ev = length (filter (\<lambda>n. n = ev) ls)"

lemma listener_count_simps [simp]:
  "listener_count [] ev = 0"
  "listener_count (n # ls) ev = (if n = ev then Suc (listener_count ls ev) else listener_count ls ev)"
  "listener_count (ls @ [n]) ev = listener_count ls ev + (if n = ev then 1 else 0)"
  by (simp_all add: listener_count_def)

lemma listener_count_remove1 [simp]:
  "n \<in> set ls \<Longrightarrow> listener_count (remove1 n ls) ev = listener_count ls ev - (if n = ev then 1 else 0)"
  by (auto simp: listener_count_def filter_remove1 length_remove1)

lemma listener_count_pos: "listener_count ls ev > 0 \<longleftrightarrow> ev \<in> set ls"
  by (auto simp: listener_count_def filter_empty_conv)

lemma length_filter_remove1:
  "n \<in> set ls \<Longrightarrow> length (filter P (remove1 n ls)) = length (filter P ls) - (if P n then 1 else 0)"
  by (auto simp: filter_remove1 length_remove1)

text \<open>
  The contract: \<open>add\<close> and \<open>remove\<close> register and unregister a listener for an event, \<open>count\<close> counts the
  relevant ones, \<open>active\<close> tells whether the resource is attached.
\<close>

locale listener_driven =
  fixes add :: "string \<Rightarrow> 's \<Rightarrow> 's"
    and remove :: "string \<Rightarrow> 's \<Rightarrow> 's"
    and wf :: "'s \<Rightarrow> bool"
    and count :: "'s \<Rightarrow> nat"
    and active :: "'s \<Rightarrow> bool"
  assumes wf_add: "wf s \<Longrightarrow> wf (add ev s)"
    and wf_remove: "wf s \<Longrightarrow> wf (remove ev s)"
    and wf_active: "wf s \<Longrightarrow> active s \<longleftrightarrow> count s > 0"
begin

fun run :: "'s \<Rightarrow> (bool \<times> string) list \<Rightarrow> 's" where
  "run s [] = s"
| "run s ((b, ev) # ops) = run (if b then add ev s else remove ev s) ops"

lemma wf_run: "wf s \<Longrightarrow> wf (run s ops)"
  by (induction s ops rule: run.induct) (auto simp: wf_add wf_remove)

lemma active_run: "wf s \<Longrightarrow> active (run s ops) \<longleftrightarrow> count (run s ops) > 0"
  using wf_run wf_active by blast

end

end
