(* ===== verification/Device_Mqtt.thy ===== *)
theory Device_Mqtt
  imports Error_Translation Event_Listeners
begin

text \<open>
  The MQTT transport of the device (\<open>node/device/transport/mqtt/lib\<close>): the base connection, the
  transport object, the receiver of messages and methods and the receiver of twin messages.
  Node's \<open>url.parse\<close> and \<open>querystring.parse\<close>, \<open>JSON.stringify\<close> and the version in \<open>package.json\<close> are
  arguments. What a function asks of the \<open>mqtt\<close> package is its list of effects; the package's
  answers are separate operations.
\<close>

datatype mqtt_effect =
    MqSubscribe string
  | MqUnsubscribe string
  | MqOnMessage
  | MqRemoveOnMessage
  | MqPublish string string int
  | MqConnect jsval "jsval dict"
  | MqRemoveAllListeners
  | MqEnd
  | MqDone "js_error option" "result option"
  | MqDoneConnack jsval
  | MqEmit string jsval

section \<open>The message receiver\<close>

record mqtt_topic =
  tp_name :: string
  tp_listenersCount :: int
  tp_subscribeInProgress :: bool
  tp_subscribed :: bool

record mqtt_receiver =
  rc_message :: mqtt_topic
  rc_method :: mqtt_topic
  rc_handlers :: nat
  rc_listeners :: listeners

definition mqtt_topic_init :: "string \<Rightarrow> mqtt_topic" where
  "mqtt_topic_init name = \<lparr>tp_name = name, tp_listenersCount = 0, tp_subscribeInProgress = False, tp_subscribed = False\<rparr>"

definition MqttReceiver :: "bool \<Rightarrow> string \<Rightarrow> mqtt_receiver res" where
  "MqttReceiver mqttClient topicMessage =
     (if \<not> mqttClient then throw ReferenceError ''mqttClient cannot be falsy''
      else if topicMessage = [] then throw ReferenceError ''topicMessage cannot be falsy''
      else Inr \<lparr>rc_message = mqtt_topic_init topicMessage,
                rc_method = mqtt_topic_init ''$iothub/methods/POST/#'', rc_handlers = 0, rc_listeners = []\<rparr>)"

definition getTotalListeners :: "mqtt_receiver \<Rightarrow> int" where
  "getTotalListeners r = tp_listenersCount (rc_message r) + tp_listenersCount (rc_method r)"

datatype topic_id = MessageTopic | MethodTopic

definition topic_of_event :: "string \<Rightarrow> topic_id option" where
  "topic_of_event eventName =
     (if prefix ''method_'' eventName then Some MethodTopic
      else if eventName = ''message'' then Some MessageTopic else None)"

fun get_topic :: "mqtt_receiver \<Rightarrow> topic_id \<Rightarrow> mqtt_topic" where
  "get_topic r MessageTopic = rc_message r"
| "get_topic r MethodTopic = rc_method r"

fun set_topic :: "topic_id \<Rightarrow> mqtt_topic \<Rightarrow> mqtt_receiver \<Rightarrow> mqtt_receiver" where
  "set_topic MessageTopic t r = r\<lparr>rc_message := t\<rparr>"
| "set_topic MethodTopic t r = r\<lparr>rc_method := t\<rparr>"

definition MqttReceiver_setupSubscription :: "mqtt_receiver \<Rightarrow> topic_id \<Rightarrow> mqtt_receiver \<times> mqtt_effect list" where
  "MqttReceiver_setupSubscription r t =
     (set_topic t ((get_topic r t)\<lparr>tp_subscribeInProgress := True\<rparr>) r, [MqSubscribe (tp_name (get_topic r t))])"

definition MqttReceiver_onSuback :: "mqtt_receiver \<Rightarrow> topic_id \<Rightarrow> bool \<Rightarrow> mqtt_receiver" where
  "MqttReceiver_onSuback r t err =
     (let tp = (get_topic r t)\<lparr>tp_subscribeInProgress := False\<rparr>
      in set_topic t (if err then tp else tp\<lparr>tp_subscribed := True\<rparr>) r)"

definition MqttReceiver_removeSubscription :: "mqtt_receiver \<Rightarrow> topic_id \<Rightarrow> mqtt_receiver \<times> mqtt_effect list" where
  "MqttReceiver_removeSubscription r t = (r, [MqUnsubscribe (tp_name (get_topic r t))])"

definition MqttReceiver_onUnsuback :: "mqtt_receiver \<Rightarrow> topic_id \<Rightarrow> bool \<Rightarrow> mqtt_receiver" where
  "MqttReceiver_onUnsuback r t err =
     (if err then r else set_topic t ((get_topic r t)\<lparr>tp_subscribed := False\<rparr>) r)"

text \<open>The handlers of \<open>newListener\<close> and \<open>removeListener\<close>.\<close>

definition MqttReceiver_newListener :: "mqtt_receiver \<Rightarrow> string \<Rightarrow> mqtt_receiver \<times> mqtt_effect list" where
  "MqttReceiver_newListener r eventName = (case topic_of_event eventName of
       None \<Rightarrow> (r, [])
     | Some t \<Rightarrow>
         (let tp = get_topic r t;
              r1 = set_topic t (tp\<lparr>tp_listenersCount := tp_listenersCount tp + 1\<rparr>) r;
              (r2, e2) = (if getTotalListeners r1 = 1
                          then (r1\<lparr>rc_handlers := Suc (rc_handlers r1)\<rparr>, [MqOnMessage]) else (r1, []));
              (r3, e3) = (if \<not> tp_subscribed tp \<and> \<not> tp_subscribeInProgress tp
                          then MqttReceiver_setupSubscription r2 t else (r2, []))
          in (r3, e2 @ e3)))"

definition MqttReceiver_removedListener :: "mqtt_receiver \<Rightarrow> string \<Rightarrow> mqtt_receiver \<times> mqtt_effect list" where
  "MqttReceiver_removedListener r eventName = (case topic_of_event eventName of
       None \<Rightarrow> (r, [])
     | Some t \<Rightarrow>
         (let tp = get_topic r t;
              r1 = set_topic t (tp\<lparr>tp_listenersCount := tp_listenersCount tp - 1\<rparr>) r;
              (r2, e2) = (if getTotalListeners r1 = 0
                          then (r1\<lparr>rc_handlers := rc_handlers r1 - 1\<rparr>, [MqRemoveOnMessage]) else (r1, []));
              (r3, e3) = (if tp_listenersCount tp - 1 = 0 \<and> tp_subscribed tp
                          then MqttReceiver_removeSubscription r2 t else (r2, []))
          in (r3, e2 @ e3)))"

text \<open>\<open>on\<close>, \<open>removeListener\<close> and \<open>removeAllListeners\<close> of the emitter.\<close>

definition receiver_on :: "string \<Rightarrow> mqtt_receiver \<Rightarrow> mqtt_receiver \<times> mqtt_effect list" where
  "receiver_on ev r = (let (r1, es) = MqttReceiver_newListener r ev
                       in (r1\<lparr>rc_listeners := rc_listeners r1 @ [ev]\<rparr>, es))"

definition receiver_off :: "string \<Rightarrow> mqtt_receiver \<Rightarrow> mqtt_receiver \<times> mqtt_effect list" where
  "receiver_off ev r =
     (if ev \<in> set (rc_listeners r)
      then MqttReceiver_removedListener (r\<lparr>rc_listeners := remove1 ev (rc_listeners r)\<rparr>) ev
      else (r, []))"

fun repeat_off :: "nat \<Rightarrow> string \<Rightarrow> mqtt_receiver \<Rightarrow> mqtt_receiver \<times> mqtt_effect list" where
  "repeat_off 0 ev r = (r, [])"
| "repeat_off (Suc n) ev r =
     (let (r1, e1) = receiver_off ev r; (r2, e2) = repeat_off n ev r1 in (r2, e1 @ e2))"

definition receiver_removeAll :: "string \<Rightarrow> mqtt_receiver \<Rightarrow> mqtt_receiver \<times> mqtt_effect list" where
  "receiver_removeAll ev r = repeat_off (listener_count (rc_listeners r) ev) ev r"

definition MqttReceiver_onDeviceMethod :: "mqtt_receiver \<Rightarrow> string \<Rightarrow> mqtt_receiver \<times> mqtt_effect list" where
  "MqttReceiver_onDeviceMethod r methodName = receiver_on (''method_'' @ methodName) r"

section \<open>Dispatch of incoming messages\<close>

text \<open>The two regular expressions; \<open>.\<close> matches no line terminator.\<close>

definition one_line :: "string \<Rightarrow> bool" where
  "one_line s \<longleftrightarrow> CHR 0x0A \<notin> set s \<and> CHR 0x0D \<notin> set s"

definition matches_message :: "string \<Rightarrow> bool" where
  "matches_message topic \<longleftrightarrow> prefix ''devices/'' topic
     \<and> contains ''/messages/devicebound/'' (drop 8 topic) \<and> one_line topic"

definition matches_method :: "string \<Rightarrow> bool" where
  "matches_method topic \<longleftrightarrow> prefix ''$iothub/methods/POST/'' topic \<and> one_line topic"

definition dispatch_target :: "string \<Rightarrow> topic_id option" where
  "dispatch_target topic = (if matches_message topic then Some MessageTopic
     else if matches_method topic then Some MethodTopic else None)"

record method_message =
  mm_module :: string
  mm_requestId :: "string option"
  mm_properties :: "string dict"
  mm_body :: jsval
  mm_verb :: "string option"
  mm_methodName :: "string option"

text \<open>
  \<open>_parseMessage\<close>: \<open>url_parse\<close> gives path and query, or \<open>None\<close> when it throws. The outer result
  is a thrown error, the inner \<open>None\<close> is undefined. A message with no module has an empty one.
\<close>

definition strip_query :: "string \<Rightarrow> string" where
  "strip_query s = takeWhile (\<lambda>c. c \<noteq> CHR ''?'') s"

definition MqttReceiver_parseMessage ::
  "(string \<Rightarrow> (string \<times> string) option) \<Rightarrow> (string \<Rightarrow> string dict) \<Rightarrow> string \<Rightarrow> jsval \<Rightarrow> method_message option res" where
  "MqttReceiver_parseMessage url_parse qs_parse topic body = (case url_parse topic of
       None \<Rightarrow> Inr None
     | Some (upath, uquery) \<Rightarrow>
         (let path0 = js_split ''/'' upath; query = qs_parse uquery;
              path = butlast path0 @ [strip_query (last path0)] in
          if hd path \<noteq> ''$iothub'' then Inr None
          else if length path \<le> 1 \<or> path ! 1 = [] then
            Inr (Some \<lparr>mm_module = [], mm_requestId = None, mm_properties = [], mm_body = JUndef,
                       mm_verb = None, mm_methodName = None\<rparr>)
          else
            let rid = (case map_of query ''$rid'' of Some v \<Rightarrow> if v = [] then None else Some v | None \<Rightarrow> None);
                m = \<lparr>mm_module = path ! 1, mm_requestId = rid, mm_properties = AList.delete ''$rid'' query,
                     mm_body = body, mm_verb = None, mm_methodName = None\<rparr> in
            if length path > 2 \<and> path ! 2 \<noteq> [] then
              if length path > 3 \<and> path ! 3 \<noteq> []
              then Inr (Some (m\<lparr>mm_verb := Some (path ! 2), mm_methodName := Some (path ! 3)\<rparr>))
              else throw Error (''Device method call'' @ [CHR 0x27] @ ''s MQTT topic name does not include the method name.'')
            else Inr (Some m)))"

text \<open>\<open>_onDeviceMethod\<close>: the event emitted, with its message.\<close>

definition MqttReceiver_handleDeviceMethod ::
  "(string \<Rightarrow> (string \<times> string) option) \<Rightarrow> (string \<Rightarrow> string dict) \<Rightarrow> string \<Rightarrow> jsval \<Rightarrow>
   (string \<times> method_message) option res" where
  "MqttReceiver_handleDeviceMethod url_parse qs_parse topic payload =
     res_bind (MqttReceiver_parseMessage url_parse qs_parse topic payload) (\<lambda>m. case m of
         None \<Rightarrow> Inr None
       | Some msg \<Rightarrow>
           if mm_module msg \<noteq> ''methods'' then throw TypeError ''Cannot read property methodName of undefined''
           else Inr (Some (''method_'' @ (case mm_methodName msg of Some n \<Rightarrow> n | None \<Rightarrow> ''undefined''), msg)))"

definition MqttReceiver_onC2DMessage :: "jsval \<Rightarrow> message" where
  "MqttReceiver_onC2DMessage payload = Message payload"

section \<open>The twin receiver\<close>

record mqtt_twin_receiver =
  tr_listeners :: listeners
  tr_handlers :: nat
  tr_subscribing :: "string list"

definition responseTopic :: string where
  "responseTopic = ''$iothub/twin/res/#''"

definition postTopic :: string where
  "postTopic = ''$iothub/twin/PATCH/properties/desired/#''"

definition MqttTwinReceiver :: "bool \<Rightarrow> mqtt_twin_receiver res" where
  "MqttTwinReceiver client =
     (if \<not> client then throw ReferenceError ''required parameter is missing''
      else Inr \<lparr>tr_listeners = [], tr_handlers = 0, tr_subscribing = []\<rparr>)"

definition startListeningIfFirstSubscription :: "mqtt_twin_receiver \<Rightarrow> mqtt_twin_receiver \<times> mqtt_effect list" where
  "startListeningIfFirstSubscription r =
     (if listener_count (tr_listeners r) ''response'' = 0 \<and> listener_count (tr_listeners r) ''post'' = 0
      then (r\<lparr>tr_handlers := Suc (tr_handlers r)\<rparr>, [MqOnMessage]) else (r, []))"

text \<open>The condition as it is written: the first count is only tested for being non-zero.\<close>

definition stopListeningIfLastUnsubscription :: "mqtt_twin_receiver \<Rightarrow> mqtt_twin_receiver \<times> mqtt_effect list" where
  "stopListeningIfLastUnsubscription r =
     (if listener_count (tr_listeners r) ''response'' \<noteq> 0 \<and> listener_count (tr_listeners r) ''post'' = 0
      then (r\<lparr>tr_handlers := tr_handlers r - 1\<rparr>, [MqRemoveOnMessage]) else (r, []))"

definition twin_topic :: "string \<Rightarrow> string option" where
  "twin_topic eventName = (if eventName = ''response'' then Some responseTopic
     else if eventName = ''post'' then Some postTopic else None)"

text \<open>The subscription is made on the next tick: it waits in \<open>tr_subscribing\<close>.\<close>

definition MqttTwinReceiver_handleNewListener ::
  "mqtt_twin_receiver \<Rightarrow> string \<Rightarrow> mqtt_twin_receiver \<times> mqtt_effect list" where
  "MqttTwinReceiver_handleNewListener r eventName = (case twin_topic eventName of
       None \<Rightarrow> (r, [])
     | Some topic \<Rightarrow>
         if listener_count (tr_listeners r) eventName = 0 then
           (let (r1, es) = startListeningIfFirstSubscription r
            in (r1\<lparr>tr_subscribing := tr_subscribing r1 @ [eventName]\<rparr>, es))
         else (r, []))"

definition MqttTwinReceiver_tick :: "mqtt_twin_receiver \<Rightarrow> mqtt_twin_receiver \<times> mqtt_effect list" where
  "MqttTwinReceiver_tick r = (case tr_subscribing r of
       [] \<Rightarrow> (r, [])
     | ev # evs \<Rightarrow> (r\<lparr>tr_subscribing := evs\<rparr>, (case twin_topic ev of Some t \<Rightarrow> [MqSubscribe t] | None \<Rightarrow> [])))"

definition MqttTwinReceiver_handleError :: "js_error \<Rightarrow> mqtt_effect list" where
  "MqttTwinReceiver_handleError err = [MqEmit ''error'' (error_val (Mqtt_translateError err))]"

definition MqttTwinReceiver_onSuback :: "string \<Rightarrow> js_error option \<Rightarrow> jsval \<Rightarrow> mqtt_effect list" where
  "MqttTwinReceiver_onSuback eventName err transportObject = (case err of
       Some e \<Rightarrow> MqttTwinReceiver_handleError e
     | None \<Rightarrow> [MqEmit ''subscribed'' (JObj [(''eventName'', JStr eventName), (''transportObject'', transportObject)])])"

definition MqttTwinReceiver_handleRemoveListener ::
  "mqtt_twin_receiver \<Rightarrow> string \<Rightarrow> mqtt_twin_receiver \<times> mqtt_effect list" where
  "MqttTwinReceiver_handleRemoveListener r eventName = (case twin_topic eventName of
       None \<Rightarrow> (r, [])
     | Some topic \<Rightarrow>
         if listener_count (tr_listeners r) eventName = 0 then
           (let (r1, es) = stopListeningIfLastUnsubscription r in (r1, es @ [MqUnsubscribe topic]))
         else (r, []))"

definition twin_receiver_on :: "string \<Rightarrow> mqtt_twin_receiver \<Rightarrow> mqtt_twin_receiver \<times> mqtt_effect list" where
  "twin_receiver_on ev r = (let (r1, es) = MqttTwinReceiver_handleNewListener r ev
                            in (r1\<lparr>tr_listeners := tr_listeners r1 @ [ev]\<rparr>, es))"

definition twin_receiver_off :: "string \<Rightarrow> mqtt_twin_receiver \<Rightarrow> mqtt_twin_receiver \<times> mqtt_effect list" where
  "twin_receiver_off ev r =
     (if ev \<in> set (tr_listeners r)
      then MqttTwinReceiver_handleRemoveListener (r\<lparr>tr_listeners := remove1 ev (tr_listeners r)\<rparr>) ev
      else (r, []))"

text \<open>\<open>_onResponseMessage\<close>: status and request identifier come out of the topic, as strings.\<close>

definition MqttTwinReceiver_onResponseMessage ::
  "(string \<Rightarrow> (string \<times> string) option) \<Rightarrow> (string \<Rightarrow> string dict) \<Rightarrow> string \<Rightarrow> jsval \<Rightarrow> mqtt_effect list" where
  "MqttTwinReceiver_onResponseMessage url_parse qs_parse topic message = (case url_parse topic of
       None \<Rightarrow> []
     | Some (upath, uquery) \<Rightarrow>
         (let path = js_split ''/'' upath; query = qs_parse uquery in
          if nth_opt path 0 = Some ''$iothub'' \<and> nth_opt path 1 = Some ''twin'' \<and> nth_opt path 2 = Some ''res''
          then case (nth_opt path 3, map_of query ''$rid'') of
              (Some status, Some rid) \<Rightarrow>
                if status \<noteq> [] \<and> rid \<noteq> [] then
                  [MqEmit ''response'' (JObj [(''topic'', JStr topic), (''status'', JStr status),
                                              (''$rid'', JStr rid), (''body'', message)])]
                else []
            | _ \<Rightarrow> []
          else []))"

definition MqttTwinReceiver_onPostMessage :: "string \<Rightarrow> jsval \<Rightarrow> mqtt_effect list" where
  "MqttTwinReceiver_onPostMessage topic message =
     (if prefix ''$iothub/twin/PATCH/properties/desired'' topic then [MqEmit ''post'' message] else [])"

definition MqttTwinReceiver_onMqttMessage ::
  "(string \<Rightarrow> (string \<times> string) option) \<Rightarrow> (string \<Rightarrow> string dict) \<Rightarrow> string \<Rightarrow> jsval \<Rightarrow> mqtt_effect list" where
  "MqttTwinReceiver_onMqttMessage url_parse qs_parse topic message =
     (if prefix ''$iothub/twin/res'' topic then MqttTwinReceiver_onResponseMessage url_parse qs_parse topic message
      else if prefix ''$iothub/twin/PATCH'' topic then MqttTwinReceiver_onPostMessage topic message
      else [])"

section \<open>The base connection\<close>

text \<open>
  \<open>mb_client\<close> tells whether there is an MQTT client object, \<open>mb_errListeners\<close> for which of its events
  the connection's error callback is attached.
\<close>

record mqtt_base =
  mb_client :: bool
  mb_receiver :: "mqtt_receiver option"
  mb_topicTelemetryPublish :: string
  mb_topicMessageSubscribe :: string
  mb_errListeners :: "string list"
  mb_closeListener :: bool
  mb_options :: "jsval dict"

definition MqttBase :: mqtt_base where
  "MqttBase = \<lparr>mb_client = False, mb_receiver = None, mb_topicTelemetryPublish = [], mb_topicMessageSubscribe = [],
               mb_errListeners = [], mb_closeListener = False, mb_options = []\<rparr>"

definition mqtt_config_ok :: "jsval dict \<Rightarrow> bool" where
  "mqtt_config_ok config \<longleftrightarrow> truthy (dget config ''host'') \<and> truthy (dget config ''deviceId'')
     \<and> (truthy (dget config ''sharedAccessSignature'')
        \<or> truthy (dget config ''x509'') \<and> truthy (jget (dget config ''x509'') ''cert'')
          \<and> truthy (jget (dget config ''x509'') ''key''))"

definition mqtt_options :: "string \<Rightarrow> jsval dict \<Rightarrow> jsval dict" where
  "mqtt_options version config =
     (let host = js_string (dget config ''host''); deviceId = js_string (dget config ''deviceId'');
          options = [(''cmd'', JStr ''connect''), (''protocolId'', JStr ''MQTT''), (''protocolVersion'', JNum 4),
                     (''clean'', JBool False), (''clientId'', dget config ''deviceId''),
                     (''rejectUnauthorized'', JBool True),
                     (''username'', JStr (host @ ''/'' @ deviceId @ ''/DeviceClientType=''
                        @ encodeURIComponent (''azure-iot-device/'' @ version) @ ''&'' @ drop 1 versionQueryString)),
                     (''reconnectPeriod'', JNum 0)]
      in if truthy (dget config ''sharedAccessSignature'')
         then options @ [(''password'', JBuf (concat (map (\<lambda>c. map char_of (utf8 c))
                            (js_string (dget config ''sharedAccessSignature'')))))]
         else options @ [(''cert'', jget (dget config ''x509'') ''cert''), (''key'', jget (dget config ''x509'') ''key''),
                         (''passphrase'', jget (dget config ''x509'') ''passphrase'')])"

definition MqttBase_connect :: "string \<Rightarrow> mqtt_base \<Rightarrow> jsval dict \<Rightarrow> bool \<Rightarrow> (mqtt_base \<times> mqtt_effect list) res" where
  "MqttBase_connect version b config done =
     (if \<not> mqtt_config_ok config then throw ReferenceError ''Invalid transport configuration''
      else
        let deviceId = js_string (dget config ''deviceId'');
            uri = (if truthy (dget config ''uri'') then dget config ''uri''
                   else JStr (''mqtts://'' @ js_string (dget config ''host'')));
            options = mqtt_options version config
        in Inr (b\<lparr>mb_client := True, mb_receiver := None,
                  mb_topicTelemetryPublish := ''devices/'' @ deviceId @ ''/messages/events/'',
                  mb_topicMessageSubscribe := ''devices/'' @ deviceId @ ''/messages/devicebound/#'',
                  mb_errListeners := (if done then [''error'', ''close'', ''offline'', ''disconnect''] else []),
                  mb_closeListener := False,
                  mb_options := options\<rparr>,
                [MqConnect uri options]))"

text \<open>An event of the MQTT client: the calls of \<open>done\<close> it causes.\<close>

definition MqttBase_onError :: "mqtt_base \<Rightarrow> string \<Rightarrow> js_error option \<Rightarrow> mqtt_base \<times> mqtt_effect list" where
  "MqttBase_onError b eventName err =
     ((if eventName = ''close'' \<and> mb_closeListener b then b\<lparr>mb_receiver := None\<rparr> else b),
      (if eventName \<in> set (mb_errListeners b) then [MqDone err None] else []))"

definition MqttBase_onConnect :: "mqtt_base \<Rightarrow> jsval \<Rightarrow> mqtt_base \<times> mqtt_effect list" where
  "MqttBase_onConnect b connack =
     (b\<lparr>mb_errListeners := filter (\<lambda>e. e \<notin> {''close'', ''offline'', ''disconnect''}) (mb_errListeners b),
        mb_closeListener := True\<rparr>,
      [MqDoneConnack connack])"

definition no_client :: "string \<Rightarrow> 'a res" where
  "no_client m = throw TypeError (''Cannot read property '' @ m @ '' of undefined'')"

definition MqttBase_disconnect :: "mqtt_base \<Rightarrow> (mqtt_base \<times> mqtt_effect list) res" where
  "MqttBase_disconnect b =
     (if \<not> mb_client b then no_client ''removeAllListeners''
      else Inr (b\<lparr>mb_errListeners := [], mb_closeListener := False\<rparr>, [MqRemoveAllListeners, MqEnd]))"

definition MqttBase_publish :: "mqtt_base \<Rightarrow> message option \<Rightarrow> mqtt_effect list res" where
  "MqttBase_publish b m = (case m of
       None \<Rightarrow> throw ReferenceError ''Invalid message''
     | Some msg \<Rightarrow>
         if \<not> mb_client b then no_client ''publish''
         else if msg_data msg = JUndef \<or> msg_data msg = JNull then no_client ''toString''
         else Inr [MqPublish (mb_topicTelemetryPublish b) (js_string (msg_data msg)) 1])"

definition MqttBase_onPuback :: "bool \<Rightarrow> js_error option \<Rightarrow> jsval \<Rightarrow> mqtt_effect list" where
  "MqttBase_onPuback done err puback =
     (if done then (case err of Some e \<Rightarrow> [MqDone (Some e) None] | None \<Rightarrow> [MqDone None (Some (MessageEnqueued puback))])
      else [])"

definition MqttBase_getReceiver :: "mqtt_base \<Rightarrow> (mqtt_base \<times> mqtt_receiver) res" where
  "MqttBase_getReceiver b = (case mb_receiver b of
       Some r \<Rightarrow> Inr (b, r)
     | None \<Rightarrow> res_bind (MqttReceiver (mb_client b) (mb_topicMessageSubscribe b)) (\<lambda>r.
         Inr (b\<lparr>mb_receiver := Some r\<rparr>, r)))"

section \<open>The transport\<close>

record mqtt =
  mt_config :: "jsval dict"
  mt_base :: mqtt_base
  mt_twinReceiver :: "mqtt_twin_receiver option"
  mt_onDisconnect :: bool

definition Mqtt :: "jsval dict \<Rightarrow> mqtt" where
  "Mqtt config = \<lparr>mt_config = dset ''uri'' (JStr (''mqtts://'' @ js_string (dget config ''host''))) config,
                  mt_base = MqttBase, mt_twinReceiver = None, mt_onDisconnect = False\<rparr>"

definition MqttWs :: "jsval dict \<Rightarrow> mqtt" where
  "MqttWs config = (let m = Mqtt config in
     m\<lparr>mt_config := dset ''uri'' (JStr (''wss://'' @ js_string (dget config ''host'') @ '':443/$iothub/websocket'')) (mt_config m)\<rparr>)"

definition Mqtt_connect :: "string \<Rightarrow> mqtt \<Rightarrow> (mqtt \<times> mqtt_effect list) res" where
  "Mqtt_connect version m =
     res_bind (MqttBase_connect version (mt_base m) (mt_config m) True) (\<lambda>(b, es).
       Inr (m\<lparr>mt_base := b, mt_twinReceiver := None, mt_onDisconnect := False\<rparr>, es))"

text \<open>The callback of \<open>connect\<close>, and the event \<open>disconnect\<close> it forwards from then on.\<close>

definition Mqtt_onConnected :: "mqtt \<Rightarrow> js_error option \<Rightarrow> jsval \<Rightarrow> mqtt \<times> mqtt_effect list" where
  "Mqtt_onConnected m err connack = (case err of
       Some e \<Rightarrow> (m, [MqDone (Some e) None])
     | None \<Rightarrow> (m\<lparr>mt_onDisconnect := True\<rparr>, [MqDoneConnack connack]))"

definition Mqtt_onDisconnectEvent :: "mqtt \<Rightarrow> jsval \<Rightarrow> mqtt_effect list" where
  "Mqtt_onDisconnectEvent m err = (if mt_onDisconnect m then [MqEmit ''disconnect'' err] else [])"

definition Mqtt_disconnect :: "mqtt \<Rightarrow> (mqtt \<times> mqtt_effect list) res" where
  "Mqtt_disconnect m = res_bind (MqttBase_disconnect (mt_base m)) (\<lambda>(b, es). Inr (m\<lparr>mt_base := b, mt_onDisconnect := False\<rparr>, es))"

definition Mqtt_sendEvent :: "mqtt \<Rightarrow> message option \<Rightarrow> mqtt_effect list res" where
  "Mqtt_sendEvent m msg = MqttBase_publish (mt_base m) msg"

definition Mqtt_getReceiver :: "mqtt \<Rightarrow> (mqtt \<times> mqtt_receiver) res" where
  "Mqtt_getReceiver m = res_bind (MqttBase_getReceiver (mt_base m)) (\<lambda>(b, r). Inr (m\<lparr>mt_base := b\<rparr>, r))"

definition Mqtt_complete :: "mqtt_effect list" where
  "Mqtt_complete = [MqDone None (Some (MessageCompleted JUndef))]"

definition Mqtt_reject :: "mqtt_effect list res" where
  "Mqtt_reject = throw NotImplementedError ''the MQTT transport does not support rejecting messages.''"

definition Mqtt_abandon :: "mqtt_effect list res" where
  "Mqtt_abandon = throw NotImplementedError ''The MQTT transport does not support abandoning messages.''"

text \<open>\<open>updateSharedAccessSignature\<close>: after the end of the old connection.\<close>

definition Mqtt_sasDisconnected :: "mqtt \<Rightarrow> jsval \<Rightarrow> js_error option \<Rightarrow> mqtt \<times> mqtt_effect list" where
  "Mqtt_sasDisconnected m sas err = (case err of
       Some e \<Rightarrow> (m, [MqDone (Some e) None])
     | None \<Rightarrow> (m\<lparr>mt_config := dset ''sharedAccessSignature'' sas (mt_config m), mt_base := MqttBase\<rparr>,
                [MqDone None (Some (SharedAccessSignatureUpdated True))]))"

definition Mqtt_setOptions :: "mqtt \<Rightarrow> jsval \<Rightarrow> mqtt res" where
  "Mqtt_setOptions m options =
     (if falsy options then throw ReferenceError (''The options parameter can not be '' @ [CHR 0x27] @ js_string options @ [CHR 0x27])
      else if truthy (dget (mt_config m) ''sharedAccessSignature'') \<and> truthy (jget options ''cert'')
      then throw ArgumentError ''Cannot set x509 options on a device that uses symmetric key authentication.''
      else Inr (m\<lparr>mt_config := dset ''x509'' (JObj [(''cert'', jget options ''cert''), (''key'', jget options ''key''),
                                                  (''passphrase'', jget options ''passphrase'')]) (mt_config m)\<rparr>))"

text \<open>The enumerable properties of what \<open>util.isObject\<close> accepts.\<close>

fun own_props :: "jsval \<Rightarrow> jsval dict option" where
  "own_props (JObj d) = Some d"
| "own_props (JArr vs) = Some (zip (map show_nat [0..<length vs]) vs)"
| "own_props (JBuf s) = Some (zip (map show_nat [0..<length s]) (map (\<lambda>c. JNum (int (of_char c))) s))"
| "own_props (JDate d) = Some []"
| "own_props _ = None"

text \<open>One round of the loop over the properties of a twin request.\<close>

definition twin_property :: "string res \<Rightarrow> string \<times> jsval \<Rightarrow> string res" where
  "twin_property acc kv = res_bind acc (\<lambda>propString. case kv of (k, v) \<Rightarrow>
     if \<not> is_str v \<and> \<not> is_num v \<and> \<not> is_bool v
     then throw ArgumentError ''required properties object has non-string properties''
     else Inr (propString @ (if propString = [] then ''?'' else ''&'') @ k @ ''='' @ js_string v))"

definition Mqtt_sendTwinRequest :: "mqtt \<Rightarrow> jsval \<Rightarrow> jsval \<Rightarrow> jsval \<Rightarrow> jsval \<Rightarrow> mqtt_effect list res" where
  "Mqtt_sendTwinRequest m verb resource properties body =
     (if falsy verb \<or> falsy resource \<or> falsy properties \<or> falsy body
      then throw ReferenceError ''required parameter is missing''
      else if \<not> is_str verb \<or> \<not> is_str resource
      then throw ArgumentError ''required string parameter is not a string''
      else case own_props properties of
        Some props \<Rightarrow>
          res_bind (foldl twin_property (Inr []) props) (\<lambda>propString.
            if \<not> mb_client (mt_base m) then no_client ''publish''
            else Inr [MqPublish (''$iothub/twin/'' @ js_string verb @ js_string resource @ propString) (js_string body) 0])
      | None \<Rightarrow> throw ArgumentError ''required properties parameter is not an object'')"

definition Mqtt_onTwinPublished :: "bool \<Rightarrow> js_error option \<Rightarrow> jsval \<Rightarrow> mqtt_effect list" where
  "Mqtt_onTwinPublished done err puback =
     (if done then (case err of Some e \<Rightarrow> [MqDone (Some (Mqtt_translateError e)) None]
                              | None \<Rightarrow> [MqDone None (Some (MessageEnqueued puback))])
      else [])"

definition validateResponse :: "jsval \<Rightarrow> (string \<times> int) res" where
  "validateResponse response =
     (let bad = (\<lambda>p e. throw Error (''Parameter '' @ [CHR 0x27] @ p @ [CHR 0x27] @ e)) in
      if falsy response then bad ''response'' '' is falsy''
      else if falsy (jget response ''requestId'') then bad ''response.requestId'' '' is falsy''
      else case jget response ''requestId'' of
        JStr rid \<Rightarrow>
          if falsy (jget response ''status'') then bad ''response.status'' '' is falsy''
          else (case jget response ''status'' of
              JNum st \<Rightarrow> Inr (rid, st)
            | _ \<Rightarrow> bad ''response.status'' '' is not a number'')
      | _ \<Rightarrow> bad ''response.requestId'' '' is not a string.'')"

definition Mqtt_sendMethodResponse :: "(jsval \<Rightarrow> string) \<Rightarrow> mqtt \<Rightarrow> jsval \<Rightarrow> mqtt_effect list res" where
  "Mqtt_sendMethodResponse json_stringify m response =
     res_bind (validateResponse response) (\<lambda>(rid, st).
       if \<not> mb_client (mt_base m) then no_client ''publish''
       else Inr [MqPublish (''$iothub/methods/res/'' @ show_int st @ ''/?$rid='' @ rid)
                   (json_stringify (jget response ''payload'')) 0])"

definition Mqtt_onMethodPublished :: "jsval \<Rightarrow> js_error option \<Rightarrow> mqtt_effect list" where
  "Mqtt_onMethodPublished done err =
     (if is_fun done then [MqDone (map_option Mqtt_translateError err) None] else [])"

definition Mqtt_getTwinReceiver :: "mqtt \<Rightarrow> bool \<Rightarrow> (mqtt \<times> mqtt_twin_receiver) res" where
  "Mqtt_getTwinReceiver m done =
     (if \<not> done then throw ReferenceError ''required parameter is missing''
      else case mt_twinReceiver m of
        Some r \<Rightarrow> Inr (m, r)
      | None \<Rightarrow> res_bind (MqttTwinReceiver (mb_client (mt_base m))) (\<lambda>r. Inr (m\<lparr>mt_twinReceiver := Some r\<rparr>, r)))"

section \<open>The invariant of the receiver\<close>

definition topic_listeners :: "mqtt_receiver \<Rightarrow> nat" where
  "topic_listeners r = length (filter (\<lambda>ev. topic_of_event ev \<noteq> None) (rc_listeners r))"

definition topic_events :: "topic_id \<Rightarrow> listeners \<Rightarrow> nat" where
  "topic_events t ls = length (filter (\<lambda>ev. topic_of_event ev = Some t) ls)"

definition receiver_wf :: "mqtt_receiver \<Rightarrow> bool" where
  "receiver_wf r \<longleftrightarrow> tp_listenersCount (rc_message r) = int (topic_events MessageTopic (rc_listeners r))
     \<and> tp_listenersCount (rc_method r) = int (topic_events MethodTopic (rc_listeners r))
     \<and> rc_handlers r = (if topic_listeners r > 0 then 1 else 0)"

lemma topic_events_simps [simp]:
  "topic_events t [] = 0"
  "topic_events t (ls @ [ev]) = topic_events t ls + (if topic_of_event ev = Some t then 1 else 0)"
  "ev \<in> set ls \<Longrightarrow> topic_events t (remove1 ev ls) = topic_events t ls - (if topic_of_event ev = Some t then 1 else 0)"
  by (simp_all add: topic_events_def length_filter_remove1)

lemma topic_listeners_sum: "topic_listeners r = topic_events MessageTopic (rc_listeners r) + topic_events MethodTopic (rc_listeners r)"
proof -
  have "length (filter (\<lambda>ev. topic_of_event ev \<noteq> None) ls) = topic_events MessageTopic ls + topic_events MethodTopic ls" for ls
  proof (induction ls)
    case (Cons ev ls)
    then show ?case by (cases "topic_of_event ev") (auto simp: topic_events_def split: topic_id.splits, (metis topic_id.exhaust)+)
  qed simp
  then show ?thesis by (simp add: topic_listeners_def)
qed

lemma topic_events_pos: "ev \<in> set ls \<Longrightarrow> topic_of_event ev = Some t \<Longrightarrow> topic_events t ls > 0"
  by (auto simp: topic_events_def filter_empty_conv)

lemma wf_receiver_on: "receiver_wf r \<Longrightarrow> receiver_wf (fst (receiver_on ev r))"
  by (cases "topic_of_event ev"; cases "the (topic_of_event ev)")
    (auto simp: receiver_wf_def receiver_on_def MqttReceiver_newListener_def topic_listeners_sum getTotalListeners_def
      MqttReceiver_setupSubscription_def Let_def)

lemma wf_receiver_off: "receiver_wf r \<Longrightarrow> receiver_wf (fst (receiver_off ev r))"
  using topic_events_pos [of ev "rc_listeners r"]
  by (cases "topic_of_event ev"; cases "the (topic_of_event ev)")
    (auto simp: receiver_wf_def receiver_off_def MqttReceiver_removedListener_def topic_listeners_sum getTotalListeners_def
      MqttReceiver_removeSubscription_def Let_def of_nat_diff)

interpretation mqtt_listening: listener_driven
  "\<lambda>ev r. fst (receiver_on ev r)" "\<lambda>ev r. fst (receiver_off ev r)" receiver_wf topic_listeners
  "\<lambda>r. rc_handlers r = 1"
  by unfold_locales (simp_all add: wf_receiver_on wf_receiver_off, simp add: receiver_wf_def)

text \<open>Everything that can happen to a receiver: listeners come and go, the broker acknowledges.\<close>

datatype receiver_event =
    ROn string
  | ROff string
  | RRemoveAll string
  | RSuback topic_id bool
  | RUnsuback topic_id bool

fun receiver_apply :: "mqtt_receiver \<Rightarrow> receiver_event \<Rightarrow> mqtt_receiver" where
  "receiver_apply r (ROn ev) = fst (receiver_on ev r)"
| "receiver_apply r (ROff ev) = fst (receiver_off ev r)"
| "receiver_apply r (RRemoveAll ev) = fst (receiver_removeAll ev r)"
| "receiver_apply r (RSuback t err) = MqttReceiver_onSuback r t err"
| "receiver_apply r (RUnsuback t err) = MqttReceiver_onUnsuback r t err"

lemma wf_repeat_off: "receiver_wf r \<Longrightarrow> receiver_wf (fst (repeat_off n ev r))"
  by (induction n arbitrary: r) (simp_all add: case_prod_beta Let_def mqtt_listening.wf_remove)

lemma wf_acknowledge:
  "receiver_wf r \<Longrightarrow> receiver_wf (MqttReceiver_onSuback r t err)"
  "receiver_wf r \<Longrightarrow> receiver_wf (MqttReceiver_onUnsuback r t err)"
  by (cases t; simp add: receiver_wf_def MqttReceiver_onSuback_def MqttReceiver_onUnsuback_def topic_listeners_def Let_def)+

lemma wf_receiver_event: "receiver_wf r \<Longrightarrow> receiver_wf (receiver_apply r e)"
  by (cases e) (simp_all add: mqtt_listening.wf_add mqtt_listening.wf_remove wf_repeat_off receiver_removeAll_def
      wf_acknowledge)

lemma wf_receiver_run: "receiver_wf r \<Longrightarrow> receiver_wf (foldl receiver_apply r es)"
  by (induction es arbitrary: r) (auto simp: wf_receiver_event)

lemma wf_MqttReceiver: "MqttReceiver c t = Inr r \<Longrightarrow> receiver_wf r"
  by (auto simp: MqttReceiver_def mqtt_topic_init_def receiver_wf_def topic_listeners_def split: if_splits)

lemma repeat_off_count:
  "listener_count (rc_listeners r) ev = n \<Longrightarrow> listener_count (rc_listeners (fst (repeat_off n ev r))) ev = 0"
proof (induction n arbitrary: r)
  case 0
  then show ?case by simp
next
  case (Suc n)
  then have "ev \<in> set (rc_listeners r)" using listener_count_pos [of "rc_listeners r" ev] by simp
  moreover from this have "rc_listeners (fst (receiver_off ev r)) = remove1 ev (rc_listeners r)"
    by (cases "topic_of_event ev"; cases "the (topic_of_event ev)")
      (auto simp: receiver_off_def MqttReceiver_removedListener_def MqttReceiver_removeSubscription_def Let_def)
  ultimately show ?case using Suc by (simp add: case_prod_beta Let_def)
qed

section \<open>Properties\<close>

text \<open>C23: whatever listeners come and go and whatever the broker answers, a receiver counts exactly the
  listeners of its two topics, and it is attached to the MQTT client exactly once while it has such a
  listener and not at all otherwise.\<close>

theorem mqtt_receiver_attached:
  assumes "MqttReceiver True topic = Inr r0"
  shows "let r = foldl receiver_apply r0 es in
     tp_listenersCount (rc_message r) = int (listener_count (rc_listeners r) ''message'')
     \<and> tp_listenersCount (rc_method r) = int (length (filter (prefix ''method_'') (rc_listeners r)))
     \<and> rc_handlers r = (if tp_listenersCount (rc_message r) + tp_listenersCount (rc_method r) > 0 then 1 else 0)"
proof -
  have msg: "topic_of_event ev = Some MessageTopic \<longleftrightarrow> ev = ''message''"
    and met: "topic_of_event ev = Some MethodTopic \<longleftrightarrow> prefix ''method_'' ev" for ev
    by (auto simp: topic_of_event_def)
  have pos: "0 < int a + int b \<longleftrightarrow> 0 < a + b" for a b by linarith
  have "receiver_wf (foldl receiver_apply r0 es)"
    using wf_receiver_run wf_MqttReceiver [OF assms] by blast
  then show ?thesis unfolding Let_def
    by (simp add: receiver_wf_def topic_listeners_sum topic_events_def listener_count_def msg met pos)
qed

theorem mqtt_receiver_attached_witness:
  "\<exists>r0. MqttReceiver True ''t'' = Inr r0 \<and> rc_handlers (foldl receiver_apply r0 [ROn ''message'']) = 1"
proof -
  obtain r0 where r: "MqttReceiver True ''t'' = Inr r0" by (simp add: MqttReceiver_def)
  have "listener_count (rc_listeners (foldl receiver_apply r0 [ROn ''message''])) ''message'' = 1"
    using r by (auto simp: MqttReceiver_def mqtt_topic_init_def receiver_on_def MqttReceiver_newListener_def topic_of_event_def
        getTotalListeners_def MqttReceiver_setupSubscription_def)
  with mqtt_receiver_attached [OF r, of "[ROn ''message'']"] r show ?thesis by (simp add: Let_def)
qed

text \<open>A listener that comes back while the broker has not yet acknowledged the unsubscription is lost:
  the receiver keeps a listener and its handler, but the topic is neither subscribed nor being
  subscribed, and no later listener of that topic triggers anything but a new subscription.\<close>

lemma mqtt_unsubscribe_race:
  assumes "MqttReceiver True topic = Inr r0"
  shows "let r = foldl receiver_apply r0 [ROn ''message'', RSuback MessageTopic False, ROff ''message'', ROn ''message'',
                                         RUnsuback MessageTopic False] in
     listener_count (rc_listeners r) ''message'' = 1 \<and> rc_handlers r = 1
     \<and> \<not> tp_subscribed (rc_message r) \<and> \<not> tp_subscribeInProgress (rc_message r)"
proof -
  have ev: "topic_of_event ''message'' = Some MessageTopic" by (simp add: topic_of_event_def)
  have "r0 = \<lparr>rc_message = mqtt_topic_init topic, rc_method = mqtt_topic_init ''$iothub/methods/POST/#'',
      rc_handlers = 0, rc_listeners = []\<rparr>"
    using assms by (simp add: MqttReceiver_def split: if_splits)
  then show ?thesis
    by (simp add: mqtt_topic_init_def receiver_on_def receiver_off_def MqttReceiver_newListener_def
        MqttReceiver_removedListener_def ev getTotalListeners_def MqttReceiver_setupSubscription_def
        MqttReceiver_removeSubscription_def MqttReceiver_onSuback_def MqttReceiver_onUnsuback_def)
qed

lemma mqtt_unsubscribe_race_example:
  "\<exists>r0. MqttReceiver True ''t'' = Inr r0 \<and> \<not> tp_subscribed (rc_message (foldl receiver_apply r0
     [ROn ''message'', RSuback MessageTopic False, ROff ''message'', ROn ''message'', RUnsuback MessageTopic False]))"
proof -
  obtain r0 where r: "MqttReceiver True ''t'' = Inr r0" by (simp add: MqttReceiver_def)
  with mqtt_unsubscribe_race [OF r] show ?thesis by (auto simp: Let_def)
qed

text \<open>Removing the last \<open>post\<close> listener of a twin receiver detaches it from the MQTT client although
  \<open>response\<close> listeners remain, and removing the last listener of all leaves it attached.\<close>

lemma mqtt_twin_receiver_detaches_early:
  assumes "tr_handlers r = 1"
  shows "(listener_count (tr_listeners r) ''response'' > 0 \<and> listener_count (tr_listeners r) ''post'' = 1 \<longrightarrow>
            (let r' = fst (twin_receiver_off ''post'' r) in
             tr_handlers r' = 0 \<and> listener_count (tr_listeners r') ''response'' = listener_count (tr_listeners r) ''response''))
       \<and> (listener_count (tr_listeners r) ''response'' = 1 \<and> listener_count (tr_listeners r) ''post'' = 0 \<longrightarrow>
            (let r' = fst (twin_receiver_off ''response'' r) in
             tr_handlers r' = 1 \<and> listener_count (tr_listeners r') ''response'' = 0
             \<and> listener_count (tr_listeners r') ''post'' = 0))"
proof -
  have "ev \<in> set (tr_listeners r)" if "listener_count (tr_listeners r) ev > 0" for ev
    using that by (simp add: listener_count_pos)
  with assms show ?thesis
    by (simp add: twin_receiver_off_def MqttTwinReceiver_handleRemoveListener_def twin_topic_def
        stopListeningIfLastUnsubscription_def)
qed

lemma mqtt_twin_receiver_detaches_early_example:
  "tr_handlers (fst (twin_receiver_off ''post'' \<lparr>tr_listeners = [''response'', ''post''], tr_handlers = 1, tr_subscribing = []\<rparr>)) = 0"
  using mqtt_twin_receiver_detaches_early [of "\<lparr>tr_listeners = [''response'', ''post''], tr_handlers = 1, tr_subscribing = []\<rparr>"]
  by (simp add: Let_def)

lemma twin_property_pairs:
  assumes "\<forall>kv\<in>set props. is_str (snd kv) \<or> is_num (snd kv) \<or> is_bool (snd kv)"
  shows "foldl twin_property (Inr []) props
       = Inr (if props = [] then [] else ''?'' @ print_pairs (CHR ''&'') (map (\<lambda>(k, v). (k, js_string v)) props))"
  using assms
proof (induction props rule: rev_induct)
  case Nil
  then show ?case by simp
next
  case (snoc kv props)
  obtain k v where kv: "kv = (k, v)" by (cases kv)
  show ?case
  proof (cases "props = []")
    case True
    with snoc kv show ?thesis by (simp add: twin_property_def print_pairs_def print_pair_def)
  next
    case False
    with snoc kv show ?thesis
      by (auto simp: twin_property_def print_pairs_snoc print_pair_def)
  qed
qed

text \<open>A twin request is published, with quality of service 0, on the topic that ends in its properties as
  \<open>?k=v&k=v\<close>, in their order; the request a twin sends names its identifier this way.\<close>

lemma mqtt_twin_request_topic:
  assumes "mb_client (mt_base m)" and "verb \<noteq> []" and "resource \<noteq> []" and "body \<noteq> []" and "props \<noteq> []"
    and "\<forall>kv\<in>set props. is_str (snd kv) \<or> is_num (snd kv) \<or> is_bool (snd kv)"
  shows "Mqtt_sendTwinRequest m (JStr verb) (JStr resource) (JObj props) (JStr body)
    = Inr [MqPublish (''$iothub/twin/'' @ verb @ resource @ ''?''
             @ print_pairs (CHR ''&'') (map (\<lambda>(k, v). (k, js_string v)) props)) body 0]"
  using assms twin_property_pairs [OF assms(6)] by (simp add: Mqtt_sendTwinRequest_def)

lemma mqtt_twin_request_topic_example:
  "Mqtt_sendTwinRequest \<lparr>mt_config = [], mt_base = MqttBase\<lparr>mb_client := True\<rparr>, mt_twinReceiver = None, mt_onDisconnect = False\<rparr>
     (JStr ''GET'') (JStr ''/'') (JObj [(''$rid'', JNum 7)]) (JStr '' '')
   = Inr [MqPublish (''$iothub/twin/GET/?$rid='' @ show_int 7) '' '' 0]"
  using mqtt_twin_request_topic [of "\<lparr>mt_config = [], mt_base = MqttBase\<lparr>mb_client := True\<rparr>, mt_twinReceiver = None,
      mt_onDisconnect = False\<rparr>" "''GET''" "''/''" "'' ''" "[(''$rid'', JNum 7)]"]
  by (simp add: print_pairs_def print_pair_def)

text \<open>A method call published on \<open>$iothub/methods/POST/{name}/?$rid={rid}\<close> is dispatched to the method
  topic and emitted as \<open>method_{name}\<close> with that name, request identifier and body.\<close>

lemma mqtt_method_dispatch:
  assumes url: "url_parse (''$iothub/methods/POST/'' @ name @ ''/?$rid='' @ rid)
       = Some (''$iothub/methods/POST/'' @ name @ ''/?$rid='' @ rid, ''$rid='' @ rid)"
    and qs: "qs_parse (''$rid='' @ rid) = [(''$rid'', rid)]"
    and "name \<noteq> []" and "rid \<noteq> []" and "CHR ''/'' \<notin> set name" and "CHR ''/'' \<notin> set rid"
    and "one_line name" and "one_line rid"
  shows "dispatch_target (''$iothub/methods/POST/'' @ name @ ''/?$rid='' @ rid) = Some MethodTopic
     \<and> MqttReceiver_handleDeviceMethod url_parse qs_parse (''$iothub/methods/POST/'' @ name @ ''/?$rid='' @ rid) body
       = Inr (Some (''method_'' @ name, \<lparr>mm_module = ''methods'', mm_requestId = Some rid, mm_properties = [],
              mm_body = body, mm_verb = Some ''POST'', mm_methodName = Some name\<rparr>))"
proof
  let ?t = "''$iothub/methods/POST/'' @ name @ ''/?$rid='' @ rid"
  have "one_line ?t" using assms(7,8) by (simp add: one_line_def)
  then show "dispatch_target ?t = Some MethodTopic"
    by (simp add: dispatch_target_def matches_message_def matches_method_def)
  have "js_join ''/'' [''$iothub'', ''methods'', ''POST'', name, ''?$rid='' @ rid] = ?t" by simp
  moreover have "js_split ''/'' (js_join ''/'' [''$iothub'', ''methods'', ''POST'', name, ''?$rid='' @ rid])
      = [''$iothub'', ''methods'', ''POST'', name, ''?$rid='' @ rid]"
    unfolding js_split_single using assms(5,6) by (intro split_on_join) auto
  ultimately have path: "js_split ''/'' ?t = [''$iothub'', ''methods'', ''POST'', name, ''?$rid='' @ rid]" by simp
  define t where "t = ?t"
  have "url_parse t = Some (t, ''$rid='' @ rid)" "js_split ''/'' t = [''$iothub'', ''methods'', ''POST'', name, ''?$rid='' @ rid]"
    unfolding t_def by (rule url, rule path)
  moreover obtain q where "''$rid='' @ rid = q" "qs_parse q = [(''$rid'', rid)]" using qs by blast
  ultimately show "MqttReceiver_handleDeviceMethod url_parse qs_parse ?t body
      = Inr (Some (''method_'' @ name, \<lparr>mm_module = ''methods'', mm_requestId = Some rid, mm_properties = [],
              mm_body = body, mm_verb = Some ''POST'', mm_methodName = Some name\<rparr>))"
    using assms(3,4) unfolding t_def [symmetric]
    by (simp add: MqttReceiver_handleDeviceMethod_def MqttReceiver_parseMessage_def Let_def strip_query_def
        numeral_2_eq_2 numeral_3_eq_3)
qed

lemma mqtt_method_dispatch_example:
  "dispatch_target ''$iothub/methods/POST/reboot/?$rid=1'' = Some MethodTopic"
  using mqtt_method_dispatch [of "\<lambda>t. Some (t, ''$rid=1'')" "''reboot''" "''1''" "\<lambda>q. [(''$rid'', ''1'')]" JNull]
  by (simp add: one_line_def)

text \<open>The error callback of a connection attempt stays attached to the event \<open>error\<close> after the connection
  is established: an error then calls the \<open>done\<close> of \<open>connect\<close> a second time.\<close>

lemma mqtt_connect_done_twice:
  assumes "MqttBase_connect version b config True = Inr (b1, es)"
  shows "let (b2, e2) = MqttBase_onConnect b1 connack; (b3, e3) = MqttBase_onError b2 ''error'' (Some err)
     in e2 = [MqDoneConnack connack] \<and> e3 = [MqDone (Some err) None]
        \<and> snd (MqttBase_onError b2 ''close'' None) = []"
  using assms
  by (auto simp: MqttBase_connect_def MqttBase_onConnect_def MqttBase_onError_def Let_def split: if_splits)

lemma mqtt_connect_done_twice_witness:
  "\<exists>b1 es. MqttBase_connect ''1'' MqttBase [(''host'', JStr ''h''), (''deviceId'', JStr ''d''), (''sharedAccessSignature'', JStr ''s'')] True
     = Inr (b1, es) \<and> snd (MqttBase_onError (fst (MqttBase_onConnect b1 JNull)) ''error'' (Some (mk_error Error []))) \<noteq> []"
proof -
  obtain b1 es where "MqttBase_connect ''1'' MqttBase [(''host'', JStr ''h''), (''deviceId'', JStr ''d''),
      (''sharedAccessSignature'', JStr ''s'')] True = Inr (b1, es)"
    by (simp add: MqttBase_connect_def mqtt_config_ok_def Let_def)
  with mqtt_connect_done_twice [OF this, of JNull "mk_error Error []"] show ?thesis
    by (auto simp: case_prod_beta Let_def)
qed

end
