(* ===== verification/Device_Http.thy ===== *)
theory Device_Http
  imports Error_Translation Event_Listeners
begin

text \<open>
  The HTTP transport of the device, \<open>http.js\<close> and \<open>http_receiver.js\<close> of
  \<open>node/device/transport/http/lib\<close>. The receiver shares the configuration object of its
  transport: the configuration is a field of the transport and an argument of the receiver's
  functions. The clock and the version in \<open>package.json\<close> are arguments; timers, the cron
  scheduler and requests are effects.
\<close>

datatype http_effect =
    HRequest http_options "jsval option"
  | HSetInterval int
  | HClearInterval
  | HSetTimeout int
  | HClearTimeout
  | HScheduleCron jsval
  | HCancelCron
  | HEmitMessage "message option"
  | HEmitError js_error

type_synonym http_config = "jsval dict"

section \<open>Requests\<close>

definition insertAuthHeaderIfNecessary :: "http_config \<Rightarrow> jsval dict \<Rightarrow> jsval dict res" where
  "insertAuthHeaderIfNecessary config headers =
     (if truthy (dget config ''x509'') then Inr headers
      else if dget config ''sharedAccessSignature'' \<in> {JUndef, JNull}
      then throw TypeError ''Cannot read property toString of undefined''
      else Inr (dset ''Authorization'' (JStr (js_string (dget config ''sharedAccessSignature''))) headers))"

definition http_request :: "http_config \<Rightarrow> string \<Rightarrow> string \<Rightarrow> jsval dict \<Rightarrow> http_options" where
  "http_request config verb path headers =
     fst (Http_buildRequest (JStr verb) (JStr path) (JObj headers) (dget config ''host'') (dget config ''x509'') (JFun 0))"

text \<open>\<open>handleResponse\<close>: what the user's \<open>done\<close> gets.\<close>

definition Http_handleResponse :: "http_call \<Rightarrow> js_error option \<times> result option" where
  "Http_handleResponse call = (case hc_err call of
       None \<Rightarrow> (None, Some (MessageEnqueued (case hc_response call of Some r \<Rightarrow> response_val r | None \<Rightarrow> JUndef)))
     | Some e \<Rightarrow> (case hc_response call of
           Some r \<Rightarrow> (Some (Http_translateError (''Could not send message: '' @ err_message e)
                        (case hc_body call of Some b \<Rightarrow> JStr b | None \<Rightarrow> JUndef) r), None)
         | None \<Rightarrow> (Some e, None)))"

definition app_header :: "properties \<Rightarrow> jsval dict \<Rightarrow> nat \<Rightarrow> jsval dict" where
  "app_header ps headers i = (case Properties_getItem ps (int i) of
       Some (k, v) \<Rightarrow> dset (''iothub-app-'' @ k) v headers
     | None \<Rightarrow> headers)"

definition Http_sendEvent ::
  "(nat \<Rightarrow> string) \<Rightarrow> string \<Rightarrow> http_config \<Rightarrow> message \<Rightarrow> http_effect list res" where
  "Http_sendEvent alloc version config message =
     (let path = eventPath (js_string (dget config ''deviceId'')) in
      res_bind (insertAuthHeaderIfNecessary config
        [(''iothub-to'', JStr path), (''User-Agent'', JStr (''azure-iot-device/'' @ version))]) (\<lambda>headers.
        let headers = foldl (app_header (msg_properties message)) headers
              [0..<Properties_count (msg_properties message)] in
        res_bind (Message_getBytes alloc message) (\<lambda>bytes.
          Inr [HRequest (http_request config ''POST'' (path @ versionQueryString) headers) (Some bytes)])))"

text \<open>\<open>toString('base64')\<close>\<close>

definition b64_char :: "nat \<Rightarrow> char" where
  "b64_char n = (if n < 26 then char_of (65 + n) else if n < 52 then char_of (71 + n)
     else if n < 62 then char_of (n - 4) else if n = 62 then CHR ''+'' else CHR ''/'')"

fun base64 :: "nat list \<Rightarrow> string" where
  "base64 [] = []"
| "base64 [a] = [b64_char (a div 4), b64_char ((a mod 4) * 16), CHR ''='', CHR ''='']"
| "base64 [a, b] = [b64_char (a div 4), b64_char ((a mod 4) * 16 + b div 16), b64_char ((b mod 16) * 4), CHR ''='']"
| "base64 (a # b # c # r) = b64_char (a div 4) # b64_char ((a mod 4) * 16 + b div 16)
     # b64_char ((b mod 16) * 4 + c div 64) # b64_char (c mod 64) # base64 r"

fun buffer_bytes :: "jsval \<Rightarrow> nat list" where
  "buffer_bytes (JBuf s) = map of_char s"
| "buffer_bytes _ = []"

text \<open>\<open>constructBatchBody\<close>: one property, one message, all messages.\<close>

definition batch_property :: "properties \<Rightarrow> string \<Rightarrow> nat \<Rightarrow> string" where
  "batch_property ps acc i = (case Properties_getItem ps (int i) of
       Some (k, v) \<Rightarrow> acc @ (if i > 0 then '','' else []) @ ''\"iothub-app-'' @ k @ ''\":\"'' @ js_string v @ ''\"''
     | None \<Rightarrow> acc)"

definition batch_message :: "(nat \<Rightarrow> string) \<Rightarrow> message \<Rightarrow> string res" where
  "batch_message alloc m =
     res_bind (new_Buffer alloc (Message_getData m)) (\<lambda>buf.
       let n = Properties_count (msg_properties m);
           property = foldl (batch_property (msg_properties m)) '',\"properties\":{'' [0..<n]
       in Inr (''{\"body\":\"'' @ base64 (buffer_bytes buf) @ ''\"'' @ (if n > 0 then property @ ''}'' else []) @ ''}''))"

fun batch_messages :: "(nat \<Rightarrow> string) \<Rightarrow> message list \<Rightarrow> string list res" where
  "batch_messages alloc [] = Inr []"
| "batch_messages alloc (m # ms) =
     res_bind (batch_message alloc m) (\<lambda>s. res_bind (batch_messages alloc ms) (\<lambda>ss. Inr (s # ss)))"

definition constructBatchBody :: "(nat \<Rightarrow> string) \<Rightarrow> message list \<Rightarrow> string res" where
  "constructBatchBody alloc messages =
     res_bind (batch_messages alloc messages) (\<lambda>ss. Inr (''['' @ js_join '','' ss @ '']''))"

definition Http_sendEventBatch ::
  "(nat \<Rightarrow> string) \<Rightarrow> string \<Rightarrow> http_config \<Rightarrow> message list \<Rightarrow> http_effect list res" where
  "Http_sendEventBatch alloc version config messages =
     (let path = eventPath (js_string (dget config ''deviceId'')) in
      res_bind (insertAuthHeaderIfNecessary config
        [(''iothub-to'', JStr path), (''Content-Type'', JStr ''application/vnd.microsoft.iothub.json''),
         (''User-Agent'', JStr (''azure-iot-device/'' @ version))]) (\<lambda>headers.
        res_bind (constructBatchBody alloc messages) (\<lambda>body.
          Inr [HRequest (http_request config ''POST'' (path @ versionQueryString) headers) (Some (JStr body))])))"

section \<open>The receiver\<close>

text \<open>
  \<open>hr_cronObj\<close> is the field \<open>_cronObj\<close> that the code tests; \<open>hr_cronJobs\<close> counts the jobs scheduled and
  not cancelled, which the code stores in another field.
\<close>

record http_receiver =
  hr_opts :: "jsval dict"
  hr_cronObj :: bool
  hr_intervalObj :: bool
  hr_timeoutObj :: bool
  hr_receiverStarted :: bool
  hr_cronJobs :: nat
  hr_listeners :: listeners

definition http_defaultOptions :: "jsval dict" where
  "http_defaultOptions = [(''interval'', JNum 1), (''at'', JNull), (''cron'', JNull), (''manualPolling'', JBool False),
     (''drain'', JBool True)]"

definition HttpReceiver :: http_receiver where
  "HttpReceiver = \<lparr>hr_opts = http_defaultOptions, hr_cronObj = False, hr_intervalObj = False, hr_timeoutObj = False,
     hr_receiverStarted = False, hr_cronJobs = 0, hr_listeners = []\<rparr>"

fun date_ms :: "jsval \<Rightarrow> int" where
  "date_ms (JDate t) = t"
| "date_ms (JNum t) = t"
| "date_ms _ = 0"

fun num_of :: "jsval \<Rightarrow> int" where
  "num_of (JNum n) = n"
| "num_of _ = 0"

definition HttpReceiver_startReceiver :: "int \<Rightarrow> http_receiver \<Rightarrow> http_receiver \<times> http_effect list" where
  "HttpReceiver_startReceiver now r =
     (if hr_cronObj r \<or> hr_intervalObj r \<or> hr_timeoutObj r then (r, [])
      else if truthy (dget (hr_opts r) ''interval'')
      then (r\<lparr>hr_intervalObj := True, hr_receiverStarted := True\<rparr>, [HSetInterval (num_of (dget (hr_opts r) ''interval'') * 1000)])
      else if truthy (dget (hr_opts r) ''at'')
      then (r\<lparr>hr_timeoutObj := True, hr_receiverStarted := True\<rparr>, [HSetTimeout (max (date_ms (dget (hr_opts r) ''at'') - now) 0)])
      else if truthy (dget (hr_opts r) ''cron'')
      then (r\<lparr>hr_cronJobs := Suc (hr_cronJobs r), hr_receiverStarted := True\<rparr>, [HScheduleCron (dget (hr_opts r) ''cron'')])
      else (r, []))"

definition HttpReceiver_stopReceiver :: "http_receiver \<Rightarrow> http_receiver \<times> http_effect list" where
  "HttpReceiver_stopReceiver r =
     (let (r1, e1) = (if hr_cronObj r
                      then (r\<lparr>hr_cronObj := False, hr_cronJobs := hr_cronJobs r - 1, hr_receiverStarted := False\<rparr>, [HCancelCron])
                      else (r, []));
          (r2, e2) = (if hr_intervalObj r1
                      then (r1\<lparr>hr_intervalObj := False, hr_receiverStarted := False\<rparr>, [HClearInterval]) else (r1, []));
          (r3, e3) = (if hr_timeoutObj r2
                      then (r2\<lparr>hr_timeoutObj := False, hr_receiverStarted := False\<rparr>, [HClearTimeout]) else (r2, []));
          r4 = (if truthy (dget (hr_opts r3) ''manualPolling'') then r3\<lparr>hr_receiverStarted := False\<rparr> else r3)
      in (r4, e1 @ e2 @ e3))"

text \<open>\<open>on\<close> and \<open>removeListener\<close>, for any event name.\<close>

definition HttpReceiver_on :: "int \<Rightarrow> string \<Rightarrow> http_receiver \<Rightarrow> http_receiver \<times> http_effect list" where
  "HttpReceiver_on now ev r =
     (let (r1, es) = (if \<not> hr_receiverStarted r then HttpReceiver_startReceiver now r else (r, []))
      in (r1\<lparr>hr_listeners := hr_listeners r1 @ [ev]\<rparr>, es))"

definition HttpReceiver_off :: "string \<Rightarrow> http_receiver \<Rightarrow> http_receiver \<times> http_effect list" where
  "HttpReceiver_off ev r =
     (if ev \<in> set (hr_listeners r) then
        (let r1 = r\<lparr>hr_listeners := remove1 ev (hr_listeners r)\<rparr>
         in if hr_receiverStarted r1 \<and> listener_count (hr_listeners r1) ''message'' = 0
            then HttpReceiver_stopReceiver r1 else (r1, []))
      else (r, []))"

text \<open>
  \<open>setOptions\<close>: the receiver, the effects and the error it throws, if it does: the receiver is stopped
  before the checks.
\<close>

definition http_opts_error :: "jsval dict \<Rightarrow> string option" where
  "http_opts_error opts =
     (let t = (\<lambda>k. truthy (dget opts k)) in
      if t ''interval'' \<and> t ''cron'' \<or> t ''interval'' \<and> t ''at'' \<or> t ''interval'' \<and> t ''manualPolling''
         \<or> t ''at'' \<and> t ''cron'' \<or> t ''at'' \<and> t ''manualPolling'' \<or> t ''cron'' \<and> t ''manualPolling''
      then Some ''Only one of the (interval|at|cron) fields should be set.''
      else if t ''interval'' \<and> \<not> is_num (dget opts ''interval'')
      then Some (''The '' @ [CHR 0x27] @ ''interval'' @ [CHR 0x27] @ '' parameter must be a number'')
      else if t ''interval'' \<and> num_of (dget opts ''interval'') \<le> 0
      then Some (''the '' @ [CHR 0x27] @ ''interval'' @ [CHR 0x27] @ '' parameter must be strictly greater than 0 (zero)'')
      else if t ''at'' \<and> \<not> is_date (dget opts ''at'')
      then Some (''The '' @ [CHR 0x27] @ ''at'' @ [CHR 0x27] @ '' parameter must be a Date'')
      else if t ''cron'' \<and> \<not> is_str (dget opts ''cron'')
      then Some (''The '' @ [CHR 0x27] @ ''at'' @ [CHR 0x27]
             @ '' parameter must be a String and use the cron syntax (see https://www.npmjs.com/package/node-crontab)'')
      else None)"

definition HttpReceiver_setOptions ::
  "int \<Rightarrow> http_receiver \<Rightarrow> jsval dict option \<Rightarrow> http_receiver \<times> http_effect list \<times> js_error option" where
  "HttpReceiver_setOptions now r opts =
     (let restart = hr_receiverStarted r;
          (r1, e1) = (if hr_receiverStarted r then HttpReceiver_stopReceiver r else (r, [])) in
      case opts of
        None \<Rightarrow> (r1\<lparr>hr_opts := http_defaultOptions\<rparr>, e1, Some (mk_error TypeError ''Cannot read property interval of undefined''))
      | Some o1 \<Rightarrow> (case http_opts_error o1 of
          Some m \<Rightarrow> (r1, e1, Some (mk_error ArgumentError m))
        | None \<Rightarrow>
            (let r2 = r1\<lparr>hr_opts := o1\<rparr>;
                 (r3, e3) = (if restart then HttpReceiver_startReceiver now r2 else (r2, []))
             in (r3, e1 @ e3, None))))"

text \<open>\<open>receive\<close>: the request, and the effects of a sequence of answers.\<close>

definition HttpReceiver_request :: "string \<Rightarrow> http_config \<Rightarrow> http_options res" where
  "HttpReceiver_request version config =
     (let path = messagePath (js_string (dget config ''deviceId'')) in
      res_bind (insertAuthHeaderIfNecessary config
        [(''iothub-to'', JStr path), (''User-Agent'', JStr (''azure-iot-device/'' @ version))]) (\<lambda>headers.
        Inr (http_request config ''GET'' (path @ versionQueryString) headers)))"

fun HttpReceiver_answers :: "http_receiver \<Rightarrow> http_options \<Rightarrow> http_call list \<Rightarrow> http_effect list" where
  "HttpReceiver_answers r opts [] = []"
| "HttpReceiver_answers r opts (c # cs) = (case hc_err c of
       None \<Rightarrow>
         (case (hc_body c, hc_response c) of
            (Some body, Some res) \<Rightarrow>
              if body = [] then []
              else (if truthy (dget (hr_opts r) ''drain'') then [HRequest opts None] else [])
                   @ [HEmitMessage (Http_toMessage res (JStr body))]
                   @ (if truthy (dget (hr_opts r) ''drain'') then HttpReceiver_answers r opts cs else [])
          | _ \<Rightarrow> [])
     | Some e \<Rightarrow> [HEmitError (attach ''responseBody'' (case hc_body c of Some b \<Rightarrow> JStr b | None \<Rightarrow> JUndef)
                     (attach ''response'' (case hc_response c of Some x \<Rightarrow> response_val x | None \<Rightarrow> JUndef) e))])"

definition HttpReceiver_receive :: "string \<Rightarrow> http_config \<Rightarrow> http_receiver \<Rightarrow> http_call list \<Rightarrow> http_effect list res" where
  "HttpReceiver_receive version config r answers =
     res_bind (HttpReceiver_request version config) (\<lambda>opts.
       Inr (HRequest opts None # HttpReceiver_answers r opts answers))"

definition HttpReceiver_updateSharedAccessSignature :: "http_config \<Rightarrow> jsval \<Rightarrow> http_config res" where
  "HttpReceiver_updateSharedAccessSignature config sas =
     (if falsy sas then throw ReferenceError (''sharedAccessSignature cannot be '' @ [CHR 0x27] @ js_string sas @ [CHR 0x27])
      else Inr (dset ''sharedAccessSignature'' sas config))"

datatype feedback = Complete | Abandon | Reject

fun feedback_target :: "feedback \<Rightarrow> string \<Rightarrow> string \<times> string" where
  "feedback_target Abandon path = (''POST'', path @ ''/abandon'' @ versionQueryString)"
| "feedback_target Reject path = (''DELETE'', path @ versionQueryString @ ''&reject'')"
| "feedback_target Complete path = (''DELETE'', path @ versionQueryString)"

fun feedback_result :: "feedback \<Rightarrow> jsval \<Rightarrow> result" where
  "feedback_result Abandon v = MessageAbandoned v"
| "feedback_result Reject v = MessageRejected v"
| "feedback_result Complete v = MessageCompleted v"

definition HttpReceiver_sendFeedback ::
  "string \<Rightarrow> http_config \<Rightarrow> feedback \<Rightarrow> message option \<Rightarrow> http_effect list res" where
  "HttpReceiver_sendFeedback version config action message = (case message of
       None \<Rightarrow> throw ReferenceError ''Invalid message object.''
     | Some m \<Rightarrow>
         (let path = feedbackPath (js_string (dget config ''deviceId'')) (js_string (msg_lockToken m));
              (verb, target) = feedback_target action path in
          res_bind (insertAuthHeaderIfNecessary config
            [(''If-Match'', msg_lockToken m), (''User-Agent'', JStr (''azure-iot-device/'' @ version))]) (\<lambda>headers.
            Inr [HRequest (http_request config verb target headers) None])))"

text \<open>Its callback: the argument of \<open>done\<close>, or the error thrown on a null \<open>err\<close>.\<close>

definition feedback_onResponse :: "feedback \<Rightarrow> http_call \<Rightarrow> (js_error option \<times> result option) res" where
  "feedback_onResponse action call = (case (hc_err call, hc_response call) of
       (None, Some res) \<Rightarrow>
         if statusCode res = 204 then Inr (None, Some (feedback_result action (response_val res)))
         else throw TypeError ''Cannot set property response of null''
     | (None, None) \<Rightarrow> throw TypeError ''Cannot read property statusCode of undefined''
     | (Some e, res) \<Rightarrow> Inr (Some (attach ''responseBody'' (case hc_body call of Some b \<Rightarrow> JStr b | None \<Rightarrow> JUndef)
           (attach ''response'' (case res of Some x \<Rightarrow> response_val x | None \<Rightarrow> JUndef) e)), None))"

section \<open>The transport\<close>

record http_transport =
  ht_config :: http_config
  ht_receiver :: "http_receiver option"

definition Http :: "http_config \<Rightarrow> http_transport" where
  "Http config = \<lparr>ht_config = config, ht_receiver = None\<rparr>"

definition Http_getReceiver :: "http_transport \<Rightarrow> http_transport \<times> http_receiver" where
  "Http_getReceiver h = (case ht_receiver h of
       Some r \<Rightarrow> (h, r)
     | None \<Rightarrow> (h\<lparr>ht_receiver := Some HttpReceiver\<rparr>, HttpReceiver))"

fun obj_props :: "jsval \<Rightarrow> jsval dict option" where
  "obj_props (JObj d) = Some d"
| "obj_props v = (if truthy v then Some [] else None)"

definition Http_setOptions :: "int \<Rightarrow> http_transport \<Rightarrow> jsval dict \<Rightarrow> http_transport \<times> http_effect list \<times> js_error option" where
  "Http_setOptions now h options =
     (let h1 = (if has_key ''cert'' options
                then h\<lparr>ht_config := dset ''x509'' (JObj [(''cert'', dget options ''cert''), (''key'', dget options ''key''),
                                                        (''passphrase'', dget options ''passphrase'')]) (ht_config h)\<rparr>
                else h) in
      if has_key ''http'' options then
        (case obj_props (dget options ''http'') of
           None \<Rightarrow> (h1, [], Some (mk_error TypeError ''Cannot read property hasOwnProperty of undefined''))
         | Some http \<Rightarrow>
             if has_key ''receivePolicy'' http then
               (let (h2, r) = Http_getReceiver h1;
                    (r', es, err) = HttpReceiver_setOptions now r (obj_props (dget http ''receivePolicy''))
                in (h2\<lparr>ht_receiver := Some r'\<rparr>, es, err))
             else (h1, [], None))
      else (h1, [], None))"

definition Http_feedback ::
  "string \<Rightarrow> http_transport \<Rightarrow> feedback \<Rightarrow> message option \<Rightarrow> http_transport \<times> (http_effect list res)" where
  "Http_feedback version h action message =
     (let (h1, r) = Http_getReceiver h in (h1, HttpReceiver_sendFeedback version (ht_config h1) action message))"

definition Http_updateSharedAccessSignature :: "http_transport \<Rightarrow> jsval \<Rightarrow> (http_transport \<times> result) res" where
  "Http_updateSharedAccessSignature h sas =
     (let h1 = h\<lparr>ht_config := dset ''sharedAccessSignature'' sas (ht_config h)\<rparr> in
      if ht_receiver h1 \<noteq> None then
        res_bind (HttpReceiver_updateSharedAccessSignature (ht_config h1) sas) (\<lambda>cfg.
          Inr (h1\<lparr>ht_config := cfg\<rparr>, SharedAccessSignatureUpdated False))
      else Inr (h1, SharedAccessSignatureUpdated False))"

section \<open>The invariant of the receiver\<close>

datatype http_op = HOn string | HOff string | HSet "jsval dict option"

fun receiver_step :: "int \<Rightarrow> http_receiver \<Rightarrow> http_op \<Rightarrow> http_receiver \<times> http_effect list" where
  "receiver_step now r (HOn ev) = HttpReceiver_on now ev r"
| "receiver_step now r (HOff ev) = HttpReceiver_off ev r"
| "receiver_step now r (HSet opts) = (let (r', es, err) = HttpReceiver_setOptions now r opts in (r', es))"

fun receiver_run :: "int \<Rightarrow> http_receiver \<Rightarrow> http_op list \<Rightarrow> http_receiver \<times> http_effect list" where
  "receiver_run now r [] = (r, [])"
| "receiver_run now r (x # ops) =
     (let (r1, e1) = receiver_step now r x; (r2, e2) = receiver_run now r1 ops in (r2, e1 @ e2))"

fun uses_cron :: "http_op \<Rightarrow> bool" where
  "uses_cron (HSet (Some opts)) = truthy (dget opts ''cron'')"
| "uses_cron _ = False"

text \<open>Without cron: the flag tells whether a timer runs, and at most one does.\<close>

definition http_wf :: "http_receiver \<Rightarrow> bool" where
  "http_wf r \<longleftrightarrow> \<not> hr_cronObj r \<and> hr_cronJobs r = 0 \<and> falsy (dget (hr_opts r) ''cron'')
     \<and> (hr_receiverStarted r \<longleftrightarrow> hr_intervalObj r \<or> hr_timeoutObj r) \<and> \<not> (hr_intervalObj r \<and> hr_timeoutObj r)"

text \<open>The timers the receiver knows of, and those that a sequence of effects leaves set.\<close>

definition timers :: "http_receiver \<Rightarrow> int" where
  "timers r = (if hr_intervalObj r then 1 else 0) + (if hr_timeoutObj r then 1 else 0) + int (hr_cronJobs r)"

fun timer_change :: "http_effect \<Rightarrow> int" where
  "timer_change (HSetInterval _) = 1"
| "timer_change (HSetTimeout _) = 1"
| "timer_change (HScheduleCron _) = 1"
| "timer_change HClearInterval = -1"
| "timer_change HClearTimeout = -1"
| "timer_change HCancelCron = -1"
| "timer_change _ = 0"

definition timers_left :: "http_effect list \<Rightarrow> int" where
  "timers_left es = sum_list (map timer_change es)"

lemma timers_left_simps [simp]:
  "timers_left [] = 0" "timers_left (x # es) = timer_change x + timers_left es"
  "timers_left (es @ fs) = timers_left es + timers_left fs"
  by (simp_all add: timers_left_def)

text \<open>A step that keeps the invariant and whose effects change the timers as the receiver records.\<close>

definition keeps_timers :: "http_receiver \<Rightarrow> http_receiver \<times> http_effect list \<Rightarrow> bool" where
  "keeps_timers r x \<longleftrightarrow> http_wf (fst x) \<and> timers (fst x) = timers r + timers_left (snd x)"

lemma keeps_start: "http_wf r \<Longrightarrow> keeps_timers r (HttpReceiver_startReceiver now r)"
  by (simp add: keeps_timers_def http_wf_def timers_def HttpReceiver_startReceiver_def)

lemma keeps_stop: "http_wf r \<Longrightarrow> keeps_timers r (HttpReceiver_stopReceiver r)"
  by (auto simp: keeps_timers_def http_wf_def timers_def HttpReceiver_stopReceiver_def Let_def)

lemma stop_no_timers: "http_wf r \<Longrightarrow> timers (fst (HttpReceiver_stopReceiver r)) = 0"
  by (auto simp: http_wf_def timers_def HttpReceiver_stopReceiver_def Let_def)

lemma wf_listeners [simp]: "http_wf (r\<lparr>hr_listeners := ls\<rparr>) = http_wf r" "timers (r\<lparr>hr_listeners := ls\<rparr>) = timers r"
  by (simp_all add: http_wf_def timers_def)

lemma wf_opts: "http_wf r \<Longrightarrow> falsy (dget opts ''cron'') \<Longrightarrow> http_wf (r\<lparr>hr_opts := opts\<rparr>)"
  "timers (r\<lparr>hr_opts := opts\<rparr>) = timers r"
  by (simp_all add: http_wf_def timers_def)

lemma keeps_on: "http_wf r \<Longrightarrow> keeps_timers r (HttpReceiver_on now ev r)"
  using keeps_start [of r now] by (simp add: HttpReceiver_on_def keeps_timers_def case_prod_beta Let_def)

lemma keeps_off: "http_wf r \<Longrightarrow> keeps_timers r (HttpReceiver_off ev r)"
  using keeps_stop [of "r\<lparr>hr_listeners := remove1 ev (hr_listeners r)\<rparr>"]
  by (simp add: HttpReceiver_off_def keeps_timers_def Let_def)

lemma keeps_setOptions:
  assumes "http_wf r" and "\<not> uses_cron (HSet opts)"
  shows "keeps_timers r (receiver_step now r (HSet opts))"
proof -
  define x where "x = (if hr_receiverStarted r then HttpReceiver_stopReceiver r else (r, []))"
  have x: "http_wf (fst x)" "timers (fst x) = timers r + timers_left (snd x)"
    using assms(1) keeps_stop [OF assms(1)] by (simp_all add: x_def keeps_timers_def)
  have d: "falsy (dget http_defaultOptions ''cron'')" by (simp add: http_defaultOptions_def)
  have o1: "falsy (dget o1 ''cron'')" if "opts = Some o1" for o1 using assms(2) that by simp
  have "keeps_timers (fst x) (HttpReceiver_startReceiver now (fst x\<lparr>hr_opts := o1\<rparr>))" if "opts = Some o1" for o1
    using keeps_start [OF wf_opts(1) [OF x(1) o1 [OF that]], of now] by (simp add: keeps_timers_def wf_opts(2))
  with x d o1 show ?thesis
    by (simp add: HttpReceiver_setOptions_def x_def [symmetric] case_prod_beta Let_def keeps_timers_def wf_opts split: option.split)
qed

lemma keeps_step: "http_wf r \<Longrightarrow> \<not> uses_cron x \<Longrightarrow> keeps_timers r (receiver_step now r x)"
  using keeps_setOptions [of r _ now] by (cases x) (simp_all add: keeps_on keeps_off)

lemma keeps_run:
  "http_wf r \<Longrightarrow> (\<forall>x\<in>set ops. \<not> uses_cron x) \<Longrightarrow> keeps_timers r (receiver_run now r ops)"
proof (induction ops arbitrary: r)
  case (Cons x ops)
  have "keeps_timers r (receiver_step now r x)" using Cons.prems by (intro keeps_step) simp_all
  with Cons.IH [of "fst (receiver_step now r x)"] Cons.prems show ?case
    by (simp add: keeps_timers_def case_prod_beta Let_def)
qed (simp add: keeps_timers_def)

lemma wf_HttpReceiver: "http_wf HttpReceiver" "timers HttpReceiver = 0"
  by (simp_all add: http_wf_def timers_def HttpReceiver_def http_defaultOptions_def)

section \<open>Properties\<close>

text \<open>C28: as long as no cron schedule is set, whatever listeners come and go and whatever options are set
  or refused, the timers that were set and not cleared are exactly those the receiver records, at most
  one, and once a listener is removed while none is left for \<open>message\<close> none is left.\<close>

theorem http_receiver_timers:
  assumes "\<forall>x\<in>set ops. \<not> uses_cron x"
  shows "let (r, es) = receiver_run now HttpReceiver ops in
     timers_left es = timers r \<and> timers r \<le> 1 \<and> (hr_receiverStarted r \<longleftrightarrow> timers r = 1)
     \<and> (ev \<in> set (hr_listeners r) \<and> listener_count (remove1 ev (hr_listeners r)) ''message'' = 0 \<longrightarrow>
          timers_left (es @ snd (HttpReceiver_off ev r)) = 0)"
proof -
  obtain r es where run: "receiver_run now HttpReceiver ops = (r, es)" by fastforce
  have r: "http_wf r" "timers r = timers_left es"
    using keeps_run [OF wf_HttpReceiver(1) assms, of now] run by (simp_all add: keeps_timers_def wf_HttpReceiver(2))
  have "timers_left (snd (HttpReceiver_off ev r)) = - timers r"
    if "ev \<in> set (hr_listeners r)" "listener_count (remove1 ev (hr_listeners r)) ''message'' = 0"
  proof -
    let ?r = "r\<lparr>hr_listeners := remove1 ev (hr_listeners r)\<rparr>"
    have "keeps_timers ?r (HttpReceiver_stopReceiver ?r)" "timers (fst (HttpReceiver_stopReceiver ?r)) = 0"
      using r(1) by (simp_all add: keeps_stop stop_no_timers)
    moreover have "\<not> hr_receiverStarted r \<Longrightarrow> timers r = 0" using r(1) by (auto simp: http_wf_def timers_def)
    ultimately show ?thesis using that by (auto simp: HttpReceiver_off_def keeps_timers_def Let_def)
  qed
  moreover have "timers r \<le> 1 \<and> (hr_receiverStarted r \<longleftrightarrow> timers r = 1)"
    using r(1) by (auto simp: timers_def http_wf_def)
  ultimately show ?thesis using r(2) by (auto simp: run simp del: listener_count_remove1)
qed

theorem http_receiver_timers_witness:
  "timers (fst (receiver_run 0 HttpReceiver [HOn ''message'', HSet (Some [(''interval'', JNum 5)])])) \<le> 1"
  using http_receiver_timers [of "[HOn ''message'', HSet (Some [(''interval'', JNum 5)])]" 0 "''message''"]
  by (simp add: case_prod_beta Let_def)

definition holds :: "http_response \<Rightarrow> string \<Rightarrow> http_call" where
  "holds res body = \<lparr>hc_err = None, hc_body = Some body, hc_response = Some res\<rparr>"

lemma answers_drain:
  "truthy (dget (hr_opts r) ''drain'') \<Longrightarrow> \<forall>b\<in>set bodies. b \<noteq> [] \<Longrightarrow>
   HttpReceiver_answers r opts (map (holds res) bodies @ [holds res0 []])
   = concat (map (\<lambda>b. [HRequest opts None, HEmitMessage (Http_toMessage res (JStr b))]) bodies)"
  by (induction bodies) (simp_all add: holds_def)

text \<open>Polling with \<open>drain\<close> set delivers every message the hub holds, in order, one request per message and
  a last one for the empty answer; without \<open>drain\<close> it delivers the first one only.\<close>

lemma http_receive_drains:
  assumes "HttpReceiver_request version config = Inr opts" and "truthy (dget (hr_opts r) ''drain'')"
    and "\<forall>b\<in>set bodies. b \<noteq> []"
  shows "\<exists>es. HttpReceiver_receive version config r (map (holds res) bodies @ [holds res0 []]) = Inr es
     \<and> filter (\<lambda>e. e = HRequest opts None) es = replicate (Suc (length bodies)) (HRequest opts None)
     \<and> filter (\<lambda>e. e \<noteq> HRequest opts None) es = map (\<lambda>b. HEmitMessage (Http_toMessage res (JStr b))) bodies"
proof -
  let ?f = "\<lambda>b. [HRequest opts None, HEmitMessage (Http_toMessage res (JStr b))]"
  have "filter (\<lambda>e. e = HRequest opts None) (concat (map ?f bodies)) = replicate (length bodies) (HRequest opts None)"
    and "filter (\<lambda>e. e \<noteq> HRequest opts None) (concat (map ?f bodies)) = map (\<lambda>b. HEmitMessage (Http_toMessage res (JStr b))) bodies"
    by (induction bodies) simp_all
  then show ?thesis
    using assms by (simp add: HttpReceiver_receive_def answers_drain)
qed

lemma http_receive_drains_example:
  "\<exists>es. HttpReceiver_receive ''1'' [(''deviceId'', JStr ''d''), (''sharedAccessSignature'', JStr ''s'')] HttpReceiver
     (map (holds \<lparr>statusCode = 200, statusMessage = [], resp_headers = []\<rparr>) [''a'', ''b'']
      @ [holds \<lparr>statusCode = 204, statusMessage = [], resp_headers = []\<rparr> []]) = Inr es"
proof -
  obtain opts where o: "HttpReceiver_request ''1'' [(''deviceId'', JStr ''d''), (''sharedAccessSignature'', JStr ''s'')] = Inr opts"
    by (simp add: HttpReceiver_request_def insertAuthHeaderIfNecessary_def Let_def)
  show ?thesis
    using http_receive_drains [OF o, of HttpReceiver "[''a'', ''b'']"] by (auto simp: HttpReceiver_def http_defaultOptions_def)
qed

text \<open>A cron schedule is never cancelled: after the last listener is gone the job still runs and the receiver
  still counts as started, so the next listener starts nothing.\<close>

lemma http_cron_never_cancelled:
  assumes "truthy (dget opts ''cron'')" and "http_opts_error opts = None"
  shows "let r = fst (receiver_run now HttpReceiver [HSet (Some opts), HOn ''message'', HOff ''message'']) in
     hr_listeners r = [] \<and> hr_cronJobs r = 1 \<and> hr_receiverStarted r
     \<and> snd (HttpReceiver_on now ''message'' r) = []"
proof -
  have "falsy (dget opts ''interval'')" "falsy (dget opts ''at'')" "falsy (dget opts ''manualPolling'')"
    using assms by (auto simp: http_opts_error_def Let_def split: if_splits)
  with assms show ?thesis
    by (simp add: HttpReceiver_def HttpReceiver_setOptions_def HttpReceiver_on_def HttpReceiver_off_def
        HttpReceiver_startReceiver_def HttpReceiver_stopReceiver_def Let_def)
qed

lemma http_cron_never_cancelled_witness:
  "hr_cronJobs (fst (receiver_run 0 HttpReceiver [HSet (Some [(''cron'', JStr ''*'')]), HOn ''message'', HOff ''message''])) = 1"
  using http_cron_never_cancelled [of "[(''cron'', JStr ''*'')]" 0] by (simp add: http_opts_error_def Let_def del: receiver_run.simps)

section \<open>From the queue of the hub to the settlement\<close>

text \<open>The headers of a response that \<open>toMessage\<close> takes the lock token from.\<close>

definition etag_header :: "string \<times> string \<Rightarrow> bool" where
  "etag_header h \<longleftrightarrow> \<not> contains ''iothub-'' (fst h) \<and> to_lower (fst h) = ''etag''"

lemma header_frame:
  "msg_data (toMessage_header m h) = msg_data m"
  "msg_lockToken (toMessage_header m h) = (if etag_header h then JStr (strip_quotes (snd h)) else msg_lockToken m)"
  by (cases h; simp add: toMessage_header_def etag_header_def)+

lemma headers_data: "msg_data (foldl toMessage_header m hs) = msg_data m"
  by (induction hs arbitrary: m) (simp_all add: header_frame)

lemma headers_lockToken:
  "msg_lockToken (foldl toMessage_header m hs)
    = (if filter etag_header hs = [] then msg_lockToken m else JStr (strip_quotes (snd (last (filter etag_header hs)))))"
  by (induction hs arbitrary: m) (auto simp: header_frame)

text \<open>A message the hub holds: a successful response with a body and one \<open>etag\<close>, the quoted lock token.\<close>

definition quoted_token :: "string \<Rightarrow> string" where
  "quoted_token tok = [CHR 0x22] @ tok @ [CHR 0x22]"

definition holds_message :: "http_response \<times> string \<times> string \<Rightarrow> bool" where
  "holds_message q \<longleftrightarrow> (case q of (res, body, tok) \<Rightarrow> statusCode res < 300 \<and> body \<noteq> []
     \<and> map snd (filter etag_header (resp_headers res)) = [quoted_token tok])"

lemma strip_quoted: "strip_quotes (quoted_token tok) = tok"
  by (simp add: strip_quotes_def quoted_token_def)

lemma held_message:
  assumes "holds_message (res, body, tok)"
  shows "\<exists>m. Http_toMessage res (JStr body) = Some m \<and> Message_getData m = JStr body \<and> msg_lockToken m = JStr tok"
proof -
  obtain h where "filter etag_header (resp_headers res) = [h]" "snd h = quoted_token tok"
    using assms by (auto simp: holds_message_def)
  then show ?thesis
    using assms by (simp add: holds_message_def Http_toMessage_def Message_getData_def headers_data headers_lockToken strip_quoted)
      (simp add: Message_def)
qed

lemma answers_drain_queue:
  "truthy (dget (hr_opts r) ''drain'') \<Longrightarrow> list_all holds_message queue \<Longrightarrow>
   HttpReceiver_answers r opts (map (\<lambda>(res, body, tok). holds res body) queue @ [holds res0 []])
   = concat (map (\<lambda>(res, body, tok). [HRequest opts None, HEmitMessage (Http_toMessage res (JStr body))]) queue)"
  by (induction queue) (auto simp: holds_def holds_message_def)

fun emitted :: "http_effect \<Rightarrow> message option list" where
  "emitted (HEmitMessage m) = [m]"
| "emitted _ = []"

text \<open>Settling a message of the hub names its lock token, in the path and in \<open>If-Match\<close>.\<close>

definition settles :: "string \<Rightarrow> http_config \<Rightarrow> feedback \<Rightarrow> string \<Rightarrow> message \<Rightarrow> bool" where
  "settles version config action tok m \<longleftrightarrow> (\<exists>headers. HttpReceiver_sendFeedback version config action (Some m)
     = Inr [HRequest (http_request config (fst (feedback_target action (feedbackPath (js_string (dget config ''deviceId'')) tok)))
                       (snd (feedback_target action (feedbackPath (js_string (dget config ''deviceId'')) tok))) headers) None]
     \<and> dget headers ''If-Match'' = JStr tok)"

lemma authorized_settles:
  assumes "HttpReceiver_request version config = Inr opts" and "msg_lockToken m = JStr tok"
  shows "settles version config action tok m"
proof -
  have "truthy (dget config ''x509'') \<or> dget config ''sharedAccessSignature'' \<notin> {JUndef, JNull}"
    using assms(1) by (auto simp: HttpReceiver_request_def insertAuthHeaderIfNecessary_def Let_def split: if_splits)
  then show ?thesis
    using assms(2) by (auto simp: settles_def HttpReceiver_sendFeedback_def insertAuthHeaderIfNecessary_def case_prod_beta Let_def dget_def)
qed



text \<open>A custom property that arrives over HTTP keeps the prefix of its header in its key.\<close>

lemma http_property_keeps_prefix:
  "Http_toMessage \<lparr>statusCode = 200, statusMessage = [], resp_headers = [(''iothub-app-color'', ''red'')]\<rparr> (JStr ''x'')
    = Some ((Message (JStr ''x''))\<lparr>msg_properties := [(''iothub-app-color'', JStr ''red'')]\<rparr>)"
  by code_simp

end
