(* ===== verification/Service_Rest.thy ===== *)
theory Service_Rest
  imports Error_Translation
begin

text \<open>
  The REST side of the service library (\<open>node/service/lib\<close>): \<open>rest_api_client.js\<close>, \<open>registry.js\<close>,
  \<open>job_client.js\<close>, \<open>query.js\<close>, \<open>device_method.js\<close>, \<open>twin.js\<close> and \<open>device.js\<close>.

  A method of the registry or of the job client checks its arguments and hands one call to
  \<open>executeApiCall\<close>: it is a function to \<^typ>\<open>js_error + 'a\<close> with the call as its result, and the
  handling of the response is a separate function. \<open>JSON\<close>, \<open>uuid\<close>, \<open>lodash\<close>, the HMAC, the clock and
  the package's name and version are arguments.
\<close>

section \<open>The REST client\<close>

record rest_client =
  ra_host :: jsval
  ra_sas :: jsval

definition quoted :: "jsval \<Rightarrow> string" where
  "quoted v = [CHR 0x27] @ js_string v @ [CHR 0x27]"

definition RestApiClient :: "jsval dict option \<Rightarrow> rest_client res" where
  "RestApiClient config = (case config of
       None \<Rightarrow> throw ReferenceError (''config cannot be '' @ quoted JUndef)
     | Some c \<Rightarrow>
         if falsy (dget c ''host'') then throw ArgumentError (''config.host cannot be '' @ quoted (dget c ''host''))
         else if falsy (dget c ''sharedAccessSignature'')
         then throw ArgumentError (''config.sharedAccessSignature cannot be '' @ quoted (dget c ''sharedAccessSignature''))
         else Inr \<lparr>ra_host = dget c ''host'', ra_sas = dget c ''sharedAccessSignature''\<rparr>)"

text \<open>The arguments of \<open>executeApiCall\<close>, but for the callback.\<close>

record api_call =
  ac_method :: jsval
  ac_path :: jsval
  ac_headers :: "jsval dict option"
  ac_body :: jsval
  ac_timeout :: jsval

record api_request =
  aq_options :: http_options
  aq_timeout :: "jsval option"
  aq_body :: "string option"

text \<open>
  What the call takes from its surroundings: the HMAC, the clock, the new identifier, the user
  agent and \<open>JSON.stringify\<close>.
\<close>

record rest_env =
  re_hmac :: hmac
  re_now :: int
  re_uuid :: string
  re_agent :: string
  re_stringify :: "jsval \<Rightarrow> string"

text \<open>The token: a string as it is; a signature object is extended in place by an hour.\<close>

definition rest_authorization :: "rest_env \<Rightarrow> rest_client \<Rightarrow> (rest_client \<times> string) res" where
  "rest_authorization env c = (case ra_sas c of
       JStr s \<Rightarrow> Inr (c, s)
     | JObj d \<Rightarrow> res_bind (SharedAccessSignature_extend (re_hmac env) d (JNum (anHourFromNow (re_now env)))) (\<lambda>(d', s).
         Inr (c\<lparr>ra_sas := JObj d'\<rparr>, s))
     | _ \<Rightarrow> throw TypeError ''this._config.sharedAccessSignature.extend is not a function'')"

definition header_contains :: "jsval dict \<Rightarrow> string \<Rightarrow> bool" where
  "header_contains h s \<longleftrightarrow> truthy (dget h ''Content-Type'') \<and> contains s (js_string (dget h ''Content-Type''))"

text \<open>
  The body: \<open>None\<close> headers stand for null, whose member cannot be read; a body with neither of the
  two content types leaves a null string, whose length cannot be read.
\<close>

definition rest_body :: "rest_env \<Rightarrow> jsval dict option \<Rightarrow> jsval \<Rightarrow> string option res" where
  "rest_body env headers body =
     (if falsy body then Inr None
      else case headers of
        None \<Rightarrow> throw TypeError ''Cannot read property Content-Type of null''
      | Some h \<Rightarrow>
          if header_contains h ''application/json''
          then Inr (Some (case body of JStr s \<Rightarrow> s | _ \<Rightarrow> re_stringify env body))
          else if header_contains h ''text/plain''
          then (case body of JStr s \<Rightarrow> Inr (Some s) | _ \<Rightarrow> throw TypeError ''requestBody must be a string'')
          else throw TypeError ''Cannot read property length of null'')"

definition RestApiClient_executeApiCall ::
  "rest_env \<Rightarrow> rest_client \<Rightarrow> api_call \<Rightarrow> (rest_client \<times> api_request) res" where
  "RestApiClient_executeApiCall env c call =
     (if falsy (ac_method call) then throw ReferenceError (''method cannot be '' @ quoted (ac_method call))
      else if falsy (ac_path call) then throw ReferenceError (''path cannot be '' @ quoted (ac_path call))
      else
        let timeout = (if is_fun (ac_timeout call) then JUndef else ac_timeout call) in
        res_bind (rest_authorization env c) (\<lambda>(c', token).
        let h = (case ac_headers call of Some h \<Rightarrow> h | None \<Rightarrow> []);
            h = dset ''User-Agent'' (JStr (re_agent env))
                  (dset ''Request-Id'' (JStr (re_uuid env)) (dset ''Authorization'' (JStr token) h)) in
        res_bind (rest_body env (map_option (\<lambda>_. h) (ac_headers call)) (ac_body call)) (\<lambda>body.
        let h = (case body of Some b \<Rightarrow> dset ''Content-Length'' (JNum (int (length b))) h | None \<Rightarrow> h) in
        Inr (c', \<lparr>aq_options = fst (Http_buildRequest (ac_method call) (ac_path call) (JObj h) (ra_host c') (JFun 0) JUndef),
                  aq_timeout = (if truthy timeout then Some timeout else None),
                  aq_body = (if body = Some [] then None else body)\<rparr>))))"

text \<open>The callback of the request: the arguments of \<open>done\<close>.\<close>

definition rest_onResponse ::
  "(string \<Rightarrow> jsval option) \<Rightarrow> http_call \<Rightarrow> (js_error + jsval \<times> http_response option) res" where
  "rest_onResponse json_parse call = (case hc_err call of
       Some e \<Rightarrow> (case hc_response call of
           Some r \<Rightarrow> Inr (Inl (RestApiClient_translateError json_parse (case hc_body call of Some b \<Rightarrow> b | None \<Rightarrow> ''undefined'') r))
         | None \<Rightarrow> Inr (Inl e))
     | None \<Rightarrow> (case hc_body call of
           None \<Rightarrow> Inr (Inr (JStr [], hc_response call))
         | Some b \<Rightarrow> if b = [] then Inr (Inr (JStr [], hc_response call))
                     else (case json_parse b of
                         None \<Rightarrow> throw SyntaxError ''Unexpected token''
                       | Some v \<Rightarrow> Inr (Inr (v, hc_response call)))))"

definition RestApiClient_updateSharedAccessSignature :: "rest_client \<Rightarrow> jsval \<Rightarrow> rest_client res" where
  "RestApiClient_updateSharedAccessSignature c sas =
     (if falsy sas then throw ReferenceError (''sharedAccessSignature cannot be '' @ quoted sas)
      else Inr (c\<lparr>ra_sas := sas\<rparr>))"

definition json_headers :: "jsval dict" where
  "json_headers = [(''Content-Type'', JStr ''application/json; charset=utf-8'')]"

definition api :: "string \<Rightarrow> string \<Rightarrow> jsval dict option \<Rightarrow> jsval \<Rightarrow> api_call" where
  "api verb path headers body = \<lparr>ac_method = JStr verb, ac_path = JStr path, ac_headers = headers, ac_body = body,
     ac_timeout = JUndef\<rparr>"

section \<open>Registry\<close>

definition Registry :: "jsval dict option \<Rightarrow> rest_client res" where
  "Registry config = (case config of
       None \<Rightarrow> throw ReferenceError (''The '' @ [CHR 0x27] @ ''config'' @ [CHR 0x27] @ '' parameter cannot be '' @ quoted JUndef)
     | Some c \<Rightarrow>
         if falsy (dget c ''host'') \<or> falsy (dget c ''sharedAccessSignature'')
         then throw ArgumentError (''The '' @ [CHR 0x27] @ ''config'' @ [CHR 0x27]
                @ '' argument is missing either the host or the sharedAccessSignature property'')
         else RestApiClient config)"

text \<open>\<open>Date.now()\<close> is the expiry here; the signature object itself is kept, and extended at each call.\<close>

definition Registry_fromConnectionString :: "hmac \<Rightarrow> int \<Rightarrow> jsval \<Rightarrow> rest_client res" where
  "Registry_fromConnectionString hmac now value =
     (if falsy value then throw ReferenceError (''value is '' @ quoted value)
      else res_bind (Service_ConnectionString_parse value) (\<lambda>cn.
        res_bind (Service_SAS_create hmac (sget cn ''HostName'') (sget cn ''SharedAccessKeyName'')
                   (sget cn ''SharedAccessKey'') (JNum now)) (\<lambda>sas.
          Registry (Some [(''host'', sget cn ''HostName''), (''sharedAccessSignature'', JObj sas)]))))"

definition Registry_fromSharedAccessSignature :: "jsval \<Rightarrow> rest_client res" where
  "Registry_fromSharedAccessSignature value =
     (if falsy value then throw ReferenceError (''value is '' @ quoted value)
      else res_bind (Service_SAS_parse value) (\<lambda>sas.
        Registry (Some [(''host'', dget sas ''sr''),
                        (''sharedAccessSignature'', JStr (SharedAccessSignature_toString sas))])))"

definition device_guard :: "jsval \<Rightarrow> 'a \<Rightarrow> 'a res" where
  "device_guard deviceInfo x =
     (if falsy deviceInfo then throw ReferenceError (''deviceInfo cannot be '' @ quoted deviceInfo)
      else if falsy (jget deviceInfo ''deviceId'')
      then throw ArgumentError (''The object '' @ [CHR 0x27] @ ''deviceInfo'' @ [CHR 0x27] @ '' is missing the property: deviceId'')
      else Inr x)"

definition Registry_create :: "jsval \<Rightarrow> api_call res" where
  "Registry_create deviceInfo = device_guard deviceInfo
     (api ''PUT'' (devicePath (js_string (jget deviceInfo ''deviceId'')) @ versionQueryString) (Some json_headers) deviceInfo)"

definition Registry_update :: "jsval \<Rightarrow> api_call res" where
  "Registry_update deviceInfo = device_guard deviceInfo
     (api ''PUT'' (devicePath (js_string (jget deviceInfo ''deviceId'')) @ versionQueryString)
       (Some (json_headers @ [(''If-Match'', JStr ''*'')])) deviceInfo)"

definition Registry_get :: "jsval \<Rightarrow> api_call res" where
  "Registry_get deviceId =
     (if falsy deviceId then throw ReferenceError (''deviceId is '' @ quoted deviceId)
      else Inr (api ''GET'' (devicePath (js_string deviceId) @ versionQueryString) None JNull))"

definition Registry_list :: "api_call res" where
  "Registry_list = Inr (api ''GET'' (devicePath [] @ versionQueryString) None JNull)"

definition Registry_delete :: "jsval \<Rightarrow> api_call res" where
  "Registry_delete deviceId =
     (if falsy deviceId then throw ReferenceError (''deviceId is '' @ quoted deviceId)
      else Inr (api ''DELETE'' (devicePath (js_string deviceId) @ versionQueryString) (Some [(''If-Match'', JStr ''*'')]) JNull))"

definition Registry_importDevicesFromBlob :: "jsval \<Rightarrow> jsval \<Rightarrow> api_call res" where
  "Registry_importDevicesFromBlob input output =
     (if falsy input then throw ReferenceError ''inputBlobContainerUri cannot be falsy''
      else if falsy output then throw ReferenceError ''outputBlobContainerUri cannot be falsy''
      else Inr (api ''POST'' (''/jobs/create'' @ versionQueryString) (Some json_headers)
        (JObj [(''type'', JStr ''import''), (''inputBlobContainerUri'', input), (''outputBlobContainerUri'', output)])))"

definition Registry_exportDevicesToBlob :: "jsval \<Rightarrow> jsval \<Rightarrow> api_call res" where
  "Registry_exportDevicesToBlob output excludeKeys =
     (if falsy output then throw ReferenceError ''outputBlobContainerUri cannot be falsy''
      else Inr (api ''POST'' (''/jobs/create'' @ versionQueryString) (Some json_headers)
        (JObj [(''type'', JStr ''export''), (''outputBlobContainerUri'', output), (''excludeKeysInExport'', excludeKeys)])))"

definition Registry_listJobs :: "api_call res" where
  "Registry_listJobs = Inr (api ''GET'' (''/jobs'' @ versionQueryString) None JNull)"

definition Registry_getJob :: "jsval \<Rightarrow> api_call res" where
  "Registry_getJob jobId =
     (if falsy jobId then throw ReferenceError ''jobId cannot be falsy''
      else Inr (api ''GET'' (''/jobs/'' @ js_string jobId @ versionQueryString) None JNull))"

definition Registry_cancelJob :: "jsval \<Rightarrow> api_call res" where
  "Registry_cancelJob jobId =
     (if falsy jobId then throw ReferenceError ''jobId cannot be falsy''
      else Inr (api ''DELETE'' (''/jobs/'' @ js_string jobId @ versionQueryString) None JNull))"

definition Registry_getTwin :: "jsval \<Rightarrow> bool \<Rightarrow> api_call res" where
  "Registry_getTwin deviceId done =
     (if falsy deviceId then throw ReferenceError (''the '' @ [CHR 0x27] @ ''deviceId'' @ [CHR 0x27] @ '' cannot be falsy'')
      else if \<not> done then throw ReferenceError (''the '' @ [CHR 0x27] @ ''done'' @ [CHR 0x27] @ '' argument cannot be falsy'')
      else Inr (api ''GET'' (''/twins/'' @ js_string deviceId @ versionQueryString) None JNull))"

definition Registry_updateTwin :: "jsval \<Rightarrow> jsval \<Rightarrow> jsval \<Rightarrow> api_call res" where
  "Registry_updateTwin deviceId patch etag =
     (if is_blank deviceId then throw ReferenceError (''deviceId cannot be '' @ quoted deviceId)
      else if falsy patch then throw ReferenceError (''patch cannot be '' @ quoted patch)
      else if falsy etag then throw ReferenceError (''etag cannot be '' @ quoted etag)
      else Inr (api ''PATCH'' (''/twins/'' @ js_string deviceId @ versionQueryString)
        (Some (json_headers @ [(''If-Match'', etag)])) patch))"

text \<open>\<open>createQuery\<close> and the function it gives to the query: one call per continuation token.\<close>

definition Registry_executeQueryFunc :: "jsval \<Rightarrow> jsval \<Rightarrow> jsval \<Rightarrow> api_call" where
  "Registry_executeQueryFunc sqlQuery pageSize continuationToken =
     api ''POST'' (''/devices/query'' @ versionQueryString) (Some json_headers)
       (JObj [(''sql'', sqlQuery), (''pageSize'', pageSize), (''continuationToken'', continuationToken)])"

definition Registry_createQuery :: "jsval \<Rightarrow> jsval \<Rightarrow> (jsval \<Rightarrow> api_call) res" where
  "Registry_createQuery sqlQuery pageSize =
     (if falsy sqlQuery then throw ReferenceError (''sqlQuery cannot be '' @ quoted sqlQuery)
      else if \<not> is_str sqlQuery then throw TypeError ''sqlQuery must be a string''
      else if pageSize \<noteq> JNull \<and> pageSize \<noteq> JUndef \<and> \<not> is_num pageSize
      then throw TypeError ''pageSize must be a number or be null or undefined''
      else Inr (Registry_executeQueryFunc sqlQuery pageSize))"

section \<open>Devices and twins\<close>

text \<open>\<open>new Device(json)\<close>; \<open>merge\<close> is \<open>_.merge\<close>.\<close>

definition device_defaults :: jsval where
  "device_defaults = JObj [(''deviceId'', JNull), (''generationId'', JNull), (''etag'', JNull),
     (''connectionState'', JStr ''Disconnected''), (''status'', JStr ''Enabled''), (''statusReason'', JNull),
     (''connectionStateUpdatedTime'', JNull), (''statusUpdatedTime'', JNull), (''lastActivityTime'', JNull),
     (''cloudToDeviceMessageCount'', JNum 0),
     (''authentication'', JObj [
        (''symmetricKey'', JObj [(''primaryKey'', JNull), (''secondaryKey'', JNull)]),
        (''x509Thumprint'', JObj [(''primaryThumbprint'', JNull), (''secondaryThumbprint'', JNull)])])]"

definition Device :: "(jsval \<Rightarrow> jsval \<Rightarrow> jsval) \<Rightarrow> (string \<Rightarrow> jsval option) \<Rightarrow> jsval \<Rightarrow> jsval res" where
  "Device merge json_parse jsonData =
     (if falsy jsonData then Inr device_defaults
      else res_bind (case jsonData of
             JStr s \<Rightarrow> (case json_parse s of Some v \<Rightarrow> Inr v | None \<Rightarrow> throw SyntaxError ''Unexpected token'')
           | v \<Rightarrow> Inr v) (\<lambda>userProps.
        if falsy (jget userProps ''deviceId'')
        then throw ReferenceError (''The '' @ [CHR 0x27] @ ''deviceId'' @ [CHR 0x27] @ '' property cannot be ''
               @ quoted (jget userProps ''deviceId''))
        else Inr (merge device_defaults userProps)))"

text \<open>
  The getter \<open>SymmetricKey\<close> is defined on the object \<open>authentication\<close>, so \<open>this\<close> is that object and
  not the device.
\<close>

definition Device_SymmetricKey :: "jsval \<Rightarrow> jsval" where
  "Device_SymmetricKey device =
     (let this = jget device ''authentication'' in
      if truthy (jget this ''authentication'') then jget (jget this ''authentication'') ''symmetricKey'' else JUndef)"

text \<open>The service's twin: the merged object, its etag, its tags and its properties.\<close>

record service_twin =
  st_object :: "jsval dict"

definition or_else :: "jsval \<Rightarrow> jsval \<Rightarrow> jsval" where
  "or_else v d = (if truthy v then v else d)"

definition ServiceTwin ::
  "(jsval dict \<Rightarrow> jsval dict \<Rightarrow> jsval dict) \<Rightarrow> jsval \<Rightarrow> bool \<Rightarrow> service_twin res" where
  "ServiceTwin merge device registryClient =
     (if is_blank device then throw ReferenceError ([CHR 0x27] @ ''device'' @ [CHR 0x27] @ '' cannot be '' @ quoted device)
      else if \<not> registryClient
      then throw ReferenceError ([CHR 0x27] @ ''registryClient'' @ [CHR 0x27] @ '' cannot be '' @ quoted JUndef)
      else res_bind (case device of
             JStr s \<Rightarrow> Inr [(''deviceId'', JStr s)]
           | JObj d \<Rightarrow> if falsy (dget d ''deviceId'')
                       then throw ArgumentError ([CHR 0x27] @ ''device'' @ [CHR 0x27] @ '' must have a deviceId property'')
                       else Inr (merge [] d)
           | _ \<Rightarrow> throw ArgumentError ([CHR 0x27] @ ''device'' @ [CHR 0x27] @ '' must have a deviceId property'')) (\<lambda>this.
        let this = dset ''etag'' (or_else (dget this ''etag'') (JStr ''*'')) this;
            this = dset ''tags'' (or_else (dget this ''tags'') (JObj [])) this;
            props = (case dget this ''properties'' of JObj p \<Rightarrow> foldl (\<lambda>c (k, v). dset k v c) [(''desired'', JObj [])] p
                                               | _ \<Rightarrow> [(''desired'', JObj [])])
        in Inr \<lparr>st_object = dset ''properties'' (JObj props) this\<rparr>))"

definition ServiceTwin_get :: "service_twin \<Rightarrow> api_call res" where
  "ServiceTwin_get t = Registry_getTwin (dget (st_object t) ''deviceId'') True"

definition ServiceTwin_update :: "service_twin \<Rightarrow> jsval \<Rightarrow> api_call res" where
  "ServiceTwin_update t patch = Registry_updateTwin (dget (st_object t) ''deviceId'') patch (dget (st_object t) ''etag'')"

text \<open>The callbacks of both: the new state is merged into the object.\<close>

definition ServiceTwin_received ::
  "(jsval dict \<Rightarrow> jsval dict \<Rightarrow> jsval dict) \<Rightarrow> service_twin \<Rightarrow> js_error + service_twin \<Rightarrow> service_twin \<times> js_error option" where
  "ServiceTwin_received merge t out = (case out of
       Inl e \<Rightarrow> (t, Some e)
     | Inr new \<Rightarrow> (t\<lparr>st_object := merge (st_object t) (st_object new)\<rparr>, None))"

definition ServiceTwin_toJSON :: "(jsval dict \<Rightarrow> jsval dict \<Rightarrow> jsval dict) \<Rightarrow> service_twin \<Rightarrow> jsval" where
  "ServiceTwin_toJSON merge t = JObj (dset ''_registry'' JUndef (merge [] (st_object t)))"

text \<open>The callbacks of the registry: a device, a list of devices or a twin is built from the result.\<close>

definition Registry_onDevice ::
  "(jsval \<Rightarrow> jsval \<Rightarrow> jsval) \<Rightarrow> (string \<Rightarrow> jsval option) \<Rightarrow> js_error + jsval \<Rightarrow> (js_error + jsval) res" where
  "Registry_onDevice merge json_parse out = (case out of
       Inl e \<Rightarrow> Inr (Inl e)
     | Inr v \<Rightarrow> res_bind (Device merge json_parse v) (\<lambda>d. Inr (Inr d)))"

fun build_all :: "('a \<Rightarrow> 'b res) \<Rightarrow> 'a list \<Rightarrow> 'b list res" where
  "build_all f [] = Inr []"
| "build_all f (x # xs) = res_bind (f x) (\<lambda>y. res_bind (build_all f xs) (\<lambda>ys. Inr (y # ys)))"

definition Registry_onDevices ::
  "(jsval \<Rightarrow> jsval \<Rightarrow> jsval) \<Rightarrow> (string \<Rightarrow> jsval option) \<Rightarrow> js_error + jsval \<Rightarrow> (js_error + jsval list) res" where
  "Registry_onDevices merge json_parse out = (case out of
       Inl e \<Rightarrow> Inr (Inl e)
     | Inr v \<Rightarrow> if falsy v then Inr (Inr [])
                else (case v of
                    JArr vs \<Rightarrow> res_bind (build_all (Device merge json_parse) vs) (\<lambda>ds. Inr (Inr ds))
                  | _ \<Rightarrow> throw TypeError ''devices.map is not a function''))"

definition Registry_onTwin ::
  "(jsval dict \<Rightarrow> jsval dict \<Rightarrow> jsval dict) \<Rightarrow> js_error + jsval \<Rightarrow> (js_error + service_twin) res" where
  "Registry_onTwin merge out = (case out of
       Inl e \<Rightarrow> Inr (Inl e)
     | Inr v \<Rightarrow> res_bind (ServiceTwin merge v True) (\<lambda>t. Inr (Inr t)))"

section \<open>Device methods\<close>

definition defaultTimeout :: jsval where
  "defaultTimeout = JNum 30"

definition defaultPayload :: jsval where
  "defaultPayload = JNull"

definition DeviceMethod :: "jsval \<Rightarrow> jsval dict res" where
  "DeviceMethod params =
     (if falsy params then throw ReferenceError (''params cannot be '' @ quoted params)
      else if is_blank (jget params ''methodName'')
      then throw ReferenceError (''params.methodName cannot be '' @ quoted (jget params ''methodName''))
      else if \<not> is_str (jget params ''methodName'') then throw TypeError ''methodName must be a string''
      else case params of
        JObj d \<Rightarrow>
          (let d1 = dset ''timeoutInSeconds'' (or_else (dget d ''timeoutInSeconds'') defaultTimeout) d
           in Inr (dset ''payload'' (if dget d1 ''payload'' = JUndef \<or> dget d1 ''payload'' = JNull then defaultPayload
                                     else dget d1 ''payload'') d1))
      | _ \<Rightarrow> throw TypeError ''methodName must be a string'')"

fun times_1000 :: "jsval \<Rightarrow> jsval" where
  "times_1000 (JNum n) = JNum (n * 1000)"
| "times_1000 _ = JUndef"

definition DeviceMethod_invokeOn :: "jsval dict \<Rightarrow> jsval \<Rightarrow> api_call res" where
  "DeviceMethod_invokeOn params deviceId =
     (if is_blank deviceId then throw ReferenceError (''deviceId cannot be '' @ quoted deviceId)
      else Inr ((api ''POST'' (''/twins/'' @ js_string deviceId @ ''/methods'' @ versionQueryString)
                   (Some json_headers) (JObj params))\<lparr>ac_timeout := times_1000 (dget params ''timeoutInSeconds'')\<rparr>))"

section \<open>Queries\<close>

record query =
  qu_hasMoreResults :: bool
  qu_continuationToken :: jsval

definition Query :: query where
  "Query = \<lparr>qu_hasMoreResults = True, qu_continuationToken = JNull\<rparr>"

section \<open>Jobs\<close>

definition JobClient :: "rest_client option \<Rightarrow> rest_client res" where
  "JobClient restApiClient = (case restApiClient of
       None \<Rightarrow> throw ReferenceError (''restApiClient cannot be '' @ quoted JUndef)
     | Some c \<Rightarrow> Inr c)"

definition JobClient_fromConnectionString :: "hmac \<Rightarrow> int \<Rightarrow> jsval \<Rightarrow> rest_client res" where
  "JobClient_fromConnectionString hmac now connectionString =
     (if falsy connectionString then throw ReferenceError (''connectionString cannot be '' @ quoted connectionString)
      else res_bind (Service_ConnectionString_parse connectionString) (\<lambda>cn.
        res_bind (Service_SAS_create hmac (sget cn ''HostName'') (sget cn ''SharedAccessKeyName'')
                   (sget cn ''SharedAccessKey'') (JNum (anHourFromNow now))) (\<lambda>sas.
          res_bind (RestApiClient (Some [(''host'', sget cn ''HostName''),
                      (''sharedAccessSignature'', JStr (SharedAccessSignature_toString sas))])) (\<lambda>c. JobClient (Some c)))))"

definition JobClient_fromSharedAccessSignature :: "jsval \<Rightarrow> rest_client res" where
  "JobClient_fromSharedAccessSignature sharedAccessSignature =
     (if falsy sharedAccessSignature
      then throw ReferenceError (''sharedAccessSignature cannot be '' @ quoted sharedAccessSignature)
      else res_bind (Service_SAS_parse sharedAccessSignature) (\<lambda>sas.
        res_bind (RestApiClient (Some [(''host'', dget sas ''sr''), (''sharedAccessSignature'', sharedAccessSignature)]))
          (\<lambda>c. JobClient (Some c))))"

definition job_guard :: "jsval \<Rightarrow> 'a res \<Rightarrow> 'a res" where
  "job_guard jobId r = (if is_blank jobId then throw ReferenceError (''jobId cannot be '' @ quoted jobId) else r)"

definition JobClient_getJob :: "jsval \<Rightarrow> api_call res" where
  "JobClient_getJob jobId =
     job_guard jobId (Inr (api ''GET'' (''/jobs/v2/'' @ js_string jobId @ versionQueryString) None JNull))"

definition query_param :: "string \<Rightarrow> jsval \<Rightarrow> string" where
  "query_param name v = (if truthy v then ''&'' @ name @ ''='' @ encodeURIComponent (js_string v) else [])"

definition JobClient_getJobsFunc :: "jsval \<Rightarrow> jsval \<Rightarrow> jsval \<Rightarrow> jsval \<Rightarrow> api_call" where
  "JobClient_getJobsFunc jobType jobStatus pageSize continuationToken =
     api ''GET'' (''/jobs/v2/query'' @ versionQueryString @ query_param ''jobStatus'' jobStatus
       @ query_param ''jobType'' jobType @ query_param ''pageSize'' pageSize
       @ query_param ''continuationToken'' continuationToken) None JNull"

text \<open>\<open>createQuery\<close>: the function the new query calls with each continuation token.\<close>

definition JobClient_createQuery :: "jsval \<Rightarrow> jsval \<Rightarrow> jsval \<Rightarrow> query \<times> (jsval \<Rightarrow> api_call)" where
  "JobClient_createQuery jobType jobStatus pageSize = (Query, JobClient_getJobsFunc jobType jobStatus pageSize)"

definition JobClient_cancelJob :: "jsval \<Rightarrow> api_call res" where
  "JobClient_cancelJob jobId =
     job_guard jobId (Inr (api ''POST'' (''/jobs/v2/'' @ js_string jobId @ ''/cancel'' @ versionQueryString) None JNull))"

text \<open>The shuffle of optional arguments that both schedule methods make.\<close>

definition job_args :: "jsval \<Rightarrow> jsval \<Rightarrow> jsval \<Rightarrow> (jsval \<times> jsval \<times> jsval) res" where
  "job_args jobStartTime maxTime done =
     (if is_fun jobStartTime then
        (if truthy maxTime \<or> truthy done then throw TypeError ''The callback must be the last parameter''
         else Inr (JNull, JNull, jobStartTime))
      else if is_fun maxTime then
        (if truthy done then throw TypeError ''The callback must be the last parameter''
         else Inr (jobStartTime, JNull, maxTime))
      else Inr (jobStartTime, maxTime, done))"

text \<open>\<open>toISOString\<close> of the start time, for which \<open>toISO\<close> stands; only a date has that method.\<close>

definition start_time :: "(int \<Rightarrow> string) \<Rightarrow> jsval \<Rightarrow> jsval res" where
  "start_time toISO t = (if falsy t then Inr JNull else case t of
       JDate d \<Rightarrow> Inr (JStr (toISO d))
     | _ \<Rightarrow> throw TypeError ''jobStartTime.toISOString is not a function'')"

definition JobClient_scheduleJob :: "jsval dict \<Rightarrow> api_call" where
  "JobClient_scheduleJob jobDesc =
     api ''PUT'' (''/jobs/v2/'' @ encodeURIComponent (js_string (dget jobDesc ''jobId'')) @ versionQueryString)
       (Some json_headers) (JObj jobDesc)"

definition schedule_job ::
  "(int \<Rightarrow> string) \<Rightarrow> jsval \<Rightarrow> jsval \<Rightarrow> string \<Rightarrow> string \<times> jsval \<Rightarrow> jsval \<Rightarrow> jsval \<Rightarrow> jsval \<Rightarrow> (api_call \<times> jsval) res" where
  "schedule_job toISO jobId queryCondition type action jobStartTime maxTime done =
     res_bind (job_args jobStartTime maxTime done) (\<lambda>(start, limit, cb).
     res_bind (start_time toISO start) (\<lambda>st.
     if \<not> is_str queryCondition then throw TypeError ''queryCondition must be a sql WHERE clause string''
     else Inr (JobClient_scheduleJob [(''jobId'', jobId), (''type'', JStr type), action, (''startTime'', st),
                 (''maxExecutionTimeInSeconds'', limit), (''queryCondition'', queryCondition)], cb)))"

definition JobClient_scheduleDeviceMethod ::
  "(int \<Rightarrow> string) \<Rightarrow> jsval \<Rightarrow> jsval \<Rightarrow> jsval \<Rightarrow> jsval \<Rightarrow> jsval \<Rightarrow> jsval \<Rightarrow> (api_call \<times> jsval) res" where
  "JobClient_scheduleDeviceMethod toISO jobId queryCondition methodParams jobStartTime maxTime done =
     job_guard jobId
      (if falsy queryCondition then throw ReferenceError (''queryCondition cannot be '' @ quoted queryCondition)
       else if falsy methodParams then throw ReferenceError (''methodParams cannot be '' @ quoted methodParams)
       else if is_blank (jget methodParams ''methodName'')
       then throw ReferenceError (''methodParams.methodName cannot be '' @ quoted (jget methodParams ''methodName''))
       else schedule_job toISO jobId queryCondition ''scheduleDeviceMethod''
         (''cloudToDeviceMethod'', JObj [(''methodName'', jget methodParams ''methodName''),
            (''payload'', or_else (jget methodParams ''payload'') defaultPayload),
            (''timeoutInSeconds'', or_else (jget methodParams ''timeoutInSeconds'') defaultTimeout)])
         jobStartTime maxTime done)"

definition JobClient_scheduleTwinUpdate ::
  "(int \<Rightarrow> string) \<Rightarrow> jsval \<Rightarrow> jsval \<Rightarrow> jsval \<Rightarrow> jsval \<Rightarrow> jsval \<Rightarrow> jsval \<Rightarrow> (api_call \<times> jsval) res" where
  "JobClient_scheduleTwinUpdate toISO jobId queryCondition patch jobStartTime maxTime done =
     job_guard jobId
      (if falsy queryCondition then throw ReferenceError (''queryCondition cannot be '' @ quoted queryCondition)
       else if falsy patch then throw ReferenceError (''patch cannot be '' @ quoted patch)
       else schedule_job toISO jobId queryCondition ''scheduleUpdateTwin'' (''updateTwin'', patch) jobStartTime maxTime done)"

section \<open>Pages of a query\<close>

text \<open>The callback of \<open>next\<close>: the query afterwards, and the error or the items.\<close>

definition Query_next :: "query \<Rightarrow> js_error + jsval \<Rightarrow> query \<times> (js_error + jsval)" where
  "Query_next q out = (case out of
       Inl e \<Rightarrow> (q, Inl e)
     | Inr result \<Rightarrow>
         (let t = jget result ''continuationToken''
          in (q\<lparr>qu_continuationToken := t, qu_hasMoreResults := (t \<noteq> JNull)\<rparr>, Inr (jget result ''items''))))"

definition Query_nextAsTwin ::
  "(jsval \<Rightarrow> service_twin res) \<Rightarrow> query \<Rightarrow> js_error + jsval \<Rightarrow> query \<times> (js_error + (service_twin res list) option)" where
  "Query_nextAsTwin twin q out = (case Query_next q out of
       (q', Inl e) \<Rightarrow> (q', Inl e)
     | (q', Inr items) \<Rightarrow> (q', Inr (if truthy items
           then Some (map twin (case items of JArr vs \<Rightarrow> vs | _ \<Rightarrow> [])) else None)))"

text \<open>
  The loop of an application: call \<open>next\<close> while \<open>hasMoreResults\<close>; \<open>fn\<close> answers a continuation token.
  \<open>None\<close> is that the fuel ran out.
\<close>

fun fetch_all :: "(jsval \<Rightarrow> js_error + jsval) \<Rightarrow> nat \<Rightarrow> query \<Rightarrow> (jsval list \<times> js_error option) option" where
  "fetch_all fn 0 q = (if qu_hasMoreResults q then None else Some ([], None))"
| "fetch_all fn (Suc n) q =
     (if \<not> qu_hasMoreResults q then Some ([], None)
      else case Query_next q (fn (qu_continuationToken q)) of
          (q', Inl e) \<Rightarrow> Some ([], Some e)
        | (q', Inr items) \<Rightarrow> map_option (\<lambda>(xs, e). (items # xs, e)) (fetch_all fn n q'))"

section \<open>The contract of a REST operation\<close>

text \<open>
  What \<open>executeApiCall\<close> needs of a call in order not to throw: a verb, an absolute path with the API
  version, and a JSON content type when there is a body.
\<close>

definition wf_call :: "api_call \<Rightarrow> bool" where
  "wf_call c \<longleftrightarrow> ac_method c \<in> JStr ` {''GET'', ''PUT'', ''POST'', ''DELETE'', ''PATCH''}
     \<and> (\<exists>p. ac_path c = JStr p \<and> prefix ''/'' p \<and> sublist versionQueryString p)
     \<and> (truthy (ac_body c) \<longrightarrow> (\<exists>h. ac_headers c = Some h \<and> header_contains h ''application/json''))"

definition wf_client :: "rest_client \<Rightarrow> bool" where
  "wf_client c \<longleftrightarrow> truthy (ra_host c)
     \<and> (case ra_sas c of JStr s \<Rightarrow> s \<noteq> [] | JObj d \<Rightarrow> True | _ \<Rightarrow> False)"

lemma json_type: "contains ''application/json'' ''application/json; charset=utf-8''"
  by (simp add: contains_def)

lemma header_contains_json [simp]:
  "header_contains json_headers ''application/json''"
  "header_contains (json_headers @ hs) ''application/json''"
  by (simp_all add: header_contains_def json_headers_def json_type)

lemma header_contains_dset [simp]:
  "k \<noteq> ''Content-Type'' \<Longrightarrow> header_contains (dset k v h) s = header_contains h s"
  by (simp add: header_contains_def)

lemma rest_authorization_ok:
  assumes "wf_client c" and "0 \<le> re_now env"
  shows "\<exists>c' token. rest_authorization env c = Inr (c', token) \<and> ra_host c' = ra_host c
     \<and> (case ra_sas c of JStr s \<Rightarrow> c' = c \<and> token = s
        | JObj d \<Rightarrow> ra_sas c' \<noteq> JUndef \<and> (\<exists>d'. ra_sas c' = JObj d' \<and> dget d' ''se'' = JNum (anHourFromNow (re_now env))
             \<and> token = SharedAccessSignature_toString d')
        | _ \<Rightarrow> False)"
proof -
  have "(- re_now env) div 1000 \<le> 0" using assms(2) by (simp add: div_nonpos_pos_le0)
  then have "anHourFromNow (re_now env) \<noteq> 0" by (simp add: anHourFromNow_def)
  with assms(1) show ?thesis
    by (cases "ra_sas c")
      (simp_all add: wf_client_def rest_authorization_def SharedAccessSignature_extend_def Let_def)
qed

lemma rest_body_ok:
  assumes "truthy body \<longrightarrow> (\<exists>h. headers = Some h \<and> header_contains h ''application/json'')"
    and "k1 \<noteq> ''Content-Type''" "k2 \<noteq> ''Content-Type''" "k3 \<noteq> ''Content-Type''"
  shows "\<exists>b. rest_body env (map_option (\<lambda>h. dset k1 v1 (dset k2 v2 (dset k3 v3 h))) headers) body = Inr b"
  using assms by (auto simp: rest_body_def)

lemma execute_wf_call:
  assumes "wf_client c" and "0 \<le> re_now env" and "wf_call call"
  shows "\<exists>c' req h. RestApiClient_executeApiCall env c call = Inr (c', req)
     \<and> ho_method (aq_options req) = ac_method call \<and> ho_path (aq_options req) = ac_path call
     \<and> ho_host (aq_options req) = ra_host c \<and> ho_x509 (aq_options req) = None
     \<and> ho_headers (aq_options req) = JObj h
     \<and> (\<exists>token. rest_authorization env c = Inr (c', token) \<and> dget h ''Authorization'' = JStr token)
     \<and> dget h ''Request-Id'' = JStr (re_uuid env) \<and> dget h ''User-Agent'' = JStr (re_agent env)
     \<and> (aq_body req = None \<or> dget h ''Content-Length'' = JNum (int (length (the (aq_body req)))))"
proof -
  obtain c' token where auth: "rest_authorization env c = Inr (c', token)" "ra_host c' = ra_host c"
    using rest_authorization_ok [OF assms(1,2)] by blast
  have m: "truthy (ac_method call)" "truthy (ac_path call)"
    using assms(3) by (auto simp: wf_call_def prefix_def)
  have wb: "truthy (ac_body call) \<longrightarrow> (\<exists>h. ac_headers call = Some h \<and> header_contains h ''application/json'')"
    using assms(3) by (simp add: wf_call_def)
  obtain b where b: "rest_body env (map_option (\<lambda>h. dset ''User-Agent'' (JStr (re_agent env))
       (dset ''Request-Id'' (JStr (re_uuid env)) (dset ''Authorization'' (JStr token) h))) (ac_headers call)) (ac_body call) = Inr b"
    using rest_body_ok [OF wb, of "''User-Agent''" "''Request-Id''" "''Authorization''" env] by (simp, blast)
  have hs: "map_option (\<lambda>_. dset ''User-Agent'' (JStr (re_agent env))
       (dset ''Request-Id'' (JStr (re_uuid env)) (dset ''Authorization'' (JStr token)
         (case ac_headers call of Some h \<Rightarrow> h | None \<Rightarrow> [])))) (ac_headers call)
     = map_option (\<lambda>h. dset ''User-Agent'' (JStr (re_agent env))
       (dset ''Request-Id'' (JStr (re_uuid env)) (dset ''Authorization'' (JStr token) h))) (ac_headers call)"
    by (cases "ac_headers call") simp_all
  show ?thesis
    using m auth b
    by (cases b) (auto simp: RestApiClient_executeApiCall_def Let_def hs Http_buildRequest_def)
qed

text \<open>The interface between the classes of the service library and the REST client.\<close>

locale rest_operation =
  fixes operation :: "'a \<Rightarrow> api_call res"
  assumes operation_wf: "operation a = Inr call \<Longrightarrow> wf_call call"
begin

lemma operation_executes:
  assumes "operation a = Inr call" and "wf_client c" and "0 \<le> re_now env"
  shows "\<exists>c' req h. RestApiClient_executeApiCall env c call = Inr (c', req)
     \<and> ho_method (aq_options req) = ac_method call \<and> ho_path (aq_options req) = ac_path call
     \<and> ho_host (aq_options req) = ra_host c \<and> ho_headers (aq_options req) = JObj h
     \<and> (\<exists>token. rest_authorization env c = Inr (c', token) \<and> dget h ''Authorization'' = JStr token)"
  using execute_wf_call [OF assms(2,3) operation_wf [OF assms(1)]] by blast

end

text \<open>The operations of the registry, of the job client and of a device method, each a value.\<close>

datatype registry_op =
    RCreate jsval
  | RUpdate jsval
  | RGet jsval
  | RList
  | RDelete jsval
  | RImport jsval jsval
  | RExport jsval jsval
  | RListJobs
  | RGetJob jsval
  | RCancelJob jsval
  | RGetTwin jsval bool
  | RUpdateTwin jsval jsval jsval
  | RQuery jsval jsval jsval

fun registry_call :: "registry_op \<Rightarrow> api_call res" where
  "registry_call (RCreate d) = Registry_create d"
| "registry_call (RUpdate d) = Registry_update d"
| "registry_call (RGet d) = Registry_get d"
| "registry_call RList = Registry_list"
| "registry_call (RDelete d) = Registry_delete d"
| "registry_call (RImport i out) = Registry_importDevicesFromBlob i out"
| "registry_call (RExport out x) = Registry_exportDevicesToBlob out x"
| "registry_call RListJobs = Registry_listJobs"
| "registry_call (RGetJob j) = Registry_getJob j"
| "registry_call (RCancelJob j) = Registry_cancelJob j"
| "registry_call (RGetTwin d f) = Registry_getTwin d f"
| "registry_call (RUpdateTwin d p e) = Registry_updateTwin d p e"
| "registry_call (RQuery sql page token) = res_bind (Registry_createQuery sql page) (\<lambda>f. Inr (f token))"

datatype job_op =
    JGet jsval
  | JCancel jsval
  | JList jsval jsval jsval jsval
  | JMethod jsval jsval jsval jsval jsval jsval
  | JTwin jsval jsval jsval jsval jsval jsval

fun job_call :: "(int \<Rightarrow> string) \<Rightarrow> job_op \<Rightarrow> api_call res" where
  "job_call toISO (JGet j) = JobClient_getJob j"
| "job_call toISO (JCancel j) = JobClient_cancelJob j"
| "job_call toISO (JList ty st page token) = Inr (JobClient_getJobsFunc ty st page token)"
| "job_call toISO (JMethod j q m t limit cb) =
     res_bind (JobClient_scheduleDeviceMethod toISO j q m t limit cb) (\<lambda>r. Inr (fst r))"
| "job_call toISO (JTwin j q p t limit cb) =
     res_bind (JobClient_scheduleTwinUpdate toISO j q p t limit cb) (\<lambda>r. Inr (fst r))"

lemma sublist_version [simp]:
  "sublist versionQueryString (versionQueryString @ q)"
  "sublist versionQueryString p \<Longrightarrow> sublist versionQueryString (x # p)"
  "sublist versionQueryString p \<Longrightarrow> sublist versionQueryString (a @ p)"
  by (auto simp: sublist_Cons_right sublist_append)

lemma wf_call_timeout [simp]: "wf_call (c\<lparr>ac_timeout := t\<rparr>) = wf_call c"
  by (simp add: wf_call_def)

lemma wf_api [simp]:
  "wf_call (api verb p headers body) \<longleftrightarrow> verb \<in> {''GET'', ''PUT'', ''POST'', ''DELETE'', ''PATCH''}
     \<and> prefix ''/'' p \<and> sublist versionQueryString p
     \<and> (truthy body \<longrightarrow> (\<exists>h. headers = Some h \<and> header_contains h ''application/json''))"
  by (auto simp: wf_call_def api_def)

lemma device_guard_Inr: "device_guard d x = Inr y \<longleftrightarrow> truthy d \<and> truthy (jget d ''deviceId'') \<and> y = x"
  by (auto simp: device_guard_def)

lemma job_guard_Inr: "job_guard j r = Inr y \<longleftrightarrow> \<not> is_blank j \<and> r = Inr y"
  by (simp add: job_guard_def)

lemmas registry_ops = Registry_create_def Registry_update_def Registry_get_def Registry_list_def
  Registry_delete_def Registry_importDevicesFromBlob_def Registry_exportDevicesToBlob_def
  Registry_listJobs_def Registry_getJob_def Registry_cancelJob_def Registry_getTwin_def
  Registry_updateTwin_def Registry_createQuery_def Registry_executeQueryFunc_def

lemmas job_ops = JobClient_getJob_def JobClient_cancelJob_def JobClient_getJobsFunc_def
  JobClient_scheduleDeviceMethod_def JobClient_scheduleTwinUpdate_def JobClient_scheduleJob_def

interpretation registry: rest_operation registry_call
proof
  fix op call
  show "registry_call op = Inr call \<Longrightarrow> wf_call call"
    by (cases op) (auto simp: registry_ops device_guard_Inr devicePath_def split: if_splits)
qed

lemma schedule_job_wf:
  "schedule_job toISO j q ty a t limit cb = Inr (call, cb') \<Longrightarrow> wf_call call"
  by (auto simp: schedule_job_def JobClient_scheduleJob_def res_bind_Inr_iff split: if_splits prod.splits)

interpretation job: rest_operation "job_call toISO"
proof
  fix op call
  show "job_call toISO op = Inr call \<Longrightarrow> wf_call call"
    by (cases op) (auto simp: job_ops job_guard_Inr res_bind_Inr_iff schedule_job_wf split: if_splits)
qed

interpretation device_method: rest_operation "\<lambda>(params, deviceId). DeviceMethod_invokeOn params deviceId"
  by unfold_locales (auto simp: DeviceMethod_invokeOn_def split: if_splits)

interpretation service_twin_update: rest_operation "\<lambda>(t, patch). ServiceTwin_update t patch"
  by unfold_locales (auto simp: ServiceTwin_update_def dest: registry.operation_wf [of "RUpdateTwin _ _ _", simplified])

section \<open>Sequences of calls\<close>

text \<open>
  Calls of one client in order, each in its own surroundings: the client is threaded through, since
  a signature object is extended in place.
\<close>

fun rest_run :: "rest_client \<Rightarrow> (rest_env \<times> api_call) list \<Rightarrow> (rest_client \<times> api_request list) res" where
  "rest_run c [] = Inr (c, [])"
| "rest_run c ((env, call) # calls) =
     res_bind (RestApiClient_executeApiCall env c call) (\<lambda>(c', req).
     res_bind (rest_run c' calls) (\<lambda>(c'', reqs). Inr (c'', req # reqs)))"

text \<open>A client signs for a policy: its signature object is one that \<open>create\<close> makes.\<close>

definition signs_for :: "hmac \<Rightarrow> jsval \<Rightarrow> jsval \<Rightarrow> jsval \<Rightarrow> rest_client \<Rightarrow> bool" where
  "signs_for h host policy key c \<longleftrightarrow> ra_host c = host
     \<and> (\<exists>e s. ra_sas c = JObj s \<and> Service_SAS_create h host policy key e = Inr s)"

definition signed_request :: "hmac \<Rightarrow> jsval \<Rightarrow> jsval \<Rightarrow> jsval \<Rightarrow> rest_env \<times> api_call \<Rightarrow> api_request \<Rightarrow> bool" where
  "signed_request h host policy key ec req \<longleftrightarrow>
     ho_method (aq_options req) = ac_method (snd ec) \<and> ho_path (aq_options req) = ac_path (snd ec)
     \<and> ho_host (aq_options req) = host
     \<and> (\<exists>hd s. ho_headers (aq_options req) = JObj hd
         \<and> Service_SAS_create h host policy key (JNum (anHourFromNow (re_now (fst ec)))) = Inr s
         \<and> dget hd ''Authorization'' = JStr (SharedAccessSignature_toString s))"

lemma create_extend:
  assumes "Service_SAS_create h host policy key e = Inr s" and "truthy e'"
  shows "\<exists>s'. Service_SAS_create h host policy key e' = Inr s'
     \<and> SharedAccessSignature_extend h s e' = Inr (s', SharedAccessSignature_toString s')"
  using assms extend_create unfolding Service_SAS_create_def by blast

lemma create_host: "Service_SAS_create h host policy key e = Inr s \<Longrightarrow> truthy host"
  by (auto simp: Service_SAS_create_def SharedAccessSignature_create_def throwRef_def split: if_splits)

lemma anHourFromNow_truthy: "0 \<le> now \<Longrightarrow> truthy (JNum (anHourFromNow now))"
proof -
  assume "0 \<le> now"
  then have "(- now) div 1000 \<le> 0" by (simp add: div_nonpos_pos_le0)
  then show ?thesis by (simp add: anHourFromNow_def)
qed

lemma execute_signed:
  assumes "signs_for h host policy key c" and "wf_call call" and "re_hmac env = h" and "0 \<le> re_now env"
  shows "\<exists>c' req. RestApiClient_executeApiCall env c call = Inr (c', req) \<and> signs_for h host policy key c'
     \<and> signed_request h host policy key (env, call) req"
proof -
  obtain e s where s: "ra_host c = host" "ra_sas c = JObj s" "Service_SAS_create h host policy key e = Inr s"
    using assms(1) by (auto simp: signs_for_def)
  obtain s' where s': "Service_SAS_create h host policy key (JNum (anHourFromNow (re_now env))) = Inr s'"
    "SharedAccessSignature_extend h s (JNum (anHourFromNow (re_now env))) = Inr (s', SharedAccessSignature_toString s')"
    using create_extend [OF s(3) anHourFromNow_truthy [OF assms(4)]] by blast
  have auth: "rest_authorization env c = Inr (c\<lparr>ra_sas := JObj s'\<rparr>, SharedAccessSignature_toString s')"
    using s(2) s'(2) assms(3) by (simp add: rest_authorization_def)
  have "wf_client c" using s create_host [OF s(3)] by (simp add: wf_client_def)
  from execute_wf_call [OF this assms(4,2)] auth s(1) s'(1) show ?thesis
    by (fastforce simp: signs_for_def signed_request_def)
qed

lemma rest_run_signed:
  assumes "signs_for h host policy key c"
    and "\<forall>(env, call) \<in> set calls. wf_call call \<and> re_hmac env = h \<and> 0 \<le> re_now env"
  shows "\<exists>c' reqs. rest_run c calls = Inr (c', reqs) \<and> signs_for h host policy key c'
     \<and> list_all2 (signed_request h host policy key) calls reqs"
  using assms
proof (induction calls arbitrary: c)
  case Nil
  then show ?case by simp
next
  case (Cons ec calls)
  obtain env call where ec: "ec = (env, call)" by (cases ec)
  obtain c1 req where 1: "RestApiClient_executeApiCall env c call = Inr (c1, req)"
    "signs_for h host policy key c1" "signed_request h host policy key ec req"
    using execute_signed [OF Cons.prems(1), of call env] Cons.prems(2) ec by auto
  obtain c2 reqs where "rest_run c1 calls = Inr (c2, reqs)" "signs_for h host policy key c2"
    "list_all2 (signed_request h host policy key) calls reqs"
    using Cons.IH [OF 1(2)] Cons.prems(2) by auto
  with 1 ec show ?case by simp
qed

lemma fromConnectionString_signs:
  assumes "Registry_fromConnectionString h now cs = Inr c" and "Service_ConnectionString_parse cs = Inr cn"
  shows "signs_for h (sget cn ''HostName'') (sget cn ''SharedAccessKeyName'') (sget cn ''SharedAccessKey'') c"
  using assms
  by (auto simp: Registry_fromConnectionString_def Registry_def RestApiClient_def signs_for_def res_bind_Inr_iff
      dget_def split: if_splits)

text \<open>C5: a registry made from a connection string serves any sequence of operations: every call that
  passes its argument checks becomes one request with the verb and path of the operation, sent to the
  host of the connection string with an Authorization header that is the text of a signature created
  for the connection string's policy and key with an expiry one hour after the time of that call.\<close>

theorem registry_requests_signed:
  assumes "Registry_fromConnectionString h t0 cs = Inr c" and "Service_ConnectionString_parse cs = Inr cn"
    and "\<forall>(env, call) \<in> set calls. (\<exists>op. registry_call op = Inr call) \<and> re_hmac env = h \<and> 0 \<le> re_now env"
  shows "\<exists>c' reqs. rest_run c calls = Inr (c', reqs)
     \<and> list_all2 (signed_request h (sget cn ''HostName'') (sget cn ''SharedAccessKeyName'') (sget cn ''SharedAccessKey''))
         calls reqs"
proof -
  have "\<forall>(env, call) \<in> set calls. wf_call call \<and> re_hmac env = h \<and> 0 \<le> re_now env"
    using assms(3) registry.operation_wf by fast
  then show ?thesis using rest_run_signed [OF fromConnectionString_signs [OF assms(1,2)]] by blast
qed

definition sample_cs :: jsval where
  "sample_cs = JStr ''HostName=h;SharedAccessKeyName=p;SharedAccessKey=k''"

definition sample_dict :: "string dict" where
  "sample_dict = [(''HostName'', ''h''), (''SharedAccessKeyName'', ''p''), (''SharedAccessKey'', ''k'')]"

definition sample_env :: "int \<Rightarrow> rest_env" where
  "sample_env now = \<lparr>re_hmac = \<lambda>k m. k @ m, re_now = now, re_uuid = ''u'', re_agent = ''a'', re_stringify = \<lambda>_. ''{}''\<rparr>"

lemma sample_parse: "Service_ConnectionString_parse sample_cs = Inr sample_dict"
  unfolding sample_cs_def sample_dict_def by code_simp

lemma sample_registry: "\<exists>c. Registry_fromConnectionString (\<lambda>k m. k @ m) 1000 sample_cs = Inr c"
  by (simp add: Registry_fromConnectionString_def sample_parse)
    (simp add: sample_cs_def sample_dict_def sget_def Service_SAS_create_def SharedAccessSignature_create_def Registry_def
      RestApiClient_def dget_def Let_def)

theorem registry_requests_signed_witness:
  "\<exists>c c' call1 call2 reqs. registry_call (RGet (JStr ''d'')) = Inr call1 \<and> registry_call (RCreate (JObj [(''deviceId'', JStr ''d'')])) = Inr call2
     \<and> Registry_fromConnectionString (\<lambda>k m. k @ m) 1000 sample_cs = Inr c
     \<and> rest_run c [(sample_env 5000, call1), (sample_env 9000, call2)] = Inr (c', reqs)
     \<and> list_all2 (signed_request (\<lambda>k m. k @ m) (JStr ''h'') (JStr ''p'') (JStr ''k''))
         [(sample_env 5000, call1), (sample_env 9000, call2)] reqs"
proof -
  obtain c where c: "Registry_fromConnectionString (\<lambda>k m. k @ m) 1000 sample_cs = Inr c" using sample_registry ..
  obtain call1 call2 where calls: "registry_call (RGet (JStr ''d'')) = Inr call1"
    "registry_call (RCreate (JObj [(''deviceId'', JStr ''d'')])) = Inr call2"
    by (simp add: registry_ops device_guard_def dget_def)
  have p: "sget sample_dict ''HostName'' = JStr ''h''" "sget sample_dict ''SharedAccessKeyName'' = JStr ''p''"
    "sget sample_dict ''SharedAccessKey'' = JStr ''k''"
    by (simp_all add: sample_dict_def sget_def)
  have "\<forall>(env, call) \<in> set [(sample_env 5000, call1), (sample_env 9000, call2)].
      (\<exists>op. registry_call op = Inr call) \<and> re_hmac env = (\<lambda>k m. k @ m) \<and> 0 \<le> re_now env"
    using calls by (auto simp: sample_env_def simp del: registry_call.simps)
  from registry_requests_signed [OF c sample_parse this] c calls show ?thesis
    unfolding p by blast
qed

section \<open>Queries, jobs and twins\<close>

text \<open>
  A service that answers a query in pages: each answer has the items and the token of the next page,
  and the last one has a null token.
\<close>

fun serves :: "(jsval \<Rightarrow> js_error + jsval) \<Rightarrow> jsval \<Rightarrow> jsval list \<Rightarrow> bool" where
  "serves fn token [] \<longleftrightarrow> False"
| "serves fn token (items # pages) \<longleftrightarrow>
     (case fn token of
        Inl _ \<Rightarrow> False
      | Inr r \<Rightarrow> jget r ''items'' = items
          \<and> (if pages = [] then jget r ''continuationToken'' = JNull
             else jget r ''continuationToken'' \<noteq> JNull \<and> serves fn (jget r ''continuationToken'') pages))"

lemma fetch_all_done [simp]: "\<not> qu_hasMoreResults q \<Longrightarrow> fetch_all fn n q = Some ([], None)"
  by (cases n) simp_all

lemma fetch_all_serves:
  assumes "serves fn (qu_continuationToken q) pages" and "qu_hasMoreResults q" and "length pages \<le> n"
  shows "fetch_all fn n q = Some (pages, None)"
  using assms
proof (induction pages arbitrary: q n)
  case Nil
  then show ?case by simp
next
  case (Cons items pages)
  obtain m where n: "n = Suc m" "length pages \<le> m" using Cons.prems(3) by (cases n) auto
  obtain r where r: "fn (qu_continuationToken q) = Inr r" "jget r ''items'' = items"
    using Cons.prems(1) by (auto split: sum.splits)
  define q' where "q' = q\<lparr>qu_continuationToken := jget r ''continuationToken'',
      qu_hasMoreResults := (jget r ''continuationToken'' \<noteq> JNull)\<rparr>"
  have step: "fetch_all fn n q = map_option (\<lambda>(xs, e). (items # xs, e)) (fetch_all fn m q')"
    using n Cons.prems(2) r by (simp add: Query_next_def Let_def q'_def)
  have "fetch_all fn m q' = Some (pages, None)"
  proof (cases "pages = []")
    case True
    with Cons.prems(1) r have "\<not> qu_hasMoreResults q'" by (simp add: q'_def)
    with True show ?thesis by simp
  next
    case False
    with Cons.prems(1) r have "serves fn (qu_continuationToken q') pages" "qu_hasMoreResults q'"
      by (simp_all add: q'_def)
    from Cons.IH [OF this n(2)] show ?thesis .
  qed
  with step show ?case by simp
qed

text \<open>C30: against a service that answers in pages, each but the last with a token for the next, the
  loop over \<open>next\<close> ends after as many calls as there are pages and gives every page once, in order.\<close>

theorem query_fetches_all_pages:
  assumes "serves fn JNull pages" and "length pages \<le> n"
  shows "fetch_all fn n Query = Some (pages, None)"
  using fetch_all_serves [of fn Query pages n] assms by (simp add: Query_def)

theorem query_fetches_all_pages_witness:
  "fetch_all (\<lambda>t. Inr (JObj (if t = JNull then [(''items'', JNum 1), (''continuationToken'', JStr ''x'')]
       else [(''items'', JNum 2), (''continuationToken'', JNull)]))) 2 Query = Some ([JNum 1, JNum 2], None)"
  by (rule query_fetches_all_pages) (simp_all add: dget_def)

text \<open>A service that leaves the token of the last page out, instead of sending null, keeps
  \<open>hasMoreResults\<close> true: the loop never ends.\<close>

lemma query_missing_token_never_ends:
  assumes "\<And>t. \<exists>r. fn t = Inr r \<and> jget r ''continuationToken'' = JUndef"
  shows "fetch_all fn n Query = None"
proof -
  have "fetch_all fn n q = None" if "qu_hasMoreResults q" for q
    using that
  proof (induction n arbitrary: q)
    case (Suc n)
    obtain r where "fn (qu_continuationToken q) = Inr r" "jget r ''continuationToken'' = JUndef"
      using assms by blast
    with Suc show ?case by (simp add: Query_next_def Let_def)
  qed simp
  then show ?thesis by (simp add: Query_def)
qed

lemma query_missing_token_never_ends_witness:
  "fetch_all (\<lambda>t. Inr (JObj [(''items'', JArr [])])) 1000 Query = None"
  by (rule query_missing_token_never_ends) (simp add: dget_def)

text \<open>The optional arguments of the job methods: leaving out the start time and the limit, or the
  limit alone, and passing the callback in their place schedules the job that passing null for them
  does.\<close>

lemma job_optional_arguments:
  "JobClient_scheduleDeviceMethod toISO j q m (JFun cb) JUndef JUndef
     = JobClient_scheduleDeviceMethod toISO j q m JNull JNull (JFun cb)
   \<and> JobClient_scheduleTwinUpdate toISO j q p (JFun cb) JUndef JUndef
     = JobClient_scheduleTwinUpdate toISO j q p JNull JNull (JFun cb)
   \<and> JobClient_scheduleDeviceMethod toISO j q m (JDate t) (JFun cb) JUndef
     = JobClient_scheduleDeviceMethod toISO j q m (JDate t) JNull (JFun cb)
   \<and> JobClient_scheduleTwinUpdate toISO j q p (JDate t) (JFun cb) JUndef
     = JobClient_scheduleTwinUpdate toISO j q p (JDate t) JNull (JFun cb)"
  by (simp add: JobClient_scheduleDeviceMethod_def JobClient_scheduleTwinUpdate_def schedule_job_def job_args_def)



end
