(* ===== verification/Common_Amqp.thy ===== *)
theory Common_Amqp
  imports Error_Translation Event_Listeners "HOL-Library.Multiset"
begin

text \<open>
  The AMQP base transport (\<open>node/common/transport/amqp/lib\<close>): \<open>amqp.js\<close> and \<open>amqp_receiver.js\<close>.

  The AMQP library is used through promises: a call of the SDK that starts one records it, with what
  its continuation captured, in the list of promises not yet settled; the library settles them in any
  order, with an error or a value, and a settled one runs its \<open>then\<close> or its \<open>catch\<close>. Every link the
  library opens is a new object, numbered in the order of creation.
\<close>

section \<open>The transport\<close>

type_synonym done_cb = "nat option"

text \<open>The errors \<open>done\<close> is called with: one of the library, or a \<open>NotConnectedError\<close> of the SDK.\<close>

datatype base_error =
    LibraryError amqp_error
  | NotConnected string "amqp_error option"

datatype base_value =
    BResult result
  | BRaw jsval
  | BReceiver nat

datatype amqp_promise =
    PConnect done_cb
  | PDisconnect done_cb
  | PCreateSender string amqp_message done_cb
  | PSend done_cb
  | PCreateReceiver string done_cb

datatype amqp_effect =
    ADone nat "base_error + base_value"
  | ASent nat amqp_message
  | ARegisterWs
  | ADisconnected string
  | AThrow js_error

record amqp_base =
  ab_autoSettle :: bool
  ab_version :: string
  ab_uri :: jsval
  ab_sslOptions :: jsval
  ab_connected :: bool
  ab_sender :: "nat option"
  ab_receivers :: "(string \<times> nat) list"
  ab_handlers :: nat
  ab_linkHandlers :: "(nat \<times> done_cb) list"
  ab_links :: nat
  ab_pending :: "amqp_promise list"

definition Amqp :: "bool \<Rightarrow> string \<Rightarrow> amqp_base" where
  "Amqp autoSettleMessages sdkVersionString = \<lparr>ab_autoSettle = autoSettleMessages, ab_version = sdkVersionString,
     ab_uri = JUndef, ab_sslOptions = JUndef, ab_connected = False, ab_sender = None, ab_receivers = [],
     ab_handlers = 0, ab_linkHandlers = [], ab_links = 0, ab_pending = []\<rparr>"

text \<open>The encoder of the sender links: a string becomes a buffer of its UTF-8 bytes.\<close>

definition amqp_encoder :: "jsval \<Rightarrow> jsval" where
  "amqp_encoder body = (case body of
       JStr s \<Rightarrow> JBuf (concat (map (\<lambda>c. map char_of (utf8 c)) s))
     | v \<Rightarrow> v)"

text \<open>\<open>if (done) process.nextTick(function() { done(...); })\<close>\<close>

definition call_cb :: "done_cb \<Rightarrow> base_error + base_value \<Rightarrow> amqp_effect list" where
  "call_cb cb out = (case cb of Some k \<Rightarrow> [ADone k out] | None \<Rightarrow> [])"

definition await :: "amqp_promise \<Rightarrow> amqp_base \<Rightarrow> amqp_base" where
  "await p b = b\<lparr>ab_pending := ab_pending b @ [p]\<rparr>"

definition Amqp_connect :: "amqp_base \<Rightarrow> jsval \<Rightarrow> jsval \<Rightarrow> done_cb \<Rightarrow> (amqp_base \<times> amqp_effect list) res" where
  "Amqp_connect b uri sslOptions cb =
     (if falsy uri then throw ReferenceError (''The uri parameter can not be '' @ [CHR 0x27] @ js_string uri @ [CHR 0x27])
      else if \<not> ab_connected b then
        (case uri of
           JStr s \<Rightarrow> Inr (await (PConnect cb) (b\<lparr>ab_uri := uri, ab_sslOptions := sslOptions\<rparr>),
                          if take 3 s = ''wss'' then [ARegisterWs] else [])
         | _ \<Rightarrow> throw TypeError ''this.uri.substring is not a function'')
      else Inr (b, call_cb cb (Inr (BResult (Connected JUndef)))))"

definition Amqp_onConnected :: "amqp_base \<Rightarrow> done_cb \<Rightarrow> amqp_error + jsval \<Rightarrow> amqp_base \<times> amqp_effect list" where
  "Amqp_onConnected b cb out = (case out of
       Inr v \<Rightarrow> (b\<lparr>ab_connected := True\<rparr>, call_cb cb (Inr (BResult (Connected v))))
     | Inl e \<Rightarrow> (b\<lparr>ab_connected := False\<rparr>, call_cb cb (Inl (LibraryError e))))"

definition Amqp_setDisconnectHandler :: "amqp_base \<Rightarrow> amqp_base" where
  "Amqp_setDisconnectHandler b = b\<lparr>ab_handlers := Suc (ab_handlers b)\<rparr>"

text \<open>The library's \<open>connection:closed\<close>, for every handler that was set.\<close>

definition Amqp_onConnectionClosed :: "amqp_base \<Rightarrow> amqp_base \<times> amqp_effect list" where
  "Amqp_onConnectionClosed b = ((if ab_handlers b > 0 then b\<lparr>ab_connected := False\<rparr> else b),
     replicate (ab_handlers b) (ADisconnected ''amqp10: connection closed''))"

definition Amqp_disconnect :: "amqp_base \<Rightarrow> done_cb \<Rightarrow> amqp_base" where
  "Amqp_disconnect b cb = await (PDisconnect cb) b"

definition Amqp_onDisconnected :: "amqp_base \<Rightarrow> done_cb \<Rightarrow> amqp_error + jsval \<Rightarrow> amqp_base \<times> amqp_effect list" where
  "Amqp_onDisconnected b cb out = (case out of
       Inr v \<Rightarrow> (b\<lparr>ab_connected := False, ab_sender := None\<rparr>, call_cb cb (Inr (BRaw v)))
     | Inl e \<Rightarrow> (b, call_cb cb (Inl (LibraryError e))))"

text \<open>\<open>sendAction\<close>\<close>

definition sendAction :: "amqp_base \<Rightarrow> nat \<Rightarrow> amqp_message \<Rightarrow> done_cb \<Rightarrow> amqp_base \<times> amqp_effect list" where
  "sendAction b sender msg cb = (await (PSend cb) b, [ASent sender msg])"

definition Amqp_send ::
  "amqp_base \<Rightarrow> message option \<Rightarrow> string \<Rightarrow> jsval \<Rightarrow> done_cb \<Rightarrow> (amqp_base \<times> amqp_effect list) res" where
  "Amqp_send b message endpoint to cb =
     (if \<not> ab_connected b \<and> cb \<noteq> None
      then Inr (b, call_cb cb (Inl (NotConnected ''Cannot send while disconnected.'' None)))
      else res_bind (AmqpMessage_fromMessage message) (\<lambda>m.
        let am = m\<lparr>am_properties := dset ''to'' to (am_properties m)\<rparr> in
        Inr (case ab_sender b of
               None \<Rightarrow> (await (PCreateSender endpoint am cb) b, [])
             | Some sender \<Rightarrow> sendAction b sender am cb)))"

definition Amqp_onSenderCreated ::
  "amqp_base \<Rightarrow> amqp_message \<Rightarrow> done_cb \<Rightarrow> amqp_error + jsval \<Rightarrow> amqp_base \<times> amqp_effect list" where
  "Amqp_onSenderCreated b am cb out = (case out of
       Inr _ \<Rightarrow>
         (let link = ab_links b;
              b1 = b\<lparr>ab_links := Suc link, ab_sender := Some link, ab_linkHandlers := ab_linkHandlers b @ [(link, cb)]\<rparr>
          in sendAction b1 link am cb)
     | Inl e \<Rightarrow> (b, call_cb cb (Inl (NotConnected ''AMQP: Could not create sender'' (Some e)))))"

definition Amqp_onSent :: "amqp_base \<Rightarrow> done_cb \<Rightarrow> amqp_error + jsval \<Rightarrow> amqp_base \<times> amqp_effect list" where
  "Amqp_onSent b cb out = (b, call_cb cb (case out of
       Inr v \<Rightarrow> Inr (BResult (MessageEnqueued v)) | Inl e \<Rightarrow> Inl (LibraryError e)))"

text \<open>The event \<open>errorReceived\<close> of a sender link.\<close>

definition Amqp_onSenderError :: "amqp_base \<Rightarrow> nat \<Rightarrow> amqp_error \<Rightarrow> amqp_effect list" where
  "Amqp_onSenderError b link e =
     concat (map (\<lambda>(l, cb). if l = link then call_cb cb (Inl (LibraryError e)) else []) (ab_linkHandlers b))"

definition Amqp_setupReceiverLink :: "amqp_base \<Rightarrow> string \<Rightarrow> done_cb \<Rightarrow> amqp_base" where
  "Amqp_setupReceiverLink b endpoint cb = await (PCreateReceiver endpoint cb) b"

text \<open>On success \<open>done\<close> is called without a guard: without one the call throws.\<close>

definition call_unguarded :: "done_cb \<Rightarrow> base_error + base_value \<Rightarrow> amqp_effect list" where
  "call_unguarded cb out = (case cb of Some k \<Rightarrow> [ADone k out]
     | None \<Rightarrow> [AThrow (mk_error TypeError ''done is not a function'')])"

definition Amqp_getReceiver :: "amqp_base \<Rightarrow> string \<Rightarrow> done_cb \<Rightarrow> amqp_base \<times> amqp_effect list" where
  "Amqp_getReceiver b endpoint cb = (case map_of (ab_receivers b) endpoint of
       None \<Rightarrow> (Amqp_setupReceiverLink b endpoint cb, [])
     | Some r \<Rightarrow> (b, call_unguarded cb (Inr (BReceiver r))))"

definition Amqp_onReceiverCreated ::
  "amqp_base \<Rightarrow> string \<Rightarrow> done_cb \<Rightarrow> amqp_error + jsval \<Rightarrow> amqp_base \<times> amqp_effect list" where
  "Amqp_onReceiverCreated b endpoint cb out = (case out of
       Inr _ \<Rightarrow>
         (let link = ab_links b in
          (b\<lparr>ab_links := Suc link, ab_receivers := AList.update endpoint link (ab_receivers b)\<rparr>,
           call_unguarded cb (Inr (BReceiver link))))
     | Inl e \<Rightarrow> (b, call_cb cb (Inl (LibraryError e))))"

section \<open>The transport and the library together\<close>

definition settle :: "amqp_base \<Rightarrow> amqp_promise \<Rightarrow> amqp_error + jsval \<Rightarrow> amqp_base \<times> amqp_effect list" where
  "settle b p out = (case p of
       PConnect cb \<Rightarrow> Amqp_onConnected b cb out
     | PDisconnect cb \<Rightarrow> Amqp_onDisconnected b cb out
     | PCreateSender _ am cb \<Rightarrow> Amqp_onSenderCreated b am cb out
     | PSend cb \<Rightarrow> Amqp_onSent b cb out
     | PCreateReceiver endpoint cb \<Rightarrow> Amqp_onReceiverCreated b endpoint cb out)"

datatype amqp_event =
    EConnect jsval jsval done_cb
  | EDisconnect done_cb
  | ESend "message option" string jsval done_cb
  | EGetReceiver string done_cb
  | ESettle nat "amqp_error + jsval"
  | ESenderError nat amqp_error
  | EClosed

definition or_throw :: "amqp_base \<Rightarrow> (amqp_base \<times> amqp_effect list) res \<Rightarrow> amqp_base \<times> amqp_effect list" where
  "or_throw b r = (case r of Inl e \<Rightarrow> (b, [AThrow e]) | Inr x \<Rightarrow> x)"

definition remove_nth :: "nat \<Rightarrow> 'a list \<Rightarrow> 'a list" where
  "remove_nth i xs = take i xs @ drop (Suc i) xs"

fun amqp_handle :: "amqp_base \<Rightarrow> amqp_event \<Rightarrow> amqp_base \<times> amqp_effect list" where
  "amqp_handle b (EConnect uri ssl cb) = or_throw b (Amqp_connect b uri ssl cb)"
| "amqp_handle b (EDisconnect cb) = (Amqp_disconnect b cb, [])"
| "amqp_handle b (ESend m endpoint to cb) = or_throw b (Amqp_send b m endpoint to cb)"
| "amqp_handle b (EGetReceiver endpoint cb) = Amqp_getReceiver b endpoint cb"
| "amqp_handle b (ESettle i out) =
     (if i < length (ab_pending b)
      then settle (b\<lparr>ab_pending := remove_nth i (ab_pending b)\<rparr>) (ab_pending b ! i) out
      else (b, []))"
| "amqp_handle b (ESenderError link e) = (b, Amqp_onSenderError b link e)"
| "amqp_handle b EClosed = Amqp_onConnectionClosed b"

fun amqp_run :: "amqp_base \<Rightarrow> amqp_event list \<Rightarrow> amqp_base \<times> amqp_effect list" where
  "amqp_run b [] = (b, [])"
| "amqp_run b (ev # evs) =
     (let (b1, e1) = amqp_handle b ev; (b2, e2) = amqp_run b1 evs in (b2, e1 @ e2))"

section \<open>A ledger of promises\<close>

text \<open>
  What an event brings in is found, after the event, among the effects, among what the event took
  out, or still pending. The law of one event gives that of a run.
\<close>

fun over_run :: "(amqp_base \<Rightarrow> amqp_event \<Rightarrow> 'a multiset) \<Rightarrow> amqp_base \<Rightarrow> amqp_event list \<Rightarrow> 'a multiset" where
  "over_run f b [] = {#}"
| "over_run f b (ev # evs) = f b ev + over_run f (fst (amqp_handle b ev)) evs"

lemma over_run_none: "over_run (\<lambda>b ev. {#}) b evs = {#}"
  by (induction evs arbitrary: b) simp_all

lemma ledger_add:
  fixes s1 :: "'a multiset"
  assumes 1: "s1 + t1 + h1 = b1 + h0" and 2: "s2 + t2 + h2 = b2 + h1"
  shows "s1 + s2 + (t1 + t2) + h2 = b1 + b2 + h0"
proof -
  have "s1 + s2 + (t1 + t2) + h2 = s1 + t1 + (s2 + t2 + h2)" by (simp add: ac_simps)
  also have "\<dots> = s1 + t1 + h1 + b2" unfolding 2 by (simp add: ac_simps)
  finally show ?thesis unfolding 1 by (simp add: ac_simps)
qed

locale amqp_ledger =
  fixes brought :: "amqp_base \<Rightarrow> amqp_event \<Rightarrow> 'a multiset"
    and taken :: "amqp_base \<Rightarrow> amqp_event \<Rightarrow> 'a multiset"
    and shown :: "amqp_effect \<Rightarrow> 'a multiset"
    and held :: "amqp_base \<Rightarrow> 'a multiset"
    and proper :: "amqp_event \<Rightarrow> bool"
  assumes event_law: "proper ev \<Longrightarrow>
      sum_list (map shown (snd (amqp_handle b ev))) + taken b ev + held (fst (amqp_handle b ev)) = brought b ev + held b"
begin

lemma run_law:
  "list_all proper evs \<Longrightarrow>
     sum_list (map shown (snd (amqp_run b evs))) + over_run taken b evs + held (fst (amqp_run b evs))
     = over_run brought b evs + held b"
proof (induction evs arbitrary: b)
  case (Cons ev evs)
  let ?b = "fst (amqp_handle b ev)"
  have 1: "sum_list (map shown (snd (amqp_handle b ev))) + taken b ev + held ?b = brought b ev + held b"
    using Cons.prems by (intro event_law) simp
  have 2: "sum_list (map shown (snd (amqp_run ?b evs))) + over_run taken ?b evs + held (fst (amqp_run ?b evs))
      = over_run brought ?b evs + held ?b"
    using Cons by simp
  show ?case using ledger_add [OF 1 2] by (simp add: case_prod_beta Let_def)
qed simp

end

section \<open>Callbacks are conserved\<close>

fun cb_ids :: "done_cb \<Rightarrow> nat multiset" where
  "cb_ids None = {#}"
| "cb_ids (Some k) = {#k#}"

fun promise_cb :: "amqp_promise \<Rightarrow> done_cb" where
  "promise_cb (PConnect cb) = cb"
| "promise_cb (PDisconnect cb) = cb"
| "promise_cb (PCreateSender _ _ cb) = cb"
| "promise_cb (PSend cb) = cb"
| "promise_cb (PCreateReceiver _ cb) = cb"

definition pending_ids :: "amqp_base \<Rightarrow> nat multiset" where
  "pending_ids b = sum_list (map (cb_ids \<circ> promise_cb) (ab_pending b))"

fun done_id :: "amqp_effect \<Rightarrow> nat multiset" where
  "done_id (ADone k _) = {#k#}"
| "done_id _ = {#}"

definition done_ids :: "amqp_effect list \<Rightarrow> nat multiset" where
  "done_ids es = sum_list (map done_id es)"

text \<open>The callback a call hands over; a call that throws keeps none.\<close>

fun asked :: "amqp_base \<Rightarrow> amqp_event \<Rightarrow> nat multiset" where
  "asked b (EConnect uri ssl cb) = (if returns (Amqp_connect b uri ssl cb) then cb_ids cb else {#})"
| "asked b (EDisconnect cb) = cb_ids cb"
| "asked b (ESend m endpoint to cb) = (if returns (Amqp_send b m endpoint to cb) then cb_ids cb else {#})"
| "asked b (EGetReceiver endpoint cb) = cb_ids cb"
| "asked b _ = {#}"

fun is_sender_error :: "amqp_event \<Rightarrow> bool" where
  "is_sender_error (ESenderError _ _) = True"
| "is_sender_error _ = False"

lemma done_ids_simps [simp]:
  "done_ids [] = {#}" "done_ids (x # es) = done_id x + done_ids es" "done_ids (es @ fs) = done_ids es + done_ids fs"
  by (simp_all add: done_ids_def)

lemma done_ids_call [simp]: "done_ids (call_cb cb out) = cb_ids cb" "done_ids (call_unguarded cb out) = cb_ids cb"
  by (simp_all add: call_cb_def call_unguarded_def split: option.split)

lemma done_ids_closed [simp]: "done_ids (replicate n (ADisconnected s)) = {#}"
  by (induction n) simp_all

lemma pending_ids_await [simp]: "pending_ids (await p b) = pending_ids b + cb_ids (promise_cb p)"
  by (simp add: pending_ids_def await_def)

lemma pending_ids_cong: "ab_pending b = ab_pending b' \<Longrightarrow> pending_ids b = pending_ids b'"
  by (simp add: pending_ids_def)

lemma pending_ids_update [simp]:
  "pending_ids (b\<lparr>ab_connected := c\<rparr>) = pending_ids b"
  "pending_ids (b\<lparr>ab_sender := sn\<rparr>) = pending_ids b"
  "pending_ids (b\<lparr>ab_uri := u, ab_sslOptions := so\<rparr>) = pending_ids b"
  "pending_ids (b\<lparr>ab_links := n\<rparr>) = pending_ids b"
  "pending_ids (b\<lparr>ab_linkHandlers := hs\<rparr>) = pending_ids b"
  "pending_ids (b\<lparr>ab_receivers := rs\<rparr>) = pending_ids b"
  by (rule pending_ids_cong, simp)+

lemma sum_list_remove_nth:
  assumes "i < length xs"
  shows "sum_list (map f xs) = f (xs ! i) + sum_list (map f (remove_nth i xs) :: 'a multiset list)"
proof -
  have "sum_list (map f xs) = sum_list (map f (take i xs @ xs ! i # drop (Suc i) xs))"
    using id_take_nth_drop [OF assms] by simp
  then show ?thesis by (simp add: remove_nth_def ac_simps)
qed

lemma pending_ids_remove_nth:
  assumes "i < length (ab_pending b)"
  shows "pending_ids b = cb_ids (promise_cb (ab_pending b ! i))
    + pending_ids (b\<lparr>ab_pending := remove_nth i (ab_pending b)\<rparr>)"
  using sum_list_remove_nth [OF assms, of "cb_ids \<circ> promise_cb"] by (simp add: pending_ids_def)

lemma settle_conserves:
  "done_ids (snd (settle b p out)) + pending_ids (fst (settle b p out)) = cb_ids (promise_cb p) + pending_ids b"
  by (cases p; cases out) (simp_all add: settle_def Amqp_onConnected_def Amqp_onDisconnected_def
      Amqp_onSenderCreated_def Amqp_onSent_def Amqp_onReceiverCreated_def sendAction_def Let_def ac_simps)

lemma connect_conserves:
  "Amqp_connect b uri ssl cb = Inr (b', es) \<Longrightarrow> done_ids es + pending_ids b' = cb_ids cb + pending_ids b"
  by (cases uri) (auto simp: Amqp_connect_def ac_simps split: if_splits)

lemma send_conserves:
  "Amqp_send b m endpoint to cb = Inr (b', es) \<Longrightarrow> done_ids es + pending_ids b' = cb_ids cb + pending_ids b"
  by (auto simp: Amqp_send_def res_bind_Inr_iff sendAction_def Let_def ac_simps split: if_splits option.splits)

lemma handle_conserves:
  assumes "\<not> is_sender_error ev"
  shows "done_ids (snd (amqp_handle b ev)) + pending_ids (fst (amqp_handle b ev)) = asked b ev + pending_ids b"
proof (cases ev)
  case (EConnect uri ssl cb)
  then show ?thesis using connect_conserves [of b uri ssl cb]
    by (cases "Amqp_connect b uri ssl cb") (auto simp: or_throw_def)
next
  case (ESend m endpoint to cb)
  then show ?thesis using send_conserves [of b m endpoint to cb]
    by (cases "Amqp_send b m endpoint to cb") (auto simp: or_throw_def)
next
  case (EGetReceiver endpoint cb)
  then show ?thesis
    by (simp add: Amqp_getReceiver_def Amqp_setupReceiverLink_def ac_simps split: option.split)
next
  case (ESettle i out)
  then show ?thesis using settle_conserves pending_ids_remove_nth [of i b] by simp
qed (use assms in \<open>simp_all add: Amqp_disconnect_def Amqp_onConnectionClosed_def\<close>)

interpretation callbacks: amqp_ledger asked "\<lambda>b ev. {#}" done_id pending_ids "\<lambda>ev. \<not> is_sender_error ev"
  by unfold_locales (use handle_conserves in \<open>simp add: done_ids_def\<close>)

section \<open>Messages are conserved\<close>

fun promise_msg :: "amqp_promise \<Rightarrow> amqp_message multiset" where
  "promise_msg (PCreateSender _ am _) = {#am#}"
| "promise_msg _ = {#}"

definition waiting_msgs :: "amqp_base \<Rightarrow> amqp_message multiset" where
  "waiting_msgs b = sum_list (map promise_msg (ab_pending b))"

fun sent_msg :: "amqp_effect \<Rightarrow> amqp_message multiset" where
  "sent_msg (ASent _ am) = {#am#}"
| "sent_msg _ = {#}"

text \<open>The AMQP message of a call of \<open>send\<close> that is not refused; one whose link could not be made.\<close>

fun accepted :: "amqp_base \<Rightarrow> amqp_event \<Rightarrow> amqp_message multiset" where
  "accepted b (ESend m endpoint to cb) =
     (if \<not> ab_connected b \<and> cb \<noteq> None then {#}
      else case AmqpMessage_fromMessage m of Inl _ \<Rightarrow> {#}
        | Inr am \<Rightarrow> {#am\<lparr>am_properties := dset ''to'' to (am_properties am)\<rparr>#})"
| "accepted b _ = {#}"

fun failed :: "amqp_base \<Rightarrow> amqp_event \<Rightarrow> amqp_message multiset" where
  "failed b (ESettle i (Inl e)) = (if i < length (ab_pending b) then promise_msg (ab_pending b ! i) else {#})"
| "failed b _ = {#}"

lemma sent_msg_call [simp]:
  "sum_list (map sent_msg (call_cb cb out)) = {#}" "sum_list (map sent_msg (call_unguarded cb out)) = {#}"
  by (simp_all add: call_cb_def call_unguarded_def split: option.split)

lemma sum_list_replicate_empty [simp]: "sum_list (replicate n {#}) = {#}"
  by (induction n) simp_all

lemma sent_msg_error [simp]: "sum_list (map sent_msg (Amqp_onSenderError b link e)) = {#}"
proof -
  have "sum_list (map sent_msg (concat (map (\<lambda>(l, cb). if l = link then call_cb cb out else []) hs))) = {#}" for hs out
    by (induction hs) auto
  then show ?thesis by (simp add: Amqp_onSenderError_def)
qed

lemma waiting_msgs_await [simp]: "waiting_msgs (await p b) = waiting_msgs b + promise_msg p"
  by (simp add: waiting_msgs_def await_def)

lemma waiting_msgs_cong: "ab_pending b = ab_pending b' \<Longrightarrow> waiting_msgs b = waiting_msgs b'"
  by (simp add: waiting_msgs_def)

lemma waiting_msgs_update [simp]:
  "waiting_msgs (b\<lparr>ab_connected := c\<rparr>) = waiting_msgs b"
  "waiting_msgs (b\<lparr>ab_sender := sn\<rparr>) = waiting_msgs b"
  "waiting_msgs (b\<lparr>ab_uri := u, ab_sslOptions := so\<rparr>) = waiting_msgs b"
  "waiting_msgs (b\<lparr>ab_links := n\<rparr>) = waiting_msgs b"
  "waiting_msgs (b\<lparr>ab_linkHandlers := hs\<rparr>) = waiting_msgs b"
  "waiting_msgs (b\<lparr>ab_receivers := rs\<rparr>) = waiting_msgs b"
  by (rule waiting_msgs_cong, simp)+

lemma waiting_msgs_remove_nth:
  assumes "i < length (ab_pending b)"
  shows "waiting_msgs b = promise_msg (ab_pending b ! i) + waiting_msgs (b\<lparr>ab_pending := remove_nth i (ab_pending b)\<rparr>)"
  using sum_list_remove_nth [OF assms, of promise_msg] by (simp add: waiting_msgs_def)

lemma settle_messages:
  "sum_list (map sent_msg (snd (settle b p out))) + (case out of Inl _ \<Rightarrow> promise_msg p | Inr _ \<Rightarrow> {#})
     + waiting_msgs (fst (settle b p out)) = promise_msg p + waiting_msgs b"
  by (cases p; cases out) (simp_all add: settle_def Amqp_onConnected_def Amqp_onDisconnected_def
      Amqp_onSenderCreated_def Amqp_onSent_def Amqp_onReceiverCreated_def sendAction_def Let_def)

lemma handle_messages:
  "sum_list (map sent_msg (snd (amqp_handle b ev))) + failed b ev + waiting_msgs (fst (amqp_handle b ev))
   = accepted b ev + waiting_msgs b"
proof (cases ev)
  case (EConnect uri ssl cb)
  then show ?thesis by (cases uri) (simp_all add: or_throw_def Amqp_connect_def)
next
  case (ESend m endpoint to cb)
  then show ?thesis
    by (cases "AmqpMessage_fromMessage m")
      (simp_all add: or_throw_def Amqp_send_def sendAction_def Let_def split: option.split)
next
  case (EGetReceiver endpoint cb)
  then show ?thesis by (simp add: Amqp_getReceiver_def Amqp_setupReceiverLink_def split: option.split)
next
  case (ESettle i out)
  then show ?thesis
    using settle_messages [of "b\<lparr>ab_pending := remove_nth i (ab_pending b)\<rparr>" "ab_pending b ! i" out]
      waiting_msgs_remove_nth [of i b]
    by (cases out) simp_all
qed (simp_all add: Amqp_disconnect_def Amqp_onConnectionClosed_def)

interpretation messages: amqp_ledger accepted failed sent_msg waiting_msgs "\<lambda>ev. True"
  by unfold_locales (rule handle_messages)

section \<open>Properties of the transport\<close>

text \<open>C13: every callback handed to the transport is called exactly once or still waits for a promise
  that is not settled, in whatever order the library settles them, as long as no sender link reports an
  error.\<close>

theorem amqp_callbacks_once:
  assumes "list_all (\<lambda>ev. \<not> is_sender_error ev) evs"
  shows "done_ids (snd (amqp_run (Amqp autoSettle version) evs)) + pending_ids (fst (amqp_run (Amqp autoSettle version) evs))
    = over_run asked (Amqp autoSettle version) evs"
  using callbacks.run_law [OF assms, of "Amqp autoSettle version"]
  by (simp add: over_run_none done_ids_def pending_ids_def Amqp_def)

definition demo_amqp :: "amqp_event list" where
  "demo_amqp = [EConnect (JStr ''amqps://h'') JUndef (Some 1), ESettle 0 (Inr JNull),
     ESend (Some (Message (JStr ''a''))) ''e'' (JStr ''t'') (Some 2), ESend (Some (Message (JStr ''b''))) ''e'' (JStr ''t'') (Some 3),
     ESettle 1 (Inr JNull), ESettle 0 (Inr JNull)]"

theorem amqp_callbacks_once_witness:
  "done_ids (snd (amqp_run (Amqp False ''v'') demo_amqp)) + pending_ids (fst (amqp_run (Amqp False ''v'') demo_amqp))
     = over_run asked (Amqp False ''v'') demo_amqp"
  by (rule amqp_callbacks_once) (simp add: demo_amqp_def)

text \<open>C14: every message the transport accepts is handed to a link exactly once, or its link could not be
  made, or it waits for its link; two calls of \<open>send\<close> before the first link exists lose and repeat
  nothing.\<close>

theorem amqp_messages_once:
  "sum_list (map sent_msg (snd (amqp_run (Amqp autoSettle version) evs)))
     + over_run failed (Amqp autoSettle version) evs + waiting_msgs (fst (amqp_run (Amqp autoSettle version) evs))
   = over_run accepted (Amqp autoSettle version) evs"
  using messages.run_law [of evs "Amqp autoSettle version"]
  by (simp add: list_all_iff waiting_msgs_def Amqp_def)

text \<open>An endpoint that has its receiver, and no other one on the way.\<close>

definition has_receiver :: "string \<Rightarrow> nat \<Rightarrow> amqp_base \<Rightarrow> bool" where
  "has_receiver endpoint r b \<longleftrightarrow> map_of (ab_receivers b) endpoint = Some r
     \<and> (\<forall>cb. PCreateReceiver endpoint cb \<notin> set (ab_pending b))"

lemma set_remove_nth: "set (remove_nth i xs) \<subseteq> set xs"
  using set_take_subset set_drop_subset by (fastforce simp: remove_nth_def)

lemma has_receiver_settle:
  assumes "has_receiver endpoint r b" and "\<forall>cb. p \<noteq> PCreateReceiver endpoint cb"
  shows "has_receiver endpoint r (fst (settle b p out))"
  using assms
  by (cases p; cases out) (auto simp: has_receiver_def settle_def Amqp_onConnected_def Amqp_onDisconnected_def
      Amqp_onSenderCreated_def Amqp_onSent_def Amqp_onReceiverCreated_def sendAction_def await_def Let_def update_conv')

lemma has_receiver_handle:
  assumes "has_receiver endpoint r b"
  shows "has_receiver endpoint r (fst (amqp_handle b ev))"
proof (cases ev)
  case (EConnect uri ssl cb)
  then show ?thesis using assms
    by (cases uri) (auto simp: or_throw_def Amqp_connect_def has_receiver_def await_def)
next
  case (ESend m endpoint to cb)
  then show ?thesis using assms
    by (cases "AmqpMessage_fromMessage m")
      (auto simp: or_throw_def Amqp_send_def sendAction_def has_receiver_def await_def Let_def split: option.split)
next
  case (EGetReceiver endpoint cb)
  then show ?thesis using assms
    by (auto simp: Amqp_getReceiver_def Amqp_setupReceiverLink_def has_receiver_def await_def split: option.split)
next
  case (ESettle i out)
  show ?thesis
  proof (cases "i < length (ab_pending b)")
    case True
    let ?b = "b\<lparr>ab_pending := remove_nth i (ab_pending b)\<rparr>"
    have "has_receiver endpoint r ?b"
      using assms set_remove_nth [of i "ab_pending b"] by (auto simp: has_receiver_def)
    moreover have "\<forall>cb. ab_pending b ! i \<noteq> PCreateReceiver endpoint cb"
      using assms nth_mem [OF True] by (auto simp: has_receiver_def)
    ultimately show ?thesis using has_receiver_settle True ESettle by simp
  qed (use ESettle assms in simp)
qed (use assms in \<open>auto simp: Amqp_disconnect_def Amqp_onConnectionClosed_def has_receiver_def await_def\<close>)

lemma has_receiver_run: "has_receiver endpoint r b \<Longrightarrow> has_receiver endpoint r (fst (amqp_run b evs))"
  by (induction evs arbitrary: b) (simp_all add: case_prod_beta Let_def has_receiver_handle)

text \<open>Once an endpoint has a receiver it keeps that receiver for good: a disconnection resets the
  sender but not the receivers, so after any number of disconnections and connections \<open>getReceiver\<close>
  answers with the receiver of the first connection and asks the library for no new link.\<close>

lemma amqp_receiver_never_renewed:
  assumes "has_receiver endpoint r b"
  shows "Amqp_getReceiver (fst (amqp_run b evs)) endpoint (Some k)
    = (fst (amqp_run b evs), [ADone k (Inr (BReceiver r))])"
  using has_receiver_run [OF assms, of evs]
  by (simp add: Amqp_getReceiver_def has_receiver_def call_unguarded_def)

lemma amqp_receiver_never_renewed_example:
  "\<exists>b. b = fst (amqp_run (Amqp False ''v'') [EConnect (JStr ''amqps://h'') JUndef None, ESettle 0 (Inr JNull),
          EGetReceiver ''e'' (Some 0), ESettle 0 (Inr JNull)])
     \<and> (let b' = fst (amqp_run b [EDisconnect None, ESettle 0 (Inr JNull), EConnect (JStr ''amqps://h'') JUndef None,
          ESettle 0 (Inr JNull)])
        in ab_connected b' \<and> Amqp_getReceiver b' ''e'' (Some 7) = (b', [ADone 7 (Inr (BReceiver 0))]))"
proof -
  define b where "b = fst (amqp_run (Amqp False ''v'') [EConnect (JStr ''amqps://h'') JUndef None, ESettle 0 (Inr JNull),
          EGetReceiver ''e'' (Some 0), ESettle 0 (Inr JNull)])"
  have b: "has_receiver ''e'' 0 b" "ab_pending b = []"
    by (simp_all add: b_def has_receiver_def Amqp_def or_throw_def Amqp_connect_def await_def settle_def remove_nth_def
        Amqp_onConnected_def call_cb_def Amqp_getReceiver_def Amqp_setupReceiverLink_def Amqp_onReceiverCreated_def
        call_unguarded_def)
  have "ab_connected (fst (amqp_run b [EDisconnect None, ESettle 0 (Inr JNull), EConnect (JStr ''amqps://h'') JUndef None,
          ESettle 0 (Inr JNull)]))"
    using b(2) by (simp add: or_throw_def Amqp_connect_def await_def settle_def remove_nth_def Amqp_onConnected_def call_cb_def
        Amqp_disconnect_def Amqp_onDisconnected_def)
  with amqp_receiver_never_renewed [OF b(1), of _ 7] show ?thesis unfolding Let_def b_def by blast
qed

text \<open>The callback of the message that made a sender link is called again at every later error of
  that link, after the message itself has been acknowledged.\<close>

lemma amqp_sender_error_repeats_done:
  assumes "ab_connected b" and "ab_sender b = None" and "ab_pending b = []" and "\<forall>(l, cb) \<in> set (ab_linkHandlers b). l < ab_links b"
  shows "\<exists>b' sent. amqp_run b [ESend (Some m) endpoint to (Some k), ESettle 0 (Inr u), ESettle 0 (Inr v)]
      = (b', [ASent (ab_links b) sent, ADone k (Inr (BResult (MessageEnqueued v)))])
    \<and> snd (amqp_handle b' (ESenderError (ab_links b) e)) = [ADone k (Inl (LibraryError e))]"
proof -
  have none: "concat (map (\<lambda>(l, cb). if l = ab_links b then call_cb cb out else []) (ab_linkHandlers b)) = []" for out
    using assms(4) by (auto simp: concat_eq_Nil_conv split: prod.split)
  obtain am where am: "AmqpMessage_fromMessage (Some m) = Inr am"
    by (simp add: AmqpMessage_fromMessage_def Let_def)
  show ?thesis
    using assms(1-3)
    by (simp add: or_throw_def Amqp_send_def am sendAction_def await_def settle_def remove_nth_def Let_def
        Amqp_onSenderCreated_def Amqp_onSent_def Amqp_onSenderError_def call_cb_def none none [unfolded call_cb_def])
qed

lemma amqp_sender_error_repeats_done_witness:
  "\<exists>b b' sent. amqp_run b [ESend (Some (Message (JStr ''a''))) ''e'' (JStr ''t'') (Some 5), ESettle 0 (Inr JNull), ESettle 0 (Inr JNull)]
      = (b', [ASent 0 sent, ADone 5 (Inr (BResult (MessageEnqueued JNull)))])
    \<and> snd (amqp_handle b' (ESenderError 0 \<lparr>ae_constructor = ''AMQPError'', ae_isAuthenticationError = False, ae_condition = JNull\<rparr>))
      = [ADone 5 (Inl (LibraryError \<lparr>ae_constructor = ''AMQPError'', ae_isAuthenticationError = False, ae_condition = JNull\<rparr>))]"
  using amqp_sender_error_repeats_done [of "(Amqp False ''v'')\<lparr>ab_connected := True\<rparr>" "Message (JStr ''a'')" "''e''" "JStr ''t''" 5]
  by (fastforce simp: Amqp_def)

section \<open>The receiver\<close>

text \<open>
  \<open>ar_attached\<close> are the handlers the receiver has on its link, by event name. Node fires \<open>newListener\<close>
  before a listener is added and \<open>removeListener\<close> after it is removed.
\<close>

record amqp_receiver =
  ar_listenersInitialized :: bool
  ar_listeners :: listeners
  ar_attached :: "string list"

definition AmqpReceiver :: "bool \<Rightarrow> amqp_receiver res" where
  "AmqpReceiver amqpReceiver =
     (if \<not> amqpReceiver then throw ReferenceError ''amqpReceiver''
      else Inr \<lparr>ar_listenersInitialized = False, ar_listeners = [], ar_attached = []\<rparr>)"

definition AmqpReceiver_setupAmqpReceiverListeners :: "amqp_receiver \<Rightarrow> amqp_receiver" where
  "AmqpReceiver_setupAmqpReceiverListeners r =
     r\<lparr>ar_attached := ar_attached r @ [''errorReceived'', ''message''], ar_listenersInitialized := True\<rparr>"

definition AmqpReceiver_removeAmqpReceiverListeners :: "amqp_receiver \<Rightarrow> amqp_receiver" where
  "AmqpReceiver_removeAmqpReceiverListeners r =
     (if ar_listenersInitialized r
      then r\<lparr>ar_attached := remove1 ''message'' (remove1 ''errorReceived'' (ar_attached r)), ar_listenersInitialized := False\<rparr>
      else r)"

definition AmqpReceiver_on :: "string \<Rightarrow> amqp_receiver \<Rightarrow> amqp_receiver" where
  "AmqpReceiver_on ev r =
     (let r1 = (if \<not> ar_listenersInitialized r then AmqpReceiver_setupAmqpReceiverListeners r else r)
      in r1\<lparr>ar_listeners := ar_listeners r1 @ [ev]\<rparr>)"

definition AmqpReceiver_removeListener :: "string \<Rightarrow> amqp_receiver \<Rightarrow> amqp_receiver" where
  "AmqpReceiver_removeListener ev r =
     (if ev \<notin> set (ar_listeners r) then r
      else let r1 = r\<lparr>ar_listeners := remove1 ev (ar_listeners r)\<rparr> in
        if ar_listenersInitialized r1 \<and> listener_count (ar_listeners r1) ''message'' = 0
        then AmqpReceiver_removeAmqpReceiverListeners r1 else r1)"

text \<open>\<open>_onAmqpErrorReceived\<close> and the message of \<open>_onAmqpMessage\<close>, which keeps the AMQP message itself.\<close>

record received =
  rv_message :: message
  rv_transportObj :: amqp_message

definition AmqpReceiver_onAmqpMessage :: "amqp_message \<Rightarrow> received" where
  "AmqpReceiver_onAmqpMessage am =
     (let m = Message JUndef;
          m = (if truthy (dget (am_properties am) ''to'') then m\<lparr>msg_to := dget (am_properties am) ''to''\<rparr> else m);
          m = (if truthy (dget (am_properties am) ''absoluteExpiryTime'')
               then m\<lparr>msg_expiryTimeUtc := dget (am_properties am) ''absoluteExpiryTime''\<rparr> else m);
          m = (if truthy (dget (am_properties am) ''messageId'')
               then m\<lparr>msg_messageId := dget (am_properties am) ''messageId''\<rparr> else m);
          m = (case am_body am of Some v \<Rightarrow> if truthy v then m\<lparr>msg_data := v\<rparr> else m | None \<Rightarrow> m);
          m = (case am_applicationProperties am of
                 None \<Rightarrow> m
               | Some app \<Rightarrow> m\<lparr>msg_properties := foldl (\<lambda>ps (k, v). fst (Properties_add ps k v)) (msg_properties m) app\<rparr>)
      in \<lparr>rv_message = m, rv_transportObj = am\<rparr>)"

datatype settle_call = AcceptCall amqp_message | ReleaseCall amqp_message | RejectCall amqp_message

definition settle_guard :: "received option \<Rightarrow> (amqp_message \<Rightarrow> settle_call) \<Rightarrow> result \<Rightarrow> (settle_call \<times> result) res" where
  "settle_guard message call result = (case message of
       None \<Rightarrow> throw ReferenceError ''Invalid message object.''
     | Some m \<Rightarrow> Inr (call (rv_transportObj m), result))"

definition AmqpReceiver_complete :: "received option \<Rightarrow> (settle_call \<times> result) res" where
  "AmqpReceiver_complete message = settle_guard message AcceptCall (MessageCompleted JUndef)"

definition AmqpReceiver_abandon :: "received option \<Rightarrow> (settle_call \<times> result) res" where
  "AmqpReceiver_abandon message = settle_guard message ReleaseCall (MessageAbandoned JUndef)"

definition AmqpReceiver_reject :: "received option \<Rightarrow> (settle_call \<times> result) res" where
  "AmqpReceiver_reject message = settle_guard message RejectCall (MessageRejected JUndef)"

fun amqp_receiver_ops :: "amqp_receiver \<Rightarrow> (bool \<times> string) list \<Rightarrow> amqp_receiver" where
  "amqp_receiver_ops r [] = r"
| "amqp_receiver_ops r ((add, ev) # ops) =
     amqp_receiver_ops (if add then AmqpReceiver_on ev r else AmqpReceiver_removeListener ev r) ops"

definition amqp_receiver_wf :: "amqp_receiver \<Rightarrow> bool" where
  "amqp_receiver_wf r \<longleftrightarrow> ar_attached r = (if ar_listenersInitialized r then [''errorReceived'', ''message''] else [])
     \<and> (''message'' \<in> set (ar_listeners r) \<longrightarrow> ar_listenersInitialized r)
     \<and> (ar_listeners r = [] \<longrightarrow> \<not> ar_listenersInitialized r)"

lemma amqp_receiver_wf_on: "amqp_receiver_wf r \<Longrightarrow> amqp_receiver_wf (AmqpReceiver_on ev r)"
  by (simp add: amqp_receiver_wf_def AmqpReceiver_on_def AmqpReceiver_setupAmqpReceiverListeners_def Let_def)

lemma amqp_receiver_wf_off: "amqp_receiver_wf r \<Longrightarrow> amqp_receiver_wf (AmqpReceiver_removeListener ev r)"
  using listener_count_pos [of "remove1 ev (ar_listeners r)" "''message''"] notin_set_remove1 [of "''message''" "ar_listeners r" ev]
  by (auto simp: amqp_receiver_wf_def AmqpReceiver_removeListener_def AmqpReceiver_removeAmqpReceiverListeners_def Let_def
      simp del: listener_count_remove1)

lemma amqp_receiver_wf_ops: "amqp_receiver_wf r \<Longrightarrow> amqp_receiver_wf (amqp_receiver_ops r ops)"
  by (induction r ops rule: amqp_receiver_ops.induct) (auto simp: amqp_receiver_wf_on amqp_receiver_wf_off)

text \<open>Whatever listeners come and go, a receiver that has a listener for messages is attached to its
  link, once for each of the two events; one without any listener is not attached.\<close>

lemma amqp_receiver_attached:
  assumes "AmqpReceiver True = Inr r0"
  shows "let r = amqp_receiver_ops r0 ops in
     (''message'' \<in> set (ar_listeners r) \<longrightarrow> ar_attached r = [''errorReceived'', ''message''])
     \<and> (ar_listeners r = [] \<longrightarrow> ar_attached r = [])"
proof -
  have "amqp_receiver_wf r0" using assms by (auto simp: AmqpReceiver_def amqp_receiver_wf_def)
  from amqp_receiver_wf_ops [OF this, of ops] show ?thesis by (simp add: amqp_receiver_wf_def Let_def)
qed

lemma amqp_receiver_attached_example:
  "\<exists>r0. AmqpReceiver True = Inr r0 \<and> ar_attached (amqp_receiver_ops r0 [(True, ''message''), (True, ''message''), (False, ''message'')])
     = [''errorReceived'', ''message'']"
proof -
  obtain r0 where r0: "AmqpReceiver True = Inr r0" by (simp add: AmqpReceiver_def)
  then have "''message'' \<in> set (ar_listeners (amqp_receiver_ops r0 [(True, ''message''), (True, ''message''), (False, ''message'')]))"
    by (auto simp: AmqpReceiver_def AmqpReceiver_on_def AmqpReceiver_removeListener_def
        AmqpReceiver_setupAmqpReceiverListeners_def Let_def)
  with amqp_receiver_attached [OF r0, of "[(True, ''message''), (True, ''message''), (False, ''message'')]"] r0
  show ?thesis by (auto simp: Let_def)
qed

text \<open>A listener for errors alone does not keep the receiver attached when another one goes.\<close>

lemma amqp_receiver_loses_errors:
  assumes "AmqpReceiver True = Inr r0"
  shows "let r = amqp_receiver_ops r0 [(True, ''errorReceived''), (True, ''message''), (False, ''message'')] in
     ''errorReceived'' \<in> set (ar_listeners r) \<and> ar_attached r = []"
  using assms
  by (auto simp: AmqpReceiver_def AmqpReceiver_on_def AmqpReceiver_removeListener_def Let_def
      AmqpReceiver_setupAmqpReceiverListeners_def AmqpReceiver_removeAmqpReceiverListeners_def)

lemma foldl_add_properties:
  assumes "\<forall>(k, v) \<in> set app. k \<noteq> ''Authorization'' \<and> k \<noteq> ''iothub-to''"
  shows "foldl (\<lambda>ps (k, v). fst (Properties_add ps k v)) ps app = ps @ app"
  using assms by (induction app arbitrary: ps) (auto simp: Properties_add_def)

lemma foldl_dset_fresh:
  assumes "distinct (map fst d @ map fst ps)"
  shows "foldl (\<lambda>d (k, v). dset k v d) d ps = d @ ps"
  using assms
proof (induction ps arbitrary: d)
  case (Cons p ps)
  then have "dset (fst p) (snd p) d = d @ [p]" by (cases p) (simp add: dset_new image_iff)
  with Cons show ?case by (simp add: case_prod_beta)
qed simp

text \<open>The message a link carries: \<open>send\<close> puts the address, the link's encoder does the body.\<close>

definition on_the_wire :: "jsval \<Rightarrow> amqp_message \<Rightarrow> amqp_message" where
  "on_the_wire to am = am\<lparr>am_properties := dset ''to'' to (am_properties am), am_body := map_option amqp_encoder (am_body am)\<rparr>"

lemma truthy_encoder: "truthy v \<Longrightarrow> truthy (amqp_encoder v)"
  by (cases v) (simp_all add: amqp_encoder_def)



end
