(* ===== verification/Amqp_Transports.thy ===== *)
theory Amqp_Transports
  imports Common_Amqp Service_Rest
begin

text \<open>
  The AMQP transports of a device (\<open>node/device/transport/amqp/lib\<close>: \<open>amqp.js\<close>, \<open>amqp_ws.js\<close>) and of
  the service library (\<open>node/service/lib\<close>: \<open>amqp.js\<close>, \<open>amqp_ws.js\<close>), and the messaging client of the
  service library (\<open>client.js\<close>).

  A transport hands every call to its base with a wrapped callback; a callback of the application is
  the number the base knows it by, and what the wrapper does with the outcome is a separate function.
\<close>

section \<open>The device transport\<close>

record device_amqp =
  da_config :: "jsval dict"
  da_base :: amqp_base

definition DeviceAmqp_initialize :: "string \<Rightarrow> amqp_base" where
  "DeviceAmqp_initialize version = Amqp_setDisconnectHandler (Amqp False (''azure-iot-device/'' @ version))"

definition DeviceAmqp :: "string \<Rightarrow> jsval dict \<Rightarrow> device_amqp" where
  "DeviceAmqp version config = \<lparr>da_config = config, da_base = DeviceAmqp_initialize version\<rparr>"

text \<open>An error of the base as the translation of errors sees it: a \<open>NotConnectedError\<close> has no condition.\<close>

definition translatable :: "base_error \<Rightarrow> amqp_error" where
  "translatable e = (case e of
       LibraryError a \<Rightarrow> a
     | NotConnected _ _ \<Rightarrow> \<lparr>ae_constructor = ''NotConnectedError'', ae_isAuthenticationError = False, ae_condition = JUndef\<rparr>)"

definition DeviceAmqp_handleResult :: "string \<Rightarrow> base_error + base_value \<Rightarrow> (js_error + base_value) res" where
  "DeviceAmqp_handleResult message out = (case out of
       Inl e \<Rightarrow> res_bind (AmqpDevice_translateError message (translatable e)) (\<lambda>t. Inr (Inl t))
     | Inr v \<Rightarrow> Inr (Inr v))"

text \<open>The user part of the address, left out when the device has a certificate.\<close>

definition device_login :: "jsval dict \<Rightarrow> string" where
  "device_login config =
     (if truthy (dget config ''x509'') then []
      else encodeURIComponent (js_string (dget config ''deviceId'')) @ ''@sas.'' @ js_string (dget config ''hubName'') @ '':''
        @ encodeURIComponent (js_string (dget config ''sharedAccessSignature'')) @ ''@'')"

definition device_amqp_uri :: "jsval dict \<Rightarrow> string" where
  "device_amqp_uri config = ''amqps://'' @ device_login config @ js_string (dget config ''host'')"

definition DeviceAmqp_connect :: "device_amqp \<Rightarrow> nat \<Rightarrow> (device_amqp \<times> amqp_effect list) res" where
  "DeviceAmqp_connect d k =
     res_bind (Amqp_connect (da_base d) (JStr (device_amqp_uri (da_config d))) (dget (da_config d) ''x509'') (Some k))
       (\<lambda>(b, es). Inr (d\<lparr>da_base := b\<rparr>, es))"

definition device_ws_uri :: "jsval dict \<Rightarrow> string" where
  "device_ws_uri config =
     ''wss://'' @ device_login config @ js_string (dget config ''host'') @ '':443/$iothub/websocket''"

definition DeviceAmqpWs_connect :: "device_amqp \<Rightarrow> nat \<Rightarrow> (device_amqp \<times> amqp_effect list) res" where
  "DeviceAmqpWs_connect d k =
     res_bind (Amqp_connect (da_base d) (JStr (device_ws_uri (da_config d))) (dget (da_config d) ''x509'') (Some k))
       (\<lambda>(b, es). Inr (d\<lparr>da_base := b\<rparr>, es))"

definition DeviceAmqp_disconnect :: "device_amqp \<Rightarrow> nat \<Rightarrow> device_amqp" where
  "DeviceAmqp_disconnect d k = d\<lparr>da_base := Amqp_disconnect (da_base d) (Some k)\<rparr>"

definition DeviceAmqp_sendEvent :: "device_amqp \<Rightarrow> message option \<Rightarrow> nat \<Rightarrow> (device_amqp \<times> amqp_effect list) res" where
  "DeviceAmqp_sendEvent d message k =
     (let eventEndpoint = eventPath (js_string (dget (da_config d) ''deviceId'')) in
      res_bind (Amqp_send (da_base d) message eventEndpoint (JStr eventEndpoint) (Some k))
        (\<lambda>(b, es). Inr (d\<lparr>da_base := b\<rparr>, es)))"

definition device_message_endpoint :: "jsval dict \<Rightarrow> string" where
  "device_message_endpoint config = messagePath (encodeURIComponent (js_string (dget config ''deviceId'')))"

definition DeviceAmqp_getReceiver :: "device_amqp \<Rightarrow> nat \<Rightarrow> device_amqp \<times> amqp_effect list" where
  "DeviceAmqp_getReceiver d k =
     (let (b, es) = Amqp_getReceiver (da_base d) (device_message_endpoint (da_config d)) (Some k) in (d\<lparr>da_base := b\<rparr>, es))"

text \<open>
  \<open>complete\<close>, \<open>reject\<close> and \<open>abandon\<close> after \<open>getReceiver\<close>: the error is not looked at, and a missing
  receiver has no methods.
\<close>

definition with_receiver ::
  "string \<Rightarrow> (received option \<Rightarrow> (settle_call \<times> result) res) \<Rightarrow> received option \<Rightarrow> js_error + base_value
   \<Rightarrow> (settle_call \<times> result) res" where
  "with_receiver name action message out = (case out of
       Inl _ \<Rightarrow> throw TypeError (''Cannot read property '' @ name @ '' of undefined'')
     | Inr _ \<Rightarrow> action message)"

definition DeviceAmqp_complete :: "received option \<Rightarrow> js_error + base_value \<Rightarrow> (settle_call \<times> result) res" where
  "DeviceAmqp_complete = with_receiver ''complete'' AmqpReceiver_complete"

definition DeviceAmqp_reject :: "received option \<Rightarrow> js_error + base_value \<Rightarrow> (settle_call \<times> result) res" where
  "DeviceAmqp_reject = with_receiver ''reject'' AmqpReceiver_reject"

definition DeviceAmqp_abandon :: "received option \<Rightarrow> js_error + base_value \<Rightarrow> (settle_call \<times> result) res" where
  "DeviceAmqp_abandon = with_receiver ''abandon'' AmqpReceiver_abandon"

text \<open>\<open>updateSharedAccessSignature\<close> disconnects the base; this is what it does with the outcome.\<close>

definition DeviceAmqp_sasDisconnected ::
  "string \<Rightarrow> device_amqp \<Rightarrow> jsval \<Rightarrow> base_error + base_value \<Rightarrow> device_amqp \<times> (base_error + result)" where
  "DeviceAmqp_sasDisconnected version d sharedAccessSignature out = (case out of
       Inl e \<Rightarrow> (d, Inl e)
     | Inr _ \<Rightarrow> (d\<lparr>da_config := dset ''sharedAccessSignature'' sharedAccessSignature (da_config d),
                    da_base := DeviceAmqp_initialize version\<rparr>,
                 Inr (SharedAccessSignatureUpdated True)))"

definition DeviceAmqp_setOptions :: "device_amqp \<Rightarrow> jsval \<Rightarrow> device_amqp res" where
  "DeviceAmqp_setOptions d options =
     (if falsy options then throw ReferenceError (''The options parameter can not be '' @ quoted options)
      else let own = (\<lambda>k. case options of JObj o' \<Rightarrow> has_key k o' | _ \<Rightarrow> False);
               pick = (\<lambda>ks. JObj (map (\<lambda>k. (k, jget options k)) ks)) in
        Inr (if own ''cert'' then d\<lparr>da_config := dset ''x509'' (pick [''cert'', ''key'', ''passphrase'']) (da_config d)\<rparr>
             else if own ''certFile'' then d\<lparr>da_config := dset ''x509'' (pick [''certFile'', ''keyFile'']) (da_config d)\<rparr>
             else d))"

section \<open>The service transport\<close>

text \<open>The interval timers that run, and the one the transport remembers.\<close>

record service_amqp =
  sa_config :: "jsval dict"
  sa_base :: amqp_base
  sa_renewalInterval :: "nat option"
  sa_running :: "nat list"
  sa_created :: nat

definition ServiceAmqp :: "string \<Rightarrow> jsval dict \<Rightarrow> service_amqp" where
  "ServiceAmqp agent config = \<lparr>sa_config = config, sa_base = Amqp_setDisconnectHandler (Amqp True agent),
     sa_renewalInterval = None, sa_running = [], sa_created = 0\<rparr>"

text \<open>
  The constructor over web sockets builds an address but gives it to the base as its first argument,
  which is the flag for automatic settling; the handler for disconnections is not set.
\<close>

definition ServiceAmqpWs :: "jsval dict \<Rightarrow> service_amqp" where
  "ServiceAmqpWs config = \<lparr>sa_config = config, sa_base = Amqp True ''false'',
     sa_renewalInterval = None, sa_running = [], sa_created = 0\<rparr>"

definition ServiceAmqp_handleResult :: "string \<Rightarrow> base_error + base_value \<Rightarrow> (js_error + base_value) res" where
  "ServiceAmqp_handleResult message out = (case out of
       Inl e \<Rightarrow> res_bind (AmqpService_translateError message (translatable e)) (\<lambda>t. Inr (Inl t))
     | Inr v \<Rightarrow> Inr (Inr v))"

text \<open>The token for a connection: a text as it is, a signature object extended in place.\<close>

definition service_token :: "hmac \<Rightarrow> int \<Rightarrow> jsval dict \<Rightarrow> (jsval dict \<times> string) res" where
  "service_token hmac now config = (case dget config ''sharedAccessSignature'' of
       JStr s \<Rightarrow> Inr (config, s)
     | JObj d \<Rightarrow> res_bind (SharedAccessSignature_extend hmac d (JNum (anHourFromNow now))) (\<lambda>(d', s).
         Inr (dset ''sharedAccessSignature'' (JObj d') config, s))
     | _ \<Rightarrow> throw TypeError ''this._config.sharedAccessSignature.extend is not a function'')"

definition service_uri :: "jsval dict \<Rightarrow> string \<Rightarrow> string" where
  "service_uri config token = ''amqps://'' @ encodeURIComponent (js_string (dget config ''keyName'')) @ ''%40sas.root.''
     @ js_string (dget config ''hubName'') @ '':'' @ encodeURIComponent token @ ''@'' @ js_string (dget config ''host'')"

definition ServiceAmqp_connect :: "hmac \<Rightarrow> int \<Rightarrow> service_amqp \<Rightarrow> nat \<Rightarrow> (service_amqp \<times> amqp_effect list) res" where
  "ServiceAmqp_connect hmac now s k =
     res_bind (service_token hmac now (sa_config s)) (\<lambda>(config, token).
     res_bind (Amqp_connect (sa_base s) (JStr (service_uri config token)) JUndef (Some k)) (\<lambda>(b, es).
       Inr (s\<lparr>sa_config := config, sa_base := b\<rparr>, es)))"

text \<open>Its callback: \<open>setInterval\<close> when the token is one the transport can renew.\<close>

definition ServiceAmqp_onConnected :: "service_amqp \<Rightarrow> base_error + base_value \<Rightarrow> service_amqp" where
  "ServiceAmqp_onConnected s out = (case out of
       Inl _ \<Rightarrow> s
     | Inr _ \<Rightarrow> if is_str (dget (sa_config s) ''sharedAccessSignature'') then s
                else s\<lparr>sa_renewalInterval := Some (sa_created s), sa_running := sa_running s @ [sa_created s],
                       sa_created := Suc (sa_created s)\<rparr>)"

definition ServiceAmqp_disconnect :: "service_amqp \<Rightarrow> nat \<Rightarrow> service_amqp" where
  "ServiceAmqp_disconnect s k =
     (let s1 = (case sa_renewalInterval s of Some t \<Rightarrow> s\<lparr>sa_running := removeAll t (sa_running s)\<rparr> | None \<Rightarrow> s)
      in s1\<lparr>sa_base := Amqp_disconnect (sa_base s1) (Some k)\<rparr>)"

text \<open>\<open>_handleSASRenewal\<close>: disconnect, then connect unless that failed.\<close>

definition ServiceAmqp_handleSASRenewal :: "service_amqp \<Rightarrow> nat \<Rightarrow> service_amqp" where
  "ServiceAmqp_handleSASRenewal s k = ServiceAmqp_disconnect s k"

definition ServiceAmqp_onRenewalDisconnected ::
  "hmac \<Rightarrow> int \<Rightarrow> service_amqp \<Rightarrow> base_error + base_value \<Rightarrow> nat \<Rightarrow> (service_amqp \<times> amqp_effect list) res" where
  "ServiceAmqp_onRenewalDisconnected hmac now s out k =
     res_bind (ServiceAmqp_handleResult ''AMQP Transport: Could not disconnect'' out) (\<lambda>out'. case out' of
       Inl _ \<Rightarrow> Inr (s, [])
     | Inr _ \<Rightarrow> ServiceAmqp_connect hmac now s k)"

definition ServiceAmqp_send ::
  "service_amqp \<Rightarrow> jsval \<Rightarrow> message option \<Rightarrow> nat \<Rightarrow> (service_amqp \<times> amqp_effect list) res" where
  "ServiceAmqp_send s deviceId message k =
     res_bind (Amqp_send (sa_base s) message ''/messages/devicebound''
                 (JStr (messagePath (encodeURIComponent (js_string deviceId)))) (Some k))
       (\<lambda>(b, es). Inr (s\<lparr>sa_base := b\<rparr>, es))"

definition ServiceAmqp_receiver :: "service_amqp \<Rightarrow> string \<Rightarrow> nat \<Rightarrow> service_amqp \<times> amqp_effect list" where
  "ServiceAmqp_receiver s endpoint k =
     (let (b, es) = Amqp_getReceiver (sa_base s) endpoint (Some k) in (s\<lparr>sa_base := b\<rparr>, es))"

definition ServiceAmqp_getReceiver :: "service_amqp \<Rightarrow> nat \<Rightarrow> service_amqp \<times> amqp_effect list" where
  "ServiceAmqp_getReceiver s k = ServiceAmqp_receiver s ''/messages/serviceBound/feedback'' k"

definition ServiceAmqp_getFeedbackReceiver :: "service_amqp \<Rightarrow> nat \<Rightarrow> service_amqp \<times> amqp_effect list" where
  "ServiceAmqp_getFeedbackReceiver s k = ServiceAmqp_receiver s ''/messages/serviceBound/feedback'' k"

definition ServiceAmqp_getFileNotificationReceiver :: "service_amqp \<Rightarrow> nat \<Rightarrow> service_amqp \<times> amqp_effect list" where
  "ServiceAmqp_getFileNotificationReceiver s k = ServiceAmqp_receiver s ''/messages/serviceBound/filenotifications'' k"

section \<open>The messaging client of the service\<close>

text \<open>
  The transport, the REST client when there is one, and the number of handlers the client has
  registered for the transport's \<open>disconnect\<close> event.
\<close>

record service_client =
  sc_transport :: service_amqp
  sc_rest :: "rest_client option"
  sc_handlers :: nat

definition ServiceClient :: "service_amqp option \<Rightarrow> rest_client option \<Rightarrow> service_client res" where
  "ServiceClient transport restApiClient = (case transport of
       None \<Rightarrow> throw ReferenceError (''transport is '' @ quoted JUndef)
     | Some t \<Rightarrow> Inr \<lparr>sc_transport = t, sc_rest = restApiClient, sc_handlers = 0\<rparr>)"

definition service_client_config :: "hmac \<Rightarrow> int \<Rightarrow> jsval \<Rightarrow> jsval dict res" where
  "service_client_config hmac now connStr =
     (if falsy connStr then throw ReferenceError (''connStr is '' @ quoted connStr)
      else res_bind (Service_ConnectionString_parse connStr) (\<lambda>cn.
        res_bind (Service_SAS_create hmac (sget cn ''HostName'') (sget cn ''SharedAccessKeyName'')
                   (sget cn ''SharedAccessKey'') (JNum (anHourFromNow now))) (\<lambda>sas.
          Inr [(''hubName'', JStr (hd (js_split ''.'' (js_string (sget cn ''HostName''))))), (''host'', sget cn ''HostName''),
               (''keyName'', sget cn ''SharedAccessKeyName''), (''sharedAccessSignature'', JObj sas)])))"

definition ServiceClient_fromConnectionString ::
  "hmac \<Rightarrow> int \<Rightarrow> (jsval dict \<Rightarrow> service_amqp) \<Rightarrow> jsval \<Rightarrow> service_client res" where
  "ServiceClient_fromConnectionString hmac now Transport connStr =
     res_bind (service_client_config hmac now connStr) (\<lambda>config.
     res_bind (RestApiClient (Some config)) (\<lambda>rest. ServiceClient (Some (Transport config)) (Some rest)))"

definition ServiceClient_fromSharedAccessSignature :: "(jsval dict \<Rightarrow> service_amqp) \<Rightarrow> jsval \<Rightarrow> service_client res" where
  "ServiceClient_fromSharedAccessSignature Transport sharedAccessSignature =
     (if falsy sharedAccessSignature
      then throw ReferenceError (''sharedAccessSignature is '' @ quoted sharedAccessSignature)
      else res_bind (Service_SAS_parse sharedAccessSignature) (\<lambda>sas.
        case decodeURIComponent (js_string (dget sas ''sr'')) of
          None \<Rightarrow> throw URIError ''URI malformed''
        | Some decodedUri \<Rightarrow>
            ServiceClient (Some (Transport [(''hubName'', JStr (hd (js_split ''.'' decodedUri))), (''host'', JStr decodedUri),
               (''keyName'', dget sas ''skn''), (''sharedAccessSignature'', JStr (SharedAccessSignature_toString sas))])) None))"

text \<open>\<open>_disconnectHandler\<close>, once per registered handler: the result emitted with the event.\<close>

definition ServiceClient_disconnectHandler :: "service_client \<Rightarrow> jsval \<Rightarrow> result list" where
  "ServiceClient_disconnectHandler c reason = replicate (sc_handlers c) (Disconnected JUndef reason)"

definition ServiceClient_open :: "hmac \<Rightarrow> int \<Rightarrow> service_client \<Rightarrow> nat \<Rightarrow> (service_client \<times> amqp_effect list) res" where
  "ServiceClient_open hmac now c k =
     res_bind (ServiceAmqp_connect hmac now (sc_transport c) k) (\<lambda>(t, es). Inr (c\<lparr>sc_transport := t\<rparr>, es))"

definition ServiceClient_onOpened :: "service_client \<Rightarrow> base_error + base_value \<Rightarrow> service_client" where
  "ServiceClient_onOpened c out =
     (let c1 = c\<lparr>sc_transport := ServiceAmqp_onConnected (sc_transport c) out\<rparr> in case out of
       Inl _ \<Rightarrow> c1
     | Inr _ \<Rightarrow> c1\<lparr>sc_handlers := Suc (sc_handlers c)\<rparr>)"

definition ServiceClient_close :: "service_client \<Rightarrow> nat \<Rightarrow> service_client" where
  "ServiceClient_close c k = c\<lparr>sc_transport := ServiceAmqp_disconnect (sc_transport c) k\<rparr>"

definition ServiceClient_onClosed :: "service_client \<Rightarrow> base_error + base_value \<Rightarrow> service_client" where
  "ServiceClient_onClosed c out = (case out of Inl _ \<Rightarrow> c | Inr _ \<Rightarrow> c\<lparr>sc_handlers := 0\<rparr>)"

text \<open>\<open>send\<close>: a value that is not a \<open>Message\<close> becomes the data of one.\<close>

definition ServiceClient_send ::
  "service_client \<Rightarrow> jsval \<Rightarrow> message + jsval \<Rightarrow> nat \<Rightarrow> (service_client \<times> amqp_effect list) res" where
  "ServiceClient_send c deviceId message k =
     (if falsy deviceId then throw ReferenceError (''deviceId is '' @ quoted deviceId)
      else case message of
        Inl m \<Rightarrow> res_bind (ServiceAmqp_send (sc_transport c) deviceId (Some m) k) (\<lambda>(t, es). Inr (c\<lparr>sc_transport := t\<rparr>, es))
      | Inr v \<Rightarrow>
          if falsy v then throw ReferenceError (''message is '' @ quoted v)
          else res_bind (ServiceAmqp_send (sc_transport c) deviceId (Some (Message v)) k)
                 (\<lambda>(t, es). Inr (c\<lparr>sc_transport := t\<rparr>, es)))"

definition ServiceClient_invokeDeviceMethod ::
  "rest_env \<Rightarrow> service_client \<Rightarrow> jsval \<Rightarrow> jsval \<Rightarrow> (service_client \<times> api_request) res" where
  "ServiceClient_invokeDeviceMethod env c deviceId methodParams =
     (if is_blank deviceId then throw ReferenceError (''deviceId cannot be '' @ quoted deviceId)
      else res_bind (DeviceMethod methodParams) (\<lambda>params.
        res_bind (DeviceMethod_invokeOn params deviceId) (\<lambda>call. case sc_rest c of
          None \<Rightarrow> throw TypeError ''Cannot read property executeApiCall of undefined''
        | Some rest \<Rightarrow> res_bind (RestApiClient_executeApiCall env rest call) (\<lambda>(rest', req).
            Inr (c\<lparr>sc_rest := Some rest'\<rparr>, req)))))"

definition ServiceClient_getFeedbackReceiver :: "service_client \<Rightarrow> nat \<Rightarrow> service_client \<times> amqp_effect list" where
  "ServiceClient_getFeedbackReceiver c k =
     (let (t, es) = ServiceAmqp_getFeedbackReceiver (sc_transport c) k in (c\<lparr>sc_transport := t\<rparr>, es))"

definition ServiceClient_getFileNotificationReceiver :: "service_client \<Rightarrow> nat \<Rightarrow> service_client \<times> amqp_effect list" where
  "ServiceClient_getFileNotificationReceiver c k =
     (let (t, es) = ServiceAmqp_getFileNotificationReceiver (sc_transport c) k in (c\<lparr>sc_transport := t\<rparr>, es))"

section \<open>Renewal of the service's token\<close>

text \<open>
  One period of a connection: the timer fires at \<open>now\<close>, the base disconnects and connects again; the
  promises the renewal starts are the last ones pending.
\<close>

definition library_answers :: "service_amqp \<Rightarrow> service_amqp" where
  "library_answers s =
     s\<lparr>sa_base := fst (amqp_handle (sa_base s) (ESettle (length (ab_pending (sa_base s)) - 1) (Inr JNull)))\<rparr>"

definition connect_cycle :: "hmac \<Rightarrow> int \<Rightarrow> service_amqp \<Rightarrow> service_amqp res" where
  "connect_cycle hmac now s = res_bind (ServiceAmqp_connect hmac now s 0) (\<lambda>(s1, es).
     Inr (ServiceAmqp_onConnected (library_answers s1) (Inr (BResult (Connected JNull)))))"

definition renew_cycle :: "hmac \<Rightarrow> int \<Rightarrow> service_amqp \<Rightarrow> service_amqp res" where
  "renew_cycle hmac now s =
     (let s1 = library_answers (ServiceAmqp_handleSASRenewal s 0) in
      res_bind (ServiceAmqp_onRenewalDisconnected hmac now s1 (Inr (BRaw JNull)) 0) (\<lambda>(s2, es).
        Inr (ServiceAmqp_onConnected (library_answers s2) (Inr (BResult (Connected JNull))))))"

fun renew_cycles :: "hmac \<Rightarrow> service_amqp \<Rightarrow> int list \<Rightarrow> service_amqp res" where
  "renew_cycles hmac s [] = Inr s"
| "renew_cycles hmac s (now # nows) = res_bind (renew_cycle hmac now s) (\<lambda>s'. renew_cycles hmac s' nows)"

text \<open>A connection that renews itself: one timer, and the token of the last connection one hour ahead of it.\<close>

definition renewing :: "hmac \<Rightarrow> jsval \<Rightarrow> jsval \<Rightarrow> jsval \<Rightarrow> int \<Rightarrow> service_amqp \<Rightarrow> bool" where
  "renewing h host policy key now s \<longleftrightarrow> ab_connected (sa_base s)
     \<and> (\<exists>t. sa_renewalInterval s = Some t \<and> sa_running s = [t])
     \<and> (\<exists>d. Service_SAS_create h host policy key (JNum (anHourFromNow now)) = Inr d
          \<and> dget (sa_config s) ''sharedAccessSignature'' = JObj d
          \<and> ab_uri (sa_base s) = JStr (service_uri (sa_config s) (SharedAccessSignature_toString d)))"

lemma last_pending [simp]: "ab_pending (await p b) ! (length (ab_pending (await p b)) - Suc 0) = p"
  by (simp add: await_def)

lemma remove_last_pending [simp]:
  "remove_nth (length (ab_pending (await p b)) - Suc 0) (ab_pending (await p b)) = ab_pending b"
  by (simp add: await_def remove_nth_def)

lemma ab_pending_await_nonempty [simp]: "ab_pending (await p b) \<noteq> []"
  by (simp add: await_def)

lemma settle_last_pending:
  "fst (amqp_handle (await p b) (ESettle (length (ab_pending (await p b)) - 1) out)) = fst (settle b p out)"
proof -
  have "(await p b)\<lparr>ab_pending := ab_pending b\<rparr> = b" by (simp add: await_def)
  then show ?thesis by simp
qed

lemma service_uri_sas: "service_uri (dset ''sharedAccessSignature'' v config) token = service_uri config token"
  by (simp add: service_uri_def)

lemma connect_cycle_renewing:
  assumes "dget (sa_config s) ''sharedAccessSignature'' = JObj d" and "Service_SAS_create h host policy key e = Inr d"
    and "\<not> ab_connected (sa_base s)" and "sa_running s = []" and "0 \<le> now"
  shows "\<exists>s'. connect_cycle h now s = Inr s' \<and> renewing h host policy key now s'"
proof -
  obtain d' where d': "Service_SAS_create h host policy key (JNum (anHourFromNow now)) = Inr d'"
    "SharedAccessSignature_extend h d (JNum (anHourFromNow now)) = Inr (d', SharedAccessSignature_toString d')"
    using create_extend [OF assms(2) anHourFromNow_truthy [OF assms(5)]] by blast
  have "service_uri (sa_config s) (SharedAccessSignature_toString d') \<noteq> []" by (simp add: service_uri_def)
  with d' assms show ?thesis
    by (simp add: connect_cycle_def ServiceAmqp_connect_def service_token_def Amqp_connect_def library_answers_def
        settle_last_pending [unfolded One_nat_def] settle_def Amqp_onConnected_def ServiceAmqp_onConnected_def renewing_def service_uri_sas
        del: amqp_handle.simps)
qed

lemma renew_cycle_connect:
  assumes "sa_renewalInterval s = Some t" and "sa_running s = [t]"
  shows "\<exists>s1. renew_cycle h now s = connect_cycle h now s1 \<and> sa_config s1 = sa_config s \<and> sa_running s1 = []
    \<and> \<not> ab_connected (sa_base s1)"
proof (intro exI conjI)
  let ?s1 = "library_answers (ServiceAmqp_handleSASRenewal s 0)"
  show "renew_cycle h now s = connect_cycle h now ?s1"
    by (simp add: renew_cycle_def connect_cycle_def ServiceAmqp_onRenewalDisconnected_def ServiceAmqp_handleResult_def)
  show "sa_config ?s1 = sa_config s" "sa_running ?s1 = []" "\<not> ab_connected (sa_base ?s1)"
    using assms
    by (simp_all add: library_answers_def ServiceAmqp_handleSASRenewal_def ServiceAmqp_disconnect_def Amqp_disconnect_def
        settle_last_pending [unfolded One_nat_def] settle_def Amqp_onDisconnected_def del: amqp_handle.simps)
qed

lemma renew_cycles_renewing:
  assumes "renewing h host policy key t0 s" and "\<forall>now \<in> set nows. 0 \<le> now"
  shows "\<exists>s'. renew_cycles h s nows = Inr s' \<and> renewing h host policy key (last (t0 # nows)) s'"
  using assms
proof (induction nows arbitrary: s t0)
  case (Cons now nows)
  obtain t d where td: "sa_renewalInterval s = Some t" "sa_running s = [t]"
    "Service_SAS_create h host policy key (JNum (anHourFromNow t0)) = Inr d" "dget (sa_config s) ''sharedAccessSignature'' = JObj d"
    using Cons.prems(1) by (auto simp: renewing_def)
  obtain s1 where s1: "renew_cycle h now s = connect_cycle h now s1" "sa_config s1 = sa_config s" "sa_running s1 = []"
    "\<not> ab_connected (sa_base s1)"
    using renew_cycle_connect [OF td(1,2)] by blast
  obtain s2 where "connect_cycle h now s1 = Inr s2" "renewing h host policy key now s2"
    using connect_cycle_renewing [of s1 d h host policy key _ now] s1 td Cons.prems(2) by auto
  with Cons.IH [of now s2] Cons.prems(2) s1(1) show ?case by simp
qed simp


lemma sample_service_config: "\<exists>config. service_client_config (\<lambda>k m. k @ m) 1000 sample_cs = Inr config"
  by (simp add: service_client_config_def sample_parse)
    (simp add: sample_cs_def sample_dict_def sget_def Service_SAS_create_def SharedAccessSignature_create_def anHourFromNow_def Let_def)


lemma onConnected_created:
  "sa_renewalInterval s = None \<Longrightarrow> sa_renewalInterval (ServiceAmqp_onConnected s out) = Some t
   \<Longrightarrow> t < sa_created (ServiceAmqp_onConnected s out)"
  by (cases out) (simp_all add: ServiceAmqp_onConnected_def split: if_splits)

lemma connect_cycle_created:
  assumes "connect_cycle h now s = Inr s'" and "sa_renewalInterval s = None" and "sa_renewalInterval s' = Some t"
  shows "t < sa_created s'"
proof -
  obtain s1 es where s1: "ServiceAmqp_connect h now s 0 = Inr (s1, es)"
    "s' = ServiceAmqp_onConnected (library_answers s1) (Inr (BResult (Connected JNull)))"
    using assms(1) by (auto simp: connect_cycle_def res_bind_Inr_iff)
  have "sa_renewalInterval (library_answers s1) = None"
    using s1(1) assms(2) by (auto simp: library_answers_def ServiceAmqp_connect_def res_bind_Inr_iff)
  then show ?thesis using onConnected_created assms(3) s1(2) by blast
qed

text \<open>Connecting a connected service transport again starts a second timer and forgets the first,
  which no disconnection stops.\<close>

lemma service_reconnect_leaks_timer:
  assumes "renewing h host policy key t0 s" and "sa_renewalInterval s = Some t" and "t < sa_created s"
    and "0 \<le> now"
  shows "\<exists>s1 es. ServiceAmqp_connect h now s k = Inr (s1, es) \<and> ADone k (Inr (BResult (Connected JUndef))) \<in> set es
    \<and> t \<in> set (sa_running (ServiceAmqp_disconnect (ServiceAmqp_onConnected s1 (Inr (BResult (Connected JUndef)))) k'))"
proof -
  obtain d where d: "Service_SAS_create h host policy key (JNum (anHourFromNow t0)) = Inr d"
    "dget (sa_config s) ''sharedAccessSignature'' = JObj d" "ab_connected (sa_base s)" "sa_running s = [t]"
    using assms(1,2) by (auto simp: renewing_def)
  obtain d' where "SharedAccessSignature_extend h d (JNum (anHourFromNow now)) = Inr (d', SharedAccessSignature_toString d')"
    using create_extend [OF d(1) anHourFromNow_truthy [OF assms(4)]] by blast
  moreover have "service_uri (sa_config s) (SharedAccessSignature_toString d') \<noteq> []" by (simp add: service_uri_def)
  ultimately show ?thesis
    using d assms(2,3)
    by (simp add: ServiceAmqp_connect_def service_token_def Amqp_connect_def service_uri_sas call_cb_def
        ServiceAmqp_onConnected_def ServiceAmqp_disconnect_def)
qed

lemma service_reconnect_leaks_timer_example:
  "\<exists>config s t s1 es. connect_cycle (\<lambda>k m. k @ m) 2000 (ServiceAmqp ''a'' config) = Inr s
    \<and> ServiceAmqp_connect (\<lambda>k m. k @ m) 3000 s 1 = Inr (s1, es)
    \<and> t \<in> set (sa_running (ServiceAmqp_disconnect (ServiceAmqp_onConnected s1 (Inr (BResult (Connected JUndef)))) 2))"
proof -
  let ?h = "\<lambda>k m :: string. k @ m"
  define d where "d = (case Service_SAS_create ?h (JStr ''h'') (JStr ''p'') (JStr ''k'') (JNum 1) of Inr x \<Rightarrow> x | Inl _ \<Rightarrow> [])"
  define s0 where "s0 = ServiceAmqp ''a'' [(''sharedAccessSignature'', JObj d)]"
  have d: "Service_SAS_create ?h (JStr ''h'') (JStr ''p'') (JStr ''k'') (JNum 1) = Inr d"
    by (simp add: d_def Service_SAS_create_def SharedAccessSignature_create_def Let_def)
  have s0: "dget (sa_config s0) ''sharedAccessSignature'' = JObj d" "\<not> ab_connected (sa_base s0)" "sa_running s0 = []"
    "sa_renewalInterval s0 = None"
    by (simp_all add: s0_def ServiceAmqp_def Amqp_setDisconnectHandler_def Amqp_def)
  obtain s where s: "connect_cycle ?h 2000 s0 = Inr s" "renewing ?h (JStr ''h'') (JStr ''p'') (JStr ''k'') 2000 s"
    using connect_cycle_renewing [OF s0(1) d s0(2,3), of 2000] by auto
  obtain t where t: "sa_renewalInterval s = Some t" using s(2) by (auto simp: renewing_def)
  have "t < sa_created s" using connect_cycle_created [OF s(1) s0(4) t] .
  have "0 \<le> (3000 :: int)" by simp
  from service_reconnect_leaks_timer [OF s(2) t \<open>t < sa_created s\<close> this, of 1 2] s(1) show ?thesis
    unfolding s0_def by blast
qed

lemma service_client_signs:
  assumes "Service_ConnectionString_parse cs = Inr cn" and "ServiceClient_fromConnectionString h t0 Transport cs = Inr c"
  shows "\<exists>rest. sc_rest c = Some rest
    \<and> signs_for h (sget cn ''HostName'') (sget cn ''SharedAccessKeyName'') (sget cn ''SharedAccessKey'') rest"
  using assms
  by (auto simp: ServiceClient_fromConnectionString_def service_client_config_def ServiceClient_def RestApiClient_def
      signs_for_def res_bind_Inr_iff split: if_splits)

text \<open>A client made from a connection string invokes a device method with one signed request to the
  methods endpoint of that device; the same client made from a shared access signature has no REST
  client and throws instead.\<close>

lemma service_client_invokes:
  assumes "DeviceMethod params = Inr ps" and "\<not> is_blank deviceId"
    and "re_hmac env = h" and "0 \<le> re_now env"
    and "Service_ConnectionString_parse cs = Inr cn"
    and "ServiceClient_fromConnectionString h t0 Transport cs = Inr c"
    and "ServiceClient_fromSharedAccessSignature Transport sas = Inr c2"
  shows "(\<exists>c' req call. ServiceClient_invokeDeviceMethod env c deviceId params = Inr (c', req)
      \<and> ac_path call = JStr (''/twins/'' @ js_string deviceId @ ''/methods'' @ versionQueryString)
      \<and> signed_request h (sget cn ''HostName'') (sget cn ''SharedAccessKeyName'') (sget cn ''SharedAccessKey'') (env, call) req)
    \<and> throws TypeError (ServiceClient_invokeDeviceMethod env c2 deviceId params)"
proof -
  obtain call where call: "DeviceMethod_invokeOn ps deviceId = Inr call"
    "ac_path call = JStr (''/twins/'' @ js_string deviceId @ ''/methods'' @ versionQueryString)"
    using assms(2) by (simp add: DeviceMethod_invokeOn_def api_def)
  obtain rest where rest: "sc_rest c = Some rest"
    "signs_for h (sget cn ''HostName'') (sget cn ''SharedAccessKeyName'') (sget cn ''SharedAccessKey'') rest"
    using service_client_signs [OF assms(5,6)] by blast
  have "wf_call call" using device_method.operation_wf [of "(ps, deviceId)" call] call(1) by simp
  from execute_signed [OF rest(2) this assms(3,4)]
  obtain r' req where req: "RestApiClient_executeApiCall env rest call = Inr (r', req)"
    "signed_request h (sget cn ''HostName'') (sget cn ''SharedAccessKeyName'') (sget cn ''SharedAccessKey'') (env, call) req" by blast
  have "sc_rest c2 = None"
    using assms(7) by (auto simp: ServiceClient_fromSharedAccessSignature_def ServiceClient_def res_bind_Inr_iff
        split: if_splits option.splits)
  then have "throws TypeError (ServiceClient_invokeDeviceMethod env c2 deviceId params)"
    using assms(1,2) call(1) by (simp add: ServiceClient_invokeDeviceMethod_def)
  moreover have "ServiceClient_invokeDeviceMethod env c deviceId params = Inr (c\<lparr>sc_rest := Some r'\<rparr>, req)"
    using assms(1,2) call(1) rest(1) req(1) by (simp add: ServiceClient_invokeDeviceMethod_def)
  ultimately show ?thesis using call(2) req(2) by blast
qed

definition sample_sas :: jsval where
  "sample_sas = JStr ''SharedAccessSignature sr=h&sig=s&skn=p&se=1''"

lemma sample_clients:
  "\<exists>c. ServiceClient_fromConnectionString (\<lambda>k m. k @ m) 1000 (ServiceAmqp ''a'') sample_cs = Inr c"
  "\<exists>c. ServiceClient_fromSharedAccessSignature (ServiceAmqp ''a'') sample_sas = Inr c"
proof -
  show "\<exists>c. ServiceClient_fromConnectionString (\<lambda>k m. k @ m) 1000 (ServiceAmqp ''a'') sample_cs = Inr c"
    by (simp add: ServiceClient_fromConnectionString_def service_client_config_def sample_parse)
      (simp add: sample_cs_def sample_dict_def sget_def Service_SAS_create_def SharedAccessSignature_create_def
        anHourFromNow_def Let_def RestApiClient_def ServiceClient_def)
  have "returns (ServiceClient_fromSharedAccessSignature (ServiceAmqp ''a'') sample_sas)"
    unfolding sample_sas_def by code_simp
  then show "\<exists>c. ServiceClient_fromSharedAccessSignature (ServiceAmqp ''a'') sample_sas = Inr c"
    by (cases "ServiceClient_fromSharedAccessSignature (ServiceAmqp ''a'') sample_sas") simp_all
qed

lemma service_client_invokes_example:
  "\<exists>c c' req call c2. ServiceClient_fromConnectionString (\<lambda>k m. k @ m) 1000 (ServiceAmqp ''a'') sample_cs = Inr c
    \<and> ServiceClient_invokeDeviceMethod (sample_env 5000) c (JStr ''d'') (JObj [(''methodName'', JStr ''m'')]) = Inr (c', req)
    \<and> signed_request (\<lambda>k m. k @ m) (sget sample_dict ''HostName'') (sget sample_dict ''SharedAccessKeyName'')
        (sget sample_dict ''SharedAccessKey'') (sample_env 5000, call) req
    \<and> ServiceClient_fromSharedAccessSignature (ServiceAmqp ''a'') sample_sas = Inr c2
    \<and> throws TypeError (ServiceClient_invokeDeviceMethod (sample_env 5000) c2 (JStr ''d'') (JObj [(''methodName'', JStr ''m'')]))"
proof -
  obtain c c2 where c: "ServiceClient_fromConnectionString (\<lambda>k m. k @ m) 1000 (ServiceAmqp ''a'') sample_cs = Inr c"
    "ServiceClient_fromSharedAccessSignature (ServiceAmqp ''a'') sample_sas = Inr c2"
    using sample_clients by blast
  obtain ps where ps: "DeviceMethod (JObj [(''methodName'', JStr ''m'')]) = Inr ps"
    by (simp add: DeviceMethod_def Let_def is_blank_def)
  have "\<not> is_blank (JStr ''d'')" "re_hmac (sample_env 5000) = (\<lambda>k m. k @ m)" "0 \<le> re_now (sample_env 5000)"
    by (simp_all add: is_blank_def sample_env_def)
  from service_client_invokes [OF ps this sample_parse c] c show ?thesis by blast
qed

text \<open>The service's transport over web sockets opens a plain AMQP connection: the address it connects
  to is the one of the transport without web sockets, and the web socket layer is never registered.\<close>

lemma service_ws_connects_over_amqp:
  assumes "ServiceAmqp_connect h now (ServiceAmqpWs config) k = Inr (s, es)"
  shows "es = [] \<and> (\<exists>config' token. service_token h now config = Inr (config', token)
      \<and> ab_uri (sa_base s) = JStr (service_uri config' token) \<and> prefix ''amqps://'' (service_uri config' token))"
proof -
  have "take 3 (service_uri c t) \<noteq> ''wss''" "prefix ''amqps://'' (service_uri c t)" for c t
    by (simp_all add: service_uri_def)
  with assms show ?thesis
    by (auto simp: ServiceAmqp_connect_def ServiceAmqpWs_def Amqp_def Amqp_connect_def await_def res_bind_Inr_iff
        split: if_splits prod.splits)
qed

lemma service_ws_connects_over_amqp_witness:
  "\<exists>s es config' token. ServiceAmqp_connect (\<lambda>k m. k @ m) 1000 (ServiceAmqpWs [(''sharedAccessSignature'', JStr ''t'')]) 0 = Inr (s, es)
    \<and> es = [] \<and> ab_uri (sa_base s) = JStr (service_uri config' token) \<and> prefix ''amqps://'' (service_uri config' token)"
proof -
  obtain s es where s: "ServiceAmqp_connect (\<lambda>k m. k @ m) 1000 (ServiceAmqpWs [(''sharedAccessSignature'', JStr ''t'')]) 0 = Inr (s, es)"
    by (simp add: ServiceAmqp_connect_def ServiceAmqpWs_def service_token_def Amqp_connect_def Amqp_def service_uri_def)
  from service_ws_connects_over_amqp [OF s] s show ?thesis by blast
qed

section \<open>Renewal of a device's token\<close>

text \<open>Feedback on a message throws when the receiver could not be had; the callback is not told.\<close>

lemma device_amqp_feedback_throws:
  "throws TypeError (DeviceAmqp_complete m (Inl e))" "throws TypeError (DeviceAmqp_reject m (Inl e))"
  "throws TypeError (DeviceAmqp_abandon m (Inl e))"
  by (simp_all add: DeviceAmqp_complete_def DeviceAmqp_reject_def DeviceAmqp_abandon_def with_receiver_def)

text \<open>Renewing the token of a device's transport gives it a new base: nothing of the old connection
  remains, the result asks the client to connect again, and that connection, if the device has no
  certificate, has the new token in its address.\<close>

lemma device_amqp_token_update:
  assumes "falsy (dget (da_config d) ''x509'')"
    and "DeviceAmqp_sasDisconnected version d (JStr token) (Inr v) = (d', out)"
  shows "out = Inr (SharedAccessSignatureUpdated True)
    \<and> (\<exists>d''. DeviceAmqp_connect d' k = Inr (d'', [])
        \<and> ab_uri (da_base d'') = JStr (''amqps://'' @ encodeURIComponent (js_string (dget (da_config d) ''deviceId'')) @ ''@sas.''
            @ js_string (dget (da_config d) ''hubName'') @ '':'' @ encodeURIComponent token @ ''@''
            @ js_string (dget (da_config d) ''host''))
        \<and> ab_sender (da_base d'') = None \<and> ab_receivers (da_base d'') = [] \<and> ab_handlers (da_base d'') = 1
        \<and> ab_pending (da_base d'') = [PConnect (Some k)])"
proof -
  have "device_amqp_uri c \<noteq> []" "take 3 (device_amqp_uri c) \<noteq> ''wss''" for c
    by (simp_all add: device_amqp_uri_def)
  moreover have "device_amqp_uri (dset ''sharedAccessSignature'' (JStr token) (da_config d))
      = ''amqps://'' @ encodeURIComponent (js_string (dget (da_config d) ''deviceId'')) @ ''@sas.''
            @ js_string (dget (da_config d) ''hubName'') @ '':'' @ encodeURIComponent token @ ''@''
            @ js_string (dget (da_config d) ''host'')"
    using assms(1) by (simp add: device_amqp_uri_def device_login_def)
  moreover have "d' = d\<lparr>da_config := dset ''sharedAccessSignature'' (JStr token) (da_config d),
      da_base := DeviceAmqp_initialize version\<rparr>" "out = Inr (SharedAccessSignatureUpdated True)"
    using assms(2) by (simp_all add: DeviceAmqp_sasDisconnected_def)
  ultimately show ?thesis
    by (simp add: DeviceAmqp_connect_def DeviceAmqp_initialize_def Amqp_setDisconnectHandler_def Amqp_connect_def Amqp_def await_def)
qed

lemma device_amqp_token_update_example:
  "\<exists>d' d''. DeviceAmqp_sasDisconnected ''1'' (DeviceAmqp ''1'' [(''deviceId'', JStr ''d''), (''hubName'', JStr ''h''), (''host'', JStr ''h.net'')])
       (JStr ''new'') (Inr (BRaw JNull)) = (d', Inr (SharedAccessSignatureUpdated True))
     \<and> DeviceAmqp_connect d' 3 = Inr (d'', []) \<and> ab_pending (da_base d'') = [PConnect (Some 3)]"
proof -
  let ?d = "DeviceAmqp ''1'' [(''deviceId'', JStr ''d''), (''hubName'', JStr ''h''), (''host'', JStr ''h.net'')]"
  have "falsy (dget (da_config ?d) ''x509'')" by (simp add: DeviceAmqp_def)
  moreover obtain d' out where "DeviceAmqp_sasDisconnected ''1'' ?d (JStr ''new'') (Inr (BRaw JNull)) = (d', out)" by fastforce
  ultimately show ?thesis using device_amqp_token_update [of ?d "''1''" "''new''" "BRaw JNull" d' out 3] by auto
qed

end
