(* ===== verification/Client_Outbox.thy ===== *)
theory Client_Outbox
  imports Device_Client
begin

text \<open>
  What the device client promises about messages, without its five states, its timers and its receiver:
  an outbox that accepts requests at any time and delivers accepted ones, in any order, while its link
  is up. The state machine of \<open>Device_Client\<close> refines it: a forward simulation along every run.
\<close>

section \<open>The abstract outbox\<close>

record outbox =
  ob_up :: bool
  ob_queue :: "effect multiset"

datatype outbox_act = Accept effect | Deliver effect | Link bool

definition outbox_empty :: outbox where
  "outbox_empty = \<lparr>ob_up = False, ob_queue = {#}\<rparr>"

inductive outbox_step :: "outbox \<Rightarrow> outbox_act \<Rightarrow> outbox \<Rightarrow> bool" where
  accept: "outbox_step ob (Accept e) (ob\<lparr>ob_queue := add_mset e (ob_queue ob)\<rparr>)"
| deliver: "ob_up ob \<Longrightarrow> e \<in># ob_queue ob \<Longrightarrow> outbox_step ob (Deliver e) (ob\<lparr>ob_queue := ob_queue ob - {#e#}\<rparr>)"
| link: "outbox_step ob (Link b) (ob\<lparr>ob_up := b\<rparr>)"

inductive outbox_run :: "outbox \<Rightarrow> outbox_act list \<Rightarrow> outbox \<Rightarrow> bool" where
  outbox_nil: "outbox_run ob [] ob"
| outbox_cons: "outbox_step ob a ob1 \<Longrightarrow> outbox_run ob1 as ob2 \<Longrightarrow> outbox_run ob (a # as) ob2"

inductive_cases outbox_run_ConsE: "outbox_run ob (a # as) ob2"

fun taken_in :: "outbox_act list \<Rightarrow> effect list" where
  "taken_in [] = []"
| "taken_in (Accept e # as) = e # taken_in as"
| "taken_in (_ # as) = taken_in as"

fun handed_out :: "outbox_act list \<Rightarrow> effect list" where
  "handed_out [] = []"
| "handed_out (Deliver e # as) = e # handed_out as"
| "handed_out (_ # as) = handed_out as"

lemma taken_in_append [simp]: "taken_in (as @ bs) = taken_in as @ taken_in bs"
  by (induction as rule: taken_in.induct) simp_all

lemma handed_out_append [simp]: "handed_out (as @ bs) = handed_out as @ handed_out bs"
  by (induction as rule: handed_out.induct) simp_all

lemma taken_in_maps [simp]: "taken_in (map Accept es) = es" "taken_in (map Deliver es) = []"
  by (induction es) simp_all

lemma handed_out_maps [simp]: "handed_out (map Accept es) = []" "handed_out (map Deliver es) = es"
  by (induction es) simp_all

lemma outbox_run_append: "outbox_run ob as ob1 \<Longrightarrow> outbox_run ob1 bs ob2 \<Longrightarrow> outbox_run ob (as @ bs) ob2"
  by (induction rule: outbox_run.induct) (auto intro: outbox_run.intros)

lemma outbox_accepts: "outbox_run ob (map Accept es) (ob\<lparr>ob_queue := ob_queue ob + mset es\<rparr>)"
proof (induction es arbitrary: ob)
  case Nil
  then show ?case by (simp add: outbox_nil)
next
  case (Cons e es)
  from Cons.IH [of "ob\<lparr>ob_queue := add_mset e (ob_queue ob)\<rparr>"] show ?case
    by (auto intro: outbox_cons [OF accept])
qed

lemma outbox_delivers:
  "(es \<noteq> [] \<longrightarrow> ob_up ob) \<Longrightarrow> mset es \<subseteq># ob_queue ob \<Longrightarrow>
     outbox_run ob (map Deliver es) (ob\<lparr>ob_queue := ob_queue ob - mset es\<rparr>)"
proof (induction es arbitrary: ob)
  case Nil
  then show ?case by (simp add: outbox_nil)
next
  case (Cons e es)
  let ?ob = "ob\<lparr>ob_queue := ob_queue ob - {#e#}\<rparr>"
  have "mset es \<subseteq># ob_queue ?ob" using Cons.prems(2) by (simp add: insert_subset_eq_iff)
  with Cons.IH [of ?ob] Cons.prems have "outbox_run ?ob (map Deliver es) (ob\<lparr>ob_queue := ob_queue ob - {#e#} - mset es\<rparr>)"
    by simp
  moreover have "outbox_step ob (Deliver e) ?ob"
    using Cons.prems by (intro deliver) (auto dest: mset_subset_eqD)
  ultimately show ?case by (auto intro: outbox_cons)
qed

section \<open>The simulation\<close>

definition outbox_of :: "client \<Rightarrow> outbox" where
  "outbox_of c = \<lparr>ob_up = (cl_state c = SConnected), ob_queue = kept c\<rparr>"

text \<open>What one step of the client is for the outbox: it accepts, then delivers, then the link may change.\<close>

definition outbox_acts :: "label \<Rightarrow> effect list \<Rightarrow> client \<Rightarrow> outbox_act list" where
  "outbox_acts l es c' = map Accept (List.map_filter data_request (submitted [l])) @ map Deliver (filter is_data es)
     @ [Link (cl_state c' = SConnected)]"

lemma outbox_simulates:
  assumes "client_step c l es c'"
  shows "outbox_run (outbox_of c) (outbox_acts l es c') (outbox_of c')"
proof -
  let ?in = "List.map_filter data_request (submitted [l])" and ?out = "filter is_data es"
  let ?ob = "(outbox_of c)\<lparr>ob_queue := kept c + mset ?in\<rparr>"
  from step_balance [OF assms] have b: "kept c' + mset ?out = kept c + mset ?in"
    by (simp add: requests_def done_data_def)
  then have sub: "mset ?out \<subseteq># kept c + mset ?in" by (metis mset_subset_eq_add_right)
  have "outbox_run (outbox_of c) (map Accept ?in) ?ob"
    using outbox_accepts [of "outbox_of c" ?in] by (simp add: outbox_of_def)
  moreover have "outbox_run ?ob (map Deliver ?out) (?ob\<lparr>ob_queue := kept c'\<rparr>)"
  proof -
    have "?out \<noteq> [] \<longrightarrow> ob_up ?ob"
      using step_data_connected [OF assms] by (auto simp: outbox_of_def filter_empty_conv)
    moreover have "kept c + mset ?in - mset ?out = kept c'" using b by (metis add_diff_cancel_right')
    ultimately show ?thesis using outbox_delivers [of ?out ?ob] sub by simp
  qed
  moreover have "outbox_run (?ob\<lparr>ob_queue := kept c'\<rparr>) [Link (cl_state c' = SConnected)] (outbox_of c')"
    using outbox_cons [OF link outbox_nil, of "?ob\<lparr>ob_queue := kept c'\<rparr>" "cl_state c' = SConnected"]
    by (simp add: outbox_of_def)
  ultimately show ?thesis unfolding outbox_acts_def by (blast intro: outbox_run_append)
qed

lemma map_filter_append: "List.map_filter f (xs @ ys) = List.map_filter f xs @ List.map_filter f ys"
  by (simp add: List.map_filter_def)

lemma outbox_simulates_run:
  "client_run c ls es c' \<Longrightarrow> \<exists>as. outbox_run (outbox_of c) as (outbox_of c')
     \<and> taken_in as = List.map_filter data_request (submitted ls) \<and> handed_out as = filter is_data es"
proof (induction rule: client_run.induct)
  case (run_refl c)
  then show ?case by (intro exI [of _ "[]"]) (simp add: outbox_nil List.map_filter_def)
next
  case (run_step c ls es c' l es' c'')
  then obtain as where as: "outbox_run (outbox_of c) as (outbox_of c')"
    "taken_in as = List.map_filter data_request (submitted ls)" "handed_out as = filter is_data es" by blast
  then show ?case
    using outbox_run_append [OF as(1) outbox_simulates [OF run_step.hyps(2)]]
    by (intro exI [of _ "as @ outbox_acts l es' c''"]) (simp add: outbox_acts_def map_filter_append)
qed



end
