(* ===== verification/Device_System.thy ===== *)
theory Device_System
  imports Device_Client Device_Mqtt Device_Http Amqp_Transports
begin

text \<open>
  The device client together with its transports: the configuration that the constructors of the client
  build, its shape, the lifetime of the token in it, and the place where each transport presents that
  token to the hub.
\<close>

section \<open>The configuration\<close>

text \<open>The configuration as the transports expect it: three texts, and the token when there is one.\<close>

definition typed_config :: "jsval dict \<Rightarrow> bool" where
  "typed_config config \<longleftrightarrow> list_all (\<lambda>(k, v). is_str v) config
     \<and> map fst config \<in> {[''host'', ''deviceId'', ''hubName''], [''host'', ''deviceId'', ''hubName'', ''sharedAccessSignature'']}"

lemma sget_str: "has_key k d \<Longrightarrow> is_str (sget d k)"
  by (auto simp: has_key_def sget_def)

lemma Device_ConnectionString_keys:
  "Device_ConnectionString_parse source = Inr cn \<Longrightarrow> has_key ''HostName'' cn \<and> has_key ''DeviceId'' cn"
  by (auto simp: Device_ConnectionString_accepts Let_def split: if_splits)

lemma typed_fromConnectionString:
  assumes "Client_config_fromConnectionString hmac now connStr = Inr config"
  shows "typed_config config"
proof -
  obtain cn where cn: "Device_ConnectionString_parse connStr = Inr cn"
    using assms by (auto simp: Client_config_fromConnectionString_def res_bind_Inr_iff split: if_splits)
  from Device_ConnectionString_keys [OF this] have "is_str (sget cn ''HostName'')" "is_str (sget cn ''DeviceId'')"
    by (simp_all add: sget_str)
  with assms cn show ?thesis
    by (auto simp: Client_config_fromConnectionString_def Let_def res_bind_Inr_iff typed_config_def split: if_splits)
qed

lemma typed_fromSharedAccessSignature:
  "Client_config_fromSharedAccessSignature (JStr sas) = Inr config \<Longrightarrow> typed_config config"
  by (auto simp: Client_config_fromSharedAccessSignature_def Let_def res_bind_Inr_iff typed_config_def
      split: if_splits option.splits)


section \<open>The token\<close>

text \<open>
  A configuration made from a connection string with a key: its token is the signature of the device for
  an hour, and it reads back as such.
\<close>

lemma anHourFromNow_ms:
  "now + 3600000 \<le> 1000 * anHourFromNow now" "1000 * anHourFromNow now < now + 3601000"
  using anHourFromNow_bounds [of now] by (simp_all add: right_diff_distrib)

lemma config_token:
  assumes "Device_ConnectionString_parse connStr = Inr cn" and "truthy connStr"
    and "map_of cn ''HostName'' = Some h" and "map_of cn ''DeviceId'' = Some d"
    and "map_of cn ''SharedAccessKey'' = Some k" and "k \<noteq> []" and "0 \<le> now" and "\<And>k m. hmac k m \<noteq> []"
  shows "let sr = encodeUriComponentStrict (h @ ''/devices/'' @ d); se = show_int (anHourFromNow now) in
    \<exists>tok. Client_config_fromConnectionString hmac now connStr = Inr [(''host'', JStr h), (''deviceId'', JStr d),
        (''hubName'', JStr (hd (js_split ''.'' h))), (''sharedAccessSignature'', JStr tok)]
    \<and> tok \<noteq> [] \<and> decodeURIComponent sr = Some (h @ ''/devices/'' @ d)
    \<and> Device_SAS_parse (JStr tok) = Inr [(''sr'', JStr sr),
        (''sig'', JStr (encodeUriComponentStrict (hmac k (stringToSign sr se)))), (''se'', JStr se)]"
proof -
  have n: "0 < anHourFromNow now" using anHourFromNow_ms(1) [of now] assms(7) by linarith
  have "truthy (JStr k)" using assms(6) by simp
  from device_sas_text [of "JStr k" "anHourFromNow now" hmac h d, OF this n assms(8)] obtain s where
    s: "Device_SAS_create hmac (JStr h) (JStr d) (JStr k) (JNum (anHourFromNow now)) = Inr s"
    "Device_SAS_parse (JStr (SharedAccessSignature_toString s)) = Inr [(''sr'', JStr (encodeUriComponentStrict (h @ ''/devices/'' @ d))),
       (''sig'', JStr (encodeUriComponentStrict (hmac k (stringToSign (encodeUriComponentStrict (h @ ''/devices/'' @ d))
          (show_int (anHourFromNow now)))))), (''se'', JStr (show_int (anHourFromNow now)))]"
    "decodeURIComponent (encodeUriComponentStrict (h @ ''/devices/'' @ d)) = Some (h @ ''/devices/'' @ d)"
    by (auto simp: Let_def)
  have "SharedAccessSignature_toString s \<noteq> []"
    using s(2) by (auto simp: Device_SAS_parse_def SharedAccessSignature_parse_def)
  moreover have "Client_config_fromConnectionString hmac now connStr = Inr [(''host'', JStr h), (''deviceId'', JStr d),
      (''hubName'', JStr (hd (js_split ''.'' h))), (''sharedAccessSignature'', JStr (SharedAccessSignature_toString s))]"
    using assms s(1) by (simp add: Client_config_fromConnectionString_def sget_def has_key_def Let_def)
  ultimately show ?thesis using s(2,3) unfolding Let_def by blast
qed

text \<open>The connection string of the examples below.\<close>

definition sample_device_string :: jsval where
  "sample_device_string = JStr ''HostName=h;DeviceId=d;SharedAccessKey=k''"

lemma sample_device_string: "Device_ConnectionString_parse sample_device_string
    = Inr [(''HostName'', ''h''), (''DeviceId'', ''d''), (''SharedAccessKey'', ''k'')]"
    "truthy sample_device_string"
proof -
  let ?cn = "[(''HostName'', ''h''), (''DeviceId'', ''d''), (''SharedAccessKey'', ''k'')]"
  have "createDictionary (JStr (print_pairs (CHR '';'') ?cn)) '';'' = ?cn"
    by (rule conn_format.parse_print_distinct) (simp_all add: wf_pair_def)
  then have "createDictionary sample_device_string '';'' = ?cn"
    by (simp add: print_pairs_def print_pair_def sample_device_string_def)
  then show "Device_ConnectionString_parse sample_device_string = Inr ?cn" "truthy sample_device_string"
    by (simp_all add: Device_ConnectionString_accepts has_key_def Let_def) (simp add: sample_device_string_def)
qed

lemma sample_config:
  "\<exists>tok. Client_config_fromConnectionString (\<lambda>k m. ''x'' @ k @ m) 0 sample_device_string
     = Inr [(''host'', JStr ''h''), (''deviceId'', JStr ''d''), (''hubName'', JStr ''h''), (''sharedAccessSignature'', JStr tok)]"
  using config_token [OF sample_device_string, of "''h''" "''d''" "''k''" 0 "\<lambda>k m. ''x'' @ k @ m"]
  by (auto simp: Let_def js_split_single)


text \<open>C12: a token outlives its renewal. A client made at a time \<open>now\<close> (in milliseconds) from a connection string
  with a key holds a token whose printed expiry, read as a number of seconds, lies at least an hour and less
  than an hour and a second after \<open>now\<close>; when the renewal timer fires, 45 minutes later, the token is still
  valid for at least 15 minutes.\<close>

theorem client_token_lifetime:
  assumes "Device_ConnectionString_parse connStr = Inr cn" and "truthy connStr"
    and "map_of cn ''HostName'' = Some h" and "map_of cn ''DeviceId'' = Some d"
    and "map_of cn ''SharedAccessKey'' = Some k" and "k \<noteq> []" and "0 \<le> now" and "\<And>k m. hmac k m \<noteq> []"
  shows "\<exists>config tok sas se. Client_config_fromConnectionString hmac now connStr = Inr config
    \<and> dget config ''sharedAccessSignature'' = JStr tok \<and> Device_SAS_parse (JStr tok) = Inr sas
    \<and> dget sas ''se'' = JStr (show_nat se)
    \<and> now + 3600000 \<le> 1000 * int se \<and> 1000 * int se < now + 3601000
    \<and> now + sasRenewalInterval + 900000 \<le> 1000 * int se"
proof -
  note b = anHourFromNow_ms [of now]
  then have n: "0 \<le> anHourFromNow now" using assms(7) by linarith
  then have "show_int (anHourFromNow now) = show_nat (nat (anHourFromNow now))" by (simp add: show_int_def)
  moreover obtain tok sig where "Client_config_fromConnectionString hmac now connStr = Inr [(''host'', JStr h), (''deviceId'', JStr d),
      (''hubName'', JStr (hd (js_split ''.'' h))), (''sharedAccessSignature'', JStr tok)]"
    "Device_SAS_parse (JStr tok) = Inr [(''sr'', JStr (encodeUriComponentStrict (h @ ''/devices/'' @ d))), (''sig'', sig),
       (''se'', JStr (show_int (anHourFromNow now)))]"
    using config_token [OF assms(1-7), of hmac, OF assms(8)] unfolding Let_def by blast
  ultimately show ?thesis
    using n b by (intro exI conjI) (auto simp: dget_def sasRenewalInterval_def)
qed

theorem client_token_lifetime_witness:
  "\<exists>config tok sas se. Client_config_fromConnectionString (\<lambda>k m. ''x'' @ k @ m) 500 sample_device_string = Inr config
    \<and> dget config ''sharedAccessSignature'' = JStr tok \<and> Device_SAS_parse (JStr tok) = Inr sas
    \<and> dget sas ''se'' = JStr (show_nat se)
    \<and> 500 + 3600000 \<le> 1000 * int se \<and> 1000 * int se < 500 + 3601000
    \<and> 500 + sasRenewalInterval + 900000 \<le> 1000 * int se"
  by (rule client_token_lifetime [OF sample_device_string, where h = "''h''" and d = "''d''" and k = "''k''"]) simp_all

section \<open>The token on the wire\<close>

lemma mqtt_presents:
  assumes "config = [(''host'', JStr h), (''deviceId'', JStr d), (''hubName'', JStr hubName), (''sharedAccessSignature'', JStr tok)]"
    and "h \<noteq> []" and "d \<noteq> []" and "tok \<noteq> []"
  shows "\<exists>m options. Mqtt_connect version (Mqtt config) = Inr (m, [MqConnect (JStr (''mqtts://'' @ h)) options])
    \<and> dget options ''clientId'' = JStr d
    \<and> dget options ''password'' = JBuf (concat (map (\<lambda>c. map char_of (utf8 c)) tok))"
  using assms
  by (simp add: Mqtt_connect_def Mqtt_def MqttBase_connect_def mqtt_config_ok_def mqtt_options_def dget_def Let_def)

lemma amqp_presents:
  assumes "config = [(''host'', JStr h), (''deviceId'', JStr d), (''hubName'', JStr hubName), (''sharedAccessSignature'', JStr tok)]"
  shows "\<exists>a. DeviceAmqp_connect (DeviceAmqp version config) n = Inr (a, [])
    \<and> ab_uri (da_base a) = JStr (''amqps://'' @ encodeURIComponent d @ ''@sas.'' @ hubName @ '':'' @ encodeURIComponent tok @ ''@'' @ h)"
  using assms
  by (simp add: DeviceAmqp_connect_def DeviceAmqp_def DeviceAmqp_initialize_def Amqp_setDisconnectHandler_def Amqp_def
      Amqp_connect_def device_amqp_uri_def device_login_def await_def dget_def)

lemma http_presents:
  assumes "config = [(''host'', JStr h), (''deviceId'', JStr d), (''hubName'', JStr hubName), (''sharedAccessSignature'', JStr tok)]"
  shows "insertAuthHeaderIfNecessary config headers = Inr (dset ''Authorization'' (JStr tok) headers)"
  using assms by (simp add: insertAuthHeaderIfNecessary_def dget_def)

text \<open>C7: the token of the connection string reaches the hub over every transport. A client made from a connection
  string with a key has one token, which reads back as the signature of exactly its host and device with the
  key, and that token is what each transport presents: MQTT as the password of the connection to the host,
  AMQP percent-encoded in the user part of its address, from which it decodes, HTTP as the \<open>Authorization\<close>
  header of its requests.\<close>

theorem client_token_reaches_wire:
  assumes "Device_ConnectionString_parse connStr = Inr cn" and "truthy connStr"
    and "map_of cn ''HostName'' = Some h" and "map_of cn ''DeviceId'' = Some d"
    and "map_of cn ''SharedAccessKey'' = Some k" and "h \<noteq> []" and "d \<noteq> []" and "k \<noteq> []" and "0 \<le> now"
    and "\<And>k m. hmac k m \<noteq> []"
  shows "\<exists>config tok sr se. Client_config_fromConnectionString hmac now connStr = Inr config
    \<and> Device_SAS_parse (JStr tok) = Inr [(''sr'', JStr sr),
        (''sig'', JStr (encodeUriComponentStrict (hmac k (stringToSign sr se)))), (''se'', JStr se)]
    \<and> decodeURIComponent sr = Some (h @ ''/devices/'' @ d)
    \<and> (\<exists>m options. Mqtt_connect version (Mqtt config) = Inr (m, [MqConnect (JStr (''mqtts://'' @ h)) options])
         \<and> dget options ''clientId'' = JStr d
         \<and> dget options ''password'' = JBuf (concat (map (\<lambda>c. map char_of (utf8 c)) tok)))
    \<and> (\<exists>a login. DeviceAmqp_connect (DeviceAmqp version config) n = Inr (a, [])
         \<and> ab_uri (da_base a) = JStr (''amqps://'' @ encodeURIComponent d @ ''@sas.'' @ hd (js_split ''.'' h) @ '':'' @ login @ ''@'' @ h)
         \<and> decodeURIComponent login = Some tok)
    \<and> insertAuthHeaderIfNecessary config headers = Inr (dset ''Authorization'' (JStr tok) headers)"
proof -
  define config where "config = (\<lambda>tok. [(''host'', JStr h), (''deviceId'', JStr d),
      (''hubName'', JStr (hd (js_split ''.'' h))), (''sharedAccessSignature'', JStr tok)])"
  obtain tok sr se where t: "Client_config_fromConnectionString hmac now connStr = Inr (config tok)" "tok \<noteq> []"
    "decodeURIComponent sr = Some (h @ ''/devices/'' @ d)"
    "Device_SAS_parse (JStr tok) = Inr [(''sr'', JStr sr),
        (''sig'', JStr (encodeUriComponentStrict (hmac k (stringToSign sr se)))), (''se'', JStr se)]"
    using config_token [OF assms(1-5,8,9), of hmac, OF assms(10)] unfolding Let_def config_def by blast
  obtain m options where m: "Mqtt_connect version (Mqtt (config tok)) = Inr (m, [MqConnect (JStr (''mqtts://'' @ h)) options])"
    "dget options ''clientId'' = JStr d" "dget options ''password'' = JBuf (concat (map (\<lambda>c. map char_of (utf8 c)) tok))"
    using mqtt_presents [OF refl assms(6,7) t(2)] unfolding config_def by blast
  obtain a where a: "DeviceAmqp_connect (DeviceAmqp version (config tok)) n = Inr (a, [])"
    "ab_uri (da_base a) = JStr (''amqps://'' @ encodeURIComponent d @ ''@sas.'' @ hd (js_split ''.'' h) @ '':'' @ encodeURIComponent tok @ ''@'' @ h)"
    using amqp_presents [OF refl] unfolding config_def by blast
  have "insertAuthHeaderIfNecessary (config tok) headers = Inr (dset ''Authorization'' (JStr tok) headers)"
    unfolding config_def by (rule http_presents [OF refl])
  with t(1,3,4) m a decode_encodeURIComponent [of tok] show ?thesis by (intro exI conjI)
qed

theorem client_token_reaches_wire_witness:
  "\<exists>config tok a. Client_config_fromConnectionString (\<lambda>k m. ''x'' @ k @ m) 500 sample_device_string = Inr config
    \<and> (\<exists>sas. Device_SAS_parse (JStr tok) = Inr sas) \<and> DeviceAmqp_connect (DeviceAmqp ''1'' config) 0 = Inr (a, [])
    \<and> insertAuthHeaderIfNecessary config [] = Inr (dset ''Authorization'' (JStr tok) [])"
proof -
  have "\<exists>config tok sr se. Client_config_fromConnectionString (\<lambda>k m. ''x'' @ k @ m) 500 sample_device_string = Inr config
    \<and> Device_SAS_parse (JStr tok) = Inr [(''sr'', JStr sr),
        (''sig'', JStr (encodeUriComponentStrict (''x'' @ ''k'' @ stringToSign sr se))), (''se'', JStr se)]
    \<and> decodeURIComponent sr = Some (''h'' @ ''/devices/'' @ ''d'')
    \<and> (\<exists>m options. Mqtt_connect ''1'' (Mqtt config) = Inr (m, [MqConnect (JStr (''mqtts://'' @ ''h'')) options])
         \<and> dget options ''clientId'' = JStr ''d''
         \<and> dget options ''password'' = JBuf (concat (map (\<lambda>c. map char_of (utf8 c)) tok)))
    \<and> (\<exists>a login. DeviceAmqp_connect (DeviceAmqp ''1'' config) 0 = Inr (a, [])
         \<and> ab_uri (da_base a) = JStr (''amqps://'' @ encodeURIComponent ''d'' @ ''@sas.'' @ hd (js_split ''.'' ''h'') @ '':'' @ login @ ''@'' @ ''h'')
         \<and> decodeURIComponent login = Some tok)
    \<and> insertAuthHeaderIfNecessary config [] = Inr (dset ''Authorization'' (JStr tok) [])"
    by (rule client_token_reaches_wire [OF sample_device_string, where h = "''h''" and d = "''d''" and k = "''k''"]) simp_all
  then show ?thesis by blast
qed

end
