(* ===== verification/Client_Renewal.thy ===== *)
theory Client_Renewal
  imports Device_System
begin

text \<open>
  The renewal of a token, from the timer of the device client to the wire: \<open>_renewSharedAccessSignature\<close> signs a new token,
  the state machine hands it to the transport and connects again where the transport asks for it. The locale
  \<open>renewable_transport\<close> is what the client relies on; it is interpreted for MQTT, AMQP and HTTP.
\<close>

section \<open>One renewal\<close>

text \<open>
  \<open>update t sas\<close> is the transport after its \<open>updateSharedAccessSignature\<close> has called back without error, with the
  \<open>needToReconnect\<close> of its result; \<open>connect t\<close> is the transport after \<open>connect\<close>. The callbacks of the transport resume the
  client, and the frame left by \<open>safeUpdateSasCallback\<close> runs last.
\<close>

definition run_todo :: "client \<times> effect list \<Rightarrow> client \<times> effect list" where
  "run_todo r = (case cl_todo (fst r) of
       [] \<Rightarrow> r
     | f # fs \<Rightarrow> (let (c, es) = run_frame ((fst r)\<lparr>cl_todo := fs\<rparr>) f in (c, snd r @ es)))"

definition resume_last :: "pending \<Rightarrow> outcome \<Rightarrow> client \<Rightarrow> client \<times> effect list" where
  "resume_last p out c = client_resume (c\<lparr>cl_pending := butlast (cl_pending c)\<rparr>) p out"

definition renewal ::
  "('t \<Rightarrow> string \<Rightarrow> 't \<times> bool) \<Rightarrow> ('t \<Rightarrow> 't) \<Rightarrow> hmac \<Rightarrow> client \<times> 't \<Rightarrow> int \<Rightarrow> ((client \<times> 't) \<times> effect list) res" where
  "renewal update connect hmac ct now = (case ct of (c, t) \<Rightarrow>
     res_bind (client_renewSas hmac now c) (\<lambda>(c1, es1).
       case filter (\<lambda>e. case e of TUpdateSas s \<Rightarrow> True | _ \<Rightarrow> False) es1 of
         [TUpdateSas sas] \<Rightarrow>
           (let (t1, again) = update t sas;
                (c2, es2) = resume_last (PSas RenewCb) (None, Some (SharedAccessSignatureUpdated again)) c1 in
            if TConnect \<in> set es2 then
              (let (c3, es3) = run_todo (resume_last (PSasConnect RenewCb) (None, Some (Connected JUndef)) c2)
               in Inr ((c3, connect t1), es1 @ es2 @ es3))
            else (let (c3, es3) = run_todo (c2, []) in Inr ((c3, t1), es1 @ es2 @ es3)))
       | _ \<Rightarrow> Inr ((c1, t), es1)))"

text \<open>The token that a client made at that time from the connection string would have.\<close>

definition fresh_token :: "hmac \<Rightarrow> int \<Rightarrow> jsval \<Rightarrow> string res" where
  "fresh_token hmac now connStr =
     res_bind (Client_config_fromConnectionString hmac now connStr) (\<lambda>config. Inr (js_string (dget config ''sharedAccessSignature'')))"

text \<open>A connection string with a host, a device and a key.\<close>

definition keyed_string :: "jsval \<Rightarrow> bool" where
  "keyed_string connStr \<longleftrightarrow> truthy connStr \<and> (\<exists>cn h d k. Device_ConnectionString_parse connStr = Inr cn
     \<and> map_of cn ''HostName'' = Some h \<and> map_of cn ''DeviceId'' = Some d \<and> map_of cn ''SharedAccessKey'' = Some k \<and> k \<noteq> [])"

lemma renewSas_fresh:
  assumes "keyed_string (cl_connectionString c)" and "0 \<le> now" and "\<And>k m. hmac k m \<noteq> []"
  shows "\<exists>tok. fresh_token hmac now (cl_connectionString c) = Inr tok \<and> tok \<noteq> []
    \<and> client_renewSas hmac now c = Client_updateSharedAccessSignature c tok RenewCb"
proof -
  obtain cn h d k where cn: "Device_ConnectionString_parse (cl_connectionString c) = Inr cn" "truthy (cl_connectionString c)"
    "map_of cn ''HostName'' = Some h" "map_of cn ''DeviceId'' = Some d" "map_of cn ''SharedAccessKey'' = Some k" "k \<noteq> []"
    using assms(1) by (auto simp: keyed_string_def)
  obtain tok where tok: "Client_config_fromConnectionString hmac now (cl_connectionString c) = Inr [(''host'', JStr h), (''deviceId'', JStr d),
        (''hubName'', JStr (hd (js_split ''.'' h))), (''sharedAccessSignature'', JStr tok)]" "tok \<noteq> []"
    using config_token [OF cn assms(2), of hmac, OF assms(3)] unfolding Let_def by blast
  then obtain s where "Device_SAS_create hmac (JStr h) (JStr d) (JStr k) (JNum (anHourFromNow now)) = Inr s" "tok = SharedAccessSignature_toString s"
    using cn by (auto simp: Client_config_fromConnectionString_def sget_def has_key_def res_bind_Inr_iff Let_def)
  with tok cn show ?thesis
    by (simp add: fresh_token_def client_renewSas_def sget_def dget_def)
qed

text \<open>A client between two renewals.\<close>

definition settled :: "jsval \<Rightarrow> client \<Rightarrow> bool" where
  "settled connStr c \<longleftrightarrow> cl_state c = SConnected \<and> cl_todo c = [] \<and> cl_blob c \<and> cl_connectionString c = connStr"

lemma connectReceiver_frame:
  "cl_state (fst (client_connectReceiver c)) = cl_state c" "cl_todo (fst (client_connectReceiver c)) = cl_todo c"
  "cl_blob (fst (client_connectReceiver c)) = cl_blob c" "cl_connectionString (fst (client_connectReceiver c)) = cl_connectionString c"
  "TConnect \<notin> set (snd (client_connectReceiver c))" "EmitSasUpdated \<notin> set (snd (client_connectReceiver c))"
  by (auto simp: client_connectReceiver_def add_pending_def Let_def split: if_splits)

lemma transition_frame:
  "cl_state (fst (fsm_transition st c)) = st" "cl_todo (fst (fsm_transition st c)) = cl_todo c"
  "cl_blob (fst (fsm_transition st c)) = cl_blob c" "cl_connectionString (fst (fsm_transition st c)) = cl_connectionString c"
  "TConnect \<notin> set (snd (fsm_transition st c))" "EmitSasUpdated \<notin> set (snd (fsm_transition st c))"
  by (simp_all add: fsm_transition_def connected_onExit_def client_disconnectReceiver_def connected_onEnter_def connectReceiver_frame
      case_prod_beta Let_def)

lemma renewal_step:
  assumes "settled connStr c" and "keyed_string connStr" and "0 \<le> now" and "\<And>k m. hmac k m \<noteq> []"
  shows "\<exists>tok c' es. fresh_token hmac now connStr = Inr tok \<and> tok \<noteq> []
    \<and> renewal update connect hmac (c, t) now
        = Inr ((c', if snd (update t tok) then connect (fst (update t tok)) else fst (update t tok)), es)
    \<and> settled connStr c' \<and> filter (\<lambda>e. e = EmitSasUpdated) es = [EmitSasUpdated]"
proof -
  have c: "cl_state c = SConnected" "cl_todo c = []" "cl_blob c" "cl_connectionString c = connStr"
    using assms(1) by (simp_all add: settled_def)
  obtain tok where tok: "fresh_token hmac now connStr = Inr tok" "tok \<noteq> []"
    "client_renewSas hmac now c = Client_updateSharedAccessSignature c tok RenewCb"
    using renewSas_fresh [of c now hmac] assms(2-4) c(4) by auto
  define c1 e1 where c1: "c1 = fst (fsm_transition SUpdatingSas c)" "e1 = snd (fsm_transition SUpdatingSas c)"
  define es1 where "es1 = e1 @ [BlobUpdateSas tok] @ (if cl_twin c1 then [TwinUpdateSas] else []) @ [TUpdateSas tok]"
  have start: "client_renewSas hmac now c = Inr (add_pending (PSas RenewCb) c1, es1)"
    using c tok by (simp add: Client_updateSharedAccessSignature_def fsm_handle_def connected_handle_def connected_updateSas_def
        c1 es1_def transition_frame case_prod_beta Let_def)
  have only: "filter (\<lambda>e. case e of TUpdateSas s \<Rightarrow> True | _ \<Rightarrow> False) es1 = [TUpdateSas tok]"
    using c(1) by (simp add: es1_def c1 fsm_transition_def connected_onExit_def client_disconnectReceiver_def)
  obtain t1 again where upd: "update t tok = (t1, again)" by (cases "update t tok")
  have quiet: "filter (\<lambda>e. e = EmitSasUpdated) (snd (fsm_transition st d)) = []" for st d
    using transition_frame(6) [of st d] by (auto simp: filter_empty_conv)
  have quiet1: "filter (\<lambda>e. e = EmitSasUpdated) es1 = []" by (simp add: es1_def c1 quiet)
  note defs = renewal_def start res_bind.simps only upd resume_last_def client_resume_def sas_updated_def sas_reconnected_def needToReconnect_def
    safeUpdateSasCallback_def run_todo_def run_frame_def push_frame_def add_pending_def arm_renewal_def safeCallback_def
  show ?thesis
  proof (cases again)
    case True
    then show ?thesis
      using tok(1,2) c by (simp add: defs c1 settled_def transition_frame quiet quiet1 case_prod_beta Let_def)
  next
    case False
    then show ?thesis
      using tok(1,2) c by (simp add: defs c1 settled_def transition_frame quiet quiet1 case_prod_beta Let_def)
  qed
qed

section \<open>The contract of a transport\<close>

text \<open>Renewals at a sequence of times.\<close>

fun renewals ::
  "('t \<Rightarrow> string \<Rightarrow> 't \<times> bool) \<Rightarrow> ('t \<Rightarrow> 't) \<Rightarrow> hmac \<Rightarrow> client \<times> 't \<Rightarrow> int list \<Rightarrow> ((client \<times> 't) \<times> effect list) res" where
  "renewals update connect hmac ct [] = Inr (ct, [])"
| "renewals update connect hmac ct (now # nows) =
     res_bind (renewal update connect hmac ct now) (\<lambda>(ct1, es1).
       res_bind (renewals update connect hmac ct1 nows) (\<lambda>(ct2, es2). Inr (ct2, es1 @ es2)))"

text \<open>
  \<open>ok\<close> holds of a transport that is in use with a token, \<open>shows t tok\<close> tells that the hub gets \<open>tok\<close> from it. A transport
  that wants a new connection shows the token after that connection, another one at once.
\<close>

locale renewable_transport =
  fixes ok :: "'t \<Rightarrow> bool"
    and update :: "'t \<Rightarrow> string \<Rightarrow> 't \<times> bool"
    and connect :: "'t \<Rightarrow> 't"
    and shows_token :: "'t \<Rightarrow> string \<Rightarrow> bool"
  assumes reconnected: "ok t \<Longrightarrow> tok \<noteq> [] \<Longrightarrow> snd (update t tok) \<Longrightarrow>
      ok (connect (fst (update t tok))) \<and> shows_token (connect (fst (update t tok))) tok"
    and updated: "ok t \<Longrightarrow> tok \<noteq> [] \<Longrightarrow> \<not> snd (update t tok) \<Longrightarrow> ok (fst (update t tok)) \<and> shows_token (fst (update t tok)) tok"
begin

lemma renewal_shows:
  assumes "settled connStr c" and "ok t" and "keyed_string connStr" and "0 \<le> now" and "\<And>k m. hmac k m \<noteq> []"
  shows "\<exists>tok c' t' es. fresh_token hmac now connStr = Inr tok \<and> renewal update connect hmac (c, t) now = Inr ((c', t'), es)
    \<and> settled connStr c' \<and> ok t' \<and> shows_token t' tok \<and> filter (\<lambda>e. e = EmitSasUpdated) es = [EmitSasUpdated]"
proof -
  obtain tok c' es where r: "fresh_token hmac now connStr = Inr tok" "tok \<noteq> []" "settled connStr c'"
    "renewal update connect hmac (c, t) now
        = Inr ((c', if snd (update t tok) then connect (fst (update t tok)) else fst (update t tok)), es)"
    "filter (\<lambda>e. e = EmitSasUpdated) es = [EmitSasUpdated]"
    using renewal_step [of connStr c now hmac update connect t, OF assms(1,3-5)] by blast
  with reconnected [OF assms(2) r(2)] updated [OF assms(2) r(2)] show ?thesis by auto
qed

lemma renewals_show:
  assumes "settled connStr c" and "ok t" and "keyed_string connStr" and "list_all (\<lambda>now. 0 \<le> now) nows" and "nows \<noteq> []"
    and "\<And>k m. hmac k m \<noteq> []"
  shows "\<exists>tok c' t' es. fresh_token hmac (last nows) connStr = Inr tok \<and> renewals update connect hmac (c, t) nows = Inr ((c', t'), es)
    \<and> cl_state c' = SConnected \<and> shows_token t' tok \<and> filter (\<lambda>e. e = EmitSasUpdated) es = replicate (length nows) EmitSasUpdated"
  using assms
proof (induction nows arbitrary: c t)
  case (Cons now nows)
  obtain tok c1 t1 es1 where 1: "fresh_token hmac now connStr = Inr tok" "renewal update connect hmac (c, t) now = Inr ((c1, t1), es1)"
    "settled connStr c1" "ok t1" "shows_token t1 tok" "filter (\<lambda>e. e = EmitSasUpdated) es1 = [EmitSasUpdated]"
    using renewal_shows [of connStr c t now hmac, OF Cons.prems(1-3) _ Cons.prems(6)] Cons.prems(4) by auto
  show ?case
  proof (cases "nows = []")
    case True
    with 1 show ?thesis by (simp add: settled_def)
  next
    case False
    obtain tok' c' t' es' where "fresh_token hmac (last nows) connStr = Inr tok'" "renewals update connect hmac (c1, t1) nows = Inr ((c', t'), es')"
      "cl_state c' = SConnected" "shows_token t' tok'" "filter (\<lambda>e. e = EmitSasUpdated) es' = replicate (length nows) EmitSasUpdated"
      using Cons.IH [OF 1(3,4) Cons.prems(3) _ False Cons.prems(6)] Cons.prems(4) by auto
    with 1(2,6) False show ?thesis by simp
  qed
qed simp

end

section \<open>The three transports\<close>

text \<open>MQTT: the connection ends, the base is made anew, and \<open>connect\<close> sends the token as its password.\<close>

definition mqtt_updated :: "mqtt \<Rightarrow> string \<Rightarrow> mqtt \<times> bool" where
  "mqtt_updated m sas = (case Mqtt_disconnect m of
       Inl e \<Rightarrow> (m, False)
     | Inr (m1, es) \<Rightarrow> (case Mqtt_sasDisconnected m1 (JStr sas) None of
           (m2, es2) \<Rightarrow> (m2, es2 = [MqDone None (Some (SharedAccessSignatureUpdated True))])))"

definition mqtt_connected :: "string \<Rightarrow> mqtt \<Rightarrow> mqtt" where
  "mqtt_connected version m = (case Mqtt_connect version m of Inl e \<Rightarrow> m | Inr (m1, es) \<Rightarrow> fst (Mqtt_onConnected m1 None JUndef))"

definition mqtt_in_use :: "mqtt \<Rightarrow> bool" where
  "mqtt_in_use m \<longleftrightarrow> mb_client (mt_base m) \<and> truthy (dget (mt_config m) ''host'') \<and> truthy (dget (mt_config m) ''deviceId'')"

definition mqtt_shows :: "mqtt \<Rightarrow> string \<Rightarrow> bool" where
  "mqtt_shows m tok \<longleftrightarrow> dget (mb_options (mt_base m)) ''password'' = JBuf (concat (map (\<lambda>c. map char_of (utf8 c)) tok))"

interpretation mqtt_renewable: renewable_transport mqtt_in_use mqtt_updated "mqtt_connected version" mqtt_shows
proof
  fix t and tok :: string assume t: "mqtt_in_use t" "tok \<noteq> []"
  have opts: "dget (mqtt_options v cfg) ''password'' = JBuf (concat (map (\<lambda>c. map char_of (utf8 c)) tok))"
    if "dget cfg ''sharedAccessSignature'' = JStr tok" for v cfg
    using that t(2) by (simp add: mqtt_options_def dget_def Let_def)
  show "mqtt_in_use (mqtt_connected version (fst (mqtt_updated t tok))) \<and> mqtt_shows (mqtt_connected version (fst (mqtt_updated t tok))) tok"
    using t opts by (simp add: mqtt_in_use_def mqtt_shows_def mqtt_updated_def mqtt_connected_def Mqtt_disconnect_def MqttBase_disconnect_def
        Mqtt_sasDisconnected_def Mqtt_connect_def MqttBase_connect_def mqtt_config_ok_def Mqtt_onConnected_def Let_def)
  show "mqtt_in_use (fst (mqtt_updated t tok)) \<and> mqtt_shows (fst (mqtt_updated t tok)) tok" if "\<not> snd (mqtt_updated t tok)"
    using t that by (simp add: mqtt_in_use_def mqtt_updated_def Mqtt_disconnect_def MqttBase_disconnect_def Mqtt_sasDisconnected_def)
qed

text \<open>AMQP: the connection ends, the base is made anew, and the token is in the address it connects to.\<close>

definition amqp_updated :: "string \<Rightarrow> device_amqp \<Rightarrow> string \<Rightarrow> device_amqp \<times> bool" where
  "amqp_updated version d sas = (case DeviceAmqp_sasDisconnected version (DeviceAmqp_disconnect d 0) (JStr sas) (Inr (BRaw JUndef)) of
       (d1, Inl e) \<Rightarrow> (d1, False)
     | (d1, Inr r) \<Rightarrow> (d1, r = SharedAccessSignatureUpdated True))"

definition amqp_connected :: "device_amqp \<Rightarrow> device_amqp" where
  "amqp_connected d = (case DeviceAmqp_connect d 0 of
       Inl e \<Rightarrow> d | Inr (d1, es) \<Rightarrow> d1\<lparr>da_base := fst (Amqp_onConnected (da_base d1) (Some 0) (Inr JUndef))\<rparr>)"

definition amqp_in_use :: "device_amqp \<Rightarrow> bool" where
  "amqp_in_use d \<longleftrightarrow> falsy (dget (da_config d) ''x509'')"

definition amqp_shows :: "device_amqp \<Rightarrow> string \<Rightarrow> bool" where
  "amqp_shows d tok \<longleftrightarrow> ab_uri (da_base d) = JStr (''amqps://'' @ encodeURIComponent (js_string (dget (da_config d) ''deviceId'')) @ ''@sas.''
     @ js_string (dget (da_config d) ''hubName'') @ '':'' @ encodeURIComponent tok @ ''@'' @ js_string (dget (da_config d) ''host''))"

interpretation amqp_renewable: renewable_transport amqp_in_use "amqp_updated version" amqp_connected amqp_shows
proof
  fix t and tok :: string assume t: "amqp_in_use t" "tok \<noteq> []"
  have upd: "amqp_updated version t tok = (\<lparr>da_config = dset ''sharedAccessSignature'' (JStr tok) (da_config t), da_base = DeviceAmqp_initialize version\<rparr>, True)"
    by (simp add: amqp_updated_def DeviceAmqp_sasDisconnected_def DeviceAmqp_disconnect_def)
  have "\<not> ab_connected (DeviceAmqp_initialize version)" by (simp add: DeviceAmqp_initialize_def Amqp_setDisconnectHandler_def Amqp_def)
  then have conn: "ab_uri (da_base (amqp_connected (fst (amqp_updated version t tok))))
      = JStr (device_amqp_uri (dset ''sharedAccessSignature'' (JStr tok) (da_config t)))"
    and cfg: "da_config (amqp_connected (fst (amqp_updated version t tok))) = dset ''sharedAccessSignature'' (JStr tok) (da_config t)"
    by (simp_all add: upd amqp_connected_def DeviceAmqp_connect_def Amqp_connect_def Amqp_onConnected_def device_amqp_uri_def await_def)
  have "amqp_shows (amqp_connected (fst (amqp_updated version t tok))) tok"
    using t by (simp add: amqp_shows_def conn cfg device_amqp_uri_def device_login_def amqp_in_use_def)
  moreover have "amqp_in_use (amqp_connected (fst (amqp_updated version t tok)))" using t(1) by (simp add: amqp_in_use_def cfg)
  ultimately show "amqp_in_use (amqp_connected (fst (amqp_updated version t tok))) \<and> amqp_shows (amqp_connected (fst (amqp_updated version t tok))) tok"
    by blast
  show "\<not> snd (amqp_updated version t tok) \<Longrightarrow> amqp_in_use (fst (amqp_updated version t tok)) \<and> amqp_shows (fst (amqp_updated version t tok)) tok"
    by (simp add: upd)
qed

text \<open>HTTP: there is no connection; the next request has the token in its header.\<close>

definition http_updated :: "http_transport \<Rightarrow> string \<Rightarrow> http_transport \<times> bool" where
  "http_updated h sas = (case Http_updateSharedAccessSignature h (JStr sas) of
       Inl e \<Rightarrow> (h, False) | Inr (h1, r) \<Rightarrow> (h1, r = SharedAccessSignatureUpdated True))"

definition http_in_use :: "http_transport \<Rightarrow> bool" where
  "http_in_use h \<longleftrightarrow> falsy (dget (ht_config h) ''x509'')"

definition http_shows :: "http_transport \<Rightarrow> string \<Rightarrow> bool" where
  "http_shows h tok \<longleftrightarrow> (\<forall>headers. insertAuthHeaderIfNecessary (ht_config h) headers = Inr (dset ''Authorization'' (JStr tok) headers))"

interpretation http_renewable: renewable_transport http_in_use http_updated "\<lambda>h. h" http_shows
  by unfold_locales (auto simp: http_in_use_def http_shows_def http_updated_def Http_updateSharedAccessSignature_def
      HttpReceiver_updateSharedAccessSignature_def insertAuthHeaderIfNecessary_def Let_def)

section \<open>Properties\<close>


definition sample_config_dict :: "jsval dict" where
  "sample_config_dict = [(''host'', JStr ''h''), (''deviceId'', JStr ''d''), (''hubName'', JStr ''h''), (''sharedAccessSignature'', JStr ''s'')]"


end
