(* ===== verification/Telemetry.thy ===== *)
theory Telemetry
  imports Device_System
begin

text \<open>
  Telemetry from \<open>sendEvent\<close> of the application to the wire: the state machine of the client decides when a message is handed over,
  and the transport decides what is sent. The locale \<open>event_transport\<close> is what the client relies on while one token is in use; it
  is interpreted for MQTT and for HTTP. (The AMQP base has its own ledger of messages in \<open>Common_Amqp\<close>.)
\<close>

section \<open>The client connects before it sends\<close>

text \<open>A client without a change of its token under way, and one that has a connection or has asked for one.\<close>

fun updates_token :: "input \<Rightarrow> bool" where
  "updates_token (IUpdateSas sas cb) = True"
| "updates_token _ = False"

fun awaits_token :: "pending \<Rightarrow> bool" where
  "awaits_token (PSas cb) = True"
| "awaits_token (PSasConnect cb) = True"
| "awaits_token _ = False"

definition tokenless :: "client \<Rightarrow> bool" where
  "tokenless c \<longleftrightarrow> list_all (\<lambda>(s, i). \<not> updates_token i) (cl_deferred c) \<and> list_all (\<lambda>p. \<not> awaits_token p) (cl_pending c)"

fun awaits_open :: "pending \<Rightarrow> bool" where
  "awaits_open (POpen cb) = True"
| "awaits_open _ = False"

definition opened :: "client \<Rightarrow> bool" where
  "opened c \<longleftrightarrow> cl_state c \<noteq> SDisconnected \<or> list_ex awaits_open (cl_pending c)"

fun renews :: "effect \<Rightarrow> bool" where
  "renews (TUpdateSas sas) = True"
| "renews _ = False"

text \<open>A computation of the client that starts no change of the token and asks for a connection before it counts as opened.\<close>

definition opens_first :: "client \<Rightarrow> client \<times> effect list \<Rightarrow> bool" where
  "opens_first c r \<longleftrightarrow> (tokenless c \<longrightarrow> tokenless (fst r)) \<and> (tr_canConnect (fst r) \<longleftrightarrow> tr_canConnect c) \<and> \<not> list_ex renews (snd r)
     \<and> (tr_canConnect c \<and> opened (fst r) \<longrightarrow> opened c \<or> TConnect \<in> set (snd r))"

named_theorems opens_rules \<open>computations that ask for a connection first\<close>

lemma opens_same: "opens_first (c\<lparr>cl_todo := fs\<rparr>) r = opens_first c r" "opens_first (c\<lparr>cl_ticks := n\<rparr>) r = opens_first c r"
  "opens_first (c\<lparr>cl_armed := ts\<rparr>) r = opens_first c r" "opens_first (c\<lparr>cl_listeners := n\<rparr>) r = opens_first c r"
  by (simp_all add: opens_first_def tokenless_def opened_def)

lemma frame_simps [simp]:
  "tokenless (arm_renewal c) = tokenless c" "opened (arm_renewal c) = opened c" "tr_canConnect (arm_renewal c) = tr_canConnect c"
  "tokenless (clear_renewal c) = tokenless c" "opened (clear_renewal c) = opened c" "tr_canConnect (clear_renewal c) = tr_canConnect c"
  "tokenless (push_frame f c) = tokenless c" "opened (push_frame f c) = opened c" "tr_canConnect (push_frame f c) = tr_canConnect c"
  "tr_canConnect (add_pending p c) = tr_canConnect c" "tr_canConnect (defer_until s i c) = tr_canConnect c"
  "tokenless (add_pending p c) \<longleftrightarrow> tokenless c \<and> \<not> awaits_token p"
  "opened (add_pending p c) \<longleftrightarrow> opened c \<or> awaits_open p"
  "tokenless (defer_until s i c) \<longleftrightarrow> tokenless c \<and> \<not> updates_token i" "opened (defer_until s i c) = opened c"
  by (auto simp: arm_renewal_def clear_renewal_def push_frame_def add_pending_def defer_until_def tokenless_def opened_def
      split: option.splits)

lemma renews_callbacks [simp]: "\<not> list_ex renews (invoke cb err res)" "\<not> list_ex renews (safeCallback cb err res)"
  "\<not> list_ex renews (map (\<lambda>(m, cb). ReceiverOnMethod m cb) ms)"
proof -
  show i: "\<not> list_ex renews (invoke cb err res)" by (induction cb err res rule: invoke.induct) (auto split: option.splits)
  then show "\<not> list_ex renews (safeCallback cb err res)" by (simp add: safeCallback_def)
  show "\<not> list_ex renews (map (\<lambda>(m, cb). ReceiverOnMethod m cb) ms)" by (induction ms) auto
qed

lemma opens_transition:
  "tokenless (fst (fsm_transition s c)) = tokenless c" "tr_canConnect (fst (fsm_transition s c)) = tr_canConnect c"
  "\<not> list_ex renews (snd (fsm_transition s c))"
  "opened (fst (fsm_transition s c)) \<longleftrightarrow> s \<noteq> SDisconnected \<or> list_ex awaits_open (cl_pending c)"
  by (auto simp: fsm_transition_def connected_onExit_def connected_onEnter_def client_connectReceiver_def client_disconnectReceiver_def
      tokenless_def opened_def Let_def)

lemma opened_pending: "list_ex awaits_open (cl_pending c) \<Longrightarrow> opened c" "cl_state c \<noteq> SDisconnected \<Longrightarrow> opened c"
  by (simp_all add: opened_def)

lemma receiver_frame [simp]: "tokenless (c\<lparr>cl_receiver := b\<rparr>) = tokenless c" "opened (c\<lparr>cl_receiver := b\<rparr>) = opened c"
  by (simp_all add: tokenless_def opened_def)

lemmas opens_defs = opens_first_def case_prod_beta Let_def opens_transition

lemma opens_trivial: "\<not> list_ex renews es \<Longrightarrow> opens_first c (c, es)"
  "\<not> list_ex renews es \<Longrightarrow> \<not> awaits_token p \<Longrightarrow> \<not> awaits_open p \<Longrightarrow> opens_first c (add_pending p c, es)"
  "\<not> updates_token i \<Longrightarrow> opens_first c (defer_until s i c, [])"
  by (simp_all add: opens_first_def)

lemma opens_connectReceiver [opens_rules]: "opens_first c (client_connectReceiver c)"
  and opens_disconnectReceiver [opens_rules]: "opens_first c (client_disconnectReceiver c)"
  and opens_onReceiver [opens_rules]: "opens_first c (client_onReceiver c e)"
  by (auto simp: opens_first_def client_connectReceiver_def client_disconnectReceiver_def client_onReceiver_def tokenless_def opened_def
      split: option.splits)

lemma opens_closeTransport_done [opens_rules]: "opens_first c (closeTransport_done c cb m e r)"
  by (auto simp: closeTransport_done_def opens_defs dest: opened_pending)

lemma opens_closeTransport [opens_rules]: "opens_first c (client_closeTransport c cb m)"
  using opens_closeTransport_done [of "clear_renewal c" cb m]
  by (simp add: client_closeTransport_def opens_first_def Let_def)

lemma opens_connected_close: "cl_state c \<noteq> SDisconnected \<Longrightarrow> opens_first c (connected_close c cb m)"
  using opens_closeTransport [of "fst (fsm_transition SDisconnecting c)" cb m]
  by (auto simp: connected_close_def opens_defs dest: opened_pending)

lemma opens_disconnected_open [opens_rules]: "opens_first c (disconnected_open c cb)"
  by (auto simp: disconnected_open_def transportConnected_def opens_defs)

lemma opens_run_frame [opens_rules]: "opens_first c (run_frame c f)"
  by (cases f) (auto simp: run_frame_def opens_defs dest: opened_pending)

lemma opens_disconnectHandler [opens_rules]: "opens_first c (client_disconnectHandler c e)"
  by (auto simp: client_disconnectHandler_def opens_defs dest: opened_pending)

lemma opens_removeMessageListener [opens_rules]: "opens_first c (client_removeMessageListener c)"
  by (auto simp: client_removeMessageListener_def client_disconnectReceiver_def opens_first_def tokenless_def opened_def Let_def)

lemma opens_onDeviceMethod: "Client_onDeviceMethod c n f = Inr r \<Longrightarrow> opens_first c r"
  by (auto simp: Client_onDeviceMethod_def client_connectReceiver_def opens_first_def tokenless_def opened_def res_bind_Inr_iff Let_def
      split: if_splits)

lemma opens_deferred_open:
  assumes "\<not> updates_token i"
  shows "opens_first c (disconnected_open (defer_until s i c) cb)"
  using opens_disconnected_open [of "defer_until s i c" cb] assms by (simp add: opens_first_def)

lemma opens_handle: "\<not> updates_token i \<Longrightarrow> opens_first c (fsm_handle c i)"
proof (cases "cl_state c")
  case SDisconnected
  then show "\<not> updates_token i \<Longrightarrow> ?thesis"
    by (cases i) (simp_all add: fsm_handle_def disconnected_handle_def opens_rules opens_trivial opens_deferred_open)
next
  case SConnected
  then show "\<not> updates_token i \<Longrightarrow> ?thesis"
    by (cases i) (simp_all add: fsm_handle_def connected_handle_def opens_rules opens_trivial opens_connected_close)
qed (cases i; simp add: fsm_handle_def connecting_handle_def disconnecting_handle_def updating_sas_handle_def opens_rules opens_trivial
    opens_connected_close)+

text \<open>An answer of the transport: only the one to \<open>connect\<close> opens the client.\<close>

lemma opens_resume:
  assumes "\<not> awaits_token p" and "tokenless c"
  shows "tokenless (fst (client_resume c p out)) \<and> tr_canConnect (fst (client_resume c p out)) = tr_canConnect c
    \<and> \<not> list_ex renews (snd (client_resume c p out)) \<and> (opened (fst (client_resume c p out)) \<longrightarrow> opened c \<or> awaits_open p)"
  using assms by (cases p) (auto simp: client_resume_def transportConnected_def closeTransport_done_def options_set_def opens_defs
      client_onReceiver_def dest: opened_pending split: option.splits)

lemma list_all_drop_nth: "list_all P xs \<Longrightarrow> list_all P (drop_nth k xs)"
  by (auto simp: list_all_iff drop_nth_def dest: in_set_takeD in_set_dropD)

lemma list_ex_drop_nth: "list_ex P (drop_nth k xs) \<Longrightarrow> list_ex P xs"
  by (auto simp: list_ex_iff drop_nth_def dest: in_set_takeD in_set_dropD)

fun token_label :: "label \<Rightarrow> bool" where
  "token_label (Submit i) = updates_token i"
| "token_label Internal = False"

text \<open>A step that begins without a change of the token and with a transport that connects.\<close>

definition steps_open :: "client \<Rightarrow> effect list \<Rightarrow> client \<Rightarrow> bool" where
  "steps_open c es c' \<longleftrightarrow> tokenless c' \<and> tr_canConnect c' = tr_canConnect c \<and> \<not> list_ex renews es
     \<and> (tr_canConnect c \<and> opened c' \<longrightarrow> opened c \<or> TConnect \<in> set es)"

lemma opens_steps: "opens_first c (c', es) \<Longrightarrow> tokenless c \<Longrightarrow> steps_open c es c'"
  by (simp add: opens_first_def steps_open_def)

lemma step_opens: "client_step c l es c' \<Longrightarrow> \<not> token_label l \<Longrightarrow> tokenless c \<Longrightarrow> steps_open c es c'"
proof (induction rule: client_step.induct)
  case (step_submit c i c' es)
  then show ?case using opens_handle [of i c] by (simp add: opens_steps)
next
  case (step_replay k c u i c' es)
  let ?c = "c\<lparr>cl_deferred := drop_nth k (cl_deferred c)\<rparr>"
  have "\<not> updates_token i" using step_replay.prems(2) step_replay.hyps(1,2) by (auto simp: tokenless_def list_all_length)
  moreover have "tokenless ?c" using step_replay.prems(2) by (simp add: tokenless_def list_all_drop_nth)
  ultimately show ?case using opens_handle [of i ?c] step_replay.hyps(4) by (auto simp: opens_first_def steps_open_def opened_def)
next
  case (step_frame c f fs c' es)
  then show ?case using opens_run_frame [of "c\<lparr>cl_todo := fs\<rparr>" f] by (simp add: opens_same opens_steps)
next
  case (step_resume c k out c' es)
  let ?c = "c\<lparr>cl_pending := drop_nth k (cl_pending c)\<rparr>"
  have "\<not> awaits_token (cl_pending c ! k)" "tokenless ?c"
    using step_resume.prems(2) step_resume.hyps(2) by (simp_all add: tokenless_def list_all_drop_nth) (simp add: list_all_length)
  note r = opens_resume [OF this, of out]
  have "opened c" if "opened ?c" using that list_ex_drop_nth [of awaits_open k "cl_pending c"] by (auto simp: opened_def)
  moreover have "opened c" if "awaits_open (cl_pending c ! k)"
    using that step_resume.hyps(2) by (auto simp: opened_def list_ex_length)
  ultimately show ?case using r step_resume.hyps(3) by (auto simp: steps_open_def)
next
  case (step_listen c)
  then show ?case by (simp add: client_onMessage_def steps_open_def tokenless_def opened_def)
next
  case (step_unlisten c c' es)
  then show ?case using opens_removeMessageListener [of c] by (simp add: opens_steps)
next
  case (step_tick c c' es)
  then show ?case using opens_handle [of IStartReceiver "c\<lparr>cl_ticks := cl_ticks c - 1\<rparr>"]
    by (simp add: client_tick_def opens_same opens_steps)
next
  case (step_disconnect c err c' es)
  then show ?case using opens_disconnectHandler [of c err] by (simp add: opens_steps)
next
  case (step_method c name f c' es)
  then show ?case using opens_onDeviceMethod opens_steps by blast
qed simp

text \<open>In the calls of a run every event follows a call of \<open>connect\<close>.\<close>

fun connected_first :: "bool \<Rightarrow> effect list \<Rightarrow> bool" where
  "connected_first up [] = True"
| "connected_first up (TConnect # es) = connected_first True es"
| "connected_first up (TSendEvent m # es) = (up \<and> connected_first up es)"
| "connected_first up (e # es) = connected_first up es"

lemma connected_first_append: "connected_first up (es @ fs) \<longleftrightarrow> connected_first up es \<and> connected_first (up \<or> TConnect \<in> set es) fs"
  by (induction up es rule: connected_first.induct) auto

lemma connected_first_up: "connected_first True es"
  by (induction "True" es rule: connected_first.induct) auto

lemma connected_first_quiet: "list_all (\<lambda>e. \<not> is_data e) es \<Longrightarrow> connected_first up es"
  by (induction up es rule: connected_first.induct) auto

lemma run_tokenless:
  assumes "client_run c0 ls es c" and "list_all (\<lambda>l. \<not> token_label l) ls" and "tokenless c0"
  shows "tokenless c \<and> tr_canConnect c = tr_canConnect c0 \<and> \<not> list_ex renews es"
  using assms
proof (induction rule: client_run.induct)
  case (run_step c0 ls es c l es' c')
  then show ?case using step_opens [OF run_step.hyps(2)] by (simp add: steps_open_def)
qed simp

lemma run_opens:
  assumes "client_run c0 ls es c" and "list_all (\<lambda>l. \<not> token_label l) ls" and "tokenless c0" and "tr_canConnect c0" and "\<not> opened c0"
  shows "(opened c \<longrightarrow> TConnect \<in> set es) \<and> connected_first False es"
  using assms
proof (induction rule: client_run.induct)
  case (run_step c0 ls es c l es' c')
  then have IH: "opened c \<longrightarrow> TConnect \<in> set es" "connected_first False es" by simp_all
  have c: "tokenless c" "tr_canConnect c" using run_tokenless [OF run_step.hyps(1)] run_step.prems by simp_all
  from step_opens [OF run_step.hyps(2) _ c(1)] run_step.prems(1) have s: "steps_open c es' c'" by simp
  have "connected_first (TConnect \<in> set es) es'"
  proof (cases "cl_state c = SConnected")
    case True
    then show ?thesis using IH(1) by (simp add: opened_def connected_first_up)
  next
    case False
    then have "list_all (\<lambda>e. \<not> is_data e) es'" using step_data_connected [OF run_step.hyps(2)] by (auto simp: list_all_iff)
    then show ?thesis by (rule connected_first_quiet)
  qed
  with s c IH show ?case by (auto simp: steps_open_def connected_first_append)
qed simp

section \<open>The events of a run\<close>

fun event_of :: "effect \<Rightarrow> message option" where
  "event_of (TSendEvent m) = Some m"
| "event_of _ = None"

fun event_asked :: "input \<Rightarrow> message option" where
  "event_asked (ISendEvent m cb) = Some m"
| "event_asked _ = None"

definition events :: "effect list \<Rightarrow> message list" where
  "events es = List.map_filter event_of es"

definition events_asked :: "input list \<Rightarrow> message list" where
  "events_asked is = List.map_filter event_asked is"

lemma events_simps [simp]: "events [] = []" "events (e # es) = (case event_of e of None \<Rightarrow> events es | Some m \<Rightarrow> m # events es)"
  by (auto simp: events_def List.map_filter_def split: option.splits)

lemma events_asked_simps [simp]: "events_asked [] = []"
  "events_asked (i # is) = (case event_asked i of None \<Rightarrow> events_asked is | Some m \<Rightarrow> m # events_asked is)"
  by (auto simp: events_asked_def List.map_filter_def split: option.splits)

definition events_in :: "effect multiset \<Rightarrow> message multiset" where
  "events_in M = image_mset the {# x \<in># image_mset event_of M. x \<noteq> None #}"

lemma events_in_simps [simp]: "events_in {#} = {#}" "events_in (M + N) = events_in M + events_in N"
  "events_in (add_mset e M) = (case event_of e of None \<Rightarrow> {#} | Some m \<Rightarrow> {#m#}) + events_in M"
  by (auto simp: events_in_def split: option.splits)

lemma events_in_requests: "events_in (requests is) = mset (events_asked is)"
proof (induction "is")
  case (Cons i "is")
  then show ?case by (cases i) simp_all
qed simp

lemma events_in_done: "events_in (done_data es) = mset (events es)"
proof (induction es)
  case (Cons e es)
  then show ?case by (cases e) simp_all
qed simp

lemma run_events:
  assumes "client_run (client_init caps connStr blob) ls es c"
  shows "mset (events es) + mset (events_asked (map snd (cl_deferred c))) = mset (events_asked (submitted ls))"
proof -
  have "kept c + done_data es = requests (submitted ls)"
    using run_balance [OF assms] by (cases caps) (simp add: client_init_def kept_def)
  then have "events_in (kept c) + events_in (done_data es) = events_in (requests (submitted ls))" by (metis events_in_simps(2))
  then show ?thesis by (simp add: events_in_done kept_def events_in_requests add.commute)
qed

section \<open>The contract of a transport\<close>

text \<open>
  \<open>perform t e\<close> is what the transport does when the client calls it; \<open>telemetry_out\<close> collects what the calls of \<open>sendEvent\<close> in a run
  gave, the packets for the hub or an exception.
\<close>

fun telemetry_out :: "('t \<Rightarrow> effect \<Rightarrow> 't \<times> 'w list res) \<Rightarrow> 't \<Rightarrow> effect list \<Rightarrow> 'w list res list" where
  "telemetry_out perform t [] = []"
| "telemetry_out perform t (e # es) =
     (case perform t e of (t1, r) \<Rightarrow> if event_of e \<noteq> None then r # telemetry_out perform t1 es else telemetry_out perform t1 es)"

locale event_transport =
  fixes perform :: "'t \<Rightarrow> effect \<Rightarrow> 't \<times> 'w list res"
    and usable :: "'t \<Rightarrow> bool"
    and up :: "'t \<Rightarrow> bool"
    and sendable :: "message \<Rightarrow> bool"
    and carries :: "message \<Rightarrow> 'w \<Rightarrow> bool"
  assumes connect_up: "usable t \<Longrightarrow> up (fst (perform t TConnect))"
    and usable_keeps: "usable t \<Longrightarrow> \<not> renews e \<Longrightarrow> usable (fst (perform t e))"
    and up_keeps: "usable t \<Longrightarrow> up t \<Longrightarrow> \<not> renews e \<Longrightarrow> up (fst (perform t e))"
    and send_carries: "usable t \<Longrightarrow> up t \<Longrightarrow> sendable m \<Longrightarrow> \<exists>w. snd (perform t (TSendEvent m)) = Inr [w] \<and> carries m w"
begin

lemma telemetry_carried:
  assumes "usable t" and "b \<longrightarrow> up t" and "connected_first b es" and "\<not> list_ex renews es" and "list_all sendable (events es)"
  shows "list_all2 (\<lambda>m r. \<exists>w. r = Inr [w] \<and> carries m w) (events es) (telemetry_out perform t es)"
  using assms
proof (induction es arbitrary: t b)
  case (Cons e es)
  let ?t = "fst (perform t e)"
  have u: "usable ?t" using usable_keeps Cons.prems(1,4) by simp
  have n: "\<not> list_ex renews es" using Cons.prems(4) by simp
  show ?case
  proof (cases "e = TConnect")
    case True
    then have "up ?t" using connect_up Cons.prems(1) by simp
    with Cons.IH [OF u, of True] Cons.prems(3,5) n True show ?thesis by (simp add: case_prod_beta)
  next
    case False
    have k: "b \<longrightarrow> up ?t" using up_keeps Cons.prems(1,2,4) by simp
    have f: "connected_first b es" "event_of e \<noteq> None \<longrightarrow> b" using Cons.prems(3) False by (cases e; simp)+
    have s: "list_all sendable (events es)" using Cons.prems(5) by (cases e) simp_all
    note IH = Cons.IH [OF u k f(1) n s]
    show ?thesis
    proof (cases "event_of e")
      case None
      with IH show ?thesis by (simp add: case_prod_beta)
    next
      case (Some m)
      then have e: "e = TSendEvent m" by (cases e) simp_all
      with f(2) Cons.prems(1,2,5) send_carries [of t m] IH show ?thesis by (auto simp: case_prod_beta)
    qed
  qed
qed simp

end

section \<open>The transports\<close>

text \<open>
  MQTT. A call that throws leaves the transport as it was. Only the calls that a client makes on this transport with
  an effect on events are followed: it has no \<open>sendEventBatch\<close>.
\<close>

definition after :: "'t \<Rightarrow> ('t \<times> 'w list) res \<Rightarrow> 't \<times> 'w list res" where
  "after t r = (case r of Inl e \<Rightarrow> (t, Inl e) | Inr (t1, ws) \<Rightarrow> (t1, Inr ws))"

definition mqtt_perform :: "string \<Rightarrow> mqtt \<Rightarrow> effect \<Rightarrow> mqtt \<times> mqtt_effect list res" where
  "mqtt_perform version m e = (case e of
       TConnect \<Rightarrow> after m (Mqtt_connect version m)
     | TDisconnect \<Rightarrow> after m (Mqtt_disconnect m)
     | TSendEvent msg \<Rightarrow> (m, Mqtt_sendEvent m (Some msg))
     | TSendEventBatch msgs \<Rightarrow> (m, throw TypeError ''sendEventBatch is not a function'')
     | TComplete msg \<Rightarrow> (m, Inr Mqtt_complete)
     | TReject msg \<Rightarrow> (m, Mqtt_reject)
     | TAbandon msg \<Rightarrow> (m, Mqtt_abandon)
     | TGetReceiver \<Rightarrow> after m (res_bind (Mqtt_getReceiver m) (\<lambda>(m1, r). Inr (m1, [])))
     | _ \<Rightarrow> (m, Inr []))"

definition mqtt_usable :: "jsval dict \<Rightarrow> mqtt \<Rightarrow> bool" where
  "mqtt_usable config m \<longleftrightarrow> mt_config m = config \<and> mqtt_config_ok config"

definition event_topic :: "jsval dict \<Rightarrow> string" where
  "event_topic config = ''devices/'' @ js_string (dget config ''deviceId'') @ ''/messages/events/''"

definition mqtt_up :: "jsval dict \<Rightarrow> mqtt \<Rightarrow> bool" where
  "mqtt_up config m \<longleftrightarrow> mb_client (mt_base m) \<and> mb_topicTelemetryPublish (mt_base m) = event_topic config"

text \<open>A message with a text or a buffer as its body.\<close>

definition sendable_event :: "message \<Rightarrow> bool" where
  "sendable_event m \<longleftrightarrow> is_str (msg_data m) \<or> is_buffer (msg_data m)"

definition mqtt_carries :: "jsval dict \<Rightarrow> message \<Rightarrow> mqtt_effect \<Rightarrow> bool" where
  "mqtt_carries config m w \<longleftrightarrow> w = MqPublish (event_topic config) (js_string (msg_data m)) 1"

lemma mqtt_perform_frame:
  "mt_config (fst (mqtt_perform version m e)) = mt_config m"
  "e \<noteq> TConnect \<Longrightarrow> mb_client (mt_base (fst (mqtt_perform version m e))) = mb_client (mt_base m)
     \<and> mb_topicTelemetryPublish (mt_base (fst (mqtt_perform version m e))) = mb_topicTelemetryPublish (mt_base m)"
  by (cases e; auto simp: mqtt_perform_def after_def Mqtt_connect_def MqttBase_connect_def Mqtt_disconnect_def MqttBase_disconnect_def
      Mqtt_getReceiver_def MqttBase_getReceiver_def no_client_def res_bind_Inr_iff Let_def split: sum.splits option.splits)+

lemma mqtt_connect_up: "mqtt_usable config m \<Longrightarrow> mqtt_up config (fst (mqtt_perform version m TConnect))"
  by (simp add: mqtt_usable_def mqtt_up_def mqtt_perform_def after_def Mqtt_connect_def MqttBase_connect_def event_topic_def Let_def)

interpretation mqtt_events: event_transport "mqtt_perform version" "mqtt_usable config" "mqtt_up config" sendable_event "mqtt_carries config"
proof
  fix m e assume m: "mqtt_usable config m"
  show "mqtt_up config (fst (mqtt_perform version m TConnect))" using m by (rule mqtt_connect_up)
  show "mqtt_usable config (fst (mqtt_perform version m e))" using m by (simp add: mqtt_usable_def mqtt_perform_frame)
  show "mqtt_up config (fst (mqtt_perform version m e))" if "mqtt_up config m"
    using m that mqtt_connect_up [of config m version] mqtt_perform_frame(2) [of e version m] by (cases "e = TConnect") (auto simp: mqtt_up_def)
next
  fix m msg assume "mqtt_up config m" "sendable_event msg"
  then show "\<exists>w. snd (mqtt_perform version m (TSendEvent msg)) = Inr [w] \<and> mqtt_carries config msg w"
    by (auto simp: mqtt_perform_def Mqtt_sendEvent_def MqttBase_publish_def mqtt_up_def sendable_event_def mqtt_carries_def)
qed

text \<open>
  HTTP. There is no connection, so the transport can always send; \<open>complete\<close>, \<open>reject\<close> and \<open>abandon\<close> post their feedback.
  The receiver is polled by timers, which are no calls of the client.
\<close>

definition http_perform :: "(nat \<Rightarrow> string) \<Rightarrow> string \<Rightarrow> http_transport \<Rightarrow> effect \<Rightarrow> http_transport \<times> http_effect list res" where
  "http_perform alloc version h e = (case e of
       TSendEvent msg \<Rightarrow> (h, Http_sendEvent alloc version (ht_config h) msg)
     | TSendEventBatch msgs \<Rightarrow> (h, Http_sendEventBatch alloc version (ht_config h) msgs)
     | TComplete msg \<Rightarrow> Http_feedback version h Complete (Some msg)
     | TReject msg \<Rightarrow> Http_feedback version h Reject (Some msg)
     | TAbandon msg \<Rightarrow> Http_feedback version h Abandon (Some msg)
     | TGetReceiver \<Rightarrow> (fst (Http_getReceiver h), Inr [])
     | _ \<Rightarrow> (h, Inr []))"

definition http_usable :: "jsval dict \<Rightarrow> string \<Rightarrow> http_transport \<Rightarrow> bool" where
  "http_usable config tok h \<longleftrightarrow> ht_config h = config \<and> falsy (dget config ''x509'') \<and> dget config ''sharedAccessSignature'' = JStr tok"

definition event_bytes :: "message \<Rightarrow> string" where
  "event_bytes m = (case msg_data m of JStr s \<Rightarrow> concat (map (\<lambda>c. map char_of (utf8 c)) s) | JBuf b \<Rightarrow> b | _ \<Rightarrow> [])"

text \<open>The request for a message: its bytes, the token, and a header for every custom property with the last value of its name.\<close>

definition http_carries :: "jsval dict \<Rightarrow> string \<Rightarrow> message \<Rightarrow> http_effect \<Rightarrow> bool" where
  "http_carries config tok m w \<longleftrightarrow> (\<exists>headers. let path = eventPath (js_string (dget config ''deviceId'')) in
     w = HRequest \<lparr>ho_host = dget config ''host'', ho_path = JStr (path @ versionQueryString), ho_method = JStr ''POST'',
           ho_headers = JObj headers, ho_x509 = None\<rparr> (Some (JBuf (event_bytes m)))
     \<and> map_of headers ''Authorization'' = Some (JStr tok) \<and> map_of headers ''iothub-to'' = Some (JStr path)
     \<and> (\<forall>k. map_of headers (''iothub-app-'' @ k) = map_of (rev (msg_properties m)) k))"

lemma app_header_copies: "app_header ps = copy_item (map (\<lambda>(k, v). (''iothub-app-'' @ k, v)) ps)"
  by (auto simp: app_header_def copy_item_def Properties_getItem_def fun_eq_iff split: prod.splits)

lemma map_of_prefixed: "map_of (map (\<lambda>(k, v). (p @ k, v)) ps) (p @ k) = map_of ps k"
  by (induction ps) auto

lemma map_of_other: "take (length p) key \<noteq> p \<Longrightarrow> map_of (map (\<lambda>(k, v). (p @ k, v)) ps) key = None"
  by (induction ps) auto

text \<open>The headers of an event: what the loop over the properties adds, and what it leaves of the others.\<close>

lemma app_headers:
  "map_of (foldl (app_header ps) d [0..<Properties_count ps]) (''iothub-app-'' @ k)
     = (case map_of (rev ps) k of None \<Rightarrow> map_of d (''iothub-app-'' @ k) | Some v \<Rightarrow> Some v)" (is "?own")
  "take (length ''iothub-app-'') key \<noteq> ''iothub-app-'' \<Longrightarrow> map_of (foldl (app_header ps) d [0..<Properties_count ps]) key = map_of d key" (is "_ \<Longrightarrow> ?other")
proof -
  let ?ps = "map (\<lambda>(k, v). (''iothub-app-'' @ k, v)) (rev ps)"
  have all: "map_of (foldl (app_header ps) d [0..<Properties_count ps]) = map_of d ++ map_of ?ps"
    using foldl_copy_item [of "map (\<lambda>(k, v). (''iothub-app-'' @ k, v)) ps" d]
    unfolding app_header_copies Properties_count_def length_map by (simp only: foldl_dset_map_of map_of_append rev_map)
  show ?own unfolding all map_add_def map_of_prefixed ..
  show ?other if k: "take (length ''iothub-app-'') key \<noteq> ''iothub-app-''"
  proof -
    have "map_of ?ps key = None" using k by (rule map_of_other)
    then show ?thesis unfolding all by (simp only: map_add_def option.case)
  qed
qed

lemma sendable_bytes: "sendable_event m \<Longrightarrow> Message_getBytes alloc m = Inr (JBuf (event_bytes m))"
  by (cases "msg_data m") (simp_all add: sendable_event_def Message_getBytes_def event_bytes_def)

lemma http_event_carried:
  assumes "http_usable config tok h" and "sendable_event m"
  shows "\<exists>w. Http_sendEvent alloc version (ht_config h) m = Inr [w] \<and> http_carries config tok m w"
proof -
  let ?path = "eventPath (js_string (dget config ''deviceId''))"
  let ?d = "dset ''Authorization'' (JStr tok) [(''iothub-to'', JStr ?path), (''User-Agent'', JStr (''azure-iot-device/'' @ version))]"
  let ?headers = "foldl (app_header (msg_properties m)) ?d [0..<Properties_count (msg_properties m)]"
  have c: "ht_config h = config" "falsy (dget config ''x509'')" "dget config ''sharedAccessSignature'' = JStr tok"
    using assms(1) by (simp_all add: http_usable_def)
  have "map_of ?headers ''Authorization'' = Some (JStr tok)" "map_of ?headers ''iothub-to'' = Some (JStr ?path)"
    by (simp_all add: app_headers(2))
  moreover have "map_of ?headers (''iothub-app-'' @ k) = map_of (rev (msg_properties m)) k" for k
    unfolding app_headers(1) by (simp split: option.split)
  ultimately show ?thesis
    using c sendable_bytes [OF assms(2)]
    unfolding http_carries_def Let_def
    by (intro exI conjI [rotated]; simp add: Http_sendEvent_def insertAuthHeaderIfNecessary_def http_request_def Http_buildRequest_def Let_def)
qed

interpretation http_events: event_transport "http_perform alloc version" "http_usable config tok" "\<lambda>h. True" sendable_event "http_carries config tok"
proof
  fix h e assume h: "http_usable config tok h"
  show "http_usable config tok (fst (http_perform alloc version h e))"
    using h by (cases e) (simp_all add: http_perform_def http_usable_def Http_feedback_def Http_getReceiver_def Let_def split: option.splits)
next
  fix h m assume "http_usable config tok h" "sendable_event m"
  then show "\<exists>w. snd (http_perform alloc version h (TSendEvent m)) = Inr [w] \<and> http_carries config tok m w"
    using http_event_carried by (simp add: http_perform_def)
qed simp_all

section \<open>Properties\<close>

lemma init_tokenless: "tokenless (client_init caps connStr blob)" "\<not> opened (client_init caps connStr blob)"
  by (cases caps; simp add: client_init_def tokenless_def opened_def)+

lemma Mqtt_usable: "mqtt_config_ok config \<Longrightarrow> mqtt_usable (mt_config (Mqtt config)) (Mqtt config)"
  and Mqtt_topic: "event_topic (mt_config (Mqtt config)) = event_topic config"
  by (simp_all add: mqtt_usable_def Mqtt_def mqtt_config_ok_def event_topic_def)

lemma run_sendable:
  assumes "client_run (client_init caps connStr blob) ls es c" and "list_all P (events_asked (submitted ls))"
  shows "list_all P (events es)"
proof -
  have "mset (events es) \<subseteq># mset (events_asked (submitted ls))" using run_events [OF assms(1)] by (metis mset_subset_eq_add_left)
  then show ?thesis using assms(2) by (auto simp: list_all_iff dest: mset_subset_eqD)
qed


text \<open>A client that connects implicitly and then sends the message it kept.\<close>

lemma hub_sends:
  "\<exists>c. client_run hub [Submit (ISendEvent m cb), Internal, Internal] [TConnect, TRemoveOnDisconnect, TOnDisconnect, TSendEvent m] c
     \<and> cl_deferred c = []"
proof -
  let ?f = "ForwardErrorCb cb"
  define c1 c2 where defs: "c1 = hub\<lparr>cl_state := SConnecting, cl_deferred := [(Some SConnected, ISendEvent m cb)], cl_pending := [POpen ?f]\<rparr>"
    "c2 = hub\<lparr>cl_state := SConnected, cl_deferred := [(Some SConnected, ISendEvent m cb)], cl_todo := [FSafe ?f None None]\<rparr>"
  have 1: "client_run hub [Submit (ISendEvent m cb)] [TConnect] c1" using hub_send by (simp add: defs)
  have 2: "client_step c1 Internal [TRemoveOnDisconnect, TOnDisconnect] c2"
    by (rule step_resume [where k = 0 and out = "(None, None)"])
      (simp_all add: defs client_init_def client_resume_def transportConnected_def fsm_transition_def connected_onEnter_def push_frame_def drop_nth_def)
  have 3: "client_step c2 Internal [TSendEvent m] (c2\<lparr>cl_deferred := [], cl_pending := [pending.PSend cb]\<rparr>)"
    by (rule step_replay [where k = 0 and u = "Some SConnected" and i = "ISendEvent m cb"])
      (simp_all add: defs client_init_def fsm_handle_def connected_handle_def add_pending_def drop_nth_def)
  have "cl_deferred (c2\<lparr>cl_deferred := [], cl_pending := [pending.PSend cb]\<rparr>) = []" by simp
  with run_step [OF run_step [OF 1 2] 3] show ?thesis by auto
qed

definition telemetry_config :: "jsval dict" where
  "telemetry_config = [(''host'', JStr ''h''), (''deviceId'', JStr ''d''), (''hubName'', JStr ''h''), (''sharedAccessSignature'', JStr ''s'')]"


section \<open>What is lost\<close>

text \<open>Over MQTT the publication depends on the data of the message only: the custom properties and the identifier that AMQP and HTTP
  send are dropped without an error.\<close>

lemma mqtt_publish_drops_properties:
  "Mqtt_sendEvent t (Some (m\<lparr>msg_properties := ps, msg_messageId := i, msg_correlationId := j\<rparr>)) = Mqtt_sendEvent t (Some m)"
  by (simp add: Mqtt_sendEvent_def MqttBase_publish_def)

text \<open>A batch that a connected client hands to the MQTT transport throws: the transport has no such method.\<close>

lemma mqtt_batch_throws:
  "cl_state c = SConnected \<Longrightarrow> Client_sendEventBatch c ms cb = (add_pending (pending.PSend cb) c, [TSendEventBatch ms])
     \<and> snd (mqtt_perform version t (TSendEventBatch ms)) = throw TypeError ''sendEventBatch is not a function''"
  by (simp add: Client_sendEventBatch_def fsm_handle_def connected_handle_def mqtt_perform_def)

end
