(* ===== verification/Twin_Mqtt.thy ===== *)
theory Twin_Mqtt
  imports Device_Twin Device_Mqtt
begin

text \<open>
  The twin of \<open>twin.js\<close> over the MQTT transport: what the twin asks of its receiver and of the transport goes
  to the definitions of \<open>mqtt.js\<close> and \<open>mqtt-twin-receiver.js\<close>, what they publish goes to the hub, and the messages of the
  hub come back through the receiver. The system covers the life of one connection, from \<open>getTwin\<close> until
  the token is renewed, with the events of the connection in any order.
\<close>

section \<open>The system\<close>

text \<open>
  \<open>sy_twin\<close> is the \<open>_twin\<close> of the client, \<open>sy_published\<close> every message published so far, \<open>sy_inbox\<close> those the hub has not
  answered, \<open>sy_acks\<close> the subscriptions that wait for their acknowledgement, \<open>sy_log\<close> the calls and events
  that leave the twin.
\<close>

record twin_system =
  sy_twin :: "twin option"
  sy_mqtt :: mqtt
  sy_published :: "(string \<times> string) list"
  sy_inbox :: "(string \<times> string) list"
  sy_acks :: "string list"
  sy_log :: "twin_effect list"

definition sys_init :: "mqtt \<Rightarrow> twin_system" where
  "sys_init m = \<lparr>sy_twin = None, sy_mqtt = m, sy_published = [], sy_inbox = [], sy_acks = [], sy_log = []\<rparr>"

definition sys_receiver :: "(mqtt_twin_receiver \<Rightarrow> mqtt_twin_receiver \<times> mqtt_effect list) \<Rightarrow> twin_system \<Rightarrow> twin_system" where
  "sys_receiver f s = (case mt_twinReceiver (sy_mqtt s) of
       None \<Rightarrow> s
     | Some r \<Rightarrow> s\<lparr>sy_mqtt := (sy_mqtt s)\<lparr>mt_twinReceiver := Some (fst (f r))\<rparr>\<rparr>)"

text \<open>What \<open>publish\<close> hands to the hub.\<close>

fun published :: "mqtt_effect \<Rightarrow> (string \<times> string) list" where
  "published (MqPublish topic body qos) = [(topic, body)]"
| "published _ = []"

fun twin_receiver_removeAll :: "nat \<Rightarrow> string \<Rightarrow> mqtt_twin_receiver \<Rightarrow> mqtt_twin_receiver \<times> mqtt_effect list" where
  "twin_receiver_removeAll 0 ev r = (r, [])"
| "twin_receiver_removeAll (Suc n) ev r = (let (r1, es) = twin_receiver_off ev r; (r2, es') = twin_receiver_removeAll n ev r1 in (r2, es @ es'))"

text \<open>One effect of the twin.\<close>

fun sys_effect :: "twin_system \<Rightarrow> twin_effect \<Rightarrow> twin_system" where
  "sys_effect s (SendTwinRequest verb resource rid body) =
     (case Mqtt_sendTwinRequest (sy_mqtt s) (JStr verb) (JStr resource) (JObj [(''$rid'', JNum rid)]) (JStr body) of
        Inl e \<Rightarrow> s\<lparr>sy_log := sy_log s @ [TwinThrow e]\<rparr>
      | Inr es \<Rightarrow> (let ps = concat (map published es) in s\<lparr>sy_published := sy_published s @ ps, sy_inbox := sy_inbox s @ ps\<rparr>))"
| "sys_effect s (TReceiverOn ev) = sys_receiver (twin_receiver_on ev) s"
| "sys_effect s (TReceiverRemoveListener ev) = sys_receiver (twin_receiver_off ev) s"
| "sys_effect s (TReceiverRemoveAll ev) = sys_receiver (\<lambda>r. twin_receiver_removeAll (listener_count (tr_listeners r) ev) ev r) s"
| "sys_effect s GetTwinReceiver = s"
| "sys_effect s ClientOnSasUpdated = s"
| "sys_effect s e = s\<lparr>sy_log := sy_log s @ [e]\<rparr>"

text \<open>An event of the twin.\<close>

definition sys_twin :: "twin_env \<Rightarrow> twin_event \<Rightarrow> twin_system \<Rightarrow> twin_system" where
  "sys_twin env ev s = (case sy_twin s of
       None \<Rightarrow> s
     | Some tw \<Rightarrow> (let (tw', es) = twin_handle env tw ev in foldl sys_effect (s\<lparr>sy_twin := Some tw'\<rparr>) es))"

text \<open>\<open>getTwin\<close>: the transport calls back with its receiver at once.\<close>

definition sys_getTwin :: "twin_env \<Rightarrow> nat \<Rightarrow> twin_system \<Rightarrow> twin_system" where
  "sys_getTwin env done s = (case Twin_fromDeviceClient True True (sy_twin s) (Some done) of
       Inl e \<Rightarrow> s\<lparr>sy_log := sy_log s @ [TwinThrow e]\<rparr>
     | Inr (tw, es) \<Rightarrow>
         (let s1 = foldl sys_effect (s\<lparr>sy_twin := tw\<rparr>) es in
          if GetTwinReceiver \<in> set es then
            (case Mqtt_getTwinReceiver (sy_mqtt s1) True of
               Inl e \<Rightarrow> s1\<lparr>sy_log := sy_log s1 @ [TwinThrow e]\<rparr>
             | Inr (m, r) \<Rightarrow> sys_twin env (EvReceiver (TwinDone done) None) (s1\<lparr>sy_mqtt := m\<rparr>))
          else s1))"

text \<open>The events the receiver emits, as the twin hears them.\<close>

fun sys_emit :: "twin_env \<Rightarrow> twin_system \<Rightarrow> mqtt_effect \<Rightarrow> twin_system" where
  "sys_emit env s (MqEmit ev v) =
     (if ev = ''response'' then sys_twin env (EvResponse \<lparr>rs_rid = jget v ''$rid'', rs_status = jget v ''status'', rs_body = jget v ''body''\<rparr>) s
      else if ev = ''post'' then sys_twin env (EvPost v) s
      else if ev = ''subscribed'' then sys_twin env (EvSubscribed (js_string (jget v ''eventName''))) s
      else if ev = ''error'' then sys_twin env (EvSubscribeError v) s
      else s)"
| "sys_emit env s _ = s"

text \<open>A message for the device: every handler that is attached to the MQTT client gets it.\<close>

record mqtt_parser =
  mp_url :: "string \<Rightarrow> (string \<times> string) option"
  mp_query :: "string \<Rightarrow> string dict"

definition sys_message :: "twin_env \<Rightarrow> mqtt_parser \<Rightarrow> string \<Rightarrow> jsval \<Rightarrow> twin_system \<Rightarrow> twin_system" where
  "sys_message env p topic body s = (case mt_twinReceiver (sy_mqtt s) of
       None \<Rightarrow> s
     | Some r \<Rightarrow> ((\<lambda>s. foldl (sys_emit env) s (MqttTwinReceiver_onMqttMessage (mp_url p) (mp_query p) topic body)) ^^ tr_handlers r) s)"

text \<open>The hub answers a request on the response topic, with the identifier it finds in the topic of the request.\<close>

definition topic_rid :: "string \<Rightarrow> string" where
  "topic_rid topic = tl (dropWhile (\<lambda>c. c \<noteq> CHR ''='') topic)"

definition answer_topic :: "string \<Rightarrow> string \<Rightarrow> string" where
  "answer_topic status rid = ''$iothub/twin/res/'' @ status @ ''/?$rid='' @ rid"

datatype system_event =
    SyGetTwin nat
  | SyUpdate jsval nat
  | SyTick
  | SySuback "js_error option"
  | SySubscribeTimeout nat
  | SyAnswer nat int jsval
  | SyLose nat
  | SyTimeout int
  | SyPatch jsval

fun sys_step :: "twin_env \<Rightarrow> mqtt_parser \<Rightarrow> twin_system \<Rightarrow> system_event \<Rightarrow> twin_system" where
  "sys_step env p s (SyGetTwin done) = sys_getTwin env done s"
| "sys_step env p s (SyUpdate state done) = sys_twin env (EvUpdate state done) s"
| "sys_step env p s SyTick = (case mt_twinReceiver (sy_mqtt s) of
       None \<Rightarrow> s
     | Some r \<Rightarrow> (sys_receiver MqttTwinReceiver_tick s)\<lparr>sy_acks := sy_acks s @ take 1 (tr_subscribing r)\<rparr>)"
| "sys_step env p s (SySuback err) = (case sy_acks s of
       [] \<Rightarrow> s
     | ev # evs \<Rightarrow> foldl (sys_emit env) (s\<lparr>sy_acks := evs\<rparr>) (MqttTwinReceiver_onSuback ev err JNull))"
| "sys_step env p s (SySubscribeTimeout k) = sys_twin env (EvSubscribeTimeout k) s"
| "sys_step env p s (SyAnswer i status body) =
     (if i < length (sy_inbox s)
      then sys_message env p (answer_topic (show_int status) (topic_rid (fst (sy_inbox s ! i)))) body
             (s\<lparr>sy_inbox := drop_nth i (sy_inbox s)\<rparr>)
      else s)"
| "sys_step env p s (SyLose i) = s\<lparr>sy_inbox := drop_nth i (sy_inbox s)\<rparr>"
| "sys_step env p s (SyTimeout rid) = sys_twin env (EvRequestTimeout rid) s"
| "sys_step env p s (SyPatch body) = sys_message env p ''$iothub/twin/PATCH/properties/desired/?$version=1'' body s"

definition sys_run :: "twin_env \<Rightarrow> mqtt_parser \<Rightarrow> twin_system \<Rightarrow> system_event list \<Rightarrow> twin_system" where
  "sys_run env p s evs = foldl (sys_step env p) s evs"

section \<open>Effects\<close>

text \<open>The state after an operation of the twin and the effects it asked for.\<close>

definition sys_apply :: "twin_system \<Rightarrow> twin \<times> twin_effect list \<Rightarrow> twin_system" where
  "sys_apply s acc = foldl sys_effect (s\<lparr>sy_twin := Some (fst acc)\<rparr>) (snd acc)"

lemma sys_twin_apply: "sy_twin s = Some tw \<Longrightarrow> sys_twin env ev s = sys_apply s (twin_handle env tw ev)"
  by (simp add: sys_twin_def sys_apply_def case_prod_beta Let_def)

lemma sys_receiver_twin: "sys_receiver f (s\<lparr>sy_twin := t\<rparr>) = (sys_receiver f s)\<lparr>sy_twin := t\<rparr>"
  by (simp add: sys_receiver_def split: option.split)

lemma sys_effect_twin: "sys_effect (s\<lparr>sy_twin := t\<rparr>) e = (sys_effect s e)\<lparr>sy_twin := t\<rparr>"
  by (cases e) (simp_all add: sys_receiver_twin Let_def split: sum.split)

lemma sys_effects_twin: "foldl sys_effect (s\<lparr>sy_twin := t\<rparr>) es = (foldl sys_effect s es)\<lparr>sy_twin := t\<rparr>"
  by (induction es arbitrary: s) (simp_all add: sys_effect_twin)

lemma sys_apply_cat: "sys_apply s (tw', es @ es') = sys_apply (sys_apply s (tw, es)) (tw', es')"
  by (simp add: sys_apply_def sys_effects_twin)

lemma sy_twin_apply [simp]: "sy_twin (sys_apply s acc) = Some (fst acc)"
  by (simp add: sys_apply_def sys_effects_twin)

text \<open>Effects that only leave the twin.\<close>

fun outward :: "twin_effect \<Rightarrow> bool" where
  "outward (CallTwinDone n e) \<longleftrightarrow> True"
| "outward (CallUpdateDone n e) \<longleftrightarrow> True"
| "outward (TwinEmit n v) \<longleftrightarrow> True"
| "outward (TwinThrow e) \<longleftrightarrow> True"
| "outward _ \<longleftrightarrow> False"

lemma outward_log: "outward e \<Longrightarrow> sys_effect s e = s\<lparr>sy_log := sy_log s @ [e]\<rparr>"
  by (cases e) simp_all

lemma outward_apply: "list_all outward es \<Longrightarrow> sys_apply s (tw, es) = s\<lparr>sy_twin := Some tw, sy_log := sy_log s @ es\<rparr>"
proof -
  have "list_all outward es \<Longrightarrow> foldl sys_effect s es = s\<lparr>sy_log := sy_log s @ es\<rparr>" for s
    by (induction es arbitrary: s) (simp_all add: outward_log)
  then show "list_all outward es \<Longrightarrow> ?thesis" by (simp add: sys_apply_def)
qed

lemma outward_done [simp]: "list_all outward (call_done d e)"
  by (cases d) simp_all

lemma outward_change [simp]: "list_all outward (Twin_fireChangeEvents env d)"
  by (auto simp: Twin_fireChangeEvents_def list_all_iff Let_def)

lemma outward_finished: "list_all outward (snd (request_finished env tw k err body))"
  by (simp add: request_finished_def update_finished_def get_finished_def Let_def split: request_kont.split option.split)

section \<open>The invariant\<close>

text \<open>
  The twin has its receiver and one \<open>post\<close> handler, its requests listen and have their own identifiers; the receiver
  is attached once and has one \<open>response\<close> listener for each request besides that of the subscription; the n-th
  message published carries the n-th identifier.
\<close>

definition twin_up :: "twin \<Rightarrow> bool" where
  "twin_up tw \<longleftrightarrow> tw_receiver tw \<and> tw_posts tw = 1 \<and> 4200 \<le> tw_rid tw \<and> distinct (map rq_rid (tw_requests tw))
     \<and> list_all (\<lambda>q. rq_listening q \<and> 4200 \<le> rq_rid q \<and> rq_rid q < tw_rid tw) (tw_requests tw)"

definition receiver_up :: "nat \<Rightarrow> mqtt_twin_receiver \<Rightarrow> bool" where
  "receiver_up n r \<longleftrightarrow> tr_handlers r = 1 \<and> listener_count (tr_listeners r) ''post'' = 1
     \<and> listener_count (tr_listeners r) ''response'' = Suc n"

definition wire_up :: "int \<Rightarrow> twin_system \<Rightarrow> bool" where
  "wire_up rid s \<longleftrightarrow> map (\<lambda>m. topic_rid (fst m)) (sy_published s) = map show_int [4200..rid - 1] \<and> subseq (sy_inbox s) (sy_published s)"

definition sys_up :: "twin \<Rightarrow> twin_system \<Rightarrow> bool" where
  "sys_up tw s \<longleftrightarrow> mb_client (mt_base (sy_mqtt s)) \<and> twin_up tw \<and> wire_up (tw_rid tw) s
     \<and> (\<exists>r. mt_twinReceiver (sy_mqtt s) = Some r \<and> receiver_up (length (tw_requests tw)) r)"

definition sys_inv :: "twin_system \<Rightarrow> bool" where
  "sys_inv s \<longleftrightarrow> (case sy_twin s of
       None \<Rightarrow> mb_client (mt_base (sy_mqtt s)) \<and> mt_twinReceiver (sy_mqtt s) = None \<and> sy_published s = [] \<and> sy_inbox s = []
     | Some tw \<Rightarrow> sys_up tw s)"

lemma sys_inv_apply: "sys_up (fst acc) (sys_apply s acc) \<Longrightarrow> sys_inv (sys_apply s acc)"
  by (simp add: sys_inv_def)

lemma sys_up_frame: "sys_up tw s \<Longrightarrow> sys_up tw (s\<lparr>sy_twin := t, sy_log := l\<rparr>)" "sys_up tw s \<Longrightarrow> sys_up tw (s\<lparr>sy_acks := a\<rparr>)"
  by (simp_all add: sys_up_def wire_up_def)

lemma topic_rid_after: "CHR ''='' \<notin> set xs \<Longrightarrow> topic_rid (xs @ CHR ''='' # rid) = rid"
proof -
  assume "CHR ''='' \<notin> set xs"
  then have "dropWhile (\<lambda>c. c \<noteq> CHR ''='') (xs @ CHR ''='' # rid) = dropWhile (\<lambda>c. c \<noteq> CHR ''='') (CHR ''='' # rid)"
    by (intro dropWhile_append2) auto
  then show ?thesis by (simp add: topic_rid_def)
qed

lemma topic_rid_request:
  "CHR ''='' \<notin> set verb \<Longrightarrow> CHR ''='' \<notin> set resource \<Longrightarrow> topic_rid (''$iothub/twin/'' @ verb @ resource @ ''?$rid='' @ rid) = rid"
  using topic_rid_after [of "''$iothub/twin/'' @ verb @ resource @ ''?$rid''" rid] by simp

lemma receiver_on_up: "receiver_up n r \<Longrightarrow> receiver_up (Suc n) (fst (twin_receiver_on ''response'' r))"
  by (simp add: receiver_up_def twin_receiver_on_def MqttTwinReceiver_handleNewListener_def twin_topic_def)

lemma receiver_off_up: "receiver_up (Suc n) r \<Longrightarrow> receiver_up n (fst (twin_receiver_off ''response'' r))"
  using listener_count_pos [of "tr_listeners r" "''response''"]
  by (simp add: receiver_up_def twin_receiver_off_def MqttTwinReceiver_handleRemoveListener_def twin_topic_def)

lemma receiver_other_up:
  "receiver_up n r \<Longrightarrow> ev \<noteq> ''response'' \<Longrightarrow> ev \<noteq> ''post'' \<Longrightarrow> receiver_up n (fst (twin_receiver_off ev r))"
  by (simp add: receiver_up_def twin_receiver_off_def MqttTwinReceiver_handleRemoveListener_def twin_topic_def)

lemma sys_up_sends:
  assumes "sys_up tw s" and "verb \<noteq> []" "resource \<noteq> []" "body \<noteq> []" "CHR ''='' \<notin> set verb" "CHR ''='' \<notin> set resource"
  shows "sys_up (fst (Twin_sendTwinRequest tw verb resource body k)) (sys_apply s (Twin_sendTwinRequest tw verb resource body k))"
proof -
  obtain r where r: "mt_twinReceiver (sy_mqtt s) = Some r" "receiver_up (length (tw_requests tw)) r"
    using assms(1) by (auto simp: sys_up_def)
  let ?topic = "''$iothub/twin/'' @ verb @ resource @ ''?$rid='' @ show_int (tw_rid tw)"
  let ?s = "s\<lparr>sy_mqtt := (sy_mqtt s)\<lparr>mt_twinReceiver := Some (fst (twin_receiver_on ''response'' r))\<rparr>\<rparr>"
  have up: "tw_receiver tw" "mb_client (mt_base (sy_mqtt s))" "4200 \<le> tw_rid tw" "wire_up (tw_rid tw) s"
    using assms(1) by (simp_all add: sys_up_def twin_up_def)
  have "Mqtt_sendTwinRequest (sy_mqtt ?s) (JStr verb) (JStr resource) (JObj [(''$rid'', JNum (tw_rid tw))]) (JStr body)
      = Inr [MqPublish ?topic body 0]"
    using mqtt_twin_request_topic [of "sy_mqtt ?s" verb resource body "[(''$rid'', JNum (tw_rid tw))]"] assms(2-4) up(2)
    by (simp add: print_pairs_def print_pair_def)
  then have s': "sys_apply s (Twin_sendTwinRequest tw verb resource body k)
      = ?s\<lparr>sy_twin := Some (fst (Twin_sendTwinRequest tw verb resource body k)),
           sy_published := sy_published s @ [(?topic, body)], sy_inbox := sy_inbox s @ [(?topic, body)]\<rparr>"
    using up(1) r(1) by (simp add: Twin_sendTwinRequest_def sys_apply_def sys_effects_twin sys_receiver_def Let_def)
  have "wire_up (tw_rid tw + 1) (s\<lparr>sy_published := sy_published s @ [(?topic, body)], sy_inbox := sy_inbox s @ [(?topic, body)]\<rparr>)"
    using up(3,4) topic_rid_request [OF assms(5,6), of "show_int (tw_rid tw)"]
    by (simp add: wire_up_def upto_rec2 list_emb_append_mono)
  moreover have "twin_up (fst (Twin_sendTwinRequest tw verb resource body k))"
    using assms(1) by (auto simp: sys_up_def twin_up_def Twin_sendTwinRequest_def list_all_iff)
  ultimately show ?thesis
    unfolding s' using r(2) up(1,2) receiver_on_up [OF r(2)]
    by (simp add: sys_up_def wire_up_def Twin_sendTwinRequest_def)
qed

section \<open>Every event keeps the invariant\<close>

lemma requests_without:
  "distinct (map rq_rid rs) \<Longrightarrow> r \<in> set rs \<Longrightarrow> filter (\<lambda>q. rq_rid q \<noteq> rq_rid r) rs = remove1 r rs"
proof (induction rs)
  case (Cons q rs)
  have "rq_rid x \<noteq> rq_rid q" if "x \<in> set rs" for x using Cons.prems(1) that by (auto simp: image_iff)
  with Cons show ?case by (cases "q = r") (auto simp: filter_id_conv)
qed simp

definition without_request :: "twin_request \<Rightarrow> twin \<Rightarrow> twin" where
  "without_request r tw = tw\<lparr>tw_requests := remove1 r (tw_requests tw)\<rparr>"

lemma finished_frame:
  "twin_up (fst (request_finished env tw k err body)) = twin_up tw"
  "tw_requests (fst (request_finished env tw k err body)) = tw_requests tw"
  "tw_rid (fst (request_finished env tw k err body)) = tw_rid tw"
  by (simp_all add: twin_up_def request_finished_def update_finished_def get_finished_def Let_def
      split: request_kont.split option.split)

lemma cleanup_parts:
  assumes "distinct (map rq_rid (tw_requests tw))" and "r \<in> set (tw_requests tw)"
  shows "request_cleanup env tw r err body = (fst (request_finished env (without_request r tw) (rq_kont r) err body),
    TReceiverRemoveListener ''response'' # snd (request_finished env (without_request r tw) (rq_kont r) err body))"
  by (simp add: request_cleanup_def requests_without [OF assms] without_request_def case_prod_beta Let_def)

lemma without_up: "twin_up tw \<Longrightarrow> twin_up (without_request r tw)"
  by (auto simp: twin_up_def without_request_def list_all_iff distinct_map inj_on_def dest: notin_set_remove1)

text \<open>The end of a request: its listener goes, its continuation runs.\<close>

lemma cleanup_system:
  assumes "sys_up tw s" and r: "r \<in> set (tw_requests tw)"
  shows "sys_up (fst (request_cleanup env tw r err body)) (sys_apply s (request_cleanup env tw r err body))"
    and "sy_log (sys_apply s (request_cleanup env tw r err body))
      = sy_log s @ snd (request_finished env (without_request r tw) (rq_kont r) err body)"
    and "sy_inbox (sys_apply s (request_cleanup env tw r err body)) = sy_inbox s"
    and "sy_published (sys_apply s (request_cleanup env tw r err body)) = sy_published s"
proof -
  obtain rc where rc: "mt_twinReceiver (sy_mqtt s) = Some rc" "receiver_up (length (tw_requests tw)) rc"
    using assms(1) by (auto simp: sys_up_def)
  have d: "distinct (map rq_rid (tw_requests tw))" using assms(1) by (simp add: sys_up_def twin_up_def)
  let ?s = "s\<lparr>sy_mqtt := (sy_mqtt s)\<lparr>mt_twinReceiver := Some (fst (twin_receiver_off ''response'' rc))\<rparr>\<rparr>"
  let ?f = "request_finished env (without_request r tw) (rq_kont r) err body"
  have s': "sys_apply s (request_cleanup env tw r err body) = ?s\<lparr>sy_twin := Some (fst ?f), sy_log := sy_log s @ snd ?f\<rparr>"
    using sys_apply_cat [of s "fst ?f" "[TReceiverRemoveListener ''response'']" "snd ?f" "fst ?f"]
      outward_apply [OF outward_finished, of _ "fst ?f" env "without_request r tw" "rq_kont r" err body] rc(1)
    unfolding cleanup_parts [OF d r]
    by (simp add: sys_apply_def sys_receiver_def)
  have "length (tw_requests tw) = Suc (length (remove1 r (tw_requests tw)))"
    using r length_pos_if_in_set [OF r] by (simp add: length_remove1)
  then have "receiver_up (length (tw_requests (without_request r tw))) (fst (twin_receiver_off ''response'' rc))"
    using rc(2) receiver_off_up by (simp add: without_request_def)
  then show "sys_up (fst (request_cleanup env tw r err body)) (sys_apply s (request_cleanup env tw r err body))"
    unfolding s' using assms(1) without_up [of tw r]
    by (simp add: cleanup_parts [OF d r] sys_up_def finished_frame wire_up_def) (simp add: without_request_def)
  show "sy_log (sys_apply s (request_cleanup env tw r err body)) = sy_log s @ snd ?f"
    and "sy_inbox (sys_apply s (request_cleanup env tw r err body)) = sy_inbox s"
    and "sy_published (sys_apply s (request_cleanup env tw r err body)) = sy_published s"
    unfolding s' by simp_all
qed

text \<open>A response: the request with its identifier ends, if it is still under way.\<close>

definition response_end :: "twin_env \<Rightarrow> twin_response \<Rightarrow> js_error option \<times> jsval" where
  "response_end env resp = (if js_string (rs_status resp) = ''200'' \<or> js_string (rs_status resp) = ''204''
     then (None, rs_body resp) else (Some (Twin_translateError (response_val_twin resp) (rs_status resp)), JUndef))"

lemma response_single:
  assumes "twin_up tw" and "js_string (rs_rid resp) = show_int rid" and "0 \<le> rid"
  shows "Twin_onResponse env tw resp = (case find (\<lambda>q. rq_rid q = rid) (tw_requests tw) of
       None \<Rightarrow> (tw, [])
     | Some r \<Rightarrow> request_cleanup env tw r (fst (response_end env resp)) (snd (response_end env resp)))"
proof -
  have all: "filter rq_listening (tw_requests tw) = tw_requests tw" and pos: "\<forall>q\<in>set (tw_requests tw). 0 \<le> rq_rid q"
    and d: "distinct (map rq_rid (tw_requests tw))"
    using assms(1) by (auto simp: twin_up_def list_all_iff)
  show ?thesis
  proof (cases "find (\<lambda>q. rq_rid q = rid) (tw_requests tw)")
    case None
    then have "js_string (rs_rid resp) \<noteq> show_int (rq_rid q)" if "q \<in> set (tw_requests tw)" for q
      using that assms(2,3) pos by (auto simp: find_None_iff show_int_inj)
    then show ?thesis by (simp add: Twin_onResponse_def all None foldl_handleResponse_other)
  next
    case (Some r)
    then have r: "r \<in> set (tw_requests tw)" "rq_rid r = rid" by (auto simp: find_Some_iff)
    have "foldl (handleResponse env resp) (tw, []) (tw_requests tw) = handleResponse env resp (tw, []) r"
      using assms(2) r pos d by (intro handleResponse_single) auto
    then show ?thesis using Some assms(2) r(2)
      by (simp add: Twin_onResponse_def all handleResponse_def response_end_def case_prod_beta)
  qed
qed

lemma sys_apply_nop: "sys_apply s (tw, []) = s\<lparr>sy_twin := Some tw\<rparr>"
  by (simp add: sys_apply_def)

lemma response_up:
  assumes "sys_up tw s" and "js_string (rs_rid resp) = show_int rid" and "0 \<le> rid"
  shows "sys_up (fst (Twin_onResponse env tw resp)) (sys_apply s (Twin_onResponse env tw resp))"
proof -
  have tw: "twin_up tw" using assms(1) by (simp add: sys_up_def)
  show ?thesis
  proof (cases "find (\<lambda>q. rq_rid q = rid) (tw_requests tw)")
    case None
    then show ?thesis
      using assms(1) response_single [OF tw assms(2,3), of env] sys_up_frame(1) [of tw s "sy_log s" "Some tw"]
      by (simp add: sys_apply_nop)
  next
    case (Some r)
    then have "r \<in> set (tw_requests tw)" by (auto simp: find_Some_iff)
    with Some show ?thesis using response_single [OF tw assms(2,3), of env] cleanup_system(1) [OF assms(1)] by simp
  qed
qed

lemma timeout_up:
  assumes "sys_up tw s"
  shows "sys_up (fst (Twin_onRequestTimeout env tw rid)) (sys_apply s (Twin_onRequestTimeout env tw rid))"
proof (cases "find (\<lambda>q. rq_rid q = rid) (tw_requests tw)")
  case None
  then show ?thesis using assms sys_up_frame(1) [of tw s "sy_log s" "Some tw"] by (simp add: Twin_onRequestTimeout_def sys_apply_nop)
next
  case (Some r)
  then have "r \<in> set (tw_requests tw)" by (auto simp: find_Some_iff)
  with Some show ?thesis using cleanup_system(1) [OF assms] by (simp add: Twin_onRequestTimeout_def)
qed

text \<open>Effects that leave the listeners for twin messages alone.\<close>

lemma mild_effects:
  assumes "sys_up tw s" and "list_all (\<lambda>e. outward e \<or> e \<in> set subscription_cleanup) es"
  shows "sys_up tw (foldl sys_effect s es)"
  using assms
proof (induction es arbitrary: s)
  case (Cons e es)
  obtain r where r: "mt_twinReceiver (sy_mqtt s) = Some r" "receiver_up (length (tw_requests tw)) r"
    using Cons.prems(1) by (auto simp: sys_up_def)
  have "sys_up tw (sys_effect s e)"
  proof (cases "outward e")
    case True
    then show ?thesis using Cons.prems(1) sys_up_frame(1) [of tw s "sy_log s @ [e]" "sy_twin s"] by (simp add: outward_log)
  next
    case False
    with Cons.prems(2) obtain ev where ev: "e = TReceiverRemoveListener ev" "ev = ''subscribed'' \<or> ev = ''error''"
      by (auto simp: subscription_cleanup_def)
    from ev(2) have "receiver_up (length (tw_requests tw)) (fst (twin_receiver_off ev r))"
      using receiver_other_up [OF r(2), of ev] by auto
    with ev(1) r(1) Cons.prems(1) show ?thesis by (simp add: sys_receiver_def sys_up_def wire_up_def)
  qed
  with Cons.IH Cons.prems(2) show ?case by simp
qed simp

lemma mild_apply:
  assumes "sys_up tw s" and "list_all (\<lambda>e. outward e \<or> e \<in> set subscription_cleanup) es"
  shows "sys_up tw (sys_apply s (tw', es))"
  using mild_effects [OF sys_up_frame(1) [OF assms(1), of "sy_log s" "Some tw'"] assms(2)] by (simp add: sys_apply_def)

lemma sys_up_twin: "twin_up tw' \<Longrightarrow> tw_requests tw' = tw_requests tw \<Longrightarrow> tw_rid tw' = tw_rid tw \<Longrightarrow> sys_up tw s \<Longrightarrow> sys_up tw' s"
  by (simp add: sys_up_def)

lemma getProperties_up:
  assumes "sys_up tw s"
  shows "sys_up (fst (Twin_getPropertiesFromService tw d)) (sys_apply s (Twin_getPropertiesFromService tw d))"
proof -
  have "sys_up (Twin_clearCachedProperties tw) s"
    using assms by (intro sys_up_twin [OF _ _ _ assms]) (simp_all add: sys_up_def twin_up_def Twin_clearCachedProperties_def)
  from sys_up_sends [OF this] show ?thesis by (simp add: Twin_getPropertiesFromService_def)
qed

lemma finish_up:
  assumes "sys_up (fst acc) (sys_apply s acc)"
  shows "sys_up (fst (finish_subscription acc x)) (sys_apply s (finish_subscription acc x))"
proof -
  let ?g = "Twin_getPropertiesFromService (fst acc) (sb_done x)"
  have "sys_up (fst acc) (sys_apply s (fst acc, snd acc @ subscription_cleanup))"
    using mild_apply [OF assms, of subscription_cleanup "fst acc"] sys_apply_cat [of s "fst acc" "snd acc" subscription_cleanup "fst acc"]
    by (simp add: list_all_iff)
  from getProperties_up [OF this, of "sb_done x"]
  have "sys_up (fst ?g) (sys_apply s (fst ?g, (snd acc @ subscription_cleanup) @ snd ?g))"
    using sys_apply_cat [of s "fst ?g" "snd acc @ subscription_cleanup" "snd ?g" "fst acc"] by simp
  then show ?thesis by (simp add: finish_subscription_def case_prod_beta Let_def)
qed

lemma subscribed_up:
  assumes "sys_up tw s"
  shows "sys_up (fst (Twin_onSubscribed tw ev)) (sys_apply s (Twin_onSubscribed tw ev))"
proof -
  have finish: "sys_up (fst acc) (sys_apply s acc) \<Longrightarrow>
      sys_up (fst (foldl finish_subscription acc xs)) (sys_apply s (foldl finish_subscription acc xs))" for acc xs
    by (induction xs arbitrary: acc) (simp_all add: finish_up)
  have "sys_up (tw\<lparr>tw_subscriptions := subs\<rparr>) s" for subs
    using assms by (intro sys_up_twin [OF _ _ _ assms]) (simp_all add: sys_up_def twin_up_def)
  then have marked: "sys_up (fst (tw\<lparr>tw_subscriptions := subs\<rparr>, [])) (sys_apply s (tw\<lparr>tw_subscriptions := subs\<rparr>, []))" for subs
    using mild_apply [of _ s "[]"] by simp
  have "sys_up tw (sys_apply s (tw, []))" using mild_apply [OF assms, of "[]"] by simp
  with finish [OF marked] show ?thesis by (simp only: Twin_onSubscribed_def Let_def fst_conv split: if_split) simp
qed

lemma post_up:
  assumes "sys_up tw s"
  shows "sys_up (fst (post_all env n tw body)) (sys_apply s (post_all env n tw body))"
proof -
  have keep: "list_all outward (snd (Twin_onServicePost env tw body))" "twin_up (fst (Twin_onServicePost env tw body)) = twin_up tw"
    "tw_requests (fst (Twin_onServicePost env tw body)) = tw_requests tw" "tw_rid (fst (Twin_onServicePost env tw body)) = tw_rid tw" for tw
    by (simp_all add: Twin_onServicePost_def twin_up_def split: option.split)
  have "list_all outward (snd (post_all env n tw body)) \<and> twin_up (fst (post_all env n tw body)) = twin_up tw
      \<and> tw_requests (fst (post_all env n tw body)) = tw_requests tw \<and> tw_rid (fst (post_all env n tw body)) = tw_rid tw"
    by (induction n arbitrary: tw) (simp_all add: keep case_prod_beta Let_def)
  moreover from this have "list_all (\<lambda>e. outward e \<or> e \<in> set subscription_cleanup) (snd (post_all env n tw body))"
    by (auto simp: list_all_iff)
  ultimately show ?thesis
    using mild_apply [OF assms, of "snd (post_all env n tw body)" "fst (post_all env n tw body)"] assms
    by (auto intro!: sys_up_twin [of _ tw] simp: sys_up_def)
qed

lemma subscribe_failed_up:
  assumes "sys_up tw s"
  shows "sys_up (fst (Twin_onSubscribeError tw t)) (sys_apply s (Twin_onSubscribeError tw t))"
    and "sys_up (fst (Twin_onSubscribeTimeout tw k)) (sys_apply s (Twin_onSubscribeTimeout tw k))"
proof -
  have calls: "list_all (\<lambda>e. outward e \<or> e \<in> set subscription_cleanup) (call_done d e)" for d e
    using outward_done [of d e] by (auto simp: list_all_iff)
  have up: "twin_up (tw\<lparr>tw_subscriptions := xs\<rparr>)" for xs using assms by (simp add: sys_up_def twin_up_def)
  have "list_all (\<lambda>e. outward e \<or> e \<in> set subscription_cleanup) (snd (Twin_onSubscribeError tw t))"
    using calls by (force simp: Twin_onSubscribeError_def list_all_iff)
  from mild_apply [OF assms this, of "fst (Twin_onSubscribeError tw t)"]
  show "sys_up (fst (Twin_onSubscribeError tw t)) (sys_apply s (Twin_onSubscribeError tw t))"
    using up by (auto intro!: sys_up_twin [of _ tw] simp: Twin_onSubscribeError_def)
  have "list_all (\<lambda>e. outward e \<or> e \<in> set subscription_cleanup) (snd (Twin_onSubscribeTimeout tw k))"
    using calls by (auto simp: Twin_onSubscribeTimeout_def list_all_iff)
  from mild_apply [OF assms this, of "fst (Twin_onSubscribeTimeout tw k)"]
  show "sys_up (fst (Twin_onSubscribeTimeout tw k)) (sys_apply s (Twin_onSubscribeTimeout tw k))"
    using up assms by (auto intro!: sys_up_twin [of _ tw] simp: Twin_onSubscribeTimeout_def sys_up_def)
qed

section \<open>Messages\<close>

text \<open>What \<open>url.parse\<close> and \<open>querystring.parse\<close> make of the topic of an answer.\<close>

definition parser_ok :: "mqtt_parser \<Rightarrow> bool" where
  "parser_ok p \<longleftrightarrow> (\<forall>status rid. mp_url p (answer_topic (show_int status) (show_int rid))
       = Some (answer_topic (show_int status) (show_int rid), ''$rid='' @ show_int rid)
     \<and> mp_query p (''$rid='' @ show_int rid) = [(''$rid'', show_int rid)])"

lemma show_int_plain: "CHR ''/'' \<notin> set (show_int n)" "CHR ''='' \<notin> set (show_int n)" "show_int n \<noteq> []"
  using show_nat_digits [of "CHR ''/''"] show_nat_digits [of "CHR ''=''"] by (auto simp: show_int_def)

lemma answer_path:
  "js_split ''/'' (answer_topic (show_int st) (show_int rid)) = [''$iothub'', ''twin'', ''res'', show_int st, ''?$rid='' @ show_int rid]"
proof -
  let ?ws = "[''$iothub'', ''twin'', ''res'', show_int st, ''?$rid='' @ show_int rid]"
  have "js_split ''/'' (js_join ''/'' ?ws) = ?ws"
    unfolding js_split_single using show_int_plain(1) by (intro split_on_join) auto
  then show ?thesis by (simp add: answer_topic_def)
qed

lemma answer_emitted:
  assumes "parser_ok p"
  shows "MqttTwinReceiver_onMqttMessage (mp_url p) (mp_query p) (answer_topic (show_int st) (show_int rid)) body
    = [MqEmit ''response'' (JObj [(''topic'', JStr (answer_topic (show_int st) (show_int rid))), (''status'', JStr (show_int st)),
         (''$rid'', JStr (show_int rid)), (''body'', body)])]"
proof -
  have "prefix ''$iothub/twin/res'' (answer_topic (show_int st) (show_int rid))" by (simp add: answer_topic_def)
  then show ?thesis
    using assms show_int_plain(3) by (simp add: parser_ok_def MqttTwinReceiver_onMqttMessage_def MqttTwinReceiver_onResponseMessage_def
      answer_path nth_opt_def numeral_2_eq_2 numeral_3_eq_3)
qed

definition answer :: "int \<Rightarrow> int \<Rightarrow> jsval \<Rightarrow> twin_response" where
  "answer status rid body = \<lparr>rs_rid = JStr (show_int rid), rs_status = JStr (show_int status), rs_body = body\<rparr>"

lemma answer_delivered:
  assumes "parser_ok p" and "sys_up tw s" and "sy_twin s = Some tw"
  shows "sys_message env p (answer_topic (show_int st) (show_int rid)) body s = sys_apply s (Twin_onResponse env tw (answer st rid body))"
  using assms by (auto simp: sys_message_def sys_up_def receiver_up_def answer_emitted sys_twin_apply answer_def)

lemma patch_delivered:
  assumes "sys_up tw s" and "sy_twin s = Some tw"
  shows "sys_message env p ''$iothub/twin/PATCH/properties/desired/?$version=1'' body s = sys_apply s (post_all env (tw_posts tw) tw body)"
  using assms by (auto simp: sys_message_def sys_up_def receiver_up_def MqttTwinReceiver_onMqttMessage_def
      MqttTwinReceiver_onPostMessage_def sys_twin_apply)

section \<open>Runs\<close>

lemma inv_cases:
  assumes "sys_inv s"
  obtains "sy_twin s = None" "mb_client (mt_base (sy_mqtt s))" "mt_twinReceiver (sy_mqtt s) = None" "sy_published s = []" "sy_inbox s = []"
    | tw where "sy_twin s = Some tw" "sys_up tw s"
  using assms by (auto simp: sys_inv_def split: option.splits)

lemma first_getTwin:
  assumes "sy_twin s = None" "mb_client (mt_base (sy_mqtt s))" "mt_twinReceiver (sy_mqtt s) = None" "sy_published s = []" "sy_inbox s = []"
  shows "sys_inv (sys_getTwin env n s)"
  using assms
  by (simp add: sys_getTwin_def Twin_fromDeviceClient_def Twin_connectSubscribeAndGetProperties_def Mqtt_getTwinReceiver_def
      MqttTwinReceiver_def sys_twin_def Twin_onReceiver_def Twin_subscribe_def sys_receiver_def twin_receiver_on_def
      MqttTwinReceiver_handleNewListener_def twin_topic_def startListeningIfFirstSubscription_def Twin_def
      sys_inv_def sys_up_def twin_up_def receiver_up_def wire_up_def case_prod_beta Let_def)

lemma inv_getTwin:
  assumes "sys_inv s"
  shows "sys_inv (sys_getTwin env n s)"
  using assms
proof (cases s rule: inv_cases)
  case 1
  then show ?thesis by (rule first_getTwin)
next
  case (2 tw)
  let ?g = "Twin_getPropertiesFromService tw (TwinDone n)"
  have "GetTwinReceiver \<notin> set (snd ?g)"
    by (simp add: Twin_getPropertiesFromService_def Twin_sendTwinRequest_def)
  then have "sys_getTwin env n s = sys_apply s ?g"
    using 2(1) by (simp add: sys_getTwin_def Twin_fromDeviceClient_def sys_apply_def case_prod_beta Let_def)
  then show ?thesis using getProperties_up [OF 2(2), of "TwinDone n"] by (simp add: sys_inv_def)
qed

lemma inv_twin:
  assumes "sys_inv s" and "\<And>tw. sy_twin s = Some tw \<Longrightarrow> sys_up tw s \<Longrightarrow>
      sys_up (fst (twin_handle env tw ev)) (sys_apply s (twin_handle env tw ev))"
  shows "sys_inv (sys_twin env ev s)"
  using assms(1)
proof (cases s rule: inv_cases)
  case 1
  then show ?thesis using assms(1) by (simp add: sys_twin_def)
next
  case (2 tw)
  then show ?thesis using assms(2) [OF 2] by (simp add: sys_twin_apply sys_inv_def)
qed

lemma inv_update: "sys_inv s \<Longrightarrow> (\<And>v. te_stringify env v \<noteq> []) \<Longrightarrow> sys_inv (sys_twin env (EvUpdate state n) s)"
  by (rule inv_twin) (simp_all add: Twin_updateReportedProperties_def sys_up_sends)

lemma wire_identifier:
  assumes "sys_up tw s" and "i < length (sy_inbox s)"
  obtains rid where "topic_rid (fst (sy_inbox s ! i)) = show_int rid" "4200 \<le> rid" "rid < tw_rid tw"
proof -
  have "sy_inbox s ! i \<in> set (sy_published s)"
    using assms list_emb_set [of "(=)" "sy_inbox s" "sy_published s" "sy_inbox s ! i"] by (force simp: sys_up_def wire_up_def)
  then have "topic_rid (fst (sy_inbox s ! i)) \<in> set (map (\<lambda>m. topic_rid (fst m)) (sy_published s))" by force
  then show ?thesis using assms(1) that unfolding sys_up_def wire_up_def by auto
qed

lemma subseq_drop_nth: "subseq (drop_nth i xs) xs"
proof -
  have "subseq (drop 1 (drop i xs)) (drop i xs)" by (intro suffix_imp_subseq suffix_drop)
  then have "subseq (take i xs @ drop (Suc i) xs) (take i xs @ drop i xs)" by (intro list_emb_append_mono) simp_all
  then show ?thesis by (simp add: drop_nth_def)
qed

lemma lose_up: "sys_up tw s \<Longrightarrow> sys_up tw (s\<lparr>sy_inbox := drop_nth i (sy_inbox s)\<rparr>)"
  using subseq_order.trans [OF subseq_drop_nth] by (auto simp: sys_up_def wire_up_def)

lemma inv_step:
  assumes "sys_inv s" and "parser_ok p" and "\<And>v. te_stringify env v \<noteq> []"
  shows "sys_inv (sys_step env p s e)"
proof (cases e)
  case (SyTick)
  then show ?thesis using assms(1)
    by (auto simp: sys_inv_def sys_up_def receiver_up_def wire_up_def sys_receiver_def MqttTwinReceiver_tick_def
        split: option.splits list.split)
next
  case (SySuback err)
  have "sys_inv (s\<lparr>sy_acks := evs\<rparr>)" for evs using assms(1) sys_up_frame(2) by (auto simp: sys_inv_def split: option.splits)
  then show ?thesis using SySuback assms(1)
    by (auto simp: MqttTwinReceiver_onSuback_def MqttTwinReceiver_handleError_def subscribed_up subscribe_failed_up(1)
        split: list.split option.split intro!: inv_twin)
next
  case (SyAnswer i st body)
  from assms(1) show ?thesis
  proof (cases s rule: inv_cases)
    case 1
    then show ?thesis using SyAnswer assms(1) by simp
  next
    case (2 tw)
    show ?thesis
    proof (cases "i < length (sy_inbox s)")
      case True
      obtain rid where rid: "topic_rid (fst (sy_inbox s ! i)) = show_int rid" "4200 \<le> rid"
        using wire_identifier [OF 2(2) True] by blast
      have "sys_up (fst (Twin_onResponse env tw (answer st rid body)))
          (sys_apply (s\<lparr>sy_inbox := drop_nth i (sy_inbox s)\<rparr>) (Twin_onResponse env tw (answer st rid body)))"
        using rid(2) by (intro response_up [OF lose_up [OF 2(2)], of _ rid]) (simp_all add: answer_def)
      then show ?thesis
        using SyAnswer True rid(1) answer_delivered [OF assms(2) lose_up [OF 2(2)]] 2(1) by (simp add: sys_inv_def)
    qed (use SyAnswer assms(1) in simp)
  qed
next
  case (SyLose i)
  then show ?thesis using assms(1) lose_up by (auto simp: sys_inv_def drop_nth_def split: option.splits)
next
  case (SyPatch body)
  from assms(1) show ?thesis
  proof (cases s rule: inv_cases)
    case 1
    then show ?thesis using SyPatch assms(1) by (simp add: sys_message_def)
  next
    case (2 tw)
    then show ?thesis using SyPatch post_up [OF 2(2)] by (simp add: patch_delivered sys_inv_def)
  qed
qed (use assms in \<open>simp_all add: inv_getTwin inv_update inv_twin timeout_up subscribe_failed_up(2)\<close>)

lemma inv_run:
  assumes "sys_inv s" and "parser_ok p" and "\<And>v. te_stringify env v \<noteq> []"
  shows "sys_inv (sys_run env p s evs)"
  using assms(1) unfolding sys_run_def by (induction evs arbitrary: s) (simp_all add: inv_step assms(2,3))

lemma inv_connected:
  assumes "Mqtt_connect version m0 = Inr (m, es)"
  shows "sys_inv (sys_init m)"
  using assms by (auto simp: sys_inv_def sys_init_def Mqtt_connect_def MqttBase_connect_def res_bind_Inr_iff Let_def split: if_splits)

section \<open>Properties\<close>


definition sample_parser :: mqtt_parser where
  "sample_parser = \<lparr>mp_url = (\<lambda>t. Some (t, ''$rid='' @ topic_rid t)), mp_query = (\<lambda>q. [(''$rid'', topic_rid q)])\<rparr>"

lemma sample_parser_ok: "parser_ok sample_parser"
proof -
  have "topic_rid (answer_topic (show_int st) rid) = rid" for st rid
    using topic_rid_after [of "''$iothub/twin/res/'' @ show_int st @ ''/?$rid''" rid] show_int_plain(2)
    by (simp add: answer_topic_def)
  moreover have "topic_rid (''$rid='' @ rid) = rid" for rid using topic_rid_after [of "''$rid''" rid] by simp
  ultimately show ?thesis by (simp add: parser_ok_def sample_parser_def)
qed

definition sample_mqtt_config :: "jsval dict" where
  "sample_mqtt_config = [(''host'', JStr ''h''), (''deviceId'', JStr ''d''), (''sharedAccessSignature'', JStr ''s'')]"

definition sample_twin_env :: twin_env where
  "sample_twin_env = demo_env\<lparr>te_stringify := (\<lambda>_. ''x'')\<rparr>"

definition sample_connected :: mqtt where
  "sample_connected = fst (projr (Mqtt_connect ''1'' (Mqtt sample_mqtt_config)))"

lemma sample_connects: "\<exists>es. Mqtt_connect ''1'' (Mqtt sample_mqtt_config) = Inr (sample_connected, es)"
  by (simp add: sample_connected_def Mqtt_connect_def Mqtt_def sample_mqtt_config_def MqttBase_connect_def mqtt_config_ok_def Let_def)

definition sample_session :: "system_event list" where
  "sample_session = [SyGetTwin 0, SyTick, SyTick, SySuback None, SySuback None, SyUpdate JNull 1]"

lemmas sample_eval = sys_run_def sample_session_def sys_init_def sys_getTwin_def Twin_fromDeviceClient_def Twin_connectSubscribeAndGetProperties_def
  Mqtt_getTwinReceiver_def MqttTwinReceiver_def sys_twin_def Twin_onReceiver_def Twin_subscribe_def sys_receiver_def twin_receiver_on_def
  MqttTwinReceiver_handleNewListener_def twin_topic_def startListeningIfFirstSubscription_def Twin_def MqttTwinReceiver_tick_def
  MqttTwinReceiver_onSuback_def Twin_onSubscribed_def mark_topic_def both_topics_def finish_subscription_def
  Twin_getPropertiesFromService_def Twin_clearCachedProperties_def Twin_sendTwinRequest_def subscription_cleanup_def
  twin_receiver_off_def MqttTwinReceiver_handleRemoveListener_def Twin_updateReportedProperties_def
  Mqtt_sendTwinRequest_def twin_property_def

lemma sample_connected_eval: "mb_client (mt_base sample_connected)" "mt_twinReceiver sample_connected = None"
  by (simp_all add: sample_connected_def Mqtt_connect_def Mqtt_def sample_mqtt_config_def MqttBase_connect_def mqtt_config_ok_def Let_def)

lemma sample_run:
  "\<exists>tw l a m. sys_run sample_twin_env sample_parser (sys_init sample_connected) sample_session
     = \<lparr>sy_twin = Some tw, sy_mqtt = m,
        sy_published = [(''$iothub/twin/GET/?$rid='' @ show_int 4200, '' ''), (''$iothub/twin/PATCH/properties/reported/?$rid='' @ show_int 4201, ''x'')],
        sy_inbox = [(''$iothub/twin/GET/?$rid='' @ show_int 4200, '' ''), (''$iothub/twin/PATCH/properties/reported/?$rid='' @ show_int 4201, ''x'')],
        sy_acks = a, sy_log = l\<rparr> \<and> tw_rid tw = 4202
     \<and> tw_requests tw = [\<lparr>rq_rid = 4200, rq_listening = True, rq_kont = KGet (TwinDone 0)\<rparr>,
                          \<lparr>rq_rid = 4201, rq_listening = True, rq_kont = KUpdate JNull 1\<rparr>]
     \<and> tw_properties tw = Some (JObj [(''update'', JFun 0)], JObj [])"
  by (simp add: sample_eval sample_connected_eval Let_def) (simp add: sample_twin_env_def)


lemma show_int_eq: "show_int m = show_int n \<longleftrightarrow> m = n"
proof -
  have "show_nat k \<noteq> CHR ''-'' # xs" for k xs
    using show_nat_digits [of "CHR ''-''" k] by auto
  then show ?thesis by (auto simp: show_int_def) metis
qed

lemma show_status: "show_int st = ''200'' \<longleftrightarrow> st = 200" "show_int st = ''204'' \<longleftrightarrow> st = 204"
proof -
  have "show_int 200 = ''200''" "show_int 204 = ''204''" by code_simp+
  then show "show_int st = ''200'' \<longleftrightarrow> st = 200" "show_int st = ''204'' \<longleftrightarrow> st = 204"
    using show_int_eq [of st 200] show_int_eq [of st 204] by (simp_all only:)
qed

text \<open>C24: when the hub answers a published twin request on the response topic, in any reachable state of the connection, the twin
  request with the identifier of that topic ends and no other: its continuation runs once, with the body for status 200 or 204 and
  with an error otherwise. If the request has already timed out, the answer changes nothing. The answered message is not waiting any more.\<close>

theorem twin_mqtt_answer:
  assumes "Mqtt_connect version m0 = Inr (m, es)" and "parser_ok p" and "\<And>v. te_stringify env v \<noteq> []"
    and "s = sys_run env p (sys_init m) evs" and "sy_twin s = Some tw" and "i < length (sy_inbox s)"
    and "s' = sys_step env p s (SyAnswer i status body)"
  shows "sy_inbox s' = drop_nth i (sy_inbox s) \<and> (\<exists>rid. topic_rid (fst (sy_inbox s ! i)) = show_int rid \<and>
    (case find (\<lambda>q. rq_rid q = rid) (tw_requests tw) of
       None \<Rightarrow> sy_twin s' = Some tw \<and> sy_log s' = sy_log s
     | Some r \<Rightarrow> map_option tw_requests (sy_twin s') = Some (remove1 r (tw_requests tw))
         \<and> sy_log s' = sy_log s @ snd (request_finished env (without_request r tw) (rq_kont r)
             (if status \<in> {200, 204} then None
              else Some (Twin_translateError (response_val_twin (answer status rid body)) (JStr (show_int status))))
             (if status \<in> {200, 204} then body else JUndef))))"
proof -
  have up: "sys_up tw s" using inv_run [OF inv_connected [OF assms(1)] assms(2,3), of evs] assms(4,5) by (simp add: sys_inv_def)
  obtain rid where rid: "topic_rid (fst (sy_inbox s ! i)) = show_int rid" "4200 \<le> rid"
    using wire_identifier [OF up assms(6)] by blast
  let ?s = "s\<lparr>sy_inbox := drop_nth i (sy_inbox s)\<rparr>" and ?a = "answer status rid body"
  note up' = lose_up [OF up, of i]
  have s': "s' = sys_apply ?s (Twin_onResponse env tw ?a)"
    using assms(5-7) rid(1) answer_delivered [OF assms(2) up'] by simp
  have one: "Twin_onResponse env tw ?a = (case find (\<lambda>q. rq_rid q = rid) (tw_requests tw) of
       None \<Rightarrow> (tw, []) | Some r \<Rightarrow> request_cleanup env tw r (fst (response_end env ?a)) (snd (response_end env ?a)))"
    using up rid(2) by (intro response_single) (simp_all add: sys_up_def answer_def)
  have ended: "response_end env ?a = (if status \<in> {200, 204} then None
      else Some (Twin_translateError (response_val_twin ?a) (JStr (show_int status))), if status \<in> {200, 204} then body else JUndef)"
    by (simp add: response_end_def answer_def show_status)
  show ?thesis
  proof (cases "find (\<lambda>q. rq_rid q = rid) (tw_requests tw)")
    case None
    with s' one have "s' = ?s\<lparr>sy_twin := Some tw\<rparr>" by (simp add: sys_apply_nop)
    with None rid(1) show ?thesis by (simp add: show_int_eq)
  next
    case (Some r)
    then have r: "r \<in> set (tw_requests tw)" by (auto simp: find_Some_iff)
    have d: "distinct (map rq_rid (tw_requests tw))" using up by (simp add: sys_up_def twin_up_def)
    from Some s' one have "s' = sys_apply ?s (request_cleanup env tw r (fst (response_end env ?a)) (snd (response_end env ?a)))" by simp
    with cleanup_system(2,3) [OF up' r] Some rid(1) show ?thesis
      unfolding ended by (simp add: show_int_eq cleanup_parts [OF d r] finished_frame) (simp add: without_request_def)
  qed
qed

theorem twin_mqtt_answer_witness:
  "let s = sys_run sample_twin_env sample_parser (sys_init sample_connected) sample_session;
       s' = sys_step sample_twin_env sample_parser s (SyAnswer 1 204 JNull) in
   sy_log s' = sy_log s @ [CallUpdateDone 1 None]
   \<and> map_option tw_requests (sy_twin s') = Some [\<lparr>rq_rid = 4200, rq_listening = True, rq_kont = KGet (TwinDone 0)\<rparr>]"
proof -
  obtain es where m: "Mqtt_connect ''1'' (Mqtt sample_mqtt_config) = Inr (sample_connected, es)" using sample_connects by blast
  define s where "s = sys_run sample_twin_env sample_parser (sys_init sample_connected) sample_session"
  obtain tw where tw: "sy_twin s = Some tw" "tw_properties tw = Some (JObj [(''update'', JFun 0)], JObj [])"
    "tw_requests tw = [\<lparr>rq_rid = 4200, rq_listening = True, rq_kont = KGet (TwinDone 0)\<rparr>,
                       \<lparr>rq_rid = 4201, rq_listening = True, rq_kont = KUpdate JNull 1\<rparr>]"
    and inbox: "length (sy_inbox s) = 2" "sy_inbox s ! 1 = (''$iothub/twin/PATCH/properties/reported/?$rid='' @ show_int 4201, ''x'')"
    using sample_run unfolding s_def by fastforce
  have "te_stringify sample_twin_env v \<noteq> []" for v by (simp add: sample_twin_env_def)
  moreover have "topic_rid (fst (sy_inbox s ! 1)) = show_int 4201"
    using topic_rid_request [of "''PATCH''" "''/properties/reported/''" "show_int 4201"] unfolding inbox(2) by simp
  ultimately show ?thesis
    using twin_mqtt_answer [OF m sample_parser_ok _ s_def tw(1) _ refl, of 1 204 JNull] inbox(1)
    unfolding s_def [symmetric] Let_def
    by (auto simp: show_int_eq tw request_finished_def update_finished_def without_request_def)
qed

end
