(* ===== verification/Method_Mqtt.thy ===== *)
theory Method_Mqtt
  imports Device_Services Device_Mqtt
begin

text \<open>
  A direct method over the MQTT transport, from the topic on which the hub publishes the call to the topic on which the
  device publishes its answer: \<open>mqtt_receiver.js\<close> parses the call, \<open>client.js\<close> builds the request and the response
  from the message, the handler of the application calls \<open>send\<close>, and \<open>mqtt.js\<close> publishes what \<open>send\<close> hands to it.
\<close>

section \<open>The parts joined\<close>

text \<open>A field of the message as the client reads it, and a response as the transport reads it.\<close>

definition optional_string :: "string option \<Rightarrow> jsval" where
  "optional_string v = (case v of Some s \<Rightarrow> JStr s | None \<Rightarrow> JUndef)"

definition method_response_val :: "method_response \<Rightarrow> jsval" where
  "method_response_val mr = JObj [(''requestId'', JStr (mr_requestId mr)), (''isResponseComplete'', JBool (mr_isResponseComplete mr)),
     (''status'', mr_status mr), (''payload'', mr_payload mr)]"

text \<open>The callback that \<open>_addMethodCallback\<close> registers with the receiver.\<close>

definition method_arrives :: "(string \<Rightarrow> jsval option) \<Rightarrow> method_message \<Rightarrow> (method_request \<times> method_response) res" where
  "method_arrives json_parse msg =
     client_methodMessage json_parse (optional_string (mm_requestId msg)) (optional_string (mm_methodName msg)) (mm_body msg)"

text \<open>What is published for the calls of \<open>send\<close> that a handler makes; a call that throws publishes nothing.\<close>

definition method_answers ::
  "(jsval \<Rightarrow> string) \<Rightarrow> mqtt \<Rightarrow> method_response \<Rightarrow> (jsval \<times> jsval \<times> jsval) list \<Rightarrow> mqtt_effect list" where
  "method_answers json_stringify m response calls =
     concat (map (\<lambda>mr. case Mqtt_sendMethodResponse json_stringify m (method_response_val mr) of Inl e \<Rightarrow> [] | Inr es \<Rightarrow> es)
       (send_all response calls))"

text \<open>The calls that \<open>send\<close> refuses at once, and the payload of one it accepts.\<close>

definition refused :: "jsval \<times> jsval \<times> jsval \<Rightarrow> bool" where
  "refused call \<longleftrightarrow> (case call of (status, payload, done) \<Rightarrow> \<not> is_num status \<or> is_fun payload \<and> done \<noteq> JUndef)"

definition sent_payload :: "jsval \<Rightarrow> jsval" where
  "sent_payload payload = (if is_fun payload then JNull else payload)"

section \<open>One answer\<close>

lemma send_all_refused: "list_all refused calls \<Longrightarrow> send_all mr (calls @ rest) = send_all mr rest"
proof (induction calls)
  case (Cons c calls)
  obtain st pl cb where c: "c = (st, pl, cb)" by (cases c)
  with Cons.prems have "\<exists>e. DeviceMethodResponse_send mr st pl cb = Inl e"
    by (auto simp: DeviceMethodResponse_send_def refused_def)
  with Cons c show ?case by auto
qed simp

lemma send_all_first:
  assumes "\<not> mr_isResponseComplete mr" and "list_all refused bad" and "\<not> refused (JNum st, pl, cb)"
  shows "send_all mr (bad @ (JNum st, pl, cb) # rest)
    = [mr\<lparr>mr_status := JNum st, mr_payload := sent_payload pl, mr_isResponseComplete := True\<rparr>]"
proof -
  have "\<exists>cb'. DeviceMethodResponse_send mr (JNum st) pl cb
      = Inr (mr\<lparr>mr_status := JNum st, mr_payload := sent_payload pl, mr_isResponseComplete := True\<rparr>, cb')"
    using assms(1,3) by (auto simp: DeviceMethodResponse_send_def refused_def sent_payload_def)
  then show ?thesis by (auto simp: send_all_refused [OF assms(2)] send_complete)
qed

text \<open>A status of 0 is a number for \<open>send\<close> and missing for the transport: the response counts as sent, the transport
  throws, and no later call of \<open>send\<close> can answer the method.\<close>

lemma method_status_zero_unanswered:
  assumes "\<not> mr_isResponseComplete mr" and "\<not> refused (JNum 0, pl, cb)"
  shows "method_answers js m mr ((JNum 0, pl, cb) # rest) = []"
  using send_all_first [OF assms(1) _ assms(2), of "[]" rest]
  by (simp add: method_answers_def Mqtt_sendMethodResponse_def validateResponse_def method_response_val_def Let_def)



end
