(* ===== verification/Explorer_Common.thy ===== *)
theory Explorer_Common
  imports Amqp_Transports
begin

text \<open>
  The shared part of the command line tool (\<open>tools/iothub-explorer/common.js\<close>): the session file,
  the token every command authenticates with, the connection string and the display of a device,
  the message made of an argument, and the two ways a command fails.

  A command is a function from the surroundings of the process to its outcome and the surroundings
  afterwards. It stops early by \<open>process.exit(1)\<close> or by an exception nobody catches. Files are kept
  by normalised path; the answers of the hub, \<open>JSON\<close>, \<open>lodash\<close>, \<open>uuid\<close> and the HMAC are fields of
  the surroundings.
\<close>

section \<open>Numbers in text\<close>

definition is_digit :: "char \<Rightarrow> bool" where
  "is_digit c \<longleftrightarrow> 48 \<le> (of_char c :: nat) \<and> (of_char c :: nat) \<le> 57"

fun split_sign :: "string \<Rightarrow> int \<times> string" where
  "split_sign (c # s) = (if c = CHR ''-'' then (- 1, s) else if c = CHR ''+'' then (1, s) else (1, c # s))"
| "split_sign [] = (1, [])"

definition is_hex :: "char \<Rightarrow> bool" where
  "is_hex c \<longleftrightarrow> unhex c \<noteq> None"

definition read_hex :: "string \<Rightarrow> nat" where
  "read_hex s = foldl (\<lambda>a c. 16 * a + the (unhex c)) 0 s"

text \<open>\<open>parseInt(s)\<close> without a radix; \<open>None\<close> is \<open>NaN\<close>.\<close>

definition js_parseInt :: "string \<Rightarrow> int option" where
  "js_parseInt s =
     (let (sg, r) = split_sign (dropWhile is_space s) in
      if take 2 r = ''0x'' \<or> take 2 r = ''0X''
      then (let h = takeWhile is_hex (drop 2 r) in if h = [] then None else Some (sg * int (read_hex h)))
      else (let d = takeWhile is_digit r in if d = [] then None else Some (sg * int (read_nat d))))"

text \<open>
  \<open>Number(s)\<close> as a mantissa and a power of ten; \<open>None\<close> stands for \<open>NaN\<close> and for the infinities,
  which no date accepts either.
\<close>

definition js_exponent :: "string \<Rightarrow> int option" where
  "js_exponent s = (let (sg, d) = split_sign s in
     if d \<noteq> [] \<and> list_all is_digit d then Some (sg * int (read_nat d)) else None)"

definition js_decimal :: "string \<Rightarrow> (int \<times> int) option" where
  "js_decimal s =
     (let i = takeWhile is_digit s; r = dropWhile is_digit s;
          (f, r) = (if take 1 r = ''.'' then (takeWhile is_digit (tl r), dropWhile is_digit (tl r)) else ([], r));
          m = int (read_nat (i @ f)); k = - int (length f)
      in if i = [] \<and> f = [] then None
         else if r = [] then Some (m, k)
         else if hd r = CHR ''e'' \<or> hd r = CHR ''E'' then map_option (\<lambda>e. (m, k + e)) (js_exponent (tl r))
         else None)"

definition js_Number :: "string \<Rightarrow> (int \<times> int) option" where
  "js_Number s =
     (let t = js_trim s in
      if t = [] then Some (0, 0)
      else if take 2 t = ''0x'' \<or> take 2 t = ''0X''
      then (if drop 2 t \<noteq> [] \<and> list_all is_hex (drop 2 t) then Some (int (read_hex (drop 2 t)), 0) else None)
      else (let (sg, r) = split_sign t in map_option (\<lambda>(m, e). (sg * m, e)) (js_decimal r)))"

text \<open>\<open>!isNaN(new Date(x * 1000))\<close>: a date holds at most 8.64e15 milliseconds on either side of the epoch.\<close>

definition date_limit :: int where
  "date_limit = 8640000000000000"

definition date_of_seconds :: "int \<times> int \<Rightarrow> bool" where
  "date_of_seconds x = (case x of (m, e) \<Rightarrow>
     if 0 \<le> e then \<bar>m\<bar> * 10 ^ nat e * 1000 \<le> date_limit else \<bar>m\<bar> * 1000 \<le> date_limit * 10 ^ nat (- e))"

section \<open>Paths\<close>

text \<open>
  \<open>path.normalize\<close>: empty and \<open>.\<close> segments go, \<open>..\<close> takes the segment before it. On Windows the
  backslash separates too; drives and shares are not told apart from other segments.
\<close>

definition is_sep :: "string \<Rightarrow> char \<Rightarrow> bool" where
  "is_sep platform c \<longleftrightarrow> c = CHR ''/'' \<or> (platform = ''win32'' \<and> c = CHR 0x5C)"

definition path_step :: "bool \<Rightarrow> string list \<Rightarrow> string \<Rightarrow> string list" where
  "path_step rooted acc seg =
     (if seg = [] \<or> seg = ''.'' then acc
      else if seg = ''..'' then
        (if acc \<noteq> [] \<and> last acc \<noteq> ''..'' then butlast acc else if rooted then acc else acc @ [''..''])
      else acc @ [seg])"

type_synonym fs_key = "bool \<times> string list"

definition path_key :: "string \<Rightarrow> string \<Rightarrow> fs_key" where
  "path_key platform p =
     (let rooted = (p \<noteq> [] \<and> is_sep platform (hd p))
      in (rooted, foldl (path_step rooted) [] (split_on (is_sep platform) p)))"

definition path_text :: "string \<Rightarrow> fs_key \<Rightarrow> string" where
  "path_text platform k =
     (let sep = [if platform = ''win32'' then CHR 0x5C else CHR ''/''] in
      if fst k then sep @ js_join sep (snd k) else if snd k = [] then ''.'' else js_join sep (snd k))"

definition path_join :: "string \<Rightarrow> string \<Rightarrow> string \<Rightarrow> string" where
  "path_join platform dir file =
     path_text platform (path_key platform (if dir = [] then file else dir @ ''/'' @ file))"

section \<open>The process\<close>

text \<open>What a command prints: a text in green, a plain text, or a value as JSON or pretty-printed.\<close>

datatype printed =
    Success string
  | Log string
  | Show bool jsval

text \<open>\<open>ExitWith prefix message\<close> is \<open>printErrorAndExit\<close>; \<open>Running\<close> is that the fuel of a loop ran out.\<close>

datatype stop =
    ExitWith string string
  | Uncaught js_error
  | Running

text \<open>
  Calls on the other services a command uses: the messaging client of the service library, the Event
  Hubs client of the package \<open>azure-event-hubs\<close> and the blob storage of the package \<open>azure-storage\<close>. Each
  is answered by an error or by success.
\<close>

datatype service_call =
    ClientOpen
  | ClientSend jsval "message + jsval"
  | ClientClose
  | ClientGetFeedbackReceiver
  | ClientGetFileNotificationReceiver
  | HubOpen jsval string
  | HubGetPartitionIds
  | HubCreateReceiver string string jsval
  | CreateContainer string
  | UploadBlob string string jsval
  | DeleteBlob string string
  | DownloadBlob string string jsval

record world =
  w_platform :: string
  w_getenv :: "string \<Rightarrow> jsval"
  w_rest :: rest_env
  w_json :: "string \<Rightarrow> jsval option"
  w_merge :: "jsval \<Rightarrow> jsval \<Rightarrow> jsval"
  w_merge_props :: "jsval dict \<Rightarrow> jsval dict \<Rightarrow> jsval dict"
  w_hub :: "api_request list \<Rightarrow> api_request \<Rightarrow> http_call"
  w_dateText :: "jsval \<Rightarrow> string"
  w_fault :: "fs_key \<Rightarrow> string option"
  w_files :: "fs_key \<Rightarrow> string option"
  w_service :: "service_call list \<Rightarrow> service_call \<Rightarrow> js_error option"
  w_containerUrl :: "string \<Rightarrow> string \<Rightarrow> int \<Rightarrow> int \<Rightarrow> string"
  w_calls :: "service_call list"
  w_requests :: "api_request list"
  w_out :: "printed list"

type_synonym 'a cmd = "world \<Rightarrow> (stop + 'a) \<times> world"

definition cmd_return :: "'a \<Rightarrow> 'a cmd" where
  "cmd_return x = (\<lambda>w. (Inr x, w))"

definition cmd_stop :: "stop \<Rightarrow> 'a cmd" where
  "cmd_stop s = (\<lambda>w. (Inl s, w))"

definition cmd_bind :: "'a cmd \<Rightarrow> ('a \<Rightarrow> 'b cmd) \<Rightarrow> 'b cmd" where
  "cmd_bind m f = (\<lambda>w. case m w of (Inl s, w') \<Rightarrow> (Inl s, w') | (Inr x, w') \<Rightarrow> f x w')"

definition cmd_res :: "'a res \<Rightarrow> 'a cmd" where
  "cmd_res r = (case r of Inl e \<Rightarrow> cmd_stop (Uncaught e) | Inr x \<Rightarrow> cmd_return x)"

definition cmd_ask :: "(world \<Rightarrow> 'a) \<Rightarrow> 'a cmd" where
  "cmd_ask f = (\<lambda>w. (Inr (f w), w))"

definition cmd_print :: "printed \<Rightarrow> unit cmd" where
  "cmd_print x = (\<lambda>w. (Inr (), w\<lparr>w_out := w_out w @ [x]\<rparr>))"

definition cmd_when :: "bool \<Rightarrow> unit cmd \<Rightarrow> unit cmd" where
  "cmd_when b m = (if b then m else cmd_return ())"

fun cmd_each :: "('a \<Rightarrow> unit cmd) \<Rightarrow> 'a list \<Rightarrow> unit cmd" where
  "cmd_each f [] = cmd_return ()"
| "cmd_each f (x # xs) = cmd_bind (f x) (\<lambda>_. cmd_each f xs)"

text \<open>A call on one of those services, with its answer.\<close>

definition cmd_call :: "service_call \<Rightarrow> js_error option cmd" where
  "cmd_call x = (\<lambda>w. (Inr (w_service w (w_calls w) x), w\<lparr>w_calls := w_calls w @ [x]\<rparr>))"

text \<open>
  A call of the REST client: the request is sent, and the callback gets the answer of the hub, parsed
  or translated by \<open>executeApiCall\<close>.
\<close>

definition cmd_rest :: "rest_client \<Rightarrow> api_call res \<Rightarrow> (js_error + jsval) cmd" where
  "cmd_rest c call = cmd_bind (cmd_res call) (\<lambda>call. \<lambda>w. case RestApiClient_executeApiCall (w_rest w) c call of
       Inl e \<Rightarrow> (Inl (Uncaught e), w)
     | Inr (c', rq) \<Rightarrow>
         (let w' = w\<lparr>w_requests := w_requests w @ [rq]\<rparr> in
          cmd_bind (cmd_res (rest_onResponse (w_json w) (w_hub w (w_requests w) rq))) (\<lambda>out.
            cmd_return (case out of Inl e \<Rightarrow> Inl e | Inr (v, _) \<Rightarrow> Inr v)) w'))"

lemmas cmd_defs = cmd_return_def cmd_stop_def cmd_bind_def cmd_res_def cmd_ask_def cmd_print_def cmd_when_def
  cmd_call_def cmd_rest_def

section \<open>Failing\<close>

definition printErrorAndExit :: "string \<Rightarrow> string \<Rightarrow> 'a cmd" where
  "printErrorAndExit message pre = cmd_stop (ExitWith (if pre = [] then ''Error:'' else pre) message)"

definition inputError :: "string \<Rightarrow> 'a cmd" where
  "inputError message = printErrorAndExit message ''Input Error:''"

text \<open>\<open>serviceError\<close> on the text of its argument, which is an error or already a string.\<close>

definition service_message :: "string \<Rightarrow> string" where
  "service_message m = (if prefix ''Error:'' m then drop (length ''Error:'') m else m)"

definition serviceError :: "string \<Rightarrow> 'a cmd" where
  "serviceError text = printErrorAndExit (service_message text) []"

section \<open>Devices\<close>

text \<open>A device as its readers see it: the getter \<open>SymmetricKey\<close> replaces a property of that name.\<close>

definition Device_view :: "jsval \<Rightarrow> jsval" where
  "Device_view device = (case device of
       JObj d \<Rightarrow> (case dget d ''authentication'' of
           JObj a \<Rightarrow> JObj (dset ''authentication'' (JObj (dset ''SymmetricKey'' (Device_SymmetricKey device) a)) d)
         | _ \<Rightarrow> device)
     | _ \<Rightarrow> device)"

definition createDeviceConnectionString :: "jsval \<Rightarrow> string \<Rightarrow> jsval res" where
  "createDeviceConnectionString deviceInfo hubHostName =
     (let cs = ''HostName='' @ hubHostName @ '';DeviceId='' @ js_string (jget deviceInfo ''deviceId'') in
      res_bind (js_member deviceInfo ''authentication'') (\<lambda>auth.
      res_bind (js_member auth ''SymmetricKey'') (\<lambda>sym.
      res_bind (js_member sym ''primaryKey'') (\<lambda>primary.
      if truthy primary then Inr (JStr (cs @ '';SharedAccessKey='' @ js_string primary))
      else if truthy (jget sym ''secondaryKey'')
      then Inr (JStr (cs @ '';SharedAccessKey='' @ js_string (jget sym ''secondaryKey'')))
      else res_bind (js_member (jget auth ''x509Thumbprint'') ''primaryThumbprint'') (\<lambda>thumb.
        if truthy thumb \<or> truthy (jget (jget auth ''x509Thumbprint'') ''secondaryThumbprint'')
        then Inr (JStr (cs @ '';x509=true'')) else Inr JNull)))))"

text \<open>One entry of the property filter: \<open>src\<close> and \<open>dst\<close> descend together, a part without value is passed over.\<close>

fun filter_parts :: "jsval \<Rightarrow> string list \<Rightarrow> jsval dict \<Rightarrow> jsval dict" where
  "filter_parts src [] dst = dst"
| "filter_parts src [part] dst = (if truthy (jget src part) then dset part (jget src part) dst else dst)"
| "filter_parts src (part # next # parts) dst =
     (if truthy (jget src part)
      then dset part (JObj (filter_parts (jget src part) (next # parts) [])) dst
      else filter_parts src (next # parts) dst)"

definition filter_device :: "jsval \<Rightarrow> string \<Rightarrow> jsval dict" where
  "filter_device device propertyFilter =
     foldl (\<lambda>dst prop. filter_parts device (js_split ''.'' (js_trim prop)) dst) [] (js_split '','' propertyFilter)"

definition printDevice :: "jsval \<Rightarrow> string \<Rightarrow> jsval \<Rightarrow> bool \<Rightarrow> bool \<Rightarrow> unit cmd" where
  "printDevice device hubHostName propertyFilter showConnectionString rawOutput =
     (let filtered = (if truthy propertyFilter then filter_device device (js_string propertyFilter)
                      else case device of JObj d \<Rightarrow> d | _ \<Rightarrow> []) in
      cmd_bind (if showConnectionString
                then cmd_bind (cmd_res (createDeviceConnectionString device hubHostName)) (\<lambda>cs.
                       cmd_return (dset ''connectionString'' cs filtered))
                else cmd_return filtered) (\<lambda>result.
        cmd_print (Show rawOutput (JObj result))))"

section \<open>Messages\<close>

text \<open>
  The message of a command line: a JSON object with a \<open>messageId\<close> is taken as the whole message and
  stays a plain object; anything else is the data of a new message.
\<close>

definition createMessage :: "string \<Rightarrow> jsval \<Rightarrow> jsval \<Rightarrow> message" where
  "createMessage uuid ack body =
     (let msg = (Message body)\<lparr>msg_messageId := JStr uuid\<rparr> in if truthy ack then msg\<lparr>msg_ack := ack\<rparr> else msg)"

definition createMessageFromArgument ::
  "(string \<Rightarrow> jsval option) \<Rightarrow> string \<Rightarrow> string \<Rightarrow> jsval \<Rightarrow> (message + jsval) res" where
  "createMessageFromArgument json uuid messageArg ack = (case json messageArg of
       None \<Rightarrow> Inr (Inl (createMessage uuid ack (JStr messageArg)))
     | Some tmp \<Rightarrow> res_bind (js_member tmp ''messageId'') (\<lambda>mid.
         if truthy mid then (case tmp of
             JObj d \<Rightarrow> Inr (Inr (JObj (dset ''ack'' (or_else (dget d ''ack'') ack) d)))
           | _ \<Rightarrow> Inr (Inr tmp))
         else Inr (Inl (createMessage uuid ack tmp))))"

section \<open>The session\<close>

definition configLoc :: "(string \<times> string) cmd" where
  "configLoc = (\<lambda>w.
     if w_platform w = ''darwin''
     then (Inr (js_string (w_getenv w ''HOME'') @ ''/Library/Application Support/iothub-explorer'', ''config''), w)
     else if w_platform w = ''linux'' then (Inr (js_string (w_getenv w ''HOME''), ''.iothub-explorer''), w)
     else if w_platform w = ''win32''
     then (Inr (js_string (w_getenv w ''LOCALAPPDATA'') @ ''/iothub-explorer'', ''config''), w)
     else inputError ([CHR 0x27] @ ''login'' @ [CHR 0x27] @ '' not supported on this platform'') w)"

text \<open>\<open>readFileSync\<close>: the code of the error, or the text.\<close>

definition fs_read :: "world \<Rightarrow> string \<Rightarrow> string + string" where
  "fs_read w p = (let k = path_key (w_platform w) p in case w_fault w k of
       Some code \<Rightarrow> Inl code
     | None \<Rightarrow> (case w_files w k of None \<Rightarrow> Inl ''ENOENT'' | Some t \<Rightarrow> Inr t))"

definition fs_error :: "string \<Rightarrow> js_error" where
  "fs_error code = attach ''code'' (JStr code) (mk_error Error code)"

definition loadSasFromUserFile :: "jsval cmd" where
  "loadSasFromUserFile = cmd_bind configLoc (\<lambda>(dir, file). \<lambda>w.
     case fs_read w (dir @ ''/'' @ file) of
       Inr t \<Rightarrow> (Inr (JStr t), w)
     | Inl code \<Rightarrow> if code \<noteq> ''ENOENT'' then (Inl (Uncaught (fs_error code)), w) else (Inr JUndef, w))"

definition no_session :: string where
  "no_session = ''You must either use the login command or the --login argument for iothub-explorer to authenticate with your IoT Hub instance''"

text \<open>The token made of a connection string: its expiry is an hour after the clock, in whole seconds.\<close>

definition sas_of_connection_string :: "jsval \<Rightarrow> jsval cmd" where
  "sas_of_connection_string cs = (\<lambda>w. case Service_ConnectionString_parse cs of
       Inl e \<Rightarrow> (if err_kind e = ArgumentError
                 then inputError (''Could not parse connection string: '' @ js_string cs) w
                 else (Inl (Uncaught e), w))
     | Inr cn \<Rightarrow> cmd_bind (cmd_res (Service_SAS_create (re_hmac (w_rest w)) (sget cn ''HostName'')
           (sget cn ''SharedAccessKeyName'') (sget cn ''SharedAccessKey'')
           (JNum (re_now (w_rest w) div 1000 + 3600)))) (\<lambda>s. cmd_return (JStr (SharedAccessSignature_toString s))) w)"

definition getSas :: "jsval \<Rightarrow> jsval cmd" where
  "getSas connectionString =
     cmd_bind (if truthy connectionString then sas_of_connection_string connectionString else loadSasFromUserFile)
       (\<lambda>sas. if falsy sas then inputError no_session else cmd_return sas)"

definition getHostFromSas :: "jsval \<Rightarrow> jsval cmd" where
  "getHostFromSas sas = cmd_res (res_bind (Service_SAS_parse sas) (\<lambda>s. Inr (dget s ''sr'')))"

section \<open>Laws of paths\<close>

text \<open>A normalised path: proper segments, and \<open>..\<close> only in front of a relative one.\<close>

definition proper_seg :: "string \<Rightarrow> string \<Rightarrow> bool" where
  "proper_seg platform seg \<longleftrightarrow> seg \<noteq> [] \<and> seg \<noteq> ''.'' \<and> (\<forall>c\<in>set seg. \<not> is_sep platform c)"

definition path_ok :: "string \<Rightarrow> fs_key \<Rightarrow> bool" where
  "path_ok platform k \<longleftrightarrow> (\<forall>seg\<in>set (snd k). proper_seg platform seg)
     \<and> (\<exists>n rest. snd k = replicate n ''..'' @ rest \<and> ''..'' \<notin> set rest \<and> (fst k \<longrightarrow> n = 0))"

lemma proper_dots: "proper_seg platform ''..''"
  by (simp add: proper_seg_def is_sep_def)

lemma path_step_dots:
  assumes "path_ok platform (r, acc)"
  shows "path_ok platform (r, path_step r acc ''..'')"
proof -
  obtain n rest where acc: "acc = replicate n ''..'' @ rest" "''..'' \<notin> set rest" "r \<longrightarrow> n = 0"
    using assms by (auto simp: path_ok_def)
  show ?thesis
  proof (cases "rest = []")
    case True
    with acc have "path_step r acc ''..'' = (if r then [] else replicate (Suc n) ''..'')"
      by (cases n) (auto simp: path_step_def replicate_append_same)
    then show ?thesis
      using assms proper_dots by (auto simp: path_ok_def intro: exI [of _ "Suc n"])
  next
    case False
    then have last: "last acc = last rest" "acc \<noteq> []" using acc by auto
    have "last rest \<noteq> ''..''" using False acc(2) last_in_set by metis
    then have "path_step r acc ''..'' = replicate n ''..'' @ butlast rest"
      using last acc(1) False by (simp add: path_step_def butlast_append)
    moreover have "''..'' \<notin> set (butlast rest)" using acc(2) in_set_butlastD by metis
    moreover have "proper_seg platform seg" if "seg \<in> set (replicate n ''..'' @ butlast rest)" for seg
      using that assms acc(1) by (auto simp: path_ok_def dest: in_set_butlastD)
    ultimately show ?thesis using acc(3) unfolding path_ok_def by auto
  qed
qed

lemma path_step_ok:
  assumes "path_ok platform (r, acc)" and "\<forall>c\<in>set seg. \<not> is_sep platform c"
  shows "path_ok platform (r, path_step r acc seg)"
proof (cases "seg = ''..''")
  case True
  with path_step_dots [OF assms(1)] show ?thesis by simp
next
  case False
  show ?thesis
  proof (cases "seg = [] \<or> seg = ''.''")
    case True
    with assms(1) show ?thesis by (simp add: path_step_def)
  next
    case other: False
    obtain n rest where acc: "acc = replicate n ''..'' @ rest" "''..'' \<notin> set rest" "r \<longrightarrow> n = 0"
      using assms(1) by (auto simp: path_ok_def)
    then have "\<exists>n' rest'. acc @ [seg] = replicate n' ''..'' @ rest' \<and> ''..'' \<notin> set rest' \<and> (r \<longrightarrow> n' = 0)"
      using False by (intro exI [of _ n] exI [of _ "rest @ [seg]"]) simp
    then show ?thesis
      using assms other False unfolding path_ok_def path_step_def by (simp add: proper_seg_def)
  qed
qed

lemma foldl_path_ok:
  "path_ok platform (r, acc) \<Longrightarrow> \<forall>seg\<in>set segs. \<forall>c\<in>set seg. \<not> is_sep platform c
   \<Longrightarrow> path_ok platform (r, foldl (path_step r) acc segs)"
  by (induction segs arbitrary: acc) (simp_all add: path_step_ok)

lemma split_on_parts: "seg \<in> set (split_on p s) \<Longrightarrow> c \<in> set seg \<Longrightarrow> \<not> p c"
  by (induction s arbitrary: seg) (fastforce split: list.splits if_splits)+

lemma path_key_ok: "path_ok platform (path_key platform p)"
  unfolding path_key_def Let_def
  by (rule foldl_path_ok) (auto simp: path_ok_def dest: split_on_parts)

lemma foldl_dots: "foldl (path_step False) (replicate k ''..'') (replicate n ''..'') = replicate (k + n) ''..''"
proof (induction n arbitrary: k)
  case (Suc n)
  have "path_step False (replicate k ''..'') ''..'' = replicate (Suc k) ''..''"
    by (cases k) (simp_all add: path_step_def replicate_append_same)
  with Suc [of "Suc k"] show ?case by simp
qed simp

lemma foldl_proper:
  "\<forall>seg\<in>set segs. proper_seg platform seg \<Longrightarrow> ''..'' \<notin> set segs \<Longrightarrow> foldl (path_step r) acc segs = acc @ segs"
  by (induction segs arbitrary: acc) (auto simp: path_step_def proper_seg_def)

lemma foldl_path_ok_id:
  assumes "path_ok platform (r, segs)"
  shows "foldl (path_step r) [] segs = segs"
proof -
  obtain n rest where s: "segs = replicate n ''..'' @ rest" "''..'' \<notin> set rest" "r \<longrightarrow> n = 0"
    using assms by (auto simp: path_ok_def)
  have "foldl (path_step r) [] (replicate n ''..'') = replicate n ''..''"
    using s(3) foldl_dots [of 0 n] by (cases r) simp_all
  moreover have "\<forall>seg\<in>set rest. proper_seg platform seg" using assms s(1) by (auto simp: path_ok_def)
  ultimately show ?thesis using s foldl_proper [of rest platform r] by simp
qed

definition sep_char :: "string \<Rightarrow> char" where
  "sep_char platform = (if platform = ''win32'' then CHR 0x5C else CHR ''/'')"

lemma sep_char: "is_sep platform (sep_char platform)"
  by (simp add: sep_char_def is_sep_def)

lemma path_key_text:
  assumes "path_ok platform k"
  shows "path_key platform (path_text platform k) = k"
proof -
  obtain r segs where k: "k = (r, segs)" by (cases k)
  let ?j = "js_join [sep_char platform] segs"
  have proper: "\<forall>seg\<in>set segs. proper_seg platform seg" using assms k by (simp add: path_ok_def)
  have txt_k: "path_text platform k = (if r then sep_char platform # ?j else if segs = [] then ''.'' else ?j)"
    by (simp add: path_text_def k sep_char_def)
  have split: "split_on (is_sep platform) ?j = segs" if "segs \<noteq> []"
    using that proper sep_char by (intro split_on_join) (auto simp: proper_seg_def)
  have hd: "?j \<noteq> [] \<and> \<not> is_sep platform (hd ?j)" if "segs \<noteq> []"
    using that proper by (cases segs; cases "tl segs") (auto simp: proper_seg_def js_join_Cons)
  have step: "path_step r [] [] = []" by (simp add: path_step_def)
  show ?thesis
  proof (cases "segs = []")
    case True
    then show ?thesis
      using sep_char [of platform] txt_k k by (auto simp: path_key_def path_step_def is_sep_def)
  next
    case False
    with txt_k split hd sep_char [of platform] step foldl_path_ok_id [of platform r segs] assms k show ?thesis
      by (cases r) (simp_all add: path_key_def)
  qed
qed

lemma path_join_key: "dir \<noteq> [] \<Longrightarrow> path_key platform (path_join platform dir file) = path_key platform (dir @ ''/'' @ file)"
  unfolding path_join_def by (simp add: path_key_text [OF path_key_ok])

section \<open>Laws of tokens\<close>

lemma service_cn_fields:
  assumes "Service_ConnectionString_parse cs = Inr cn"
  shows "\<exists>host policy key. sget cn ''HostName'' = JStr host \<and> sget cn ''SharedAccessKeyName'' = JStr policy
    \<and> sget cn ''SharedAccessKey'' = JStr key \<and> host \<noteq> [] \<and> policy \<noteq> [] \<and> key \<noteq> []"
proof -
  have cn: "cn = createDictionary cs '';''" "\<forall>k\<in>{''HostName'', ''SharedAccessKeyName'', ''SharedAccessKey''}. has_key k cn"
    using assms
    by (auto simp: Service_ConnectionString_parse_def ConnectionString_parse_def Let_def copy_createDictionary
        missing_field_None split: option.splits)
  have "\<exists>v. sget cn k = JStr v \<and> v \<noteq> []" if "has_key k cn" for k
  proof -
    have "truthy (sget cn k)" using that truthy_sget no_empty_createDictionary cn(1) by metis
    then show ?thesis by (auto simp: sget_def split: option.splits)
  qed
  from this [of "''HostName''"] this [of "''SharedAccessKeyName''"] this [of "''SharedAccessKey''"] cn(2)
  obtain h p k where "sget cn ''HostName'' = JStr h" "h \<noteq> []" "sget cn ''SharedAccessKeyName'' = JStr p" "p \<noteq> []"
    "sget cn ''SharedAccessKey'' = JStr k" "k \<noteq> []" by auto
  then show ?thesis by simp
qed

text \<open>A token whose text is the one its parsed form prints; the tokens the library makes are such.\<close>

definition canonical_token :: "string \<Rightarrow> string \<Rightarrow> bool" where
  "canonical_token host t \<longleftrightarrow> t \<noteq> [] \<and> host \<noteq> []
     \<and> (\<exists>s. Service_SAS_parse (JStr t) = Inr s \<and> SharedAccessSignature_toString s = t \<and> dget s ''sr'' = JStr host)"

lemma toString_four:
  assumes "\<forall>k\<in>set sas_keys. truthy (dget s k) \<and> sas_value (js_string (dget s k))"
  shows "SharedAccessSignature_toString s = ''SharedAccessSignature '' @ print_pairs (CHR ''&'')
    [(''sr'', js_string (dget s ''sr'')), (''sig'', js_string (dget s ''sig'')),
     (''skn'', js_string (dget s ''skn'')), (''se'', js_string (dget s ''se''))]"
proof -
  have "\<forall>k\<in>set sas_keys. truthy (dget s k) \<longrightarrow> ends_ok (js_string (dget s k))"
    using assms sas_value_ends_ok by blast
  moreover have "truthy (dget s ''sr'')" "truthy (dget s ''sig'')" "truthy (dget s ''skn'')" "truthy (dget s ''se'')"
    using assms by (simp_all add: sas_keys_def)
  ultimately show ?thesis by (simp add: toString_print_pairs dict_sas_keys)
qed

lemma created_canonical:
  assumes "key \<noteq> []" and "0 < n" and "policy \<noteq> []" and "sas_value host" and "\<And>k m. hmac k m \<noteq> []"
  shows "\<exists>s. Service_SAS_create hmac (JStr host) (JStr policy) (JStr key) (JNum n) = Inr s
     \<and> canonical_token host (SharedAccessSignature_toString s)"
proof -
  let ?sig = "encodeUriComponentStrict (hmac key (stringToSign host (show_int n)))"
  let ?s = "[(''_key'', JStr key), (''sr'', JStr host), (''skn'', JStr (encodeUriComponentStrict policy)),
             (''se'', JNum n), (''sig'', JStr ?sig)]"
  let ?s' = "[(''sr'', JStr host), (''sig'', JStr ?sig), (''skn'', JStr (encodeUriComponentStrict policy)),
             (''se'', JStr (show_int n))]"
  have h: "host \<noteq> []" using assms(4) by (simp add: sas_value_def)
  have vals: "sas_value ?sig" "sas_value (show_int n)" "sas_value (encodeUriComponentStrict policy)"
    using assms(2,3,5) by (simp_all add: sas_value_encoded sas_value_show_int)
  have create: "Service_SAS_create hmac (JStr host) (JStr policy) (JStr key) (JNum n) = Inr ?s"
    using assms(1-3) h by (simp add: Service_SAS_create_def SharedAccessSignature_create_def
        sas_signature_def dget_def Let_def)
  have parse: "Service_SAS_parse (JStr (SharedAccessSignature_toString ?s)) = Inr ?s'"
    using service_sas_text [of "JStr key" n policy host hmac] assms create by simp
  have "\<forall>k\<in>set sas_keys. truthy (dget ?s k) \<and> sas_value (js_string (dget ?s k))"
    using vals assms(2-4) by (simp add: sas_keys_def sas_value_def)
  moreover have "\<forall>k\<in>set sas_keys. truthy (dget ?s' k) \<and> sas_value (js_string (dget ?s' k))"
    using vals assms(2-4) by (simp add: sas_keys_def sas_value_def)
  ultimately have same: "SharedAccessSignature_toString ?s' = SharedAccessSignature_toString ?s"
    and ne: "SharedAccessSignature_toString ?s \<noteq> []"
    by (simp_all add: toString_four)
  have "canonical_token host (SharedAccessSignature_toString ?s)"
    unfolding canonical_token_def using parse same ne h by (intro conjI exI [of _ ?s']) simp_all
  with create show ?thesis by blast
qed

lemma canonical_registry:
  "canonical_token host t \<Longrightarrow> Registry_fromSharedAccessSignature (JStr t) = Inr \<lparr>ra_host = JStr host, ra_sas = JStr t\<rparr>"
  by (auto simp: canonical_token_def Registry_fromSharedAccessSignature_def Registry_def RestApiClient_def)

lemma canonical_job_client:
  "canonical_token host t \<Longrightarrow> JobClient_fromSharedAccessSignature (JStr t) = Inr \<lparr>ra_host = JStr host, ra_sas = JStr t\<rparr>"
  by (auto simp: canonical_token_def JobClient_fromSharedAccessSignature_def JobClient_def RestApiClient_def)

lemma canonical_host: "canonical_token host t \<Longrightarrow> getHostFromSas (JStr t) w = (Inr (JStr host), w)"
  by (auto simp: canonical_token_def getHostFromSas_def cmd_defs)

text \<open>What \<open>getSas\<close> gives, for the two sources of a token.\<close>

lemma getSas_login:
  assumes "Service_ConnectionString_parse cs = Inr cn" and "truthy cs" and "sget cn ''HostName'' = JStr host"
    and "sas_value host" and "\<And>k m. re_hmac (w_rest w) k m \<noteq> []" and "0 \<le> re_now (w_rest w)"
  shows "\<exists>t. getSas cs w = (Inr (JStr t), w) \<and> canonical_token host t"
proof -
  obtain policy key where cn: "sget cn ''SharedAccessKeyName'' = JStr policy" "sget cn ''SharedAccessKey'' = JStr key"
    "policy \<noteq> []" "key \<noteq> []" using service_cn_fields [OF assms(1)] by auto
  have "0 < re_now (w_rest w) div 1000 + 3600" using assms(6) by (simp add: add_nonneg_pos)
  from created_canonical [where hmac = "re_hmac (w_rest w)", OF cn(4) this cn(3) assms(4,5)] obtain s where
    s: "Service_SAS_create (re_hmac (w_rest w)) (JStr host) (JStr policy) (JStr key)
          (JNum (re_now (w_rest w) div 1000 + 3600)) = Inr s"
    "canonical_token host (SharedAccessSignature_toString s)" by blast
  then have "getSas cs w = (Inr (JStr (SharedAccessSignature_toString s)), w)"
    using assms(1-3) cn by (simp add: getSas_def sas_of_connection_string_def cmd_defs canonical_token_def)
  with s(2) show ?thesis by blast
qed

lemma getSas_session:
  assumes "configLoc w = (Inr (dir, file), w)" and "fs_read w (dir @ ''/'' @ file) = Inr t" and "t \<noteq> []"
  shows "getSas JUndef w = (Inr (JStr t), w)"
  using assms by (simp add: getSas_def loadSasFromUserFile_def cmd_defs)

lemma getSas_no_session:
  assumes "configLoc w = (Inr (dir, file), w)" and "fs_read w (dir @ ''/'' @ file) = Inl ''ENOENT''"
  shows "getSas JUndef w = (Inl (ExitWith ''Input Error:'' no_session), w)"
  using assms by (simp add: getSas_def loadSasFromUserFile_def cmd_defs inputError_def printErrorAndExit_def)

lemma configLoc_same: "fst (configLoc w') = fst (configLoc w) \<and> snd (configLoc w') = w'"
  if "w_platform w' = w_platform w" "w_getenv w' = w_getenv w"
  using that by (simp add: configLoc_def inputError_def printErrorAndExit_def cmd_stop_def)

lemma configLoc_update:
  "configLoc w = (Inr loc, w) \<Longrightarrow> w_platform w' = w_platform w \<Longrightarrow> w_getenv w' = w_getenv w
   \<Longrightarrow> configLoc w' = (Inr loc, w')"
  using configLoc_same [of w' w] by (metis fst_conv prod.collapse)

end
