(* ===== verification/Explorer_Commands.thy ===== *)
theory Explorer_Commands
  imports Explorer_Common
begin

text \<open>
  The commands of \<open>tools/iothub-explorer\<close>: sessions, device identities, twins, queries, messages,
  methods and bulk import and export. A command takes what \<open>commander\<close> parsed, the positional
  arguments and the options. The callbacks of a command run one after the other, in the order in
  which the code registers them.
\<close>

record program =
  pr_args :: "string list"
  pr_opts :: "jsval dict"

definition arg :: "program \<Rightarrow> nat \<Rightarrow> jsval" where
  "arg program i = (if i < length (pr_args program) then JStr (pr_args program ! i) else JUndef)"

definition opt :: "program \<Rightarrow> string \<Rightarrow> jsval" where
  "opt program name = dget (pr_opts program) name"

definition flag :: "program \<Rightarrow> string \<Rightarrow> bool" where
  "flag program name = truthy (opt program name)"

definition cmd_now :: "int cmd" where
  "cmd_now = cmd_ask (\<lambda>w. re_now (w_rest w))"

section \<open>Sessions\<close>

text \<open>\<open>!isNaN(new Date(expiry * 1000))\<close> for an expiry that is a number or a text.\<close>

fun expiry_date :: "jsval \<Rightarrow> bool" where
  "expiry_date (JNum n) = date_of_seconds (n, 0)"
| "expiry_date (JStr s) = (case js_Number s of None \<Rightarrow> False | Some x \<Rightarrow> date_of_seconds x)"
| "expiry_date _ = False"

text \<open>\<open>nowInSeconds + program.duration\<close>: the duration is a text, so \<open>+\<close> joins the two.\<close>

definition login_expiry :: "int \<Rightarrow> jsval \<Rightarrow> jsval" where
  "login_expiry nowInSeconds duration =
     (if truthy duration then JStr (show_int nowInSeconds @ js_string duration) else JNum (nowInSeconds + 3600))"

definition write_session :: "string \<Rightarrow> string \<Rightarrow> jsval \<Rightarrow> unit cmd" where
  "write_session path sas expiry = (\<lambda>w. let k = path_key (w_platform w) path in
     case w_fault w k of
       Some code \<Rightarrow> inputError (error_text (fs_error code)) w
     | None \<Rightarrow> cmd_bind (cmd_print (Success (''Session started, expires on '' @ w_dateText w expiry))) (\<lambda>_.
         cmd_print (Success (''Session file: '' @ path))) (w\<lparr>w_files := (w_files w)(k \<mapsto> sas)\<rparr>))"

definition login :: "program \<Rightarrow> unit cmd" where
  "login program =
     (if falsy (arg program 0) then inputError ''You must specify a connection string.''
      else cmd_bind cmd_now (\<lambda>now.
        let expiry = login_expiry (now div 1000) (opt program ''duration'') in
        cmd_bind (cmd_res (Service_ConnectionString_parse (arg program 0))) (\<lambda>cn.
        cmd_bind (cmd_ask (\<lambda>w. re_hmac (w_rest w))) (\<lambda>hmac.
        cmd_bind (cmd_res (Service_SAS_create hmac (sget cn ''HostName'') (sget cn ''SharedAccessKeyName'')
                    (sget cn ''SharedAccessKey'') expiry)) (\<lambda>sas.
        cmd_bind configLoc (\<lambda>(dir, file).
        if \<not> expiry_date expiry then inputError ''Invalid duration.''
        else cmd_bind (cmd_ask w_platform) (\<lambda>platform.
          write_session (path_join platform dir file) (SharedAccessSignature_toString sas) expiry)))))))"

definition logout :: "unit cmd" where
  "logout = cmd_bind configLoc (\<lambda>(dir, file). \<lambda>w.
     let path = path_join (w_platform w) dir file; k = path_key (w_platform w) path in
     case fs_read w path of
       Inl code \<Rightarrow> (if code = ''ENOENT'' then printErrorAndExit ''No session information found.'' [] w
                    else (Inl (Uncaught (fs_error code)), w))
     | Inr _ \<Rightarrow> cmd_bind (cmd_print (Success ''Session successfully terminated.'')) (\<lambda>_.
         cmd_print (Success (''Removed session file: '' @ path))) (w\<lparr>w_files := (w_files w)(k := None)\<rparr>))"

section \<open>Device identities\<close>

text \<open>\<open>Registry.fromSharedAccessSignature(getSas(program.login))\<close>: the token and the registry.\<close>

definition open_registry :: "program \<Rightarrow> (jsval \<times> rest_client) cmd" where
  "open_registry program = cmd_bind (getSas (opt program ''login'')) (\<lambda>sas.
     cmd_bind (cmd_res (Registry_fromSharedAccessSignature sas)) (\<lambda>registry. cmd_return (sas, registry)))"

text \<open>The start of a callback \<open>function (err, x)\<close> that gives an error to \<open>serviceError\<close>.\<close>

definition or_service_error :: "js_error + 'a \<Rightarrow> 'a cmd" where
  "or_service_error out = (case out of Inl e \<Rightarrow> serviceError (error_text e) | Inr x \<Rightarrow> cmd_return x)"

definition registry_device :: "rest_client \<Rightarrow> api_call res \<Rightarrow> jsval cmd" where
  "registry_device registry call = cmd_bind (cmd_rest registry call) (\<lambda>out.
     cmd_bind (\<lambda>w. cmd_res (Registry_onDevice (w_merge w) (w_json w) out) w) (\<lambda>out.
     cmd_bind (or_service_error out) (\<lambda>device. cmd_return (Device_view device))))"

definition show_device :: "program \<Rightarrow> jsval \<Rightarrow> jsval \<Rightarrow> unit cmd" where
  "show_device program host device =
     printDevice device (js_string host) (opt program ''display'') (flag program ''connectionString'') (flag program ''raw'')"

definition get_device :: "program \<Rightarrow> unit cmd" where
  "get_device program =
     (if falsy (arg program 0) then inputError ''You must specify a deviceId.''
      else cmd_bind (open_registry program) (\<lambda>(sas, registry).
        cmd_bind (registry_device registry (Registry_get (arg program 0))) (\<lambda>device.
        cmd_bind (getHostFromSas sas) (\<lambda>host. show_device program host device))))"

definition list_devices :: "program \<Rightarrow> unit cmd" where
  "list_devices program = cmd_bind (open_registry program) (\<lambda>(sas, registry).
     cmd_bind (cmd_rest registry Registry_list) (\<lambda>out.
     cmd_bind (\<lambda>w. cmd_res (Registry_onDevices (w_merge w) (w_json w) out) w) (\<lambda>out.
     cmd_bind (or_service_error out) (\<lambda>devices.
     cmd_bind (getHostFromSas sas) (\<lambda>host.
       cmd_each (\<lambda>device. show_device program host (Device_view device)) devices)))))"

definition delete_device :: "program \<Rightarrow> unit cmd" where
  "delete_device program =
     (if falsy (arg program 0) then inputError ''You must specify a deviceId''
      else cmd_bind (open_registry program) (\<lambda>(sas, registry).
        cmd_bind (cmd_rest registry (Registry_delete (arg program 0))) (\<lambda>out.
        cmd_bind (or_service_error out) (\<lambda>_.
          cmd_print (Success (''Deleted device '' @ js_string (arg program 0)))))))"

text \<open>
  \<open>create\<close>. The package \<open>pem\<close> is an argument: the certificate and the key it generates for a number
  of days, and the fingerprint of a certificate.
\<close>

record pem =
  pem_createCertificate :: "jsval \<Rightarrow> (string \<times> string) option"
  pem_getFingerprint :: "string \<Rightarrow> string option"

definition createDevice :: "program \<Rightarrow> jsval \<Rightarrow> unit cmd" where
  "createDevice program deviceInfo = cmd_bind (open_registry program) (\<lambda>(sas, registry).
     cmd_bind (registry_device registry (Registry_create deviceInfo)) (\<lambda>created.
     cmd_bind (cmd_print (Success (''Created device '' @ js_string (jget deviceInfo ''deviceId'')))) (\<lambda>_.
     cmd_bind (getHostFromSas sas) (\<lambda>host. show_device program host created))))"

definition fs_writeSync :: "string \<Rightarrow> string \<Rightarrow> unit cmd" where
  "fs_writeSync path text = (\<lambda>w. let k = path_key (w_platform w) path in case w_fault w k of
       Some code \<Rightarrow> (Inl (Uncaught (fs_error code)), w)
     | None \<Rightarrow> (Inr (), w\<lparr>w_files := (w_files w)(k \<mapsto> text)\<rparr>))"

definition set_auth :: "jsval \<Rightarrow> jsval \<Rightarrow> jsval" where
  "set_auth info auth = (case info of JObj d \<Rightarrow> JObj (dset ''authentication'' auth d) | _ \<Rightarrow> info)"

definition generateCertAndCreateDevice :: "pem \<Rightarrow> program \<Rightarrow> jsval \<Rightarrow> unit cmd" where
  "generateCertAndCreateDevice pem program deviceInfo =
     (let certFile = js_string (jget deviceInfo ''deviceId'') @ ''-cert.pem'';
          keyFile = js_string (jget deviceInfo ''deviceId'') @ ''-key.pem'' in
      case pem_createCertificate pem (or_else (opt program ''daysValid'') (JNum 365)) of
        None \<Rightarrow> inputError ''You must have OpenSSL installed in your path for iothub-explorer to be able to generate x509 certificates''
      | Some (certificate, clientKey) \<Rightarrow>
          cmd_bind (fs_writeSync certFile certificate) (\<lambda>_.
          cmd_bind (fs_writeSync keyFile clientKey) (\<lambda>_.
          cmd_bind (cmd_print (Success (''Certificate File: '' @ certFile))) (\<lambda>_.
          cmd_bind (cmd_print (Success (''Key File: '' @ keyFile))) (\<lambda>_.
          case pem_getFingerprint pem certificate of
            None \<Rightarrow> cmd_stop (Uncaught (mk_error TypeError ''Cannot read property fingerprint of undefined''))
          | Some fingerprint \<Rightarrow>
              createDevice program (set_auth deviceInfo (JObj [(''x509Thumbprint'',
                JObj [(''primaryThumbprint'', JStr (filter (\<lambda>c. c \<noteq> CHR '':'') fingerprint))])])))))))"

definition isMissingAuth :: "jsval \<Rightarrow> bool" where
  "isMissingAuth deviceInfo =
     (let a = jget deviceInfo ''authentication''; k = jget a ''symmetricKeys''; x = jget a ''x509Thumbprints'' in
      if truthy a then
        (if truthy k then truthy (jget k ''primaryKey'') \<or> truthy (jget k ''secondaryKey'')
         else if truthy x then truthy (jget x ''primaryThumbprint'') \<or> truthy (jget x ''secondaryThumbprint'')
         else False)
      else False)"

definition create_info :: "program \<Rightarrow> jsval cmd" where
  "create_info program =
     (if flag program ''auto'' \<and> truthy (arg program 0)
      then inputError (''You cannot use the '' @ quoted (JStr ''--auto'') @ '' option if you specify the device id or description'')
      else if \<not> flag program ''auto'' \<and> falsy (arg program 0)
      then inputError (''You must either use the '' @ quoted (JStr ''--auto'') @ '' option or specify a device id or description'')
      else if flag program ''auto''
      then cmd_ask (\<lambda>w. JObj [(''deviceId'', JStr (re_uuid (w_rest w))), (''status'', JStr ''enabled'')])
      else (let a = js_string (arg program 0) in
        if take 1 a \<noteq> ''{'' then cmd_return (JObj [(''deviceId'', JStr a), (''status'', JStr ''enabled'')])
        else (\<lambda>w. case w_json w a of
            None \<Rightarrow> inputError (''Device information isn'' @ [CHR 0x27] @ ''t valid JSON'') w
          | Some info \<Rightarrow> (Inr info, w))))"

definition create_device :: "pem \<Rightarrow> program \<Rightarrow> unit cmd" where
  "create_device pem program =
     (let keys = flag program ''key1'' \<or> flag program ''key2'';
          prints = flag program ''thumbprint1'' \<or> flag program ''thumbprint2'' in
      if keys \<and> (flag program ''x509'' \<or> prints)
      then inputError ''A device can use either x509 certificates or symmetric keys to authenticate but not both.''
      else if flag program ''daysValid'' \<and> \<not> flag program ''x509''
      then inputError ''The --daysValid option applies only with x509 certificates''
      else cmd_bind (create_info program) (\<lambda>info.
        if flag program ''x509'' then
          (if prints then
             (let info' = set_auth info (JObj [(''x509Thumbprint'', JObj [
                    (''primaryThumbprint'', opt program ''thumbprint1''),
                    (''secondaryThumbprint'', opt program ''thumbprint2'')])]) in
              cmd_bind (cmd_print (Show True info')) (\<lambda>_. createDevice program info'))
           else generateCertAndCreateDevice pem program info)
        else if keys then
          createDevice program (set_auth info (JObj [(''symmetricKey'', JObj [
             (''primaryKey'', opt program ''key1''), (''secondaryKey'', opt program ''key2'')])]))
        else if isMissingAuth info then
          cmd_bind (cmd_print (Log ''No authentication method given. Device will be created with auto-generated symmetric keys.''))
            (\<lambda>_. createDevice program info)
        else createDevice program info))"

text \<open>\<open>sas-token\<close>: the expiry is checked first, then the device is fetched for its key.\<close>

definition token_expiry :: "int \<Rightarrow> jsval \<Rightarrow> int option" where
  "token_expiry nowInSeconds duration =
     (if truthy duration then map_option (\<lambda>d. nowInSeconds + d) (js_parseInt (js_string duration))
      else Some (nowInSeconds + 3600))"

definition device_key :: "jsval \<Rightarrow> jsval res" where
  "device_key device =
     res_bind (js_member device ''authentication'') (\<lambda>auth.
     res_bind (js_member auth ''SymmetricKey'') (\<lambda>sym.
     res_bind (js_member sym ''primaryKey'') (\<lambda>primary.
       Inr (if truthy primary then primary else jget sym ''secondaryKey''))))"

text \<open>The callback of the request for the device.\<close>

definition print_token :: "program \<Rightarrow> int \<Rightarrow> jsval \<Rightarrow> jsval \<Rightarrow> unit cmd" where
  "print_token program expiry serviceSas device = cmd_bind (cmd_res (device_key device)) (\<lambda>key.
     if falsy key
     then inputError ''Cannot create a SAS for this device. It does not use symmetric key authentication.''
     else cmd_bind (getHostFromSas serviceSas) (\<lambda>host.
       cmd_bind (cmd_ask (\<lambda>w. re_hmac (w_rest w))) (\<lambda>hmac.
       cmd_bind (cmd_res (Device_SAS_create hmac host (arg program 0) key (JNum expiry))) (\<lambda>sas.
       let text = SharedAccessSignature_toString sas in
       if flag program ''raw'' then cmd_print (Log text)
       else cmd_bind (cmd_print (Success (''Shared Access Key for '' @ js_string (arg program 0) @ '':''))) (\<lambda>_.
         cmd_bind (cmd_print (Log text)) (\<lambda>_.
         cmd_bind (cmd_ask (\<lambda>w. w_dateText w (JNum expiry))) (\<lambda>date.
         cmd_print (Success (''is valid until: '' @ date)))))))))"

definition sas_token :: "program \<Rightarrow> unit cmd" where
  "sas_token program =
     (if falsy (arg program 0) then inputError ''You must specify a device id.''
      else cmd_bind cmd_now (\<lambda>now. case token_expiry (now div 1000) (opt program ''duration'') of
          None \<Rightarrow> inputError ''Invalid duration''
        | Some expiry \<Rightarrow>
            if \<not> date_of_seconds (expiry, 0) then inputError ''Invalid duration''
            else cmd_bind (open_registry program) (\<lambda>(serviceSas, registry).
              cmd_bind (registry_device registry (Registry_get (arg program 0))) (print_token program expiry serviceSas))))"

section \<open>Twins\<close>

text \<open>
  The twin as an object, for printing: \<open>JSON.stringify\<close> calls \<open>toJSON\<close>, the pretty printer reads the
  properties, among them \<open>_registry\<close> with the configuration it keeps.
\<close>

definition registry_object :: "rest_client \<Rightarrow> jsval" where
  "registry_object c =
     (let config = JObj [(''host'', ra_host c), (''sharedAccessSignature'', ra_sas c)]
      in JObj [(''_config'', config), (''_restApiClient'', JObj [(''_config'', config)])])"

definition print_twin :: "program \<Rightarrow> rest_client \<Rightarrow> service_twin \<Rightarrow> unit cmd" where
  "print_twin program registry twin =
     (if flag program ''raw''
      then cmd_bind (cmd_ask (\<lambda>w. ServiceTwin_toJSON (w_merge_props w) twin)) (\<lambda>v. cmd_print (Show True v))
      else cmd_print (Show False (JObj (dset ''_registry'' (registry_object registry) (st_object twin)))))"

definition registry_twin :: "rest_client \<Rightarrow> api_call res \<Rightarrow> service_twin cmd" where
  "registry_twin registry call = cmd_bind (cmd_rest registry call) (\<lambda>out.
     cmd_bind (\<lambda>w. cmd_res (Registry_onTwin (w_merge_props w) out) w) or_service_error)"

definition get_twin :: "program \<Rightarrow> unit cmd" where
  "get_twin program =
     (if falsy (arg program 0) then inputError ''You must specify a deviceId.''
      else cmd_bind (open_registry program) (\<lambda>(sas, registry).
        cmd_bind (registry_twin registry (Registry_getTwin (arg program 0) True)) (print_twin program registry)))"

definition update_twin :: "program \<Rightarrow> unit cmd" where
  "update_twin program =
     (if falsy (arg program 0) then inputError ''You must specify a deviceId.''
      else if falsy (arg program 1) then inputError ''You must specify the JSON to update the twin with.''
      else cmd_bind (\<lambda>w. case w_json w (js_string (arg program 1)) of
               None \<Rightarrow> inputError (''device-json isn'' @ [CHR 0x27] @ ''t valid JSON'') w
             | Some v \<Rightarrow> (Inr v, w)) (\<lambda>updateInfo.
        cmd_bind (open_registry program) (\<lambda>(sas, registry).
        cmd_bind (registry_twin registry (Registry_getTwin (arg program 0) True)) (\<lambda>twin.
        cmd_bind (registry_twin registry (Registry_updateTwin (dget (st_object twin) ''deviceId'') updateInfo
                    (dget (st_object twin) ''etag''))) (print_twin program registry)))))"

section \<open>Queries\<close>

text \<open>
  \<open>onNewResults\<close> and the calls of \<open>next\<close> it makes, at most \<open>n\<close> of them: \<open>show\<close> prints one item of a page.
  A page without items has no \<open>forEach\<close>.
\<close>

fun page_items :: "jsval \<Rightarrow> jsval list res" where
  "page_items (JArr vs) = Inr vs"
| "page_items v = throw TypeError ''results.forEach is not a function''"

fun print_pages :: "rest_client \<Rightarrow> (jsval \<Rightarrow> api_call) \<Rightarrow> (jsval list \<Rightarrow> unit cmd) \<Rightarrow> nat \<Rightarrow> query \<Rightarrow> unit cmd" where
  "print_pages c fn show 0 q = cmd_stop Running"
| "print_pages c fn show (Suc n) q =
     cmd_bind (cmd_rest c (Inr (fn (qu_continuationToken q)))) (\<lambda>out.
     case Query_next q out of (q', out') \<Rightarrow>
       cmd_bind (or_service_error out') (\<lambda>items.
       cmd_bind (cmd_res (page_items items)) (\<lambda>vs.
       cmd_bind (show vs) (\<lambda>_.
       if qu_hasMoreResults q' then print_pages c fn show n q' else cmd_return ()))))"

text \<open>\<open>nextAsTwin\<close> builds every twin of the page before the first is printed.\<close>

definition print_twins :: "program \<Rightarrow> rest_client \<Rightarrow> jsval list \<Rightarrow> unit cmd" where
  "print_twins program registry vs =
     cmd_bind (\<lambda>w. cmd_res (build_all (\<lambda>v. ServiceTwin (w_merge_props w) v True) vs) w) (\<lambda>twins.
       cmd_each (print_twin program registry) twins)"

definition query_twin :: "nat \<Rightarrow> program \<Rightarrow> unit cmd" where
  "query_twin n program =
     (if falsy (arg program 0) then inputError ''You must specify a SQL query.''
      else cmd_bind (open_registry program) (\<lambda>(sas, registry).
        cmd_bind (cmd_res (Registry_createQuery (arg program 0) JUndef)) (\<lambda>fn.
          print_pages registry fn (print_twins program registry) n Query)))"

definition query_job :: "nat \<Rightarrow> program \<Rightarrow> unit cmd" where
  "query_job n program = cmd_bind (getSas (opt program ''login'')) (\<lambda>sas.
     cmd_bind (cmd_res (JobClient_fromSharedAccessSignature sas)) (\<lambda>client.
     case JobClient_createQuery (arg program 0) (arg program 1) JUndef of (q, fn) \<Rightarrow>
       print_pages client fn (cmd_each (\<lambda>job. cmd_print (Show (flag program ''raw'') job))) n q))"

section \<open>Messages and methods\<close>

definition message_id :: "message + jsval \<Rightarrow> string" where
  "message_id m = (case m of Inl msg \<Rightarrow> js_string (msg_messageId msg) | Inr v \<Rightarrow> js_string (jget v ''messageId''))"

text \<open>\<open>send\<close>: \<open>transport\<close> is the constructor of the client's transport; opening, sending and closing are calls on the client.\<close>

definition send_message :: "(jsval dict \<Rightarrow> service_amqp) \<Rightarrow> program \<Rightarrow> unit cmd" where
  "send_message transport program =
     (if falsy (arg program 0) then inputError ''You need to specify a device id.''
      else if falsy (arg program 1) then inputError ''You need to specify a message.''
      else cmd_bind (getSas (opt program ''login'')) (\<lambda>sas.
        cmd_bind (cmd_res (ServiceClient_fromSharedAccessSignature transport sas)) (\<lambda>client.
        cmd_bind (cmd_call ClientOpen) (\<lambda>err. case err of
          Some e \<Rightarrow> inputError (''Could not open the connection to the service: '' @ err_message e)
        | None \<Rightarrow>
            cmd_bind (\<lambda>w. cmd_res (createMessageFromArgument (w_json w) (re_uuid (w_rest w))
                        (js_string (arg program 1)) (opt program ''ack'')) w) (\<lambda>message.
            cmd_bind (cmd_call (ClientSend (arg program 0) message)) (\<lambda>err. case err of
              Some e \<Rightarrow> serviceError (error_text e)
            | None \<Rightarrow>
                cmd_bind (cmd_print (Log (if flag program ''raw'' then message_id message
                   else ''Message sent with id: '' @ message_id message
                     @ (if flag program ''ack'' then ''. Acknowledgement requested: '' @ js_string (opt program ''ack'') else [])))) (\<lambda>_.
                cmd_bind (cmd_call ClientClose) (\<lambda>err. case err of
                  Some e \<Rightarrow> serviceError (error_text e) | None \<Rightarrow> cmd_return ())))))))) "

text \<open>
  \<open>device-method\<close>: the parameters and the call of the client; a result would be printed. The timeout
  is \<open>parseInt\<close> of its argument, whose \<open>NaN\<close> is falsy like the missing one.
\<close>

definition method_params :: "program \<Rightarrow> jsval" where
  "method_params program = JObj [(''methodName'', arg program 1), (''payload'', or_else (arg program 2) JNull),
     (''timeoutInSeconds'', if truthy (arg program 3)
        then (case js_parseInt (js_string (arg program 3)) of Some n \<Rightarrow> JNum n | None \<Rightarrow> JNum 0) else JNull)]"

definition invoke_method :: "(jsval dict \<Rightarrow> service_amqp) \<Rightarrow> program \<Rightarrow> unit cmd" where
  "invoke_method transport program =
     (if falsy (arg program 0) then inputError ''You must specify a deviceId.''
      else if falsy (arg program 1) then inputError ''You must specify the JSON to update the twin with.''
      else cmd_bind (getSas (opt program ''login'')) (\<lambda>sas.
        cmd_bind (cmd_res (ServiceClient_fromSharedAccessSignature transport sas)) (\<lambda>client. \<lambda>w.
        case ServiceClient_invokeDeviceMethod (w_rest w) client (arg program 0) (method_params program) of
          Inl e \<Rightarrow> (Inl (Uncaught e), w)
        | Inr (client', rq) \<Rightarrow>
            cmd_bind (cmd_res (rest_onResponse (w_json w) (w_hub w (w_requests w) rq))) (\<lambda>out.
            cmd_bind (or_service_error (case out of Inl e \<Rightarrow> Inl e | Inr (v, _) \<Rightarrow> Inr v)) (\<lambda>methodResult.
              cmd_print (Show (flag program ''raw'') methodResult))) (w\<lparr>w_requests := w_requests w @ [rq]\<rparr>))))"

section \<open>Bulk import and export\<close>

text \<open>A step of the storage service: an error ends the command with \<open>text\<close> and the error's message.\<close>

definition storage :: "service_call \<Rightarrow> (js_error \<Rightarrow> string) \<Rightarrow> unit cmd" where
  "storage call text = cmd_bind (cmd_call call) (\<lambda>err. case err of
     Some e \<Rightarrow> serviceError (text e) | None \<Rightarrow> cmd_return ())"

definition with_body :: "string \<Rightarrow> js_error \<Rightarrow> string" where
  "with_body text e = text @ err_message e @ '' : '' @ js_string (dget (err_props e) ''responseBody'')"

text \<open>\<open>JSON.parse(result)\<close>: the argument is turned into a string first.\<close>

definition parse_result :: "jsval \<Rightarrow> string \<Rightarrow> jsval cmd" where
  "parse_result result name = (\<lambda>w. case w_json w (js_string result) of
       None \<Rightarrow> (Inl (Uncaught (mk_error SyntaxError ''Unexpected token'')), w)
     | Some v \<Rightarrow> cmd_res (js_member v name) w)"

definition job_call_or :: "(js_error \<Rightarrow> string) \<Rightarrow> rest_client \<Rightarrow> api_call res \<Rightarrow> jsval cmd" where
  "job_call_or text registry call = cmd_bind (cmd_rest registry call) (\<lambda>out. case out of
     Inl e \<Rightarrow> serviceError (text e) | Inr v \<Rightarrow> cmd_return v)"

text \<open>The interval that asks for the job once a second, at most \<open>n\<close> times; \<open>finish\<close> runs once, when it is completed.\<close>

fun poll_job :: "(js_error \<Rightarrow> string) \<Rightarrow> rest_client \<Rightarrow> jsval \<Rightarrow> unit cmd \<Rightarrow> nat \<Rightarrow> unit cmd" where
  "poll_job text registry jobId finish 0 = cmd_stop Running"
| "poll_job text registry jobId finish (Suc n) =
     cmd_bind (job_call_or text registry (Registry_getJob jobId)) (\<lambda>result.
     cmd_bind (parse_result result ''status'') (\<lambda>status.
     cmd_bind (cmd_print (Success (''Job Id: '' @ js_string jobId @ '': '' @ js_string status))) (\<lambda>_.
     if status = JStr ''completed'' then finish else poll_job text registry jobId finish n)))"

definition container_url :: "string \<Rightarrow> string \<Rightarrow> string cmd" where
  "container_url name permissions = cmd_ask (\<lambda>w. let now = re_now (w_rest w) in
     w_containerUrl w name permissions (now - 6000000) (now + 6000000))"

text \<open>The blob is deleted and the log fetched at the same time; the answer of the deletion is handled first.\<close>

definition finish_import :: "program \<Rightarrow> unit cmd" where
  "finish_import program =
     (let outputFile = opt program ''output'' in
      cmd_bind (cmd_call (DeleteBlob ''importcontainer'' ''devices.txt'')) (\<lambda>deleted.
      cmd_bind (if truthy outputFile then cmd_call (DownloadBlob ''exportcontainer'' ''importErrors.log'' outputFile)
                else cmd_return None) (\<lambda>fetched.
      cmd_bind (case deleted of
          Some e \<Rightarrow> serviceError (''Could not erase import blob: '' @ err_message e)
        | None \<Rightarrow> cmd_print (Success ''Temporary import blob deleted.'')) (\<lambda>_.
      cmd_when (truthy outputFile) (case fetched of
          Some e \<Rightarrow> serviceError (''Could not download log file: '' @ err_message e)
        | None \<Rightarrow> cmd_print (Success (''Log file: '' @ js_string outputFile)))))))"

definition import_devices :: "nat \<Rightarrow> program \<Rightarrow> unit cmd" where
  "import_devices n program =
     (if \<not> flag program ''storage'' then inputError ''A storage connection string with permissions to create a blob is required.''
      else if \<not> flag program ''input'' then inputError ''An input file path is required.''
      else cmd_bind (open_registry program) (\<lambda>(sas, registry).
        cmd_bind (storage (CreateContainer ''importcontainer'') (\<lambda>e. ''Could not create input container: '' @ err_message e)) (\<lambda>_.
        cmd_bind (container_url ''importcontainer'' ''rl'') (\<lambda>inputUrl.
        cmd_bind (storage (UploadBlob ''importcontainer'' ''devices.txt'' (opt program ''input''))
                    (\<lambda>e. ''Could not create import blob: '' @ err_message e)) (\<lambda>_.
        cmd_bind (storage (CreateContainer ''exportcontainer'') (\<lambda>e. ''Could not create output container: '' @ err_message e)) (\<lambda>_.
        cmd_bind (container_url ''exportcontainer'' ''rwd'') (\<lambda>outputUrl.
        cmd_bind (job_call_or (with_body ''Could not start device import job: '') registry
                    (Registry_importDevicesFromBlob (JStr inputUrl) (JStr outputUrl))) (\<lambda>result.
        cmd_bind (parse_result result ''jobId'') (\<lambda>jobId.
        poll_job (with_body ''Could not get import job status: '') registry jobId
          (finish_import program) n)))))))))"

definition export_devices :: "nat \<Rightarrow> program \<Rightarrow> unit cmd" where
  "export_devices n program =
     (if \<not> flag program ''storage'' then inputError ''A storage connection string with permissions to create a blob is required''
      else if \<not> flag program ''output'' then inputError ''An output file path is required.''
      else cmd_bind (open_registry program) (\<lambda>(sas, registry).
        cmd_bind (storage (CreateContainer ''exportcontainer'') (\<lambda>e. ''Could not create output container: '' @ err_message e)) (\<lambda>_.
        cmd_bind (container_url ''exportcontainer'' ''rwd'') (\<lambda>outputUrl.
        cmd_bind (job_call_or (\<lambda>e. ''Could not start device export job: '' @ err_message e) registry
                    (Registry_exportDevicesToBlob (JStr outputUrl) (or_else (opt program ''excludeKeys'') (JBool False)))) (\<lambda>result.
        cmd_bind (parse_result result ''jobId'') (\<lambda>jobId.
        poll_job (with_body ''Could not get export job status: '') registry jobId
          (cmd_bind (storage (DownloadBlob ''exportcontainer'' ''devices.txt'' (opt program ''output''))
                      (\<lambda>e. ''Could not download export to local file: '' @ err_message e)) (\<lambda>_.
           cmd_bind (cmd_print (Success (''Exported devices to: '' @ js_string (opt program ''output'')))) (\<lambda>_.
           cmd_bind (storage (DeleteBlob ''exportcontainer'' ''devices.txt'') (\<lambda>e. ''Could not delete temporary export blob'')) (\<lambda>_.
           cmd_print (Success ''Temporary export blob deleted.''))))) n))))))"

end
