(* ===== verification/Explorer_Laws.thy ===== *)
theory Explorer_Laws
  imports Explorer_Commands
begin

text \<open>
  What the commands of the tool keep and what they send. A contract is a relation between the
  surroundings before and after a command that holds for every elementary step; the locale
  \<open>cmd_contract\<close> carries it through the control structures, \<open>rest_contract\<close> through the callbacks of
  the registry. Its instances say that every request carries the token of the session, and that no
  file is written.
\<close>

section \<open>Contracts of commands\<close>

definition cmd_keeps :: "(world \<Rightarrow> world \<Rightarrow> bool) \<Rightarrow> 'a cmd \<Rightarrow> bool" where
  "cmd_keeps R m \<longleftrightarrow> (\<forall>w. R w (snd (m w)))"

named_theorems keeps \<open>rules that carry a contract through a command\<close>

locale cmd_contract =
  fixes R :: "world \<Rightarrow> world \<Rightarrow> bool"
  assumes R_refl: "R w w"
    and R_trans: "R w1 w2 \<Longrightarrow> R w2 w3 \<Longrightarrow> R w1 w3"
    and R_out: "R w (w\<lparr>w_out := x\<rparr>)"
    and R_calls: "R w (w\<lparr>w_calls := y\<rparr>)"
begin

lemma keeps_return [keeps]: "cmd_keeps R (cmd_return x)"
  and keeps_stop [keeps]: "cmd_keeps R (cmd_stop s)"
  and keeps_ask [keeps]: "cmd_keeps R (cmd_ask f)"
  and keeps_print [keeps]: "cmd_keeps R (cmd_print p)"
  and keeps_call [keeps]: "cmd_keeps R (cmd_call sc)"
  by (simp_all add: cmd_keeps_def cmd_defs R_refl R_out R_calls)

lemma keeps_res [keeps]: "cmd_keeps R (cmd_res r)"
  by (cases r) (simp_all add: cmd_res_def keeps)

lemma keeps_bind [keeps]: "cmd_keeps R m \<Longrightarrow> (\<And>x. cmd_keeps R (f x)) \<Longrightarrow> cmd_keeps R (cmd_bind m f)"
  unfolding cmd_keeps_def cmd_bind_def
  by (auto split: prod.splits sum.splits) (metis R_trans snd_conv)+

lemma keeps_bind_split:
  "cmd_keeps R m \<Longrightarrow> (\<And>x y. cmd_keeps R (f x y)) \<Longrightarrow> cmd_keeps R (cmd_bind m (\<lambda>(x, y). f x y))"
  by (rule keeps_bind) auto

lemma keeps_world: "(\<And>w. cmd_keeps R (f w)) \<Longrightarrow> cmd_keeps R (\<lambda>w. f w w)"
  by (simp add: cmd_keeps_def)

lemma keeps_world_res [keeps]: "cmd_keeps R (\<lambda>w. cmd_res (g w) w)"
  by (rule keeps_world) (rule keeps_res)

lemma keeps_if [keeps]: "cmd_keeps R m \<Longrightarrow> cmd_keeps R m' \<Longrightarrow> cmd_keeps R (if b then m else m')"
  by simp

lemma keeps_when [keeps]: "cmd_keeps R m \<Longrightarrow> cmd_keeps R (cmd_when b m)"
  by (simp add: cmd_when_def keeps_return)

lemma keeps_option [keeps]:
  "cmd_keeps R m \<Longrightarrow> (\<And>x. cmd_keeps R (f x)) \<Longrightarrow> cmd_keeps R (case v of None \<Rightarrow> m | Some x \<Rightarrow> f x)"
  by (cases v) simp_all

lemma keeps_sum [keeps]:
  "(\<And>e. cmd_keeps R (g e)) \<Longrightarrow> (\<And>x. cmd_keeps R (f x)) \<Longrightarrow> cmd_keeps R (case v of Inl e \<Rightarrow> g e | Inr x \<Rightarrow> f x)"
  by (cases v) simp_all

lemma keeps_each [keeps]: "(\<And>x. cmd_keeps R (f x)) \<Longrightarrow> cmd_keeps R (cmd_each f xs)"
  by (induction xs) (simp_all add: keeps)

lemma keeps_errors [keeps]:
  "cmd_keeps R (printErrorAndExit m p)" "cmd_keeps R (inputError m)" "cmd_keeps R (serviceError m)"
  by (simp_all add: printErrorAndExit_def inputError_def serviceError_def keeps)

lemma keeps_shared [keeps]:
  "cmd_keeps R (or_service_error out)" "cmd_keeps R (getHostFromSas sas)"
  "cmd_keeps R (printDevice device host flt cs raw)" "cmd_keeps R (show_device program host' device)"
  "cmd_keeps R (print_twin program registry twin)" "cmd_keeps R (storage sc txt)" "cmd_keeps R (container_url name perm)"
  "cmd_keeps R (finish_import program)" "cmd_keeps R cmd_now"
  unfolding or_service_error_def getHostFromSas_def printDevice_def show_device_def print_twin_def storage_def
    container_url_def finish_import_def cmd_now_def Let_def by (intro keeps; simp)+

lemma keeps_print_token [keeps]: "cmd_keeps R (print_token program expiry sas device)"
  unfolding print_token_def Let_def by (intro keeps)

lemma keeps_print_twins [keeps]: "cmd_keeps R (print_twins program registry vs)"
  unfolding print_twins_def by (intro keeps)

lemma keeps_parse_result [keeps]: "cmd_keeps R (parse_result result name)"
proof -
  have "cmd_keeps R (\<lambda>w. (case w_json w (js_string result) of
       None \<Rightarrow> cmd_stop (Uncaught (mk_error SyntaxError ''Unexpected token''))
     | Some v \<Rightarrow> cmd_res (js_member v name)) w)"
    by (rule keeps_world) (intro keeps)
  then show ?thesis
    by (auto simp: parse_result_def cmd_keeps_def cmd_stop_def R_refl split: option.splits)
qed

end

text \<open>The same for what uses the REST client, provided the contract admits the client's requests.\<close>

locale rest_contract = cmd_contract +
  fixes ok :: "rest_client \<Rightarrow> bool"
  assumes R_rest: "ok c \<Longrightarrow> cmd_keeps R (cmd_rest c call)"
begin

lemma keeps_registry:
  assumes "ok c"
  shows "cmd_keeps R (registry_device c call)" "cmd_keeps R (registry_twin c call)" "cmd_keeps R (job_call_or txt c call)"
  unfolding registry_device_def registry_twin_def job_call_or_def by (intro keeps R_rest [OF assms])+

lemma keeps_pages:
  assumes "ok c" and "\<And>vs. cmd_keeps R (show vs)"
  shows "cmd_keeps R (print_pages c fn show n q)"
proof (induction n arbitrary: q)
  case 0
  show ?case by (simp add: keeps)
next
  case (Suc n)
  have "cmd_keeps R (case Query_next q out of (q', out') \<Rightarrow>
       cmd_bind (or_service_error out') (\<lambda>items. cmd_bind (cmd_res (page_items items)) (\<lambda>vs.
       cmd_bind (show vs) (\<lambda>_. if qu_hasMoreResults q' then print_pages c fn show n q' else cmd_return ()))))" for out
    by (cases "Query_next q out") (simp add: keeps assms(2) Suc)
  then show ?case unfolding print_pages.simps by (intro keeps_bind R_rest [OF assms(1)])
qed

lemma keeps_poll:
  assumes "ok c" and "cmd_keeps R finish"
  shows "cmd_keeps R (poll_job txt c jobId finish n)"
  by (induction n) (simp_all add: keeps keeps_registry [OF assms(1)] assms(2))

end

section \<open>Requests carry the token of the session\<close>

definition request_token :: "api_request \<Rightarrow> jsval" where
  "request_token rq = jget (ho_headers (aq_options rq)) ''Authorization''"

text \<open>The log of requests grows by requests to the host with the token.\<close>

definition sends_with :: "string \<Rightarrow> string \<Rightarrow> world \<Rightarrow> world \<Rightarrow> bool" where
  "sends_with host t w w' \<longleftrightarrow> (\<exists>rs. w_requests w' = w_requests w @ rs
     \<and> (\<forall>rq\<in>set rs. request_token rq = JStr t \<and> ho_host (aq_options rq) = JStr host))"

abbreviation client_for :: "string \<Rightarrow> string \<Rightarrow> rest_client" where
  "client_for host t \<equiv> \<lparr>ra_host = JStr host, ra_sas = JStr t\<rparr>"

lemma execute_token:
  assumes "RestApiClient_executeApiCall env (client_for host t) call = Inr (c', rq)"
  shows "request_token rq = JStr t \<and> ho_host (aq_options rq) = JStr host"
  using assms
  by (auto simp: RestApiClient_executeApiCall_def rest_authorization_def res_bind_Inr_iff Let_def request_token_def
      Http_buildRequest_def split: if_splits option.splits)

lemma cmd_rest_requests:
  "w_requests (snd (cmd_rest c call w)) = w_requests w
   \<or> (\<exists>call' c' rq. RestApiClient_executeApiCall (w_rest w) c call' = Inr (c', rq)
        \<and> w_requests (snd (cmd_rest c call w)) = w_requests w @ [rq])"
proof (cases call)
  case (Inl e)
  then show ?thesis by (simp add: cmd_defs)
next
  case (Inr x)
  then show ?thesis
    by (cases "RestApiClient_executeApiCall (w_rest w) c x")
      (force simp: cmd_defs split: sum.splits prod.splits)+
qed

interpretation signed: rest_contract "sends_with host t" "\<lambda>c. c = client_for host t"
proof
  fix w1 w2 w3 assume "sends_with host t w1 w2" "sends_with host t w2 w3"
  then show "sends_with host t w1 w3"
    unfolding sends_with_def by (metis append.assoc set_append Un_iff)
next
  fix c call assume c: "c = client_for host t"
  have "sends_with host t w (snd (cmd_rest c call w))" for w
    using cmd_rest_requests [of c call w]
  proof (elim disjE exE conjE)
    fix call' c' rq assume "RestApiClient_executeApiCall (w_rest w) c call' = Inr (c', rq)"
      "w_requests (snd (cmd_rest c call w)) = w_requests w @ [rq]"
    with execute_token [of "w_rest w" host t call' c' rq] c show ?thesis unfolding sends_with_def by auto
  qed (simp add: sends_with_def)
  then show "cmd_keeps (sends_with host t) (cmd_rest c call)" by (simp add: cmd_keeps_def)
qed (simp_all add: sends_with_def)

interpretation unwritten: rest_contract "\<lambda>w w'. w_files w' = w_files w" "\<lambda>c. True"
  by unfold_locales (auto simp: cmd_keeps_def cmd_defs split: sum.splits prod.splits)

text \<open>The commands that use the registry or the job client.\<close>

datatype registry_command =
    GetDevice
  | ListDevices
  | DeleteDevice
  | CreateDevice pem
  | SasToken
  | GetTwin
  | UpdateTwin
  | QueryTwin nat
  | QueryJob nat
  | ImportDevices nat
  | ExportDevices nat

fun run_command :: "registry_command \<Rightarrow> program \<Rightarrow> unit cmd" where
  "run_command GetDevice p = get_device p"
| "run_command ListDevices p = list_devices p"
| "run_command DeleteDevice p = delete_device p"
| "run_command (CreateDevice pem) p = create_device pem p"
| "run_command SasToken p = sas_token p"
| "run_command GetTwin p = get_twin p"
| "run_command UpdateTwin p = update_twin p"
| "run_command (QueryTwin n) p = query_twin n p"
| "run_command (QueryJob n) p = query_job n p"
| "run_command (ImportDevices n) p = import_devices n p"
| "run_command (ExportDevices n) p = export_devices n p"

text \<open>\<open>getSas\<close> only reads: the same session gives the same token, and with \<open>--login\<close> the files do not matter.\<close>

lemma load_reads:
  assumes "w_platform w' = w_platform w" and "w_getenv w' = w_getenv w" and "w_files w' = w_files w" and "w_fault w' = w_fault w"
  shows "loadSasFromUserFile w' = (fst (loadSasFromUserFile w), w')"
proof -
  have "configLoc w' = (fst (configLoc w), w')" "configLoc w = (fst (configLoc w), w)"
    using configLoc_same [of w' w] configLoc_same [of w w] assms by (metis prod.collapse)+
  moreover have "fs_read w' p = fs_read w p" for p using assms by (simp add: fs_read_def Let_def split: option.split)
  ultimately show ?thesis
    by (cases "fst (configLoc w)") (auto simp: loadSasFromUserFile_def cmd_bind_def split: sum.splits)
qed

lemma sas_of_connection_string_reads:
  assumes "w_rest w' = w_rest w"
  shows "sas_of_connection_string cs w' = (fst (sas_of_connection_string cs w), w')"
  using assms
  by (simp add: sas_of_connection_string_def inputError_def printErrorAndExit_def cmd_defs split: sum.splits)

lemma getSas_reads:
  assumes "w_rest w' = w_rest w" and "w_platform w' = w_platform w" and "w_getenv w' = w_getenv w"
    and "truthy cs \<or> (w_files w' = w_files w \<and> w_fault w' = w_fault w)"
  shows "getSas cs w' = (fst (getSas cs w), w')"
proof -
  have "(if truthy cs then sas_of_connection_string cs else loadSasFromUserFile) v
      = (fst ((if truthy cs then sas_of_connection_string cs else loadSasFromUserFile) w), v)" if "v = w \<or> v = w'" for v
    using that assms sas_of_connection_string_reads [of v w] load_reads [of v w] by auto
  from this [of w] this [of w'] show ?thesis
    unfolding getSas_def cmd_bind_def inputError_def printErrorAndExit_def cmd_stop_def cmd_return_def
    by (auto split: sum.splits prod.splits)
qed

lemma keeps_at: "cmd_keeps R m \<Longrightarrow> R w (snd (m w))"
  by (simp add: cmd_keeps_def)

lemma open_canonical:
  assumes "fst (getSas (opt program ''login'') w) = Inr (JStr t)" and "canonical_token host t"
  shows "cmd_bind (open_registry program) f w = f (JStr t, client_for host t) w"
proof -
  have "getSas (opt program ''login'') w = (Inr (JStr t), w)"
    using getSas_reads [of w w "opt program ''login''"] assms(1) by simp
  then show ?thesis by (simp add: open_registry_def cmd_defs canonical_registry [OF assms(2)])
qed

lemmas signed_rules = signed.keeps_registry [OF refl] signed.keeps_pages [OF refl] signed.keeps_poll [OF refl]
  signed.R_rest [OF refl]

lemma createDevice_signed:
  assumes "fst (getSas (opt program ''login'') w) = Inr (JStr t)" and "canonical_token host t"
  shows "sends_with host t w (snd (createDevice program info w))"
  unfolding createDevice_def open_canonical [OF assms] prod.case by (intro keeps_at keeps signed_rules)

lemma sends_with_trans: "sends_with host t w1 w2 \<Longrightarrow> sends_with host t w2 w3 \<Longrightarrow> sends_with host t w1 w3"
  by (rule signed.R_trans)

text \<open>What comes before the token is asked for sends nothing and keeps what \<open>getSas\<close> reads.\<close>

lemma cmd_bind_prepared:
  assumes "\<And>x w'. m w = (Inr x, w') \<Longrightarrow> sends_with host t w (snd (f x w'))"
    and "w_requests (snd (m w)) = w_requests w"
  shows "sends_with host t w (snd (cmd_bind m f w))"
  using assms by (auto simp: cmd_bind_def sends_with_def split: prod.splits sum.splits)

lemma getSas_prepared:
  assumes "fst (getSas cs w) = Inr (JStr t)" and "w_rest w' = w_rest w" and "w_platform w' = w_platform w"
    and "w_getenv w' = w_getenv w" and "truthy cs \<or> (w_files w' = w_files w \<and> w_fault w' = w_fault w)"
  shows "fst (getSas cs w') = Inr (JStr t)"
  using getSas_reads [OF assms(2-5)] assms(1) by simp

lemma sends_with_requests: "sends_with host t w' v \<Longrightarrow> w_requests w' = w_requests w \<Longrightarrow> sends_with host t w v"
  by (simp add: sends_with_def)

lemma create_info_world: "snd (create_info program w) = w"
  by (simp add: create_info_def cmd_defs inputError_def printErrorAndExit_def Let_def split: option.splits)

lemma generateCert_signed:
  assumes "fst (getSas (opt program ''login'') w) = Inr (JStr t)" and "canonical_token host t" and "flag program ''login''"
  shows "sends_with host t w (snd (generateCertAndCreateDevice pem program info w))"
proof -
  have login: "truthy (opt program ''login'')" using assms(3) by (simp add: flag_def)
  have "sends_with host t w (snd (createDevice program i w'))"
    if "w_rest w' = w_rest w" "w_platform w' = w_platform w" "w_getenv w' = w_getenv w" "w_requests w' = w_requests w" for i w'
    using createDevice_signed [OF getSas_prepared [OF assms(1) that(1-3)] assms(2)] login that(4) sends_with_requests by blast
  then show ?thesis
    by (auto simp: generateCertAndCreateDevice_def fs_writeSync_def cmd_defs inputError_def printErrorAndExit_def Let_def
        signed.R_refl sends_with_def split: option.splits)
qed

lemma create_signed:
  assumes "fst (getSas (opt program ''login'') w) = Inr (JStr t)" and "canonical_token host t"
    and "flag program ''x509'' \<longrightarrow> flag program ''login''"
  shows "sends_with host t w (snd (create_device pem program w))"
proof -
  have dev: "sends_with host t w (snd (createDevice program i w))" for i
    by (rule createDevice_signed [OF assms(1,2)])
  have pr: "sends_with host t w (snd (cmd_bind (cmd_print x) (\<lambda>_. createDevice program i) w))" for x i
  proof -
    have "fst (getSas (opt program ''login'') (w\<lparr>w_out := w_out w @ [x]\<rparr>)) = Inr (JStr t)"
      by (rule getSas_prepared [OF assms(1)]) simp_all
    from createDevice_signed [OF this assms(2)] show ?thesis
      by (simp add: cmd_bind_def cmd_print_def sends_with_def)
  qed
  have err: "sends_with host t w (snd (inputError m w))" for m
    by (simp add: inputError_def printErrorAndExit_def cmd_stop_def signed.R_refl)
  have info: "snd (create_info program w) = w" by (rule create_info_world)
  show ?thesis
    unfolding create_device_def Let_def
    using err info dev pr generateCert_signed [OF assms(1,2)] assms(3)
    by (auto intro!: cmd_bind_prepared simp: Let_def)
qed

lemma signed_at: "cmd_keeps (sends_with host t) m \<Longrightarrow> sends_with host t w (snd (m w))"
  by (rule keeps_at)

lemma signed_guard:
  "(\<not> b \<Longrightarrow> sends_with host t w (snd (m w))) \<Longrightarrow> sends_with host t w (snd ((if b then inputError msg else m) w))"
  by (simp add: inputError_def printErrorAndExit_def cmd_stop_def signed.R_refl)

lemma registry_commands_signed:
  assumes "fst (getSas (opt program ''login'') w) = Inr (JStr t)" and "canonical_token host t"
  shows "sends_with host t w (snd (get_device program w))"
    and "sends_with host t w (snd (list_devices program w))"
    and "sends_with host t w (snd (delete_device program w))"
    and "sends_with host t w (snd (get_twin program w))"
    and "sends_with host t w (snd (query_twin n program w))"
    and "sends_with host t w (snd (import_devices n program w))"
    and "sends_with host t w (snd (export_devices n program w))"
  unfolding get_device_def list_devices_def delete_device_def get_twin_def query_twin_def import_devices_def export_devices_def
  by (((rule signed_guard)+)?, simp only: open_canonical [OF assms] prod.case, intro signed_at keeps signed_rules)+

lemma query_job_signed:
  assumes "fst (getSas (opt program ''login'') w) = Inr (JStr t)" and "canonical_token host t"
  shows "sends_with host t w (snd (query_job n program w))"
proof -
  have login: "getSas (opt program ''login'') w = (Inr (JStr t), w)"
    using getSas_reads [of w w "opt program ''login''"] assms(1) by simp
  have "query_job n program w = print_pages (client_for host t) (JobClient_getJobsFunc (arg program 0) (arg program 1) JUndef)
      (cmd_each (\<lambda>job. cmd_print (Show (flag program ''raw'') job))) n Query w"
    by (simp add: query_job_def cmd_bind_def login cmd_res_def cmd_return_def canonical_job_client [OF assms(2)] JobClient_createQuery_def)
  then show ?thesis by (simp only:) (intro signed_at keeps signed_rules)
qed

lemma update_twin_signed:
  assumes "fst (getSas (opt program ''login'') w) = Inr (JStr t)" and "canonical_token host t"
  shows "sends_with host t w (snd (update_twin program w))"
  unfolding update_twin_def
proof (intro signed_guard cmd_bind_prepared)
  fix x w' assume "(case w_json w (js_string (arg program 1)) of
         None \<Rightarrow> inputError (''device-json isn'' @ [CHR 0x27] @ ''t valid JSON'') w | Some v \<Rightarrow> (Inr v, w)) = (Inr x, w')"
  then have w': "w' = w" by (auto simp: inputError_def printErrorAndExit_def cmd_stop_def split: option.splits)
  show "sends_with host t w (snd (cmd_bind (open_registry program) (\<lambda>(sas, registry).
      cmd_bind (registry_twin registry (Registry_getTwin (arg program 0) True)) (\<lambda>twin.
      cmd_bind (registry_twin registry (Registry_updateTwin (dget (st_object twin) ''deviceId'') x
                  (dget (st_object twin) ''etag''))) (print_twin program registry))) w'))"
    unfolding w' open_canonical [OF assms] prod.case by (intro signed_at keeps signed_rules)
qed (simp add: inputError_def printErrorAndExit_def cmd_stop_def split: option.splits)

lemma sas_token_signed:
  assumes "fst (getSas (opt program ''login'') w) = Inr (JStr t)" and "canonical_token host t"
  shows "sends_with host t w (snd (sas_token program w))"
  unfolding sas_token_def
proof (intro signed_guard cmd_bind_prepared)
  fix now w' assume "cmd_now w = (Inr now, w')"
  then have w': "w' = w" by (simp add: cmd_now_def cmd_ask_def)
  show "sends_with host t w (snd ((case token_expiry (now div 1000) (opt program ''duration'') of
          None \<Rightarrow> inputError ''Invalid duration''
        | Some expiry \<Rightarrow> if \<not> date_of_seconds (expiry, 0) then inputError ''Invalid duration''
            else cmd_bind (open_registry program) (\<lambda>(serviceSas, registry).
              cmd_bind (registry_device registry (Registry_get (arg program 0))) (print_token program expiry serviceSas))) w'))"
  proof (cases "token_expiry (now div 1000) (opt program ''duration'')")
    case None
    then show ?thesis by (simp only: option.case w') (intro signed_at keeps)
  next
    case (Some e)
    then show ?thesis
      by (simp only: option.case w') (intro signed_guard, unfold open_canonical [OF assms] prod.case, intro signed_at keeps signed_rules)
  qed
qed (simp add: cmd_now_def cmd_ask_def)

text \<open>C19: every command of the tool that manages devices, twins, queries or bulk jobs sends its requests
  to the host of the session, each with the session's token: whatever the hub answers, whatever the
  arguments are and however often the command calls. Creating a device with a generated certificate
  writes files first, so there the token has to come from \<open>--login\<close>.\<close>

theorem explorer_requests_signed:
  assumes "fst (getSas (opt program ''login'') w) = Inr (JStr t)" and "canonical_token host t"
    and "flag program ''x509'' \<longrightarrow> flag program ''login''"
  shows "\<exists>rs. w_requests (snd (run_command command program w)) = w_requests w @ rs
    \<and> list_all (\<lambda>rq. request_token rq = JStr t \<and> ho_host (aq_options rq) = JStr host) rs"
proof -
  have "sends_with host t w (snd (run_command command program w))"
    using registry_commands_signed [OF assms(1,2)] query_job_signed [OF assms(1,2)] update_twin_signed [OF assms(1,2)]
      sas_token_signed [OF assms(1,2)] create_signed [OF assms]
    by (cases command) simp_all
  then show ?thesis by (simp add: sends_with_def list_all_iff)
qed

text \<open>Surroundings for the examples: a Linux home, a hub that answers every request with an empty body.\<close>

definition sample_world :: "int \<Rightarrow> world" where
  "sample_world now = \<lparr>w_platform = ''linux'', w_getenv = (\<lambda>_. JStr ''/home/u''),
     w_rest = (sample_env now)\<lparr>re_hmac := \<lambda>k m. ''x'' @ k @ m\<rparr>,
     w_json = (\<lambda>_. None), w_merge = (\<lambda>_ v. v), w_merge_props = (\<lambda>_ v. v),
     w_hub = (\<lambda>_ _. \<lparr>hc_err = None, hc_body = None, hc_response = None\<rparr>),
     w_dateText = (\<lambda>_. []), w_fault = (\<lambda>_. None), w_files = (\<lambda>_. None),
     w_service = (\<lambda>_ _. None), w_containerUrl = (\<lambda>_ _ _ _. ''u''), w_calls = [], w_requests = [], w_out = []\<rparr>"

definition sample_program :: "string list \<Rightarrow> program" where
  "sample_program args = \<lparr>pr_args = args, pr_opts = [(''login'', sample_cs)]\<rparr>"

lemma sample_login: "truthy sample_cs" "sget sample_dict ''HostName'' = JStr ''h''" "sas_value ''h''"
  by (simp_all add: sample_cs_def sample_dict_def sget_def sas_value_def is_space_def)

lemma sample_getSas:
  assumes "0 \<le> now"
  shows "\<exists>t. getSas sample_cs (sample_world now) = (Inr (JStr t), sample_world now) \<and> canonical_token ''h'' t"
  by (rule getSas_login [OF sample_parse sample_login])
    (use assms in \<open>simp_all add: sample_world_def sample_env_def\<close>)

theorem explorer_requests_signed_witness:
  "\<exists>t rs. canonical_token ''h'' t
    \<and> w_requests (snd (run_command DeleteDevice (sample_program [''d'']) (sample_world 5000))) = w_requests (sample_world 5000) @ rs
    \<and> list_all (\<lambda>rq. request_token rq = JStr t \<and> ho_host (aq_options rq) = JStr ''h'') rs"
proof -
  obtain t where t: "getSas sample_cs (sample_world 5000) = (Inr (JStr t), sample_world 5000)" "canonical_token ''h'' t"
    using sample_getSas [of 5000] by auto
  have "opt (sample_program [''d'']) ''login'' = sample_cs" by (simp add: sample_program_def opt_def)
  with t(1) have "fst (getSas (opt (sample_program [''d'']) ''login'') (sample_world 5000)) = Inr (JStr t)" by simp
  moreover have "flag (sample_program [''d'']) ''x509'' \<longrightarrow> flag (sample_program [''d'']) ''login''"
    by (simp add: flag_def opt_def sample_program_def)
  ultimately show ?thesis using explorer_requests_signed [OF _ t(2)] t(2) by blast
qed

section \<open>Sessions\<close>

lemma service_create_returns:
  assumes "Service_ConnectionString_parse cs = Inr cn" and "truthy expiry"
  shows "\<exists>s. Service_SAS_create hmac (sget cn ''HostName'') (sget cn ''SharedAccessKeyName'') (sget cn ''SharedAccessKey'') expiry = Inr s"
  using service_cn_fields [OF assms(1)] assms(2)
  by (auto simp: Service_SAS_create_def SharedAccessSignature_create_def Let_def)

lemma login_writes:
  assumes "Service_ConnectionString_parse (arg program 0) = Inr cn" and "truthy (arg program 0)"
    and "configLoc w = (Inr (dir, file), w)"
    and "Service_SAS_create (re_hmac (w_rest w)) (sget cn ''HostName'') (sget cn ''SharedAccessKeyName'') (sget cn ''SharedAccessKey'')
           (login_expiry (re_now (w_rest w) div 1000) (opt program ''duration'')) = Inr s"
  shows "login program w =
    (if \<not> expiry_date (login_expiry (re_now (w_rest w) div 1000) (opt program ''duration''))
     then (Inl (ExitWith ''Input Error:'' ''Invalid duration.''), w)
     else write_session (path_join (w_platform w) dir file) (SharedAccessSignature_toString s)
            (login_expiry (re_now (w_rest w) div 1000) (opt program ''duration'')) w)"
  using assms by (simp add: login_def cmd_now_def cmd_defs inputError_def printErrorAndExit_def Let_def)

lemma logout_removes:
  assumes "configLoc w = (Inr (dir, file), w)" and "path_key (w_platform w) (path_join (w_platform w) dir file) = k"
    and "w_fault w k = None" and "w_files w k = Some t"
  shows "logout w = (Inr (), w\<lparr>w_files := (w_files w)(k := None), w_out := w_out w @ [Success ''Session successfully terminated.'',
     Success (''Removed session file: '' @ path_join (w_platform w) dir file)]\<rparr>)"
  using assms by (simp add: logout_def cmd_bind_def [of configLoc] fs_read_def cmd_defs)

text \<open>C20: a session works from login to logout. With the default duration \<open>login\<close> stores a token in the session
  file; every later command without \<open>--login\<close> reads exactly that token, it opens the registry of the
  connection string's host and authenticates with the same text, and after \<open>logout\<close> the commands are
  refused again.\<close>

theorem login_session:
  assumes "Service_ConnectionString_parse (arg program 0) = Inr cn" and "truthy (arg program 0)"
    and "sget cn ''HostName'' = JStr host" and "sas_value host" and "falsy (opt program ''duration'')"
    and "configLoc w = (Inr (dir, file), w)" and "dir \<noteq> []" and "w_fault w (path_key (w_platform w) (dir @ ''/'' @ file)) = None"
    and "0 \<le> re_now (w_rest w)" and "re_now (w_rest w) \<le> date_limit - 3600000" and "\<And>k m. re_hmac (w_rest w) k m \<noteq> []"
  shows "\<exists>w1 w2 t. login program w = (Inr (), w1) \<and> getSas JUndef w1 = (Inr (JStr t), w1)
    \<and> Registry_fromSharedAccessSignature (JStr t) = Inr (client_for host t)
    \<and> logout w1 = (Inr (), w2) \<and> getSas JUndef w2 = (Inl (ExitWith ''Input Error:'' no_session), w2)"
proof -
  define n where "n = re_now (w_rest w) div 1000 + 3600"
  define k where "k = path_key (w_platform w) (dir @ ''/'' @ file)"
  let ?p = "path_join (w_platform w) dir file"
  have n: "0 < n" "n * 1000 \<le> date_limit"
    using assms(9,10) by (simp_all add: n_def add_nonneg_pos date_limit_def)
  have e: "login_expiry (re_now (w_rest w) div 1000) (opt program ''duration'') = JNum n"
    using assms(5) by (simp add: login_expiry_def n_def)
  obtain policy key where cn: "sget cn ''SharedAccessKeyName'' = JStr policy" "sget cn ''SharedAccessKey'' = JStr key"
    "policy \<noteq> []" "key \<noteq> []" using service_cn_fields [OF assms(1)] by auto
  from created_canonical [where hmac = "re_hmac (w_rest w)", OF cn(4) n(1) cn(3) assms(4,11)] obtain s where
    s: "Service_SAS_create (re_hmac (w_rest w)) (JStr host) (JStr policy) (JStr key) (JNum n) = Inr s"
    "canonical_token host (SharedAccessSignature_toString s)" by blast
  let ?t = "SharedAccessSignature_toString s"
  have key: "path_key (w_platform w) ?p = k" using path_join_key [OF assms(7)] by (simp add: k_def)
  let ?w1 = "w\<lparr>w_files := (w_files w)(k \<mapsto> ?t),
     w_out := w_out w @ [Success (''Session started, expires on '' @ w_dateText w (JNum n)), Success (''Session file: '' @ ?p)]\<rparr>"
  let ?w2 = "?w1\<lparr>w_files := (w_files w)(k := None),
     w_out := w_out ?w1 @ [Success ''Session successfully terminated.'', Success (''Removed session file: '' @ ?p)]\<rparr>"
  have fault: "w_fault w k = None" using assms(8) by (simp add: k_def)
  have "login program w = (Inr (), ?w1)"
    using login_writes [OF assms(1,2,6)] s(1) cn e n assms(3) key fault
    by (simp add: write_session_def date_of_seconds_def cmd_defs)
  moreover have loc: "configLoc ?w1 = (Inr (dir, file), ?w1)" "configLoc ?w2 = (Inr (dir, file), ?w2)"
    by (rule configLoc_update [OF assms(6)]; simp)+
  have t: "?t \<noteq> []" using s(2) by (simp add: canonical_token_def)
  have "getSas JUndef ?w1 = (Inr (JStr ?t), ?w1)"
    using fault t by (intro getSas_session [OF loc(1)]) (simp_all add: fs_read_def k_def)
  moreover have "logout ?w1 = (Inr (), ?w2)"
    using logout_removes [OF loc(1), of k ?t] key fault by simp
  moreover have "getSas JUndef ?w2 = (Inl (ExitWith ''Input Error:'' no_session), ?w2)"
    using fault by (intro getSas_no_session [OF loc(2)]) (simp add: fs_read_def k_def)
  ultimately show ?thesis using canonical_registry [OF s(2)] by blast
qed

theorem login_session_witness:
  "\<exists>w1 w2 t. login (sample_program [''HostName=h;SharedAccessKeyName=p;SharedAccessKey=k'']) (sample_world 5000) = (Inr (), w1)
    \<and> getSas JUndef w1 = (Inr (JStr t), w1) \<and> Registry_fromSharedAccessSignature (JStr t) = Inr (client_for ''h'' t)
    \<and> logout w1 = (Inr (), w2) \<and> getSas JUndef w2 = (Inl (ExitWith ''Input Error:'' no_session), w2)"
proof -
  let ?p = "sample_program [''HostName=h;SharedAccessKeyName=p;SharedAccessKey=k'']"
  have a: "arg ?p 0 = sample_cs" by (simp add: sample_program_def arg_def sample_cs_def)
  have loc: "configLoc (sample_world 5000) = (Inr (''/home/u'', ''.iothub-explorer''), sample_world 5000)"
    by (simp add: configLoc_def sample_world_def)
  have dur: "falsy (opt ?p ''duration'')" by (simp add: sample_program_def opt_def)
  show ?thesis
    by (rule login_session [of ?p, unfolded a, OF sample_parse sample_login dur loc])
      (simp_all add: sample_world_def sample_env_def date_limit_def)
qed

text \<open>Reading digits.\<close>

lemma read_nat_append: "read_nat (a @ b) = read_nat a * 10 ^ length b + read_nat b"
proof (induction b rule: rev_induct)
  case (snoc c b)
  then show ?case
    unfolding append_assoc [symmetric] read_nat_snoc by (simp add: algebra_simps)
qed (simp add: read_nat_def)

lemma read_nat_bound: "list_all is_digit d \<Longrightarrow> read_nat d < 10 ^ length d"
proof (induction d rule: rev_induct)
  case (snoc c d)
  then have "digit_val c \<le> 9" "read_nat d < 10 ^ length d" by (auto simp: digit_val_def is_digit_def)
  then show ?case unfolding read_nat_snoc by simp
qed (simp add: read_nat_def)

lemma digits_show_nat: "list_all is_digit (show_nat n)"
  using show_nat_digits by (simp add: list_all_iff is_digit_def)

lemma digit_not_space: "is_digit c \<Longrightarrow> \<not> is_space c"
  by (auto simp: is_digit_def is_space_def Let_def)

lemma js_trim_digits:
  assumes "list_all is_digit s"
  shows "js_trim s = s"
proof -
  have "dropWhile is_space s = s" using assms digit_not_space by (cases s) auto
  moreover have "dropWhile is_space (rev s) = rev s"
    using assms digit_not_space by (cases "rev s") (auto simp: list_all_iff dest: arg_cong [of _ _ set])
  ultimately show ?thesis by (simp add: js_trim_def)
qed

lemma digit_no_letter: "is_digit c \<Longrightarrow> c \<noteq> CHR ''x'' \<and> c \<noteq> CHR ''X'' \<and> c \<noteq> CHR ''-'' \<and> c \<noteq> CHR ''+''"
  by (auto simp: is_digit_def)

lemma js_Number_digits:
  assumes "list_all is_digit s" and "s \<noteq> []"
  shows "js_Number s = Some (int (read_nat s), 0)"
proof -
  have "take 2 s \<noteq> ''0x'' \<and> take 2 s \<noteq> ''0X''"
  proof -
    have "c \<noteq> CHR ''x'' \<and> c \<noteq> CHR ''X''" if "c \<in> set (take 2 s)" for c
      using assms(1) that digit_no_letter in_set_takeD [of c 2 s] by (simp add: list_all_iff)
    then show ?thesis by (metis list.set_intros)
  qed
  moreover have "split_sign s = (1, s)"
    using assms digit_no_letter by (cases s) auto
  moreover have tw: "takeWhile is_digit s = s" "dropWhile is_digit s = []"
    using assms(1) by (simp_all add: list_all_iff takeWhile_eq_all_conv)
  have "js_decimal s = Some (int (read_nat s), 0)"
    unfolding js_decimal_def tw using assms(2) by simp
  ultimately show ?thesis
    using assms(2) by (simp add: js_Number_def js_trim_digits [OF assms(1)])
qed

lemma login_expiry_digits:
  assumes "list_all is_digit d" and "d \<noteq> []" and "0 \<le> n"
  shows "js_Number (js_string (login_expiry n (JStr d))) = Some (n * 10 ^ length d + int (read_nat d), 0)"
proof -
  have "list_all is_digit (show_nat (nat n) @ d)" using assms(1) digits_show_nat by simp
  from js_Number_digits [OF this] assms(2,3) show ?thesis
    by (simp add: login_expiry_def show_int_def read_nat_append)
qed

text \<open>\<open>login --duration\<close> does not do what it says. The duration is appended to the digits of the clock,
  so for a clock between 2001 and 2243 a duration of four digits or more is refused as invalid, and a
  shorter one starts a session whose expiry in seconds is at least ten times the clock.\<close>

lemma login_duration_appended:
  assumes "Service_ConnectionString_parse (arg program 0) = Inr cn" and "truthy (arg program 0)"
    and "configLoc w = (Inr (dir, file), w)" and "opt program ''duration'' = JStr d" and "list_all is_digit d" and "d \<noteq> []"
    and "n = re_now (w_rest w) div 1000" and "10 ^ 9 \<le> n" and "n < 8640000000"
  shows "(4 \<le> length d \<longrightarrow> login program w = (Inl (ExitWith ''Input Error:'' ''Invalid duration.''), w))
    \<and> (length d \<le> 3 \<longrightarrow> expiry_date (login_expiry n (JStr d))
         \<and> (\<exists>e. js_Number (js_string (login_expiry n (JStr d))) = Some (e, 0) \<and> 10 * n \<le> e))"
proof -
  define e where "e = n * 10 ^ length d + int (read_nat d)"
  have num: "js_Number (js_string (login_expiry n (JStr d))) = Some (e, 0)"
    using login_expiry_digits [OF assms(5,6)] assms(8) by (simp add: e_def)
  have str: "login_expiry n (JStr d) = JStr (show_int n @ d)" using assms(6) by (simp add: login_expiry_def)
  have date: "expiry_date (login_expiry n (JStr d)) \<longleftrightarrow> e * 1000 \<le> date_limit"
    using num str assms(8) by (simp add: date_of_seconds_def e_def)
  have long: "date_limit < e * 1000" if "4 \<le> length d"
  proof -
    have "(10::int) ^ 4 \<le> 10 ^ length d" using that by (intro power_increasing) simp_all
    then have "10 ^ 9 * 10 ^ 4 \<le> n * 10 ^ length d" using assms(8) by (intro mult_mono) simp_all
    then show ?thesis by (simp add: e_def date_limit_def)
  qed
  have short: "e * 1000 \<le> date_limit \<and> 10 * n \<le> e" if "length d \<le> 3"
  proof -
    have r: "int (read_nat d) < 10 ^ length d" using read_nat_bound [OF assms(5)] by (metis of_nat_less_iff of_nat_numeral of_nat_power)
    have "n * 10 ^ length d + int (read_nat d) \<le> (n + 1) * 10 ^ length d" using r by (simp add: algebra_simps)
    also have "\<dots> \<le> 8640000000 * 10 ^ 3"
      using that assms(8,9) power_increasing [of "length d" 3 "10::int"] by (intro mult_mono) simp_all
    finally have "e * 1000 \<le> date_limit" by (simp add: e_def date_limit_def)
    moreover have "(10::int) \<le> 10 ^ length d" using assms(6) power_increasing [of 1 "length d" "10::int"] by (cases d) simp_all
    then have "n * 10 \<le> n * 10 ^ length d" using assms(8) by (intro mult_left_mono) simp_all
    ultimately show ?thesis by (simp add: e_def)
  qed
  obtain s where s: "Service_SAS_create (re_hmac (w_rest w)) (sget cn ''HostName'') (sget cn ''SharedAccessKeyName'')
     (sget cn ''SharedAccessKey'') (login_expiry n (JStr d)) = Inr s"
    using service_create_returns [OF assms(1), of "login_expiry n (JStr d)"] str assms(6) by auto
  from login_writes [OF assms(1,2,3)] s assms(4,7) have
    "\<not> expiry_date (login_expiry n (JStr d)) \<Longrightarrow> login program w = (Inl (ExitWith ''Input Error:'' ''Invalid duration.''), w)"
    by simp
  with date long short num show ?thesis by fastforce
qed

lemma login_duration_appended_example:
  "login \<lparr>pr_args = [''HostName=h;SharedAccessKeyName=p;SharedAccessKey=k''], pr_opts = [(''duration'', JStr ''3600'')]\<rparr>
     (sample_world 1500000000000) = (Inl (ExitWith ''Input Error:'' ''Invalid duration.''), sample_world 1500000000000)"
proof -
  let ?p = "\<lparr>pr_args = [''HostName=h;SharedAccessKeyName=p;SharedAccessKey=k''], pr_opts = [(''duration'', JStr ''3600'')]\<rparr>"
  have a: "arg ?p 0 = sample_cs" by (simp add: arg_def sample_cs_def)
  have loc: "configLoc (sample_world 1500000000000) = (Inr (''/home/u'', ''.iothub-explorer''), sample_world 1500000000000)"
    by (simp add: configLoc_def sample_world_def)
  have "list_all is_digit ''3600''" by (simp add: is_digit_def)
  from login_duration_appended [of ?p, unfolded a, OF sample_parse sample_login(1) loc _ this, of 1500000000] show ?thesis
    by (simp add: opt_def sample_world_def sample_env_def)
qed

section \<open>Devices\<close>

text \<open>The connection string the tool makes of a device with a primary symmetric key is accepted by the
  device library, which reads back the hub, the device and the key.\<close>

lemma explorer_connection_string:
  assumes "wf_pair (CHR '';'') (''HostName'', host)" and "wf_pair (CHR '';'') (''DeviceId'', ident)"
    and "wf_pair (CHR '';'') (''SharedAccessKey'', key)"
    and "jget info ''deviceId'' = JStr ident" and "jget info ''authentication'' = JObj auth"
    and "dget auth ''SymmetricKey'' = JObj keys" and "dget keys ''primaryKey'' = JStr key"
  shows "\<exists>cs. createDeviceConnectionString info host = Inr (JStr cs)
    \<and> Device_ConnectionString_parse (JStr cs)
      = Inr [(''HostName'', host), (''DeviceId'', ident), (''SharedAccessKey'', key)]"
proof -
  let ?kvs = "[(''HostName'', host), (''DeviceId'', ident), (''SharedAccessKey'', key)]"
  have info: "info \<noteq> JUndef" "info \<noteq> JNull" using assms(5) by auto
  have key: "key \<noteq> []" using assms(3) by (simp add: wf_pair_def)
  have "createDeviceConnectionString info host = Inr (JStr (print_pairs (CHR '';'') ?kvs))"
    using assms(4-7) info key
    by (simp add: createDeviceConnectionString_def js_member_def print_pairs_def print_pair_def)
  moreover have "ConnectionString_parse (JStr (print_pairs (CHR '';'') ?kvs)) [''HostName'', ''DeviceId''] = Inr ?kvs"
    by (rule parse_print_pairs) (use assms(1-3) in simp_all)
  then have "Device_ConnectionString_parse (JStr (print_pairs (CHR '';'') ?kvs)) = Inr ?kvs"
    using key by (simp add: Device_ConnectionString_parse_def sget_def)
  ultimately show ?thesis by blast
qed

lemma explorer_connection_string_example:
  "\<exists>cs. createDeviceConnectionString (JObj [(''deviceId'', JStr ''d''), (''authentication'',
       JObj [(''SymmetricKey'', JObj [(''primaryKey'', JStr ''k=='')])])]) ''h'' = Inr (JStr cs)
    \<and> Device_ConnectionString_parse (JStr cs) = Inr [(''HostName'', ''h''), (''DeviceId'', ''d''), (''SharedAccessKey'', ''k=='')]"
  by (rule explorer_connection_string [where auth = "[(''SymmetricKey'', JObj [(''primaryKey'', JStr ''k=='')])]"
        and keys = "[(''primaryKey'', JStr ''k=='')]"]) (simp_all add: wf_pair_def)

lemma device_view_key:
  assumes "Device_SymmetricKey d = JUndef"
  shows "throws TypeError (device_key (Device_view d))" and "throws TypeError (createDeviceConnectionString (Device_view d) host)"
proof -
  let ?a = "jget (Device_view d) ''authentication''"
  have "jget ?a ''SymmetricKey'' = JUndef"
    using assms by (cases d) (auto simp: Device_view_def split: jsval.splits)
  then show "throws TypeError (device_key (Device_view d))" "throws TypeError (createDeviceConnectionString (Device_view d) host)"
    by (auto simp: device_key_def createDeviceConnectionString_def js_member_def)
qed

lemma cmd_bind_InrE:
  assumes "cmd_bind m f w = (Inr y, w')"
  obtains x w1 where "m w = (Inr x, w1)" and "f x w1 = (Inr y, w')"
  using assms by (auto simp: cmd_bind_def split: prod.splits sum.splits)

text \<open>The merge of the registry is the same before and after a request.\<close>

lemma cmd_rest_merge: "w_merge (snd (cmd_rest c call w)) = w_merge w"
  by (auto simp: cmd_defs Let_def split: sum.splits prod.splits)

lemma registry_device_view:
  assumes "registry_device registry call w = (Inr d, w')" and "\<And>v. Device_SymmetricKey (w_merge w device_defaults v) = JUndef"
  shows "\<exists>d0. d = Device_view d0 \<and> Device_SymmetricKey d0 = JUndef"
proof -
  from assms(1) [unfolded registry_device_def] obtain out w1 where 1: "cmd_rest registry call w = (Inr out, w1)"
    and r: "cmd_bind (\<lambda>w. cmd_res (Registry_onDevice (w_merge w) (w_json w) out) w) (\<lambda>out.
       cmd_bind (or_service_error out) (\<lambda>device. cmd_return (Device_view device))) w1 = (Inr d, w')"
    by (rule cmd_bind_InrE)
  from r obtain out2 w2 where 2: "cmd_res (Registry_onDevice (w_merge w1) (w_json w1) out) w1 = (Inr out2, w2)"
    and d: "cmd_bind (or_service_error out2) (\<lambda>device. cmd_return (Device_view device)) w2 = (Inr d, w')"
    by (rule cmd_bind_InrE)
  have m: "w_merge w1 = w_merge w" using cmd_rest_merge [of registry call w] 1 by simp
  from d obtain d0 where d0: "out2 = Inr d0" "d = Device_view d0"
    by (cases out2) (auto simp: or_service_error_def serviceError_def printErrorAndExit_def cmd_defs)
  have dflt: "Device_SymmetricKey device_defaults = JUndef"
    by (simp add: Device_SymmetricKey_def device_defaults_def)
  have "\<exists>v. d0 = device_defaults \<or> d0 = w_merge w device_defaults v"
    using 2 d0(1) m
    by (auto simp: cmd_defs Registry_onDevice_def Device_def res_bind_Inr_iff split: sum.splits if_splits)
  then show ?thesis using d0(2) assms(2) dflt by auto
qed

lemma cmd_now_bind: "cmd_bind cmd_now f w = f (re_now (w_rest w)) w"
  by (simp add: cmd_now_def cmd_defs)

lemma open_registry_world: "snd (open_registry program w) = w"
  using getSas_reads [of w w "opt program ''login''"]
  by (auto simp: open_registry_def cmd_defs split: sum.splits prod.splits)

lemma fetched_device_keyless:
  assumes "cmd_bind (open_registry program) (\<lambda>(sas, registry).
       cmd_bind (registry_device registry call) (\<lambda>device. k sas device)) w = (Inr (), w')"
    and "\<And>v. Device_SymmetricKey (w_merge w device_defaults v) = JUndef"
  shows "\<exists>sas d0 w1. Device_SymmetricKey d0 = JUndef \<and> k sas (Device_view d0) w1 = (Inr (), w')"
proof -
  from assms(1) obtain sas registry where
    "cmd_bind (registry_device registry call) (\<lambda>device. k sas device) w = (Inr (), w')"
    using open_registry_world [of program w] by (elim cmd_bind_InrE) auto
  then obtain d w1 where "registry_device registry call w = (Inr d, w1)" "k sas d w1 = (Inr (), w')"
    by (elim cmd_bind_InrE)
  with registry_device_view [OF this(1) assms(2)] show ?thesis by blast
qed

text \<open>The getter \<open>SymmetricKey\<close> makes the commands that need a device's key useless. As long as no device has
  an \<open>authentication\<close> inside its \<open>authentication\<close>, \<open>sas-token\<close> never succeeds, and \<open>get\<close> never succeeds
  when it is asked for the connection string.\<close>

lemma device_key_unreachable:
  assumes "\<And>v. Device_SymmetricKey (w_merge w device_defaults v) = JUndef"
  shows "fst (sas_token program w) \<noteq> Inr () \<and> (flag program ''connectionString'' \<longrightarrow> fst (get_device program w) \<noteq> Inr ())"
proof (intro conjI impI notI)
  assume "fst (sas_token program w) = Inr ()"
  then obtain w' where "sas_token program w = (Inr (), w')" by (metis prod.collapse)
  then obtain e where "cmd_bind (open_registry program) (\<lambda>(sas, registry).
      cmd_bind (registry_device registry (Registry_get (arg program 0))) (\<lambda>device. print_token program e sas device)) w = (Inr (), w')"
    by (auto simp: sas_token_def cmd_now_bind inputError_def printErrorAndExit_def cmd_stop_def split: if_splits option.splits)
  from fetched_device_keyless [OF this assms] obtain sas d0 w1 where
    "Device_SymmetricKey d0 = JUndef" "print_token program e sas (Device_view d0) w1 = (Inr (), w')"
    by blast
  with device_view_key(1) [of d0] show False
    by (cases "device_key (Device_view d0)") (auto simp: print_token_def cmd_defs)
next
  assume f: "flag program ''connectionString''" and "fst (get_device program w) = Inr ()"
  then obtain w' where "get_device program w = (Inr (), w')" by (metis prod.collapse)
  then have "cmd_bind (open_registry program) (\<lambda>(sas, registry).
      cmd_bind (registry_device registry (Registry_get (arg program 0))) (\<lambda>device.
        cmd_bind (getHostFromSas sas) (\<lambda>host. show_device program host device))) w = (Inr (), w')"
    by (auto simp: get_device_def inputError_def printErrorAndExit_def cmd_stop_def split: if_splits)
  from fetched_device_keyless [OF this assms] obtain sas d0 w1 where d0: "Device_SymmetricKey d0 = JUndef"
    and "cmd_bind (getHostFromSas sas) (\<lambda>host. show_device program host (Device_view d0)) w1 = (Inr (), w')"
    by blast
  then obtain host w2 where "show_device program host (Device_view d0) w2 = (Inr (), w')" by (elim cmd_bind_InrE)
  with device_view_key(2) [OF d0, of "js_string host"] f show False
    by (cases "createDeviceConnectionString (Device_view d0) (js_string host)")
      (auto simp: show_device_def printDevice_def cmd_defs Let_def)
qed

lemma device_key_unreachable_example:
  "fst (sas_token (sample_program [''d'']) ((sample_world 5000)\<lparr>w_merge := \<lambda>d v. d\<rparr>)) \<noteq> Inr ()"
  using device_key_unreachable [of "(sample_world 5000)\<lparr>w_merge := \<lambda>d v. d\<rparr>" "sample_program [''d'']"]
  by (simp add: Device_SymmetricKey_def device_defaults_def)

section \<open>Twins, jobs and messages\<close>

text \<open>Without \<open>--raw\<close>, \<open>get-twin\<close> hands the pretty printer the twin with the registry inside it, so the token of
  the session is part of what the command prints.\<close>

lemma get_twin_prints_token:
  assumes "fst (getSas (opt program ''login'') w) = Inr (JStr t)" and "canonical_token host t"
    and "\<not> flag program ''raw''" and "get_twin program w = (Inr (), w')"
  shows "\<exists>out v. w_out w' = out @ [Show False v]
    \<and> jget (jget (jget v ''_registry'') ''_config'') ''sharedAccessSignature'' = JStr t"
proof -
  from assms(4) have "cmd_bind (open_registry program) (\<lambda>(sas, registry).
     cmd_bind (registry_twin registry (Registry_getTwin (arg program 0) True)) (print_twin program registry)) w = (Inr (), w')"
    by (simp add: get_twin_def inputError_def printErrorAndExit_def cmd_stop_def split: if_splits)
  then have "cmd_bind (registry_twin (client_for host t) (Registry_getTwin (arg program 0) True))
      (print_twin program (client_for host t)) w = (Inr (), w')"
    unfolding open_canonical [OF assms(1,2)] by simp
  then obtain twin w1 where "print_twin program (client_for host t) twin w1 = (Inr (), w')" by (elim cmd_bind_InrE)
  then show ?thesis using assms(3) by (auto simp: print_twin_def cmd_defs registry_object_def Let_def)
qed

text \<open>A hub whose every answer is a JSON object with a device identifier.\<close>

definition object_world :: "int \<Rightarrow> world" where
  "object_world now = (sample_world now)\<lparr>w_json := (\<lambda>s. if s = ''{}'' then Some (JObj [(''deviceId'', JStr ''d'')]) else None),
     w_hub := (\<lambda>_ _. \<lparr>hc_err = None, hc_body = Some ''{}'', hc_response = None\<rparr>)\<rparr>"

lemma object_getSas:
  "\<exists>t. getSas sample_cs (object_world 5000) = (Inr (JStr t), object_world 5000) \<and> canonical_token ''h'' t"
  by (rule getSas_login [OF sample_parse sample_login]) (simp_all add: object_world_def sample_world_def sample_env_def)

lemma sample_opt: "opt (sample_program args) ''login'' = sample_cs" "\<not> flag (sample_program args) ''raw''"
  by (simp_all add: sample_program_def opt_def flag_def)

lemma get_twin_prints_token_example:
  "\<exists>out v t. w_out (snd (get_twin (sample_program [''d'']) (object_world 5000))) = out @ [Show False v]
    \<and> canonical_token ''h'' t \<and> jget (jget (jget v ''_registry'') ''_config'') ''sharedAccessSignature'' = JStr t"
proof -
  obtain t where t: "getSas sample_cs (object_world 5000) = (Inr (JStr t), object_world 5000)" "canonical_token ''h'' t"
    using object_getSas by blast
  have s: "fst (getSas (opt (sample_program [''d'']) ''login'') (object_world 5000)) = Inr (JStr t)" using t(1) sample_opt by simp
  have a: "arg (sample_program [''d'']) 0 = JStr ''d''" by (simp add: arg_def sample_program_def)
  have "get_twin (sample_program [''d'']) (object_world 5000) = cmd_bind (registry_twin (client_for ''h'' t) (Registry_getTwin (JStr ''d'') True))
     (print_twin (sample_program [''d'']) (client_for ''h'' t)) (object_world 5000)"
    by (simp add: get_twin_def a open_canonical [OF s t(2)])
  moreover have "fst (\<dots>) = Inr ()"
    by (simp add: registry_twin_def cmd_defs Registry_getTwin_def RestApiClient_executeApiCall_def rest_authorization_def rest_body_def
        api_def Let_def object_world_def sample_world_def rest_onResponse_def Registry_onTwin_def ServiceTwin_def is_blank_def
        or_service_error_def print_twin_def sample_opt)
  ultimately have "fst (get_twin (sample_program [''d'']) (object_world 5000)) = Inr ()" by simp
  then obtain w' where "get_twin (sample_program [''d'']) (object_world 5000) = (Inr (), w')" by (metis prod.collapse)
  from get_twin_prints_token [OF s t(2) _ this] sample_opt this t(2) show ?thesis by auto
qed

text \<open>A bulk import is started and then lost. The library has already parsed the answer of the hub, so for
  every answer that is an object the second \<open>JSON.parse\<close> throws: the job has been posted, the command
  ends with a syntax error before its first question for the job's status, and the uploaded blob stays.\<close>

lemma import_devices_loses_job:
  assumes "fst (getSas (opt program ''login'') w) = Inr (JStr t)" and "canonical_token host t"
    and "flag program ''storage''" and "flag program ''input''"
    and "\<And>cs c. w_service w cs c = None" and "\<And>a b c d. w_containerUrl w a b c d \<noteq> []"
    and "\<And>rs rq. \<exists>d r. rest_onResponse (w_json w) (w_hub w rs rq) = Inr (Inr (JObj d, r))" and "w_json w ''[object Object]'' = None"
  shows "\<exists>e rq w'. import_devices n program w = (Inl (Uncaught e), w') \<and> err_kind e = SyntaxError
    \<and> w_requests w' = w_requests w @ [rq] \<and> ho_method (aq_options rq) = JStr ''POST''
    \<and> w_calls w' = w_calls w @ [CreateContainer ''importcontainer'',
         UploadBlob ''importcontainer'' ''devices.txt'' (opt program ''input''), CreateContainer ''exportcontainer'']"
proof -
  define u1 where "u1 = w_containerUrl w ''importcontainer'' ''rl'' (re_now (w_rest w) - 6000000) (re_now (w_rest w) + 6000000)"
  define u2 where "u2 = w_containerUrl w ''exportcontainer'' ''rwd'' (re_now (w_rest w) - 6000000) (re_now (w_rest w) + 6000000)"
  have u: "u1 \<noteq> []" "u2 \<noteq> []" using assms(6) by (simp_all add: u1_def u2_def)
  obtain call c' rq where call: "Registry_importDevicesFromBlob (JStr u1) (JStr u2) = Inr call"
    and rq: "RestApiClient_executeApiCall (w_rest w) (client_for host t) call = Inr (c', rq)" "ho_method (aq_options rq) = JStr ''POST''"
    using u by (simp add: Registry_importDevicesFromBlob_def RestApiClient_executeApiCall_def rest_authorization_def
        rest_body_def api_def Let_def Http_buildRequest_def)
  obtain d r where hub: "rest_onResponse (w_json w) (w_hub w (w_requests w) rq) = Inr (Inr (JObj d, r))" using assms(7) by blast
  let ?w' = "w\<lparr>w_calls := w_calls w @ [CreateContainer ''importcontainer'',
         UploadBlob ''importcontainer'' ''devices.txt'' (opt program ''input''), CreateContainer ''exportcontainer''],
       w_requests := w_requests w @ [rq]\<rparr>"
  have "import_devices n program w = (Inl (Uncaught (mk_error SyntaxError ''Unexpected token'')), ?w')"
    using assms(3,4,5,8) call rq(1) hub
    by (simp add: import_devices_def open_canonical [OF assms(1,2)])
      (simp add: storage_def container_url_def job_call_or_def parse_result_def cmd_defs u1_def [symmetric] u2_def [symmetric] Let_def)
  with rq(2) show ?thesis by simp
qed

lemma import_devices_loses_job_example:
  "\<exists>e rq w'. import_devices 9 \<lparr>pr_args = [], pr_opts = [(''login'', sample_cs), (''storage'', JStr ''s''), (''input'', JStr ''f'')]\<rparr>
       (object_world 5000) = (Inl (Uncaught e), w') \<and> err_kind e = SyntaxError \<and> w_requests w' = [rq]"
proof -
  let ?p = "\<lparr>pr_args = [], pr_opts = [(''login'', sample_cs), (''storage'', JStr ''s''), (''input'', JStr ''f'')]\<rparr>"
  obtain t where t: "getSas sample_cs (object_world 5000) = (Inr (JStr t), object_world 5000)" "canonical_token ''h'' t"
    using object_getSas by blast
  have s: "fst (getSas (opt ?p ''login'') (object_world 5000)) = Inr (JStr t)" using t(1) by (simp add: opt_def)
  have "\<exists>d r. rest_onResponse (w_json (object_world 5000)) (w_hub (object_world 5000) rs rq) = Inr (Inr (JObj d, r))" for rs rq
    by (simp add: object_world_def rest_onResponse_def)
  from import_devices_loses_job [OF s t(2) _ _ _ _ this, of 9] show ?thesis
    by (auto simp: flag_def opt_def object_world_def sample_world_def)
qed

text \<open>The filter of \<open>--display\<close> keeps one of two siblings: the second entry starts their parent afresh.\<close>

lemma filter_loses_sibling:
  "filter_device (JObj [(''a'', JObj [(''b'', JNum 1), (''c'', JNum 2)])]) ''a.b,a.c'' = [(''a'', JObj [(''c'', JNum 2)])]"
  by code_simp

text \<open>
  A message given whole on the command line is a plain object, so the client wraps it as the data of a new
  message whose identifier is empty, although the command prints the given one.
\<close>

lemma full_message_wrapped:
  assumes "json a = Some (JObj d)" and "truthy (dget d ''messageId'')" and "truthy deviceId"
  shows "\<exists>v. createMessageFromArgument json uuid a ack = Inr (Inr v) \<and> jget v ''messageId'' = dget d ''messageId''
    \<and> ServiceClient_send c deviceId (Inr v) k = ServiceClient_send c deviceId (Inl (Message v)) k
    \<and> msg_messageId (Message v) = JStr []"
  using assms by (simp add: createMessageFromArgument_def js_member_def ServiceClient_send_def Message_def)

text \<open>Calling a method with the client that a session gives always fails: that client has no REST client.\<close>

lemma session_method_fails:
  assumes "fst (getSas (opt program ''login'') w) = Inr (JStr t)" and "canonical_token host t"
    and "truthy (arg program 0)" and "truthy (arg program 1)" and "decodeURIComponent host = Some h"
  shows "\<exists>e. invoke_method transport program w = (Inl (Uncaught e), w) \<and> err_kind e = TypeError"
proof -
  have g: "getSas (opt program ''login'') w = (Inr (JStr t), w)"
    using getSas_reads [of w w "opt program ''login''"] assms(1) by simp
  obtain s where s: "Service_SAS_parse (JStr t) = Inr s" "dget s ''sr'' = JStr host" "t \<noteq> []"
    using assms(2) by (auto simp: canonical_token_def)
  obtain c where c: "ServiceClient_fromSharedAccessSignature transport (JStr t) = Inr c" "sc_rest c = None"
    using s assms(5) by (auto simp: ServiceClient_fromSharedAccessSignature_def ServiceClient_def)
  obtain a b where ab: "arg program 0 = JStr a" "a \<noteq> []" "arg program 1 = JStr b" "b \<noteq> []"
    using assms(3,4) by (auto simp: arg_def split: if_splits)
  have "throws TypeError (ServiceClient_invokeDeviceMethod (w_rest w) c (arg program 0) (method_params program))"
    using ab c(2) by (simp add: ServiceClient_invokeDeviceMethod_def DeviceMethod_def method_params_def is_blank_def
        DeviceMethod_invokeOn_def Let_def)
  then show ?thesis
    using assms(3,4) g c(1)
    by (cases "ServiceClient_invokeDeviceMethod (w_rest w) c (arg program 0) (method_params program)")
      (auto simp: invoke_method_def cmd_defs)
qed

end
