(* ===== verification/Explorer_Loops.thy ===== *)
theory Explorer_Loops
  imports Explorer_Laws
begin

text \<open>
  The loop of \<open>iothub-explorer-query-job.js\<close> over the pages of an answer: against a service that answers each continuation token
  with its page it ends, and it prints every job once, in order.
\<close>

text \<open>The service answers a query by the continuation token in the path of the request alone.\<close>

definition answers_queries :: "(jsval \<Rightarrow> api_call) \<Rightarrow> (jsval \<Rightarrow> jsval) \<Rightarrow> world \<Rightarrow> bool" where
  "answers_queries fn reply w \<longleftrightarrow> (\<forall>history rq token. ho_path (aq_options rq) = ac_path (fn token) \<longrightarrow>
     (\<exists>r. rest_onResponse (w_json w) (w_hub w history rq) = Inr (Inr (reply token, r))))"

lemma get_request:
  "\<exists>rq. RestApiClient_executeApiCall env (client_for host t) (api ''GET'' (CHR ''/'' # p) None JNull) = Inr (client_for host t, rq)
     \<and> ho_path (aq_options rq) = JStr (CHR ''/'' # p)"
  by (simp add: RestApiClient_executeApiCall_def api_def rest_authorization_def rest_body_def Http_buildRequest_def Let_def)

lemma query_answered:
  assumes "answers_queries fn reply w" and "fn token = api ''GET'' (CHR ''/'' # p) None JNull"
  shows "\<exists>rq. cmd_rest (client_for host t) (Inr (fn token)) w = (Inr (Inr (reply token)), w\<lparr>w_requests := w_requests w @ [rq]\<rparr>)"
proof -
  obtain rq where rq: "RestApiClient_executeApiCall (w_rest w) (client_for host t) (fn token) = Inr (client_for host t, rq)"
    "ho_path (aq_options rq) = ac_path (fn token)"
    using get_request [of "w_rest w" host t p] assms(2) by (auto simp: api_def)
  obtain r where "rest_onResponse (w_json w) (w_hub w (w_requests w) rq) = Inr (Inr (reply token, r))"
    using assms(1) rq(2) unfolding answers_queries_def by blast
  with rq(1) show ?thesis by (intro exI [of _ rq]) (simp add: cmd_defs)
qed

lemma print_all: "cmd_each (\<lambda>v. cmd_print (f v)) vs w = (Inr (), w\<lparr>w_out := w_out w @ map f vs\<rparr>)"
  by (induction vs arbitrary: w) (simp_all add: cmd_defs)

lemma print_pages_ends:
  assumes "answers_queries fn reply w" and "\<And>token. \<exists>p. fn token = api ''GET'' (CHR ''/'' # p) None JNull"
    and "serves (\<lambda>token. Inr (reply token)) (qu_continuationToken q) (map JArr pages)" and "length pages \<le> n"
  shows "\<exists>rs. print_pages (client_for host t) fn (cmd_each (\<lambda>v. cmd_print (f v))) n q w
      = (Inr (), w\<lparr>w_requests := w_requests w @ rs, w_out := w_out w @ map f (concat pages)\<rparr>) \<and> length rs = length pages"
  using assms
proof (induction pages arbitrary: q n w)
  case Nil
  then show ?case by simp
next
  case (Cons vs pages)
  obtain k where n: "n = Suc k" "length pages \<le> k" using Cons.prems(4) by (cases n) auto
  let ?token = "qu_continuationToken q"
  define q' where "q' = q\<lparr>qu_continuationToken := jget (reply ?token) ''continuationToken'',
    qu_hasMoreResults := (jget (reply ?token) ''continuationToken'' \<noteq> JNull)\<rparr>"
  obtain p where "fn ?token = api ''GET'' (CHR ''/'' # p) None JNull" using Cons.prems(2) by blast
  then obtain rq where rq: "cmd_rest (client_for host t) (Inr (fn ?token)) w = (Inr (Inr (reply ?token)), w\<lparr>w_requests := w_requests w @ [rq]\<rparr>)"
    using query_answered [OF Cons.prems(1)] by blast
  let ?w = "w\<lparr>w_requests := w_requests w @ [rq], w_out := w_out w @ map f vs\<rparr>"
  have next_q: "Query_next q (Inr (reply ?token)) = (q', Inr (JArr vs))"
    using Cons.prems(3) by (simp add: Query_next_def q'_def Let_def)
  have run: "print_pages (client_for host t) fn (cmd_each (\<lambda>v. cmd_print (f v))) n q w
      = (if qu_hasMoreResults q' then print_pages (client_for host t) fn (cmd_each (\<lambda>v. cmd_print (f v))) k q' else cmd_return ()) ?w"
    unfolding n(1) print_pages.simps
    by (simp add: cmd_bind_def rq next_q or_service_error_def cmd_return_def cmd_res_def print_all)
  show ?case
  proof (cases "pages = []")
    case True
    with Cons.prems(3) have "\<not> qu_hasMoreResults q'" by (simp add: q'_def)
    with run True show ?thesis by (intro exI [of _ "[rq]"]) (simp add: cmd_return_def)
  next
    case False
    with Cons.prems(3) have more: "qu_hasMoreResults q'" and serves: "serves (\<lambda>token. Inr (reply token)) (qu_continuationToken q') (map JArr pages)"
      by (simp_all add: q'_def)
    have "answers_queries fn reply ?w" using Cons.prems(1) by (simp add: answers_queries_def)
    from Cons.IH [OF this Cons.prems(2) serves n(2)] obtain rs where
      "print_pages (client_for host t) fn (cmd_each (\<lambda>v. cmd_print (f v))) k q' ?w
        = (Inr (), ?w\<lparr>w_requests := w_requests ?w @ rs, w_out := w_out ?w @ map f (concat pages)\<rparr>)" "length rs = length pages"
      by blast
    with run more show ?thesis by (intro exI [of _ "rq # rs"]) simp
  qed
qed

text \<open>C31: \<open>query-job\<close> ends, with as many requests as the answer has pages, and prints every job of every page once, in the order of
  the service, against a service that sends each page for its continuation token and the last one with a null token.\<close>

theorem query_job_prints_all:
  assumes "fst (getSas (opt program ''login'') w) = Inr (JStr t)" and "canonical_token host t"
    and "answers_queries (JobClient_getJobsFunc (arg program 0) (arg program 1) JUndef) reply w"
    and "serves (\<lambda>token. Inr (reply token)) JNull (map JArr pages)" and "length pages \<le> n"
  shows "\<exists>rs. query_job n program w = (Inr (), w\<lparr>w_requests := w_requests w @ rs,
      w_out := w_out w @ map (Show (flag program ''raw'')) (concat pages)\<rparr>) \<and> length rs = length pages"
proof -
  have login: "getSas (opt program ''login'') w = (Inr (JStr t), w)"
    using getSas_reads [of w w "opt program ''login''"] assms(1) by simp
  have "query_job n program w = print_pages (client_for host t) (JobClient_getJobsFunc (arg program 0) (arg program 1) JUndef)
      (cmd_each (\<lambda>job. cmd_print (Show (flag program ''raw'') job))) n Query w"
    by (simp add: query_job_def cmd_bind_def login cmd_res_def cmd_return_def canonical_job_client [OF assms(2)] JobClient_createQuery_def)
  moreover have "\<exists>p. JobClient_getJobsFunc ty st size token = api ''GET'' (CHR ''/'' # p) None JNull" for ty st size token
    unfolding JobClient_getJobsFunc_def append_Cons by (rule exI, rule refl)
  moreover have "qu_continuationToken Query = JNull" by (simp add: Query_def)
  ultimately show ?thesis
    using print_pages_ends [OF assms(3), of Query pages n host t "Show (flag program ''raw'')"] assms(4,5) by simp
qed

definition paged_world :: world where
  "paged_world = (sample_world 5000)\<lparr>
     w_json := (\<lambda>b. Some (if b = ''1'' then JObj [(''items'', JArr [JNum 1, JNum 2]), (''continuationToken'', JStr ''x'')]
                         else JObj [(''items'', JArr [JNum 3]), (''continuationToken'', JNull)])),
     w_hub := (\<lambda>_ rq. \<lparr>hc_err = None, hc_body = Some (if ho_path (aq_options rq) = ac_path (JobClient_getJobsFunc JUndef JUndef JUndef JNull)
                                             then ''1'' else ''2''), hc_response = None\<rparr>)\<rparr>"

definition paged_reply :: "jsval \<Rightarrow> jsval" where
  "paged_reply token = (if truthy token then JObj [(''items'', JArr [JNum 3]), (''continuationToken'', JNull)]
     else JObj [(''items'', JArr [JNum 1, JNum 2]), (''continuationToken'', JStr ''x'')])"

lemma paged_answers: "answers_queries (JobClient_getJobsFunc JUndef JUndef JUndef) paged_reply paged_world"
proof -
  have "ac_path (JobClient_getJobsFunc JUndef JUndef JUndef token) = ac_path (JobClient_getJobsFunc JUndef JUndef JUndef JNull) \<longleftrightarrow> falsy token" for token
    by (simp add: JobClient_getJobsFunc_def api_def query_param_def)
  then show ?thesis
    by (simp add: answers_queries_def paged_world_def paged_reply_def rest_onResponse_def)
qed

theorem query_job_prints_all_witness:
  "\<exists>w'. query_job 2 (sample_program []) paged_world = (Inr (), w')
     \<and> w_out w' = map (Show False) [JNum 1, JNum 2, JNum 3] \<and> length (w_requests w') = 2"
proof -
  have p: "opt (sample_program []) ''login'' = sample_cs" "arg (sample_program []) i = JUndef" "\<not> flag (sample_program []) ''raw''" for i
    by (simp_all add: sample_program_def opt_def arg_def flag_def)
  obtain t where t: "getSas sample_cs paged_world = (Inr (JStr t), paged_world)" "canonical_token ''h'' t"
    using getSas_login [OF sample_parse sample_login, of paged_world] by (auto simp: paged_world_def sample_world_def sample_env_def)
  have "serves (\<lambda>token. Inr (paged_reply token)) JNull (map JArr [[JNum 1, JNum 2], [JNum 3]])"
    by (simp add: paged_reply_def dget_def)
  from query_job_prints_all [of "sample_program []" paged_world t "''h''" paged_reply, OF _ t(2) _ this, of 2]
  show ?thesis using t(1) paged_answers by (auto simp: p) (auto simp: paged_world_def sample_world_def)
qed

end
