(* ===== verification/Explorer_Simulate.thy ===== *)
theory Explorer_Simulate
  imports Explorer_Commands
begin

text \<open>
  The command \<open>simulate-device\<close> (\<open>tools/iothub-explorer/iothub-explorer-simulate-device.js\<close>): the checks
  of its options, the connection string it uses, and the running simulation as a state machine over
  its timers and the callbacks of the device client.
\<close>

section \<open>Options\<close>

datatype protocol = Protocol_Amqp | Protocol_AmqpWs | Protocol_Http | Protocol_Mqtt | Protocol_MqttWs

definition verifySettle :: "jsval \<Rightarrow> jsval cmd" where
  "verifySettle a =
     (if truthy a \<and> a \<noteq> JStr ''complete'' \<and> a \<noteq> JStr ''reject'' \<and> a \<noteq> JStr ''abandon''
      then inputError (''--settle can take only take one of the following values: '' @ quoted (JStr ''complete'') @ '', ''
             @ quoted (JStr ''reject'') @ '' or '' @ quoted (JStr ''abandon''))
      else cmd_return a)"

definition verifyProtocol :: "string \<Rightarrow> jsval cmd" where
  "verifyProtocol a =
     (let l = to_lower a in
      if l \<noteq> ''amqp'' \<and> l \<noteq> ''amqp-ws'' \<and> l \<noteq> ''http'' \<and> l \<noteq> ''mqtt''
      then inputError (''--protocol can take only take one of the following values: '' @ quoted (JStr ''amqp'') @ '', ''
             @ quoted (JStr ''amqp-ws'') @ '', '' @ quoted (JStr ''mqtt'') @ '', '' @ quoted (JStr ''mqtt-ws'') @ '' or '' @ quoted (JStr ''http''))
      else cmd_return (JStr l))"

text \<open>What \<open>commander\<close> leaves in the options: the result of the verifier when the option is given.\<close>

definition option_protocol :: "program \<Rightarrow> jsval cmd" where
  "option_protocol program = (case opt program ''protocol'' of JStr a \<Rightarrow> verifyProtocol a | _ \<Rightarrow> cmd_return JUndef)"

definition option_settle :: "program \<Rightarrow> jsval cmd" where
  "option_settle program = verifySettle (opt program ''settle'')"

definition mqtt_settles :: "string \<Rightarrow> protocol \<Rightarrow> protocol cmd" where
  "mqtt_settles settleMethod p =
     (if settleMethod \<noteq> ''complete''
      then inputError (''Cannot '' @ settleMethod @ '' messages with MQTT: messages are automatically completed.'')
      else cmd_return p)"

definition select_protocol :: "string \<Rightarrow> string \<Rightarrow> protocol cmd" where
  "select_protocol protocolArg settleMethod =
     (if protocolArg = ''amqp-ws'' then cmd_return Protocol_AmqpWs
      else if protocolArg = ''http'' then cmd_return Protocol_Http
      else if protocolArg = ''mqtt'' then mqtt_settles settleMethod Protocol_Mqtt
      else if protocolArg = ''mqtt-ws'' then mqtt_settles settleMethod Protocol_MqttWs
      else cmd_return Protocol_Amqp)"

section \<open>The connection string of the device\<close>

definition either_string :: string where
  "either_string = ''You must specify either a device connection string (--device-connection-string) or the IoT Hub connection string and a device id as first argument''"

definition simulated_connection :: "program \<Rightarrow> jsval \<Rightarrow> jsval cmd" where
  "simulated_connection program sas =
     (if falsy (arg program 0) then
        (let dcs = opt program ''deviceConnectionString'' in
         if falsy dcs then inputError either_string
         else cmd_bind (cmd_res (Device_ConnectionString_parse dcs)) (\<lambda>_. cmd_return dcs))
      else cmd_bind (cmd_res (Registry_fromSharedAccessSignature sas)) (\<lambda>registry.
        cmd_bind (registry_device registry (Registry_get (arg program 0))) (\<lambda>device.
        cmd_bind (getHostFromSas sas) (\<lambda>host. cmd_res (createDeviceConnectionString device (js_string host))))))"

text \<open>Everything up to the creation of the device client: its connection string, its transport and the settling of messages.\<close>

definition simulate_setup :: "program \<Rightarrow> (jsval \<times> protocol \<times> string) cmd" where
  "simulate_setup program =
     cmd_bind (option_protocol program) (\<lambda>protocolOpt.
     cmd_bind (option_settle program) (\<lambda>settleOpt.
     cmd_bind (getSas (opt program ''login'')) (\<lambda>sas.
     if \<not> flag program ''deviceConnectionString'' \<and> falsy sas
     then inputError ''You must specify the device connection string (--device-connection-string) or the IoT Hub connection string (--login), or use the login command first.''
     else if \<not> flag program ''deviceConnectionString'' \<and> falsy (arg program 0) then inputError either_string
     else if \<not> flag program ''send'' \<and> \<not> flag program ''receive'' \<and> \<not> flag program ''uploadFile''
     then inputError ''Nothing to do: please use --send, --receive or --uploadFile''
     else
       let settleMethod = js_string (or_else settleOpt (JStr ''complete''));
           protocolArg = js_string (or_else protocolOpt (JStr ''amqp'')) in
       cmd_bind (select_protocol protocolArg settleMethod) (\<lambda>protocol.
       cmd_bind (simulated_connection program sas) (\<lambda>dcs.
       if falsy dcs then cmd_stop (Uncaught (mk_error Error (''Couldn'' @ [CHR 0x27] @ ''t figure out device connection string'')))
       else cmd_return (dcs, protocol, settleMethod))))))"

section \<open>The running simulation\<close>

text \<open>
  The counters and flags of \<open>simulateDevice\<close>, what is under way (sends without an answer, a close without
  an answer), the messages given to the client and the end of the process with its exit code.
\<close>

record simulation =
  sm_send :: bool
  sm_sendRunning :: bool
  sm_sendItv :: bool
  sm_sendCounter :: nat
  sm_sendCount :: nat
  sm_sent :: "nat list"
  sm_inflight :: nat
  sm_receive :: bool
  sm_receiveRunning :: bool
  sm_listening :: bool
  sm_receiveCounter :: nat
  sm_receiveCount :: nat
  sm_uploadRunning :: bool
  sm_closing :: nat
  sm_exit :: "nat option"

definition max_safe_integer :: nat where
  "max_safe_integer = 9007199254740991"

text \<open>\<open>program.sendCount || Number.MAX_SAFE_INTEGER\<close>: \<open>None\<close> is that the option is missing or no number.\<close>

definition count_option :: "nat option \<Rightarrow> nat" where
  "count_option c = (case c of Some n \<Rightarrow> if n = 0 then max_safe_integer else n | None \<Rightarrow> max_safe_integer)"

text \<open>The state in the callback of a successful \<open>open\<close>.\<close>

definition simulateDevice :: "bool \<Rightarrow> nat option \<Rightarrow> bool \<Rightarrow> nat option \<Rightarrow> bool \<Rightarrow> simulation" where
  "simulateDevice sending sendCount receive receiveCount upload =
     \<lparr>sm_send = sending, sm_sendRunning = sending, sm_sendItv = sending, sm_sendCounter = 0, sm_sendCount = count_option sendCount,
      sm_sent = [], sm_inflight = 0, sm_receive = receive, sm_receiveRunning = receive, sm_listening = receive, sm_receiveCounter = 0,
      sm_receiveCount = count_option receiveCount, sm_uploadRunning = upload, sm_closing = 0, sm_exit = None\<rparr>"

text \<open>
  What happens: a tick of the sending interval, the answer to a send, a message for the device, the answer
  to its settling, the end of the upload, a tick of the task interval, the answer to \<open>close\<close>. The flag of
  an answer is whether it is an error.
\<close>

datatype sim_event =
    SendTick
  | SendAnswer bool
  | MessageArrives
  | SettleAnswer bool
  | UploadAnswer bool
  | TaskTick
  | CloseAnswer bool

definition sim_fail :: "simulation \<Rightarrow> simulation" where
  "sim_fail s = s\<lparr>sm_exit := Some 1\<rparr>"

text \<open>The message of a tick carries the counter of the answered sends, as \<open>Simulated message: #n\<close>.\<close>

definition on_send_tick :: "simulation \<Rightarrow> simulation" where
  "on_send_tick s = s\<lparr>sm_sent := sm_sent s @ [sm_sendCounter s], sm_inflight := Suc (sm_inflight s)\<rparr>"

definition on_send_answer :: "bool \<Rightarrow> simulation \<Rightarrow> simulation" where
  "on_send_answer err s =
     (let s = s\<lparr>sm_inflight := sm_inflight s - 1\<rparr> in
      if err then sim_fail s
      else let s = s\<lparr>sm_sendCounter := Suc (sm_sendCounter s)\<rparr> in
        if sm_sendCounter s = sm_sendCount s then s\<lparr>sm_sendRunning := False, sm_sendItv := False\<rparr> else s)"

definition on_message :: "simulation \<Rightarrow> simulation" where
  "on_message s =
     (let s = s\<lparr>sm_receiveCounter := Suc (sm_receiveCounter s)\<rparr> in
      if sm_receiveCounter s = sm_receiveCount s then s\<lparr>sm_receiveRunning := False, sm_listening := False\<rparr> else s)"

definition on_task_tick :: "simulation \<Rightarrow> simulation" where
  "on_task_tick s =
     (if \<not> sm_sendRunning s \<and> \<not> sm_receiveRunning s \<and> \<not> sm_uploadRunning s then s\<lparr>sm_closing := Suc (sm_closing s)\<rparr> else s)"

text \<open>A step: the event can happen only while what it belongs to is active and the process runs.\<close>

inductive sim_step :: "simulation \<Rightarrow> sim_event \<Rightarrow> simulation \<Rightarrow> bool" where
  send_tick: "sm_exit s = None \<Longrightarrow> sm_sendItv s \<Longrightarrow> sim_step s SendTick (on_send_tick s)"
| send_answer: "sm_exit s = None \<Longrightarrow> 0 < sm_inflight s \<Longrightarrow> sim_step s (SendAnswer err) (on_send_answer err s)"
| message_arrives: "sm_exit s = None \<Longrightarrow> sm_listening s \<Longrightarrow> sim_step s MessageArrives (on_message s)"
| settle_answer: "sm_exit s = None \<Longrightarrow> 0 < sm_receiveCounter s \<Longrightarrow> sim_step s (SettleAnswer err) (if err then sim_fail s else s)"
| upload_answer: "sm_exit s = None \<Longrightarrow> sm_uploadRunning s \<Longrightarrow>
    sim_step s (UploadAnswer err) (if err then sim_fail s else s\<lparr>sm_uploadRunning := False\<rparr>)"
| task_tick: "sm_exit s = None \<Longrightarrow> sim_step s TaskTick (on_task_tick s)"
| close_answer: "sm_exit s = None \<Longrightarrow> 0 < sm_closing s \<Longrightarrow>
    sim_step s (CloseAnswer err) (s\<lparr>sm_exit := Some (if err then 1 else 0)\<rparr>)"

inductive sim_run :: "simulation \<Rightarrow> sim_event list \<Rightarrow> simulation \<Rightarrow> bool" where
  run_nil: "sim_run s [] s"
| run_snoc: "sim_run s es s1 \<Longrightarrow> sim_step s1 e s2 \<Longrightarrow> sim_run s (es @ [e]) s2"

inductive_cases sim_stepE: "sim_step s e s'"

section \<open>Laws\<close>

definition sim_inv :: "simulation \<Rightarrow> bool" where
  "sim_inv s \<longleftrightarrow> sm_sendItv s = sm_sendRunning s \<and> sm_listening s = sm_receiveRunning s
     \<and> (sm_exit s \<noteq> Some 1 \<longrightarrow> length (sm_sent s) = sm_sendCounter s + sm_inflight s)
     \<and> list_all (\<lambda>n. n < sm_sendCount s) (sm_sent s)
     \<and> (sm_sendRunning s \<longrightarrow> sm_sendCounter s < sm_sendCount s)
     \<and> (sm_send s \<and> \<not> sm_sendRunning s \<longrightarrow> sm_sendCount s \<le> sm_sendCounter s)
     \<and> (sm_receiveRunning s \<longrightarrow> sm_receiveCounter s < sm_receiveCount s)
     \<and> (sm_receive s \<and> \<not> sm_receiveRunning s \<longrightarrow> sm_receiveCounter s = sm_receiveCount s)
     \<and> (0 < sm_closing s \<longrightarrow> \<not> sm_sendRunning s \<and> \<not> sm_receiveRunning s \<and> \<not> sm_uploadRunning s)
     \<and> (sm_exit s = Some 0 \<longrightarrow> 0 < sm_closing s)"

lemma sim_inv_start: "sim_inv (simulateDevice sending sc receive rc upload)"
  by (simp add: sim_inv_def simulateDevice_def count_option_def max_safe_integer_def split: option.split)

lemma sim_inv_step:
  assumes "sim_step s e s'" and "sim_inv s"
  shows "sim_inv s'"
  using assms
proof cases
  case (send_answer err)
  show ?thesis
  proof (cases err)
    case True
    with send_answer assms(2) show ?thesis by (simp add: sim_inv_def on_send_answer_def sim_fail_def)
  next
    case False
    with send_answer assms(2) show ?thesis
      by (cases "Suc (sm_sendCounter s) = sm_sendCount s") (simp_all add: sim_inv_def on_send_answer_def, linarith?)
  qed
next
  case message_arrives
  with assms(2) show ?thesis
    by (cases "Suc (sm_receiveCounter s) = sm_receiveCount s") (auto simp: sim_inv_def on_message_def)
next
  case (settle_answer err)
  then show ?thesis using assms(2) by (cases err) (simp_all add: sim_inv_def sim_fail_def)
next
  case (upload_answer err)
  then show ?thesis using assms(2) by (cases err) (simp_all add: sim_inv_def sim_fail_def)
qed (fastforce simp: sim_inv_def on_send_tick_def on_task_tick_def)+

definition same_options :: "simulation \<Rightarrow> simulation \<Rightarrow> bool" where
  "same_options s s' \<longleftrightarrow> sm_send s' = sm_send s \<and> sm_sendCount s' = sm_sendCount s \<and> sm_receive s' = sm_receive s
     \<and> sm_receiveCount s' = sm_receiveCount s"

lemma same_options_step: "sim_step s e s' \<Longrightarrow> same_options s s'"
  by (induction rule: sim_step.induct)
    (auto simp: same_options_def on_send_tick_def on_send_answer_def on_message_def on_task_tick_def sim_fail_def Let_def)

lemma sim_run_inv:
  "sim_run s0 es s \<Longrightarrow> sim_inv s0 \<Longrightarrow> sim_inv s \<and> same_options s0 s"
proof (induction rule: sim_run.induct)
  case (run_nil s)
  then show ?case by (simp add: same_options_def)
next
  case (run_snoc s es s1 e s2)
  then show ?case using sim_inv_step same_options_step by (auto simp: same_options_def)
qed

text \<open>C34: the simulation ends with success only when everything asked for has happened. Whatever the order of
  timers and answers, exit code 0 means that at least the requested number of sends was acknowledged,
  that every message sent carried a number below that, that exactly the requested number of messages
  was received, and that no upload is under way.\<close>

theorem simulation_exit_complete:
  assumes "sim_run (simulateDevice sending sc receive rc upload) es s" and "sm_exit s = Some 0"
  shows "(sending \<longrightarrow> count_option sc \<le> sm_sendCounter s) \<and> list_all (\<lambda>n. n < count_option sc) (sm_sent s)
    \<and> length (sm_sent s) = sm_sendCounter s + sm_inflight s
    \<and> (receive \<longrightarrow> sm_receiveCounter s = count_option rc) \<and> \<not> sm_uploadRunning s"
proof -
  have "sim_inv s" "same_options (simulateDevice sending sc receive rc upload) s"
    using sim_run_inv [OF assms(1) sim_inv_start] by simp_all
  with assms(2) show ?thesis
    unfolding sim_inv_def same_options_def simulateDevice_def by auto
qed

text \<open>A run step by step, for the examples.\<close>

lemma sim_run_Cons: "sim_run s1 es s2 \<Longrightarrow> sim_step s e s1 \<Longrightarrow> sim_run s (e # es) s2"
proof (induction rule: sim_run.induct)
  case (run_nil s1)
  then show ?case using sim_run.run_snoc [OF sim_run.run_nil, of s e s1] by simp
next
  case (run_snoc s1 es s2 e' s3)
  then show ?case using sim_run.run_snoc [of s "e # es" s2 e' s3] by simp
qed

lemma slow_hub_run:
  "\<exists>s. sim_run (simulateDevice True (Some 1) False None False)
     [SendTick, SendTick, SendAnswer False, SendAnswer False, TaskTick, CloseAnswer False] s
   \<and> sm_exit s = Some 0 \<and> sm_sent s = [0, 0] \<and> sm_sendCounter s = 2"
proof -
  let ?s0 = "simulateDevice True (Some 1) False None False"
  let ?s1 = "on_send_tick ?s0"
  let ?s2 = "on_send_tick ?s1"
  let ?s3 = "on_send_answer False ?s2"
  let ?s4 = "on_send_answer False ?s3"
  let ?s5 = "on_task_tick ?s4"
  let ?s6 = "?s5\<lparr>sm_exit := Some (if False then 1 else 0)\<rparr>"
  note defs = simulateDevice_def on_send_tick_def on_send_answer_def on_task_tick_def count_option_def Let_def
  have 1: "sim_step ?s0 SendTick ?s1" "sim_step ?s1 SendTick ?s2" by (rule sim_step.send_tick; simp add: defs)+
  have 2: "sim_step ?s2 (SendAnswer False) ?s3" "sim_step ?s3 (SendAnswer False) ?s4"
    by (rule sim_step.send_answer; simp add: defs)+
  have 3: "sim_step ?s4 TaskTick ?s5" by (rule sim_step.task_tick) (simp add: defs)
  have 4: "sim_step ?s5 (CloseAnswer False) ?s6" by (rule sim_step.close_answer) (simp_all add: defs)
  have "sim_run ?s0 [SendTick, SendTick, SendAnswer False, SendAnswer False, TaskTick, CloseAnswer False] ?s6"
    by (rule sim_run_Cons [OF sim_run_Cons [OF sim_run_Cons [OF sim_run_Cons [OF sim_run_Cons [OF sim_run_Cons
          [OF run_nil 4] 3] 2(2)] 2(1)] 1(2)] 1(1)])
  moreover have "sm_exit ?s6 = Some 0" "sm_sent ?s6 = [0, 0]" "sm_sendCounter ?s6 = 2" by (simp_all add: defs)
  ultimately show ?thesis by blast
qed

theorem simulation_exit_complete_witness:
  "\<exists>s es. sim_run (simulateDevice True (Some 1) False None False) es s \<and> sm_exit s = Some 0 \<and> 1 \<le> sm_sendCounter s
     \<and> list_all (\<lambda>n. n < 1) (sm_sent s)"
  using slow_hub_run simulation_exit_complete [of True "Some 1" False None False] unfolding count_option_def by fastforce

text \<open>The verifier of \<open>--protocol\<close> refuses \<open>mqtt-ws\<close>, which the help and its own message offer.\<close>

lemma verifyProtocol_refuses_mqtt_ws: "\<exists>m. verifyProtocol ''mqtt-ws'' w = (Inl (ExitWith ''Input Error:'' m), w)"
proof -
  have "to_lower ''mqtt-ws'' = ''mqtt-ws''" by code_simp
  then show ?thesis by (simp add: verifyProtocol_def inputError_def printErrorAndExit_def cmd_stop_def)
qed

text \<open>A device connection string alone is not enough: without a session or \<open>--login\<close> the command is refused.\<close>

lemma simulate_needs_session:
  assumes "opt program ''protocol'' = JUndef" and "opt program ''settle'' = JUndef" and "opt program ''login'' = JUndef"
    and "configLoc w = (Inr (dir, file), w)" and "fs_read w (dir @ ''/'' @ file) = Inl ''ENOENT''"
  shows "simulate_setup program w = (Inl (ExitWith ''Input Error:'' no_session), w)"
  using getSas_no_session [OF assms(4,5)] assms(1-3)
  by (simp add: simulate_setup_def option_protocol_def option_settle_def verifySettle_def cmd_defs)

end
