(* ===== verification/Explorer_Monitor.thy ===== *)
theory Explorer_Monitor
  imports Explorer_Commands
begin

text \<open>
  The monitors of \<open>tools/iothub-explorer\<close>: events and operations from the Event Hubs client, feedback and
  upload notifications from receivers of the service client. What the services deliver is an argument,
  in the order in which it arrives.
\<close>

section \<open>Event Hubs\<close>

text \<open>What a receiver of a partition emits.\<close>

datatype hub_event =
    HubMessage jsval
  | HubError js_error

text \<open>
  The receivers are made in parallel and nobody waits for them: one that cannot be made has no listeners,
  and its error reaches no handler. The result is the partitions that are listened to.
\<close>

fun hub_receivers :: "string \<Rightarrow> jsval \<Rightarrow> string list \<Rightarrow> string list cmd" where
  "hub_receivers consumerGroup startTime [] = cmd_return []"
| "hub_receivers consumerGroup startTime (partitionId # ids) =
     cmd_bind (cmd_call (HubCreateReceiver consumerGroup partitionId startTime)) (\<lambda>err.
     cmd_bind (hub_receivers consumerGroup startTime ids) (\<lambda>listening.
       cmd_return (if err = None then partitionId # listening else listening)))"

definition hub_listen :: "jsval \<Rightarrow> string \<Rightarrow> string \<Rightarrow> jsval \<Rightarrow> string list \<Rightarrow> string list cmd" where
  "hub_listen connectionString path consumerGroup startTime partitionIds =
     cmd_bind (cmd_call (HubOpen connectionString path)) (\<lambda>err. case err of
       Some e \<Rightarrow> serviceError (err_message e)
     | None \<Rightarrow> cmd_bind (cmd_call HubGetPartitionIds) (\<lambda>err. case err of
         Some e \<Rightarrow> serviceError (err_message e)
       | None \<Rightarrow> hub_receivers consumerGroup startTime partitionIds))"

definition on_hub_event :: "(jsval \<Rightarrow> unit cmd) \<Rightarrow> string list \<Rightarrow> string \<times> hub_event \<Rightarrow> unit cmd" where
  "on_hub_event onMessage listening ev =
     (if fst ev \<in> set listening then
        (case snd ev of HubMessage eventData \<Rightarrow> onMessage eventData | HubError e \<Rightarrow> serviceError (err_message e))
      else cmd_return ())"

section \<open>Events of devices\<close>

definition event_body :: "jsval \<Rightarrow> printed" where
  "event_body body = (case body of JStr s \<Rightarrow> Log s | _ \<Rightarrow> Show True body)"

definition event_device :: "jsval \<Rightarrow> jsval res" where
  "event_device eventData = res_bind (js_member eventData ''systemProperties'')
     (\<lambda>p. js_member p ''iothub-connection-device-id'')"

definition print_event :: "jsval \<Rightarrow> unit cmd" where
  "print_event eventData = cmd_bind (cmd_print (event_body (jget eventData ''body''))) (\<lambda>_. cmd_print (Log ''-------------------''))"

definition on_event :: "program \<Rightarrow> jsval \<Rightarrow> unit cmd" where
  "on_event program eventData =
     (let deviceId = arg program 0 in
      if flag program ''raw'' then cmd_print (Show True eventData)
      else cmd_bind (cmd_res (event_device eventData)) (\<lambda>from.
        if truthy deviceId then (if from = deviceId then print_event eventData else cmd_return ())
        else cmd_bind (cmd_print (Log (''From: '' @ js_string from))) (\<lambda>_. print_event eventData)))"

text \<open>\<open>date\<close> is the constructor of dates.\<close>

definition monitor_events :: "(jsval \<Rightarrow> jsval) \<Rightarrow> string list \<Rightarrow> (string \<times> hub_event) list \<Rightarrow> program \<Rightarrow> unit cmd" where
  "monitor_events date partitionIds events program =
     (let deviceId = arg program 0 in
      if \<not> flag program ''login'' then inputError ''You must provide a connection string using the --login argument.''
      else cmd_bind (cmd_when (\<not> flag program ''raw'') (cmd_print (Log (
             if truthy deviceId then ''Monitoring events from device '' @ js_string deviceId @ ''...''
             else ''Monitoring events from all devices...'')))) (\<lambda>_.
        cmd_bind cmd_now (\<lambda>now.
        let consumerGroup = js_string (or_else (opt program ''consumerGroup'') (JStr ''$Default''));
            startTime = (if flag program ''startTime'' then date (opt program ''startTime'') else JNum now) in
        cmd_bind (hub_listen (opt program ''login'') [] consumerGroup startTime partitionIds) (\<lambda>listening.
          cmd_each (on_hub_event (on_event program) listening) events))))"

section \<open>Operations\<close>

definition monitor_ops :: "string list \<Rightarrow> (string \<times> hub_event) list \<Rightarrow> program \<Rightarrow> unit cmd" where
  "monitor_ops partitionIds events program =
     (if \<not> flag program ''login'' then inputError ''You must provide a connection string using the --login argument.''
      else cmd_bind cmd_now (\<lambda>now.
        cmd_bind (hub_listen (opt program ''login'') ''/messages/operationsMonitoringEvents/*'' ''$Default'' (JNum now) partitionIds) (\<lambda>listening.
          cmd_each (on_hub_event (\<lambda>eventData. cmd_print (Show (flag program ''raw'') eventData)) listening) events)))"

section \<open>Feedback and uploads\<close>

text \<open>The part the two commands share: the client, its receiver and the text that says so, then the messages.\<close>

definition watch_receiver ::
  "(jsval dict \<Rightarrow> service_amqp) \<Rightarrow> service_call \<Rightarrow> string \<Rightarrow> (jsval \<Rightarrow> unit cmd) \<Rightarrow> (js_error + jsval) list \<Rightarrow> program \<Rightarrow> unit cmd" where
  "watch_receiver transport getReceiver waiting onMessage events program =
     cmd_bind (getSas (opt program ''login'')) (\<lambda>sas.
     cmd_bind (cmd_res (ServiceClient_fromSharedAccessSignature transport sas)) (\<lambda>client.
     cmd_bind (cmd_call ClientOpen) (\<lambda>err. case err of
       Some e \<Rightarrow> inputError (''Could not open the connection to the service: '' @ err_message e)
     | None \<Rightarrow> cmd_bind (cmd_call getReceiver) (\<lambda>err. case err of
         Some e \<Rightarrow> serviceError (error_text e)
       | None \<Rightarrow> cmd_bind (cmd_when (\<not> flag program ''raw'') (cmd_print (Log waiting))) (\<lambda>_.
           cmd_each (\<lambda>ev. case ev of Inl e \<Rightarrow> serviceError (error_text e) | Inr data \<Rightarrow> onMessage data) events)))))"

definition parse_data :: "jsval \<Rightarrow> jsval cmd" where
  "parse_data data = (\<lambda>w. case w_json w (js_string data) of
       None \<Rightarrow> (Inl (Uncaught (mk_error SyntaxError ''Unexpected token'')), w)
     | Some v \<Rightarrow> (Inr v, w))"

text \<open>\<open>records[0]\<close>\<close>

definition first_record :: "jsval \<Rightarrow> jsval res" where
  "first_record v = (case v of
       JArr (r # rs) \<Rightarrow> Inr r
     | JArr [] \<Rightarrow> Inr JUndef
     | _ \<Rightarrow> js_member v ''0'')"

definition on_feedback :: "program \<Rightarrow> jsval \<Rightarrow> unit cmd" where
  "on_feedback program data = cmd_bind (parse_data data) (\<lambda>records.
     cmd_bind (cmd_res (first_record records)) (\<lambda>r.
     cmd_bind (cmd_res (js_member r ''originalMessageId'')) (\<lambda>original.
       cmd_print (Show (flag program ''raw'') (JObj [(''originalMessageId'', original),
         (''iothub-enqueuedtime'', jget r ''enqueuedTimeUtc''), (''body'', jget r ''description'')])))))"

definition monitor_feedback :: "(jsval dict \<Rightarrow> service_amqp) \<Rightarrow> (js_error + jsval) list \<Rightarrow> program \<Rightarrow> unit cmd" where
  "monitor_feedback transport events program = watch_receiver transport ClientGetFeedbackReceiver
     ''Waiting for feedback... (Ctrl-C to quit)'' (on_feedback program) events program"

text \<open>\<open>data.toString()\<close> needs a value.\<close>

definition on_upload :: "program \<Rightarrow> jsval \<Rightarrow> unit cmd" where
  "on_upload program data = cmd_bind (cmd_res (js_member data ''toString'')) (\<lambda>_.
     cmd_bind (parse_data data) (\<lambda>notif. cmd_print (Show (flag program ''raw'') notif)))"

definition monitor_uploads :: "(jsval dict \<Rightarrow> service_amqp) \<Rightarrow> (js_error + jsval) list \<Rightarrow> program \<Rightarrow> unit cmd" where
  "monitor_uploads transport events program = watch_receiver transport ClientGetFileNotificationReceiver
     ''Waiting for file notifications... (Ctrl-C to quit)'' (on_upload program) events program"

section \<open>Laws\<close>

text \<open>A command that prints the texts \<open>ps\<close> and changes nothing else.\<close>

definition prints :: "unit cmd \<Rightarrow> printed list \<Rightarrow> bool" where
  "prints m ps \<longleftrightarrow> (\<forall>w. m w = (Inr (), w\<lparr>w_out := w_out w @ ps\<rparr>))"

lemma prints_return: "prints (cmd_return ()) []"
  and prints_print: "prints (cmd_print p) [p]"
  by (simp_all add: prints_def cmd_return_def cmd_print_def)

lemma prints_bind: "prints m ps \<Longrightarrow> prints m' qs \<Longrightarrow> prints (cmd_bind m (\<lambda>_. m')) (ps @ qs)"
  by (simp add: prints_def cmd_bind_def)

lemma prints_each: "(\<And>x. x \<in> set xs \<Longrightarrow> prints (f x) (g x)) \<Longrightarrow> prints (cmd_each f xs) (concat (map g xs))"
proof (induction xs)
  case Nil
  then show ?case by (simp add: prints_return)
next
  case (Cons x xs)
  then show ?case by (auto intro: prints_bind)
qed

lemma prints_event: "prints (print_event m) [event_body (jget m ''body''), Log ''-------------------'']"
  unfolding print_event_def using prints_bind [OF prints_print prints_print] by simp

text \<open>Receivers that can be made are listened to, and no others.\<close>

lemma hub_receivers_listening:
  assumes "\<And>h p. w_service w h (HubCreateReceiver g p t) = (if P p then None else Some (err p))"
  shows "\<exists>calls. hub_receivers g t ids w = (Inr (filter P ids), w\<lparr>w_calls := calls\<rparr>)"
  using assms
proof (induction ids arbitrary: w)
  case Nil
  then show ?case by (auto simp: cmd_return_def intro: exI [of _ "w_calls w"])
next
  case (Cons p ids)
  let ?w = "w\<lparr>w_calls := w_calls w @ [HubCreateReceiver g p t]\<rparr>"
  from Cons.IH [of ?w] Cons.prems obtain calls where "hub_receivers g t ids ?w = (Inr (filter P ids), ?w\<lparr>w_calls := calls\<rparr>)"
    by auto
  with Cons.prems show ?case by (auto simp: cmd_bind_def cmd_call_def cmd_return_def)
qed

text \<open>
  \<open>monitor-events\<close> with a device prints the events of that device and no others, in the order of their
  arrival, from the partitions whose receiver could be made; what another partition delivers is lost
  without a message.
\<close>

lemma monitor_events_prints:
  assumes "flag program ''login''" and "\<not> flag program ''raw''" and "arg program 0 = JStr d" and "d \<noteq> []"
    and "\<And>h x. w_service w h x = (case x of HubCreateReceiver g p t \<Rightarrow> if P p then None else Some (err p) | _ \<Rightarrow> None)"
    and "\<And>p m. (p, m) \<in> set ms \<Longrightarrow> \<exists>v. event_device m = Inr v"
  shows "\<exists>calls. monitor_events date ids (map (\<lambda>(p, m). (p, HubMessage m)) ms) program w = (Inr (), w\<lparr>w_calls := calls,
      w_out := w_out w @ Log (''Monitoring events from device '' @ d @ ''...'')
        # concat (map (\<lambda>(p, m). if p \<in> set ids \<and> P p \<and> event_device m = Inr (JStr d)
             then [event_body (jget m ''body''), Log ''-------------------''] else []) ms)\<rparr>)"
proof -
  define g where "g = (\<lambda>(p, m). if p \<in> set ids \<and> P p \<and> event_device m = Inr (JStr d)
             then [event_body (jget m ''body''), Log ''-------------------''] else [])"
  have "prints (on_hub_event (on_event program) (filter P ids) (p, HubMessage m)) (g (p, m))" if "(p, m) \<in> set ms" for p m
  proof -
    from assms(6) [OF that] obtain v where "event_device m = Inr v" by blast
    with assms(2-4) show ?thesis
      using prints_event [of m] prints_return
      by (simp add: on_hub_event_def on_event_def g_def cmd_res_def cmd_bind_def cmd_return_def prints_def)
  qed
  then have "prints (cmd_each (on_hub_event (on_event program) (filter P ids)) (map (\<lambda>(p, m). (p, HubMessage m)) ms))
      (concat (map (\<lambda>ev. g (fst ev, case snd ev of HubMessage m \<Rightarrow> m | HubError e \<Rightarrow> JUndef)) (map (\<lambda>(p, m). (p, HubMessage m)) ms)))"
    by (intro prints_each) auto
  then have each: "prints (cmd_each (on_hub_event (on_event program) (filter P ids)) (map (\<lambda>(p, m). (p, HubMessage m)) ms)) (concat (map g ms))"
    by (simp add: comp_def case_prod_beta)
  define w1 where "w1 = w\<lparr>w_out := w_out w @ [Log (''Monitoring events from device '' @ d @ ''...'')]\<rparr>"
  have "\<exists>calls. hub_receivers gr t ids (w1\<lparr>w_calls := cs\<rparr>) = (Inr (filter P ids), w1\<lparr>w_calls := calls\<rparr>)" for gr t cs
    using hub_receivers_listening [of "w1\<lparr>w_calls := cs\<rparr>" gr t P err ids] assms(5) by (simp add: w1_def)
  then obtain calls where "\<And>gr t cs. hub_receivers gr t ids (w1\<lparr>w_calls := cs\<rparr>) = (Inr (filter P ids), w1\<lparr>w_calls := calls gr t cs\<rparr>)"
    by metis
  with each assms(1-5) show ?thesis
    unfolding g_def [symmetric]
    by (auto simp: monitor_events_def hub_listen_def cmd_bind_def cmd_when_def cmd_print_def cmd_now_def cmd_ask_def
        cmd_call_def prints_def Let_def w1_def)
qed

text \<open>With \<open>--raw\<close> the device is not looked at: every event is printed.\<close>

lemma raw_ignores_device: "flag program ''raw'' \<Longrightarrow> prints (on_event program m) [Show True m]"
  by (simp add: on_event_def prints_print)

text \<open>A feedback message with several records is printed as its first one.\<close>

lemma feedback_first_only:
  assumes "w_json w (js_string data) = Some (JArr (r # rs))" and "r \<noteq> JUndef" and "r \<noteq> JNull"
  shows "on_feedback program data w = (Inr (), w\<lparr>w_out := w_out w @ [Show (flag program ''raw'') (JObj [
    (''originalMessageId'', jget r ''originalMessageId''), (''iothub-enqueuedtime'', jget r ''enqueuedTimeUtc''),
    (''body'', jget r ''description'')])]\<rparr>)"
  using assms by (simp add: on_feedback_def parse_data_def first_record_def js_member_def cmd_bind_def cmd_res_def
      cmd_return_def cmd_print_def)

end
