(* ===== verification/Diagnostics.thy ===== *)
theory Diagnostics
  imports Common_Message
begin

text \<open>
  \<open>tools/iothub-diagnostics\<close>: a trace tool that pings a host, creates a device, lets it exchange a message
  with a test service over each transport and deletes it again. The answers of the network and of the
  service are arguments or events; the log is left out where it is only informative.
\<close>

section \<open>Configuration and device manager\<close>

text \<open>\<open>config/index.js\<close>\<close>

definition testCommand :: string where
  "testCommand = ''Terminate yourself''"

definition hub_connectionString :: "string \<Rightarrow> string \<Rightarrow> string \<Rightarrow> string" where
  "hub_connectionString hostName sharedAccessKeyName sharedAccessKey =
     ''HostName='' @ hostName @ '';SharedAccessKeyName='' @ sharedAccessKeyName @ '';SharedAccessKey='' @ sharedAccessKey"

text \<open>\<open>deviceManager.js\<close>: the description of the device, and the callback of \<open>registry.create\<close>.\<close>

definition test_device :: "string \<Rightarrow> jsval" where
  "test_device deviceId = JObj [(''deviceId'', JStr deviceId), (''status'', JStr ''enabled'')]"

definition device_created :: "string \<Rightarrow> js_error + jsval \<Rightarrow> (js_error + string) res" where
  "device_created hostName out = (case out of
       Inl e \<Rightarrow> Inr (Inl e)
     | Inr deviceInfo \<Rightarrow>
         res_bind (js_member deviceInfo ''deviceId'') (\<lambda>d.
         res_bind (js_member deviceInfo ''authentication'') (\<lambda>auth.
         res_bind (js_member auth ''symmetricKey'') (\<lambda>key.
         res_bind (js_member key ''primaryKey'') (\<lambda>primary.
           Inr (Inr (''HostName='' @ hostName @ '';DeviceId='' @ js_string d @ '';SharedAccessKey='' @ js_string primary)))))))"

section \<open>The test service\<close>

text \<open>\<open>messageReceivedCb\<close> of \<open>testService.js\<close>: the device that is answered, and the text it is sent.\<close>

definition messageReceivedCb :: "(jsval \<Rightarrow> string) \<Rightarrow> jsval \<Rightarrow> (jsval \<times> string) option" where
  "messageReceivedCb stringify message =
     (let targetDevice = jget message ''body'' in
      if falsy targetDevice then None else Some (targetDevice, stringify (JStr testCommand)))"

text \<open>\<open>open\<close>: whether \<open>ready\<close> is called, given the errors of the service client and of the Event Hubs client.\<close>

definition service_ready :: "js_error option \<Rightarrow> js_error option \<Rightarrow> bool" where
  "service_ready serviceErr hubErr \<longleftrightarrow> serviceErr = None \<and> hubErr = None"

section \<open>The test of a transport\<close>

text \<open>
  \<open>iotClient.js\<close>: the call of \<open>open\<close> under way, the listener for messages, the calls of \<open>complete\<close> and of
  \<open>close(done)\<close> under way, and the calls of \<open>done\<close> so far.
\<close>

record test_run =
  tr_opening :: bool
  tr_listening :: bool
  tr_sent :: "string list"
  tr_completing :: nat
  tr_closing :: nat
  tr_done :: "js_error option list"

definition test_start :: test_run where
  "test_start = \<lparr>tr_opening = True, tr_listening = False, tr_sent = [], tr_completing = 0, tr_closing = 0, tr_done = []\<rparr>"

definition test_opened :: "string \<Rightarrow> js_error option \<Rightarrow> test_run \<Rightarrow> test_run" where
  "test_opened deviceId err s = (case err of
       Some e \<Rightarrow> s\<lparr>tr_opening := False, tr_done := tr_done s @ [Some e]\<rparr>
     | None \<Rightarrow> s\<lparr>tr_opening := False, tr_listening := True, tr_sent := tr_sent s @ [deviceId]\<rparr>)"

text \<open>\<open>JSON.parse(msg.data) == config.testCommand\<close>: the text is no number, so only texts and objects can be equal to it.\<close>

fun is_command :: "jsval \<Rightarrow> bool" where
  "is_command (JStr s) \<longleftrightarrow> s = testCommand"
| "is_command (JArr vs) \<longleftrightarrow> js_string (JArr vs) = testCommand"
| "is_command (JObj d) \<longleftrightarrow> js_string (JObj d) = testCommand"
| "is_command _ \<longleftrightarrow> False"

text \<open>\<open>complete\<close> is called first; a text that is no JSON throws after it.\<close>

definition test_message :: "(string \<Rightarrow> jsval option) \<Rightarrow> jsval \<Rightarrow> test_run \<Rightarrow> test_run \<times> js_error option" where
  "test_message json data s =
     (let s = s\<lparr>tr_completing := Suc (tr_completing s)\<rparr> in
      case json (js_string data) of
        None \<Rightarrow> (s, Some (mk_error SyntaxError ''Unexpected token''))
      | Some v \<Rightarrow>
          if is_command v then (s, None)
          else (s\<lparr>tr_done := tr_done s @ [Some (mk_error Error (''Incorrect command received from service ''
                    @ [CHR 0x27] @ js_string data @ [CHR 0x27]))]\<rparr>, None))"

definition test_completed :: "test_run \<Rightarrow> test_run" where
  "test_completed s = s\<lparr>tr_completing := tr_completing s - 1, tr_closing := Suc (tr_closing s)\<rparr>"

definition test_closed :: "js_error option \<Rightarrow> test_run \<Rightarrow> test_run" where
  "test_closed err s = s\<lparr>tr_closing := tr_closing s - 1, tr_done := tr_done s @ [err]\<rparr>"

datatype test_event =
    TestOpened "js_error option"
  | TestMessage jsval
  | TestCompleted
  | TestClosed "js_error option"

inductive test_step :: "(string \<Rightarrow> jsval option) \<Rightarrow> string \<Rightarrow> test_run \<Rightarrow> test_event \<Rightarrow> test_run \<Rightarrow> bool" for json deviceId where
  ts_opened: "tr_opening s \<Longrightarrow> test_step json deviceId s (TestOpened err) (test_opened deviceId err s)"
| ts_message: "tr_listening s \<Longrightarrow> test_message json data s = (s', None) \<Longrightarrow> test_step json deviceId s (TestMessage data) s'"
| ts_completed: "0 < tr_completing s \<Longrightarrow> test_step json deviceId s TestCompleted (test_completed s)"
| ts_closed: "0 < tr_closing s \<Longrightarrow> test_step json deviceId s (TestClosed err) (test_closed err s)"

inductive_cases test_stepE: "test_step json deviceId s e s'"

inductive test_runs :: "(string \<Rightarrow> jsval option) \<Rightarrow> string \<Rightarrow> test_run \<Rightarrow> test_event list \<Rightarrow> test_run \<Rightarrow> bool" for json deviceId where
  tr_refl: "test_runs json deviceId s [] s"
| tr_snoc: "test_runs json deviceId s es s1 \<Longrightarrow> test_step json deviceId s1 e s2 \<Longrightarrow> test_runs json deviceId s (es @ [e]) s2"

section \<open>The sequence of tests\<close>

datatype diag_action =
    CreateDevice string
  | RunTest string string
  | CloseService
  | DeleteDevice string

text \<open>How a waterfall ends: its callback is called, it waits for ever for a step, or a step throws.\<close>

datatype diag_end =
    DiagDone "js_error option"
  | DiagWaits
  | DiagThrows js_error

text \<open>
  The four tests in a row. \<open>outcome\<close> is the call of \<open>done\<close> by the test of a label, \<open>None\<close> when it never calls
  it; an error of a test is logged and the next one runs.
\<close>

fun run_tests :: "(string \<Rightarrow> js_error option option) \<Rightarrow> string \<Rightarrow> string list \<Rightarrow> diag_action list \<times> bool" where
  "run_tests outcome deviceConnectionString [] = ([], True)"
| "run_tests outcome deviceConnectionString (label # labels) = (case outcome label of
       None \<Rightarrow> ([RunTest label deviceConnectionString], False)
     | Some err \<Rightarrow> (case run_tests outcome deviceConnectionString labels of (as, ended) \<Rightarrow> (RunTest label deviceConnectionString # as, ended)))"

definition test_labels :: "string list" where
  "test_labels = [''AMQP'', ''AMQP-WS'', ''HTTP'', ''Mqtt'']"

text \<open>\<open>run\<close> of \<open>iothubtests/index.js\<close>; \<open>cleanup\<close>, its last step, takes no callback.\<close>

definition iothub_run :: "string \<Rightarrow> string \<Rightarrow> js_error option \<Rightarrow> js_error option \<Rightarrow> js_error + jsval
    \<Rightarrow> (string \<Rightarrow> js_error option option) \<Rightarrow> diag_action list \<times> diag_end" where
  "iothub_run hostName deviceId serviceErr hubErr created outcome =
     (if \<not> service_ready serviceErr hubErr then ([], DiagWaits)
      else case device_created hostName created of
        Inl e \<Rightarrow> ([CreateDevice deviceId], DiagThrows e)
      | Inr (Inl e) \<Rightarrow> ([CreateDevice deviceId], DiagDone (Some e))
      | Inr (Inr deviceConnectionString) \<Rightarrow>
          (case run_tests outcome deviceConnectionString test_labels of
             (as, False) \<Rightarrow> (CreateDevice deviceId # as, DiagWaits)
           | (as, True) \<Rightarrow> (CreateDevice deviceId # as @ [CloseService, DeleteDevice deviceId], DiagWaits)))"

section \<open>Network tests and main\<close>

text \<open>
  \<open>networktests/index.js\<close>: the calls of \<open>done\<close>. The error of a ping or of a trace is logged only; an error of
  the session calls \<open>done\<close> in addition.
\<close>

definition network_run :: "js_error option \<Rightarrow> js_error list \<Rightarrow> bool \<Rightarrow> js_error option list" where
  "network_run dnsErr sessionErrs traced = (case dnsErr of
       Some e \<Rightarrow> [Some e]
     | None \<Rightarrow> map Some sessionErrs @ (if traced then [None] else []))"

text \<open>\<open>index.js\<close>: the tests of the hub run when the network tests called back without an error and the hub is configured.\<close>

definition hub_tests_run :: "js_error option list \<Rightarrow> string \<Rightarrow> string \<Rightarrow> string \<Rightarrow> bool" where
  "hub_tests_run calls hostName sharedAccessKey sharedAccessKeyName \<longleftrightarrow>
     calls \<noteq> [] \<and> hd calls = None \<and> hostName \<noteq> [] \<and> sharedAccessKey \<noteq> [] \<and> sharedAccessKeyName \<noteq> []"

section \<open>Laws\<close>

text \<open>How often \<open>done\<close> is due for an event: once for a failed \<open>open\<close>, once for a message, and once more for a wrong one.\<close>

definition wrong_command :: "(string \<Rightarrow> jsval option) \<Rightarrow> jsval \<Rightarrow> bool" where
  "wrong_command json data \<longleftrightarrow> (case json (js_string data) of None \<Rightarrow> False | Some v \<Rightarrow> \<not> is_command v)"

fun done_due :: "(string \<Rightarrow> jsval option) \<Rightarrow> test_event \<Rightarrow> nat" where
  "done_due json (TestOpened err) = (if err = None then 0 else 1)"
| "done_due json (TestMessage data) = (if wrong_command json data then 2 else 1)"
| "done_due json _ = 0"

lemma test_step_due:
  "test_step json deviceId s e s' \<Longrightarrow>
     length (tr_done s') + tr_completing s' + tr_closing s' = length (tr_done s) + tr_completing s + tr_closing s + done_due json e"
  by (induction rule: test_step.induct)
    (auto simp: test_opened_def test_message_def test_completed_def test_closed_def wrong_command_def Let_def split: option.splits if_splits)

lemma test_done_count:
  "test_runs json deviceId s es s' \<Longrightarrow>
     length (tr_done s') + tr_completing s' + tr_closing s'
       = length (tr_done s) + tr_completing s + tr_closing s + sum_list (map (done_due json) es)"
proof (induction rule: test_runs.induct)
  case (tr_snoc s es s1 e s2)
  then show ?case using test_step_due [OF tr_snoc.hyps(2)] by simp
qed simp

text \<open>
  A test whose only message is the command calls \<open>done\<close> once, when all calls are answered; a wrong message
  makes it call \<open>done\<close> twice, which the waterfall of the tests does not allow.
\<close>

lemma test_ends:
  assumes "test_runs json deviceId test_start es s" and "tr_completing s = 0" and "tr_closing s = 0"
    and "filter (\<lambda>e. done_due json e \<noteq> 0) es = [TestMessage data]"
  shows "length (tr_done s) = (if wrong_command json data then 2 else 1)"
proof -
  have "sum_list (map (done_due json) es) = sum_list (map (done_due json) (filter (\<lambda>e. done_due json e \<noteq> 0) es))"
    by (induction es) auto
  with test_done_count [OF assms(1)] assms(2-4) show ?thesis by (simp add: test_start_def)
qed

text \<open>The telemetry of the test is answered, and the test accepts the answer.\<close>

lemma service_answer_accepted:
  assumes "json (stringify (JStr testCommand)) = Some (JStr testCommand)" and "deviceId \<noteq> []"
  shows "\<exists>t. messageReceivedCb stringify (JObj [(''body'', JStr deviceId)]) = Some (JStr deviceId, t)
    \<and> test_message json (JStr t) s = (s\<lparr>tr_completing := Suc (tr_completing s)\<rparr>, None)"
  using assms by (simp add: messageReceivedCb_def test_message_def dget_def Let_def)

text \<open>
  When every test calls back, all of them ran with the connection string of the new device, whatever they
  found, and then the service is closed and the device deleted. The callback of the run is never called.
\<close>

lemma run_tests_all:
  "list_all (\<lambda>l. outcome l \<noteq> None) labels \<Longrightarrow> run_tests outcome cs labels = (map (\<lambda>l. RunTest l cs) labels, True)"
  by (induction labels) auto

lemma diagnostics_clean_up:
  assumes "service_ready serviceErr hubErr" and "device_created hostName created = Inr (Inr cs)"
    and "list_all (\<lambda>l. outcome l \<noteq> None) test_labels"
  shows "iothub_run hostName deviceId serviceErr hubErr created outcome
    = (CreateDevice deviceId # map (\<lambda>l. RunTest l cs) test_labels @ [CloseService, DeleteDevice deviceId], DiagWaits)"
  using assms run_tests_all [OF assms(3)] by (simp add: iothub_run_def)

text \<open>A test that never calls back, because the answer of the service was lost, leaves the device behind.\<close>

lemma lost_answer_leaves_device:
  assumes "service_ready serviceErr hubErr" and "device_created hostName created = Inr (Inr cs)" and "outcome ''AMQP'' = None"
  shows "iothub_run hostName deviceId serviceErr hubErr created outcome = ([CreateDevice deviceId, RunTest ''AMQP'' cs], DiagWaits)"
  using assms by (simp add: iothub_run_def test_labels_def)

end
