(* ===== verification/Node_Red.thy ===== *)
theory Node_Red
  imports Common_Message "HOL-Library.Multiset"
begin

text \<open>
  The Node-RED node (\<open>node/device/node-red/azureiothub/azureiothub.js\<close>): one module-wide client that is
  created on demand, replaced when the configuration changes, and used by every callback through the
  module variable, whichever client the callback belongs to.
\<close>

section \<open>State and effects\<close>

text \<open>
  Clients are numbered in the order of their creation. \<open>nr_open\<close> are the clients created and not closed,
  \<open>nr_pending\<close> the calls of \<open>open\<close> without an answer, each with the message its callback holds, and
  \<open>nr_listening\<close> the clients on which the three listeners were registered, once per registration.
\<close>

record node_red =
  nr_client :: "nat option"
  nr_connectionString :: string
  nr_protocol :: string
  nr_credentials :: string
  nr_configProtocol :: string
  nr_next :: nat
  nr_open :: "nat list"
  nr_pending :: "(nat \<times> jsval) list"
  nr_listening :: "nat list"

datatype node_effect =
    NodeLog string
  | NodeError string
  | NodeStatus string
  | NodeSend jsval
  | DevCreate nat string string
  | DevOpen nat
  | DevSendEvent nat jsval
  | DevOn nat
  | DevComplete nat message
  | DevRemoveAllListeners nat
  | DevClose nat

type_synonym node_result = "node_red \<times> node_effect list \<times> js_error option"

definition node_start :: "string \<Rightarrow> string \<Rightarrow> node_red" where
  "node_start credentials protocol = \<lparr>nr_client = None, nr_connectionString = [], nr_protocol = [],
     nr_credentials = credentials, nr_configProtocol = protocol, nr_next = 0, nr_open = [], nr_pending = [], nr_listening = []\<rparr>"

text \<open>A sequence of two parts of a handler; an exception ends it.\<close>

definition and_then :: "node_result \<Rightarrow> (node_red \<Rightarrow> node_result) \<Rightarrow> node_result" where
  "and_then r f = (case r of
       (s, es, Some e) \<Rightarrow> (s, es, Some e)
     | (s, es, None) \<Rightarrow> (case f s of (s', es', e) \<Rightarrow> (s', es @ es', e)))"

section \<open>Handlers\<close>

definition null_client :: js_error where
  "null_client = mk_error TypeError ''Cannot read property of null''"

definition sendData :: "jsval \<Rightarrow> node_red \<Rightarrow> node_result" where
  "sendData data s =
     (if data = JUndef \<or> data = JNull then (s, [], Some (mk_error TypeError ''Cannot read property toString''))
      else let es = [NodeLog (''Sending Message to Azure IoT Hub :'' @ [CHR 0x0A] @ ''   Payload: '' @ js_string data)] in
        case nr_client s of None \<Rightarrow> (s, es, Some null_client) | Some c \<Rightarrow> (s, es @ [DevSendEvent c data], None))"

definition on_sent :: "js_error option \<Rightarrow> node_effect list" where
  "on_sent err = (case err of
       Some e \<Rightarrow> [NodeError (''Error while trying to send message:'' @ error_text e), NodeStatus ''Error'']
     | None \<Rightarrow> [NodeLog ''Message sent.'', NodeStatus ''Sent message''])"

definition disconnectFromIoTHub :: "node_red \<Rightarrow> node_result" where
  "disconnectFromIoTHub s = (case nr_client s of
       None \<Rightarrow> (s, [], None)
     | Some c \<Rightarrow> (s\<lparr>nr_client := None, nr_open := filter (\<lambda>d. d \<noteq> c) (nr_open s),
                     nr_listening := filter (\<lambda>d. d \<noteq> c) (nr_listening s)\<rparr>,
                   [NodeLog ''Disconnecting from Azure IoT Hub'', DevRemoveAllListeners c, DevClose c, NodeStatus ''Disconnected''],
                   None))"

definition known_protocols :: "string list" where
  "known_protocols = [''amqp'', ''mqtt'', ''http'', ''amqpWs'']"

text \<open>\<open>Client.fromConnectionString\<close> with the transport of the table; a missing transport is no constructor.\<close>

definition connectToIoTHub :: "jsval \<Rightarrow> node_red \<Rightarrow> node_result" where
  "connectToIoTHub pendingMessage s =
     (let log = NodeLog (''Connecting to Azure IoT Hub:'' @ [CHR 0x0A] @ ''   Protocol: '' @ nr_protocol s @ [CHR 0x0A]
            @ ''   Connection string :'' @ nr_connectionString s);
          c = nr_next s in
      if nr_connectionString s = []
      then (s, [log], Some (mk_error ReferenceError ''connStr is empty''))
      else case Device_ConnectionString_parse (JStr (nr_connectionString s)) of
        Inl e \<Rightarrow> (s, [log], Some e)
      | Inr _ \<Rightarrow>
          if nr_protocol s \<notin> set known_protocols
          then (s, [log], Some (mk_error TypeError ''Transport is not a constructor''))
          else (s\<lparr>nr_client := Some c, nr_next := Suc c, nr_open := nr_open s @ [c], nr_pending := nr_pending s @ [(c, pendingMessage)]\<rparr>,
                [log, DevCreate c (nr_connectionString s) (nr_protocol s), DevOpen c], None))"

definition sendMessageToIoTHub :: "jsval \<Rightarrow> bool \<Rightarrow> node_red \<Rightarrow> node_result" where
  "sendMessageToIoTHub message reconnect s =
     (if nr_client s = None \<or> reconnect then
        and_then (and_then (s\<lparr>nr_connectionString := nr_credentials s, nr_protocol := nr_configProtocol s\<rparr>,
             [NodeLog ''Connection to IoT Hub not established or configuration changed. Reconnecting.''], None)
          disconnectFromIoTHub) (connectToIoTHub message)
      else sendData message s)"

definition nodeConfigUpdated :: "node_red \<Rightarrow> string \<Rightarrow> string \<Rightarrow> bool" where
  "nodeConfigUpdated s cs proto \<longleftrightarrow> nr_connectionString s \<noteq> cs \<or> nr_protocol s \<noteq> proto"

definition on_input :: "jsval \<Rightarrow> node_red \<Rightarrow> node_result" where
  "on_input payload s = sendMessageToIoTHub payload (nodeConfigUpdated s (nr_credentials s) (nr_configProtocol s)) s"

text \<open>The registration of the listeners for messages, errors and disconnection, on the current client.\<close>

definition listen :: "node_red \<Rightarrow> node_result" where
  "listen s = (case nr_client s of
       None \<Rightarrow> (s, [], Some null_client)
     | Some c \<Rightarrow> (s\<lparr>nr_listening := nr_listening s @ [c]\<rparr>, [DevOn c], None))"

text \<open>The callback of \<open>client.open\<close>, for the call that holds \<open>pendingMessage\<close>.\<close>

definition on_opened :: "jsval \<Rightarrow> js_error option \<Rightarrow> node_red \<Rightarrow> node_result" where
  "on_opened pendingMessage err s = (case err of
       Some e \<Rightarrow> (s, [NodeError (''Could not connect: '' @ err_message e), NodeStatus ''Disconnected''], None)
     | None \<Rightarrow>
         and_then (s, [NodeLog ''Connected to Azure IoT Hub.'', NodeStatus ''Connected''], None) (\<lambda>s.
         and_then (if truthy pendingMessage
                   then and_then (s, [NodeLog ''Message is pending. Sending it to Azure IoT Hub.''], None) (sendData pendingMessage)
                   else (s, [], None)) listen))"

definition on_cloud_message :: "message \<Rightarrow> node_red \<Rightarrow> node_result" where
  "on_cloud_message msg s =
     (let es = [NodeLog (''Message received from Azure IoT Hub'' @ [CHR 0x0A] @ ''   Id: '' @ js_string (msg_messageId msg)
                  @ [CHR 0x0A] @ ''   Payload: '' @ js_string (msg_data msg)),
                NodeStatus ''Received'', NodeSend (msg_data msg)] in
      case nr_client s of None \<Rightarrow> (s, es, Some null_client) | Some c \<Rightarrow> (s, es @ [DevComplete c msg], None))"

text \<open>A message runs the listener once per registration, until one throws.\<close>

fun deliver :: "nat \<Rightarrow> message \<Rightarrow> node_red \<Rightarrow> node_result" where
  "deliver 0 msg s = (s, [], None)"
| "deliver (Suc n) msg s = and_then (on_cloud_message msg s) (deliver n msg)"

section \<open>The event loop\<close>

text \<open>
  An answer to \<open>open\<close> belongs to the oldest call of that client; a message reaches every registration on its
  client; a new deployment changes the credentials and the protocol. An exception in a handler leaves the
  state as far as the handler got.
\<close>

datatype node_event =
    Input jsval
  | OpenAnswer nat "js_error option"
  | SendAnswer "js_error option"
  | CloudMessage nat message
  | ClientError nat js_error
  | ClientDisconnect nat
  | NodeClose
  | Deploy string string

fun take_pending :: "nat \<Rightarrow> (nat \<times> jsval) list \<Rightarrow> (jsval \<times> (nat \<times> jsval) list) option" where
  "take_pending c [] = None"
| "take_pending c ((d, m) # ps) =
     (if c = d then Some (m, ps) else map_option (\<lambda>(x, qs). (x, (d, m) # qs)) (take_pending c ps))"

fun node_step :: "node_red \<Rightarrow> node_event \<Rightarrow> node_result" where
  "node_step s (Input payload) = on_input payload s"
| "node_step s (OpenAnswer c err) = (case take_pending c (nr_pending s) of
       None \<Rightarrow> (s, [], None)
     | Some (m, ps) \<Rightarrow> on_opened m err (s\<lparr>nr_pending := ps\<rparr>))"
| "node_step s (SendAnswer err) = (s, on_sent err, None)"
| "node_step s (CloudMessage c msg) = deliver (count_list (nr_listening s) c) msg s"
| "node_step s (ClientError c e) = (s, replicate (count_list (nr_listening s) c) (NodeError (err_message e)), None)"
| "node_step s (ClientDisconnect c) = (if c \<in> set (nr_listening s) then disconnectFromIoTHub s else (s, [], None))"
| "node_step s NodeClose = disconnectFromIoTHub s"
| "node_step s (Deploy cs proto) = (s\<lparr>nr_credentials := cs, nr_configProtocol := proto\<rparr>, [], None)"

fun node_run :: "node_red \<Rightarrow> node_event list \<Rightarrow> node_red \<times> node_effect list" where
  "node_run s [] = (s, [])"
| "node_run s (ev # evs) = (case node_step s ev of (s1, es, _) \<Rightarrow> (case node_run s1 evs of (s2, es') \<Rightarrow> (s2, es @ es')))"

section \<open>One client\<close>

text \<open>The clients that a list of effects leaves open.\<close>

fun live :: "nat list \<Rightarrow> node_effect \<Rightarrow> nat list" where
  "live cs (DevCreate c connectionString protocol) = cs @ [c]"
| "live cs (DevClose c) = filter (\<lambda>d. d \<noteq> c) cs"
| "live cs _ = cs"

definition current :: "node_red \<Rightarrow> nat list" where
  "current s = (case nr_client s of None \<Rightarrow> [] | Some c \<Rightarrow> [c])"

text \<open>What every handler keeps: the open clients are the current one, and the listeners are on it.\<close>

definition node_inv :: "node_red \<Rightarrow> bool" where
  "node_inv s \<longleftrightarrow> nr_open s = current s \<and> set (nr_listening s) \<subseteq> set (current s) \<and> list_all (\<lambda>c. c < nr_next s) (current s)"

definition keeps_client :: "node_red \<Rightarrow> node_result \<Rightarrow> bool" where
  "keeps_client s r \<longleftrightarrow> (case r of (s', es, e) \<Rightarrow> node_inv s' \<and> foldl live (current s) es = current s')"

lemma keeps_and_then:
  assumes "keeps_client s r" and "\<And>s' es. r = (s', es, None) \<Longrightarrow> keeps_client s' (f s')"
  shows "keeps_client s (and_then r f)"
proof -
  obtain s1 es e where r: "r = (s1, es, e)" by (cases r)
  show ?thesis
  proof (cases e)
    case None
    with assms(2) r have "keeps_client s1 (f s1)" by simp
    with assms(1) r None show ?thesis
      by (cases "f s1") (simp add: and_then_def keeps_client_def)
  next
    case (Some x)
    with assms(1) r show ?thesis by (simp add: and_then_def)
  qed
qed

lemma keeps_seq:
  assumes "keeps_client s r" and "\<And>s'. node_inv s' \<Longrightarrow> keeps_client s' (f s')"
  shows "keeps_client s (and_then r f)"
  using assms(1) by (rule keeps_and_then) (use assms in \<open>auto simp: keeps_client_def\<close>)

lemma keeps_sendData: "node_inv s \<Longrightarrow> keeps_client s (sendData data s)"
  by (simp add: sendData_def keeps_client_def Let_def split: option.split)

lemma keeps_disconnect: "node_inv s \<Longrightarrow> keeps_client s (disconnectFromIoTHub s)"
  by (auto simp: disconnectFromIoTHub_def keeps_client_def node_inv_def current_def split: option.splits)

lemma disconnect_client: "disconnectFromIoTHub s = (s', es, e) \<Longrightarrow> nr_client s' = None \<and> e = None"
  by (auto simp: disconnectFromIoTHub_def split: option.splits)

lemma keeps_connect: "node_inv s \<Longrightarrow> nr_client s = None \<Longrightarrow> keeps_client s (connectToIoTHub m s)"
  by (simp add: connectToIoTHub_def keeps_client_def node_inv_def current_def Let_def split: sum.split)

lemma keeps_listen: "node_inv s \<Longrightarrow> keeps_client s (listen s)"
  by (auto simp: listen_def keeps_client_def node_inv_def current_def split: option.splits)

lemma keeps_refl: "node_inv s \<Longrightarrow> foldl live (current s) es = current s \<Longrightarrow> keeps_client s (s, es, e)"
  by (simp add: keeps_client_def)

lemma keeps_on_input: "node_inv s \<Longrightarrow> keeps_client s (on_input m s)"
proof -
  assume inv: "node_inv s"
  let ?s = "s\<lparr>nr_connectionString := nr_credentials s, nr_protocol := nr_configProtocol s\<rparr>"
  let ?start = "(?s, [NodeLog ''Connection to IoT Hub not established or configuration changed. Reconnecting.''], None)"
  have s: "node_inv ?s" "current ?s = current s" using inv by (simp_all add: node_inv_def current_def)
  then have "keeps_client s ?start" by (simp add: keeps_client_def)
  moreover have "keeps_client ?s (disconnectFromIoTHub ?s)" using s(1) by (rule keeps_disconnect)
  ultimately have 1: "keeps_client s (and_then ?start disconnectFromIoTHub)" by (intro keeps_and_then) simp_all
  have "keeps_client s' (connectToIoTHub m s')" if "and_then ?start disconnectFromIoTHub = (s', es, None)" for s' es
  proof (rule keeps_connect)
    show "node_inv s'" using 1 that by (simp add: keeps_client_def)
    show "nr_client s' = None" using that disconnect_client by (fastforce simp: and_then_def split: prod.splits)
  qed
  with 1 have "keeps_client s (and_then (and_then ?start disconnectFromIoTHub) (connectToIoTHub m))" by (rule keeps_and_then)
  then show ?thesis using keeps_sendData [OF inv] by (simp add: on_input_def sendMessageToIoTHub_def)
qed

lemma keeps_on_opened:
  assumes inv: "node_inv s"
  shows "keeps_client s (on_opened m err s)"
proof (cases err)
  case None
  show ?thesis
    unfolding on_opened_def None option.case
  proof (rule keeps_seq)
    show "keeps_client s (s, [NodeLog ''Connected to Azure IoT Hub.'', NodeStatus ''Connected''], None)"
      using inv by (simp add: keeps_refl)
    fix s' assume s': "node_inv s'"
    have "keeps_client s' (and_then (s', [NodeLog ''Message is pending. Sending it to Azure IoT Hub.''], None) (sendData m))"
      by (rule keeps_seq) (simp_all add: s' keeps_refl keeps_sendData)
    moreover have "keeps_client s' (s', [], None)" using s' by (simp add: keeps_refl)
    ultimately show "keeps_client s' (and_then (if truthy m then
        and_then (s', [NodeLog ''Message is pending. Sending it to Azure IoT Hub.''], None) (sendData m) else (s', [], None)) listen)"
      by (intro keeps_seq) (simp_all add: keeps_listen)
  qed
qed (simp add: on_opened_def keeps_refl inv)

lemma keeps_deliver: "node_inv s \<Longrightarrow> keeps_client s (deliver n data s)"
proof (induction n arbitrary: s)
  case 0
  then show ?case by (simp add: keeps_client_def)
next
  case (Suc n)
  have "keeps_client s (on_cloud_message data s)"
    using Suc.prems by (simp add: on_cloud_message_def keeps_client_def Let_def split: option.split)
  then show ?case
    unfolding deliver.simps by (rule keeps_seq) (rule Suc.IH)
qed

lemma node_step_keeps: "node_inv s \<Longrightarrow> keeps_client s (node_step s ev)"
proof (cases ev)
  case (OpenAnswer c err)
  assume inv: "node_inv s"
  then have "keeps_client s (on_opened m err (s\<lparr>nr_pending := ps\<rparr>))" for m ps
    using keeps_on_opened [of "s\<lparr>nr_pending := ps\<rparr>" m err] by (simp add: node_inv_def current_def keeps_client_def)
  with inv OpenAnswer show ?thesis by (auto simp: keeps_client_def split: option.splits)
next
  case (Deploy cs proto)
  assume "node_inv s"
  with Deploy show ?thesis by (simp add: keeps_client_def node_inv_def current_def)
next
  case (SendAnswer err)
  assume "node_inv s"
  with SendAnswer show ?thesis by (cases err) (simp_all add: keeps_client_def on_sent_def)
next
  case (ClientError c e)
  have "foldl live cs (replicate n (NodeError m)) = cs" for cs n m by (induction n) simp_all
  moreover assume "node_inv s"
  ultimately show ?thesis using ClientError by (simp add: keeps_client_def)
qed (auto simp: keeps_on_input keeps_deliver keeps_disconnect, auto simp: keeps_client_def)

lemma node_run_keeps:
  "node_inv s \<Longrightarrow> node_run s evs = (s', es) \<Longrightarrow> node_inv s' \<and> foldl live (current s) es = current s'"
proof (induction evs arbitrary: s es)
  case (Cons ev evs)
  obtain s1 es1 e where 1: "node_step s ev = (s1, es1, e)" by (cases "node_step s ev")
  obtain es2 where 2: "node_run s1 evs = (s', es2)" "es = es1 @ es2"
    using Cons.prems(2) 1 by (auto split: prod.splits)
  from node_step_keeps [OF Cons.prems(1), of ev] 1 have "node_inv s1" "foldl live (current s) es1 = current s1"
    by (simp_all add: keeps_client_def)
  with Cons.IH [OF this(1) 2(1)] 2(2) show ?case by simp
qed simp

text \<open>C22: the node never leaks a client. Over any sequence of inputs, deployments, answers, messages and
  disconnections, the clients it has created and not closed are exactly the current one, and its
  listeners are only on that one.\<close>

theorem node_red_single_client:
  "case node_run (node_start credentials protocol) evs of (s, es) \<Rightarrow>
     foldl live [] es = (case nr_client s of None \<Rightarrow> [] | Some c \<Rightarrow> [c])
     \<and> list_all (\<lambda>c. nr_client s = Some c) (nr_listening s)"
proof -
  obtain s es where r: "node_run (node_start credentials protocol) evs = (s, es)" by fastforce
  have start: "node_inv (node_start credentials protocol)" "current (node_start credentials protocol) = []"
    by (simp_all add: node_inv_def node_start_def current_def)
  from node_run_keeps [OF start(1) r] start(2) show ?thesis
    by (auto simp: r node_inv_def current_def list_all_iff split: option.splits)
qed

section \<open>Messages\<close>

text \<open>
  The payloads that come in, are given to a client, wait for a connection, and are dropped by a step:
  when the handler throws, when the connection fails, and when the client is gone at the answer.
  Payloads that are falsy are left out: the callback of \<open>open\<close> does not send them.
\<close>

definition payloads :: "jsval list \<Rightarrow> jsval multiset" where
  "payloads ms = filter_mset truthy (mset ms)"

fun input_of :: "node_event \<Rightarrow> jsval list" where
  "input_of (Input m) = [m]"
| "input_of _ = []"

fun sent_of :: "node_effect \<Rightarrow> jsval list" where
  "sent_of (DevSendEvent c m) = [m]"
| "sent_of _ = []"

definition waiting :: "node_red \<Rightarrow> jsval multiset" where
  "waiting s = payloads (map snd (nr_pending s))"

definition given :: "node_effect list \<Rightarrow> jsval multiset" where
  "given es = payloads (concat (map sent_of es))"

fun node_drop :: "node_red \<Rightarrow> node_event \<Rightarrow> jsval multiset" where
  "node_drop s (Input m) = (if snd (snd (on_input m s)) = None then {#} else payloads [m])"
| "node_drop s (OpenAnswer c err) = (case take_pending c (nr_pending s) of
       None \<Rightarrow> {#} | Some (m, ps) \<Rightarrow> if err = None \<and> nr_client s \<noteq> None then {#} else payloads [m])"
| "node_drop s _ = {#}"

fun node_drops :: "node_red \<Rightarrow> node_event list \<Rightarrow> jsval multiset" where
  "node_drops s [] = {#}"
| "node_drops s (ev # evs) = node_drop s ev + node_drops (fst (node_step s ev)) evs"

lemma payloads_append [simp]: "payloads (ms @ ns) = payloads ms + payloads ns"
  and payloads_Nil [simp]: "payloads [] = {#}"
  by (simp_all add: payloads_def)

lemma given_append [simp]: "given (es @ fs) = given es + given fs"
  and given_Nil [simp]: "given [] = {#}"
  by (simp_all add: given_def)

lemma take_pending_mset: "take_pending c ps = Some (m, qs) \<Longrightarrow> mset (map snd ps) = add_mset m (mset (map snd qs))"
  by (induction c ps arbitrary: qs rule: take_pending.induct) (auto split: if_splits)

lemma sendData_carries:
  "sendData m s = (s', es, e) \<Longrightarrow> s' = s \<and> payloads [m] = given es + (if e = None then {#} else payloads [m])"
  by (auto simp: sendData_def given_def Let_def payloads_def split: if_splits option.splits)

lemma disconnect_carries: "disconnectFromIoTHub s = (s', es, e) \<Longrightarrow> nr_pending s' = nr_pending s \<and> given es = {#}"
  by (auto simp: disconnectFromIoTHub_def given_def split: option.splits)

lemma connect_carries:
  "connectToIoTHub m s = (s', es, e) \<Longrightarrow>
   waiting s + payloads [m] = given es + waiting s' + (if e = None then {#} else payloads [m])"
  by (auto simp: connectToIoTHub_def given_def waiting_def Let_def split: if_splits sum.splits)

lemma input_carries:
  assumes "on_input m s = (s', es, e)"
  shows "waiting s + payloads [m] = given es + waiting s' + (if e = None then {#} else payloads [m])"
proof (cases "nr_client s = None \<or> nodeConfigUpdated s (nr_credentials s) (nr_configProtocol s)")
  case True
  let ?s = "s\<lparr>nr_connectionString := nr_credentials s, nr_protocol := nr_configProtocol s\<rparr>"
  obtain s1 es1 where d: "disconnectFromIoTHub ?s = (s1, es1, None)"
    using disconnect_client by (cases "disconnectFromIoTHub ?s") blast
  obtain s2 es2 e2 where c: "connectToIoTHub m s1 = (s2, es2, e2)" by (cases "connectToIoTHub m s1")
  have "waiting s1 = waiting s" "given es1 = {#}" using disconnect_carries [OF d] by (simp_all add: waiting_def)
  moreover have "s' = s2" "given es = given es1 + given es2" "e = e2"
    using assms True d c by (auto simp: on_input_def sendMessageToIoTHub_def and_then_def given_def)
  ultimately show ?thesis using connect_carries [OF c] by simp
next
  case False
  with assms have "sendData m s = (s', es, e)" by (simp add: on_input_def sendMessageToIoTHub_def)
  from sendData_carries [OF this] show ?thesis by simp
qed

lemma listen_carries: "listen s = (s', es, e) \<Longrightarrow> nr_pending s' = nr_pending s \<and> given es = {#}"
  by (auto simp: listen_def given_def split: option.splits)

lemma opened_carries:
  assumes "on_opened m err s = (s', es, e)"
  shows "nr_pending s' = nr_pending s
    \<and> payloads [m] = given es + (if err = None \<and> nr_client s \<noteq> None then {#} else payloads [m])"
proof (cases err)
  case (Some x)
  with assms show ?thesis by (auto simp: on_opened_def given_def)
next
  case None
  show ?thesis
  proof (cases "nr_client s")
    case c: None
    with assms None show ?thesis
      by (auto simp: on_opened_def and_then_def sendData_def listen_def given_def Let_def payloads_def split: if_splits)
  next
    case (Some c)
    with assms None show ?thesis
      by (auto simp: on_opened_def and_then_def sendData_def listen_def given_def Let_def payloads_def split: if_splits)
  qed
qed

lemma deliver_carries: "deliver n data s = (s', es, e) \<Longrightarrow> nr_pending s' = nr_pending s \<and> given es = {#}"
proof (induction n arbitrary: s s' es e)
  case (Suc n)
  obtain es1 e1 where 1: "on_cloud_message data s = (s, es1, e1)" "given es1 = {#}"
    by (cases "nr_client s") (simp_all add: on_cloud_message_def given_def Let_def)
  show ?case
  proof (cases e1)
    case None
    obtain s2 es2 e2 where "deliver n data s = (s2, es2, e2)" by (cases "deliver n data s")
    with Suc 1 None show ?thesis by (auto simp: and_then_def)
  next
    case (Some x)
    with Suc.prems 1 show ?thesis by (simp add: and_then_def)
  qed
qed simp

lemma step_carries:
  assumes "node_step s ev = (s', es, e)"
  shows "waiting s + payloads (input_of ev) = given es + waiting s' + node_drop s ev"
proof (cases ev)
  case (Input m)
  with assms input_carries [of m s s' es e] show ?thesis by simp
next
  case (OpenAnswer c err)
  show ?thesis
  proof (cases "take_pending c (nr_pending s)")
    case None
    with assms OpenAnswer show ?thesis by simp
  next
    case (Some mp)
    obtain m ps where mp: "mp = (m, ps)" by (cases mp)
    with assms OpenAnswer Some have "on_opened m err (s\<lparr>nr_pending := ps\<rparr>) = (s', es, e)" by simp
    from opened_carries [OF this] have "waiting s' = payloads (map snd ps)"
      "payloads [m] = given es + (if err = None \<and> nr_client s \<noteq> None then {#} else payloads [m])"
      by (simp_all add: waiting_def)
    moreover have "waiting s = payloads (map snd ps) + payloads [m]"
      using take_pending_mset Some mp by (simp add: waiting_def payloads_def)
    ultimately show ?thesis using OpenAnswer Some mp by simp
  qed
next
  case (CloudMessage c data)
  with assms deliver_carries show ?thesis by (fastforce simp: waiting_def)
next
  case (ClientDisconnect c)
  with assms disconnect_carries [of s s' es e] show ?thesis by (auto simp: waiting_def split: if_splits)
next
  case NodeClose
  with assms disconnect_carries [of s s' es e] show ?thesis by (simp add: waiting_def)
next
  case (Deploy cs proto)
  with assms show ?thesis by (auto simp: waiting_def)
next
  case (SendAnswer err)
  with assms show ?thesis by (cases err) (auto simp: waiting_def given_def on_sent_def)
next
  case (ClientError c x)
  have "concat (map sent_of (replicate n (NodeError m))) = []" for n m by (induction n) simp_all
  with ClientError assms show ?thesis by (auto simp: waiting_def given_def)
qed

text \<open>C21: no payload is lost in silence or sent twice. Every (truthy) payload that comes in is given to a client
  once, or waits for the answer of a connection, or was dropped because a handler threw, the connection
  failed, or the client was gone when its connection answered.\<close>

theorem node_red_conserves_messages:
  "case node_run s evs of (s', es) \<Rightarrow>
     waiting s + payloads (concat (map input_of evs)) = given es + waiting s' + node_drops s evs"
proof (induction evs arbitrary: s)
  case (Cons ev evs)
  obtain s1 es1 e where 1: "node_step s ev = (s1, es1, e)" by (cases "node_step s ev")
  obtain s2 es2 where 2: "node_run s1 evs = (s2, es2)" by fastforce
  from Cons [of s1] 2 have "waiting s1 + payloads (concat (map input_of evs)) = given es2 + waiting s2 + node_drops s1 evs" by simp
  moreover from step_carries [OF 1] have "waiting s + payloads (input_of ev) = given es1 + waiting s1 + node_drop s ev" .
  ultimately show ?case
    using 1 2 by (simp add: add.assoc) (metis (no_types, lifting) add.assoc add.commute)
qed simp

text \<open>A connection that fails leaves its client current and without listeners: later inputs are given to it, and
  messages from the cloud have nobody to receive them.\<close>

lemma failed_open_deaf:
  assumes "take_pending c (nr_pending s) = Some (m, ps)" and "nr_client s = Some c" and "nr_listening s = []"
    and "node_step s (OpenAnswer c (Some e)) = (s', es, e')"
  shows "nr_client s' = Some c \<and> fst (snd (node_step s' (CloudMessage c data))) = []"
  using assms by (auto simp: on_opened_def)

end
