(* ===== verification/Release_Npm.thy ===== *)
theory Release_Npm
  imports Common_Core
begin

text \<open>
  The script that stages npm packages (\<open>build/release/release_npm/app.js\<close> and \<open>lib/utils.js\<close>). It drives
  \<open>git\<close> and the file system through promises: a script is a function of what has been done so far, and
  the answers of the outside are given by a function of the history and the action. Chains that the
  script allows to run in parallel for several packages run one after the other here.
\<close>

section \<open>Scripts\<close>

datatype action =
    Exec string
  | Access string
  | ReadFile string
  | RemoveDir string
  | MakeDir string
  | Copy string string
  | Chdir string

type_synonym outside = "action list \<Rightarrow> action \<Rightarrow> string res"

text \<open>The result of a chain of promises, with everything done up to there.\<close>

type_synonym 'a script = "action list \<Rightarrow> 'a res \<times> action list"

definition sc_return :: "'a \<Rightarrow> 'a script" where
  "sc_return x = (\<lambda>h. (Inr x, h))"

definition sc_reject :: "js_error \<Rightarrow> 'a script" where
  "sc_reject e = (\<lambda>h. (Inl e, h))"

definition sc_then :: "'a script \<Rightarrow> ('a \<Rightarrow> 'b script) \<Rightarrow> 'b script" where
  "sc_then m f = (\<lambda>h. case m h of (Inl e, h') \<Rightarrow> (Inl e, h') | (Inr x, h') \<Rightarrow> f x h')"

text \<open>\<open>finally\<close>: the handler runs in either case; its own failure replaces the outcome.\<close>

definition sc_finally :: "'a script \<Rightarrow> unit script \<Rightarrow> 'a script" where
  "sc_finally m f = (\<lambda>h. case m h of (r, h') \<Rightarrow> (case f h' of (Inl e, h'') \<Rightarrow> (Inl e, h'') | (Inr _, h'') \<Rightarrow> (r, h'')))"

fun sc_map :: "('a \<Rightarrow> 'b script) \<Rightarrow> 'a list \<Rightarrow> 'b list script" where
  "sc_map f [] = sc_return []"
| "sc_map f (x # xs) = sc_then (f x) (\<lambda>y. sc_then (sc_map f xs) (\<lambda>ys. sc_return (y # ys)))"

definition act :: "outside \<Rightarrow> action \<Rightarrow> string script" where
  "act out a = (\<lambda>h. (out h a, h @ [a]))"

lemmas sc_defs = sc_return_def sc_reject_def sc_then_def sc_finally_def act_def

text \<open>
  \<open>new RegExp('^' + name + '$', 'm').test(stdout)\<close>: some line matches. Of the characters with a meaning in
  patterns only the dot occurs in names of packages, branches and remotes.
\<close>

definition dot_match :: "string \<Rightarrow> string \<Rightarrow> bool" where
  "dot_match pattern line \<longleftrightarrow> list_all2 (\<lambda>p c. p = CHR ''.'' \<or> p = c) pattern line"

definition some_line :: "string \<Rightarrow> string \<Rightarrow> bool" where
  "some_line pattern stdout \<longleftrightarrow> list_ex (dot_match pattern) (js_split [CHR 0x0A] stdout)"

section \<open>The utilities\<close>

text \<open>A package folder; the staging branch is its name and version.\<close>

record package =
  pk_path :: string
  pk_name :: string
  pk_version :: string

definition Package :: "string \<Rightarrow> package" where
  "Package folder = \<lparr>pk_path = folder, pk_name = [], pk_version = []\<rparr>"

definition stagingBranch :: "package \<Rightarrow> string" where
  "stagingBranch pkg = pk_name pkg @ ''.'' @ pk_version pkg"

definition stagingPath :: "string \<Rightarrow> package \<Rightarrow> string" where
  "stagingPath tmpdir pkg = tmpdir @ ''/'' @ stagingBranch pkg"

definition getRepoRoot :: "outside \<Rightarrow> string script" where
  "getRepoRoot out = sc_then (act out (Exec ''git rev-parse --show-toplevel'')) (\<lambda>s. sc_return (js_trim s))"

definition isCurrentBranch :: "outside \<Rightarrow> string \<Rightarrow> bool script" where
  "isCurrentBranch out which = sc_then (act out (Exec ''git rev-parse --abbrev-ref HEAD'')) (\<lambda>s. sc_return (js_trim s = which))"

definition hasUncommittedChanges :: "outside \<Rightarrow> bool script" where
  "hasUncommittedChanges out =
     sc_then (act out (Exec ''git status --porcelain --untracked-files=no'')) (\<lambda>s. sc_return (js_trim s \<noteq> []))"

definition isWorkingDirClean :: "outside \<Rightarrow> string \<Rightarrow> bool script" where
  "isWorkingDirClean out rootDir =
     sc_then (act out (Exec (''git -C '' @ rootDir @ '' clean -xdn''))) (\<lambda>s. sc_return (js_trim s = []))"

definition tracksRemote :: "outside \<Rightarrow> string \<Rightarrow> bool script" where
  "tracksRemote out which = sc_then (act out (Exec ''git remote'')) (\<lambda>s. sc_return (some_line which s))"

definition fetchRemote :: "outside \<Rightarrow> string \<Rightarrow> unit script" where
  "fetchRemote out which = sc_then (act out (Exec (''git fetch --prune '' @ which))) (\<lambda>_. sc_return ())"

definition tryPackageFolder :: "outside \<Rightarrow> string \<Rightarrow> unit script" where
  "tryPackageFolder out folder = sc_then (act out (Access (folder @ ''/package.json''))) (\<lambda>_. sc_return ())"

definition folderIsInRepo :: "outside \<Rightarrow> string \<Rightarrow> string \<Rightarrow> bool script" where
  "folderIsInRepo out folder repoRoot =
     sc_then (act out (Exec (''git -C '' @ folder @ '' rev-parse --show-toplevel''))) (\<lambda>s. sc_return (js_trim s = repoRoot))"

definition getPackageInfo :: "(string \<Rightarrow> jsval option) \<Rightarrow> outside \<Rightarrow> string \<Rightarrow> (string \<times> string) script" where
  "getPackageInfo json out folder = sc_then (act out (ReadFile (folder @ ''/package.json''))) (\<lambda>data. case json data of
       None \<Rightarrow> sc_reject (mk_error SyntaxError ''Unexpected token'')
     | Some pkg \<Rightarrow> (case (js_member pkg ''name'', js_member pkg ''version'') of
           (Inr n, Inr v) \<Rightarrow> sc_return (js_string n, js_string v)
         | (Inl e, _) \<Rightarrow> sc_reject e
         | (_, Inl e) \<Rightarrow> sc_reject e))"

definition localBranchExists :: "outside \<Rightarrow> string \<Rightarrow> bool script" where
  "localBranchExists out name =
     sc_then (act out (Exec ''git for-each-ref --format=%(refname:short) refs/heads/'')) (\<lambda>s. sc_return (some_line name s))"

definition remoteBranchExists :: "outside \<Rightarrow> string \<Rightarrow> string \<Rightarrow> bool script" where
  "remoteBranchExists out remoteName branchName =
     sc_then (act out (Exec ''git for-each-ref --format=%(refname:short) refs/remotes/''))
       (\<lambda>s. sc_return (some_line (remoteName @ ''/'' @ branchName) s))"

definition getTrackedFiles :: "outside \<Rightarrow> string \<Rightarrow> string list script" where
  "getTrackedFiles out folder =
     sc_then (act out (Exec (''git -C '' @ folder @ '' ls-tree -r HEAD --name-only''))) (\<lambda>s. sc_return (js_split [CHR 0x0A] (js_trim s)))"

definition createCleanDir :: "outside \<Rightarrow> string \<Rightarrow> unit script" where
  "createCleanDir out path = sc_then (act out (RemoveDir path)) (\<lambda>_. sc_then (act out (MakeDir path)) (\<lambda>_. sc_return ()))"

definition copyFiles :: "outside \<Rightarrow> string list \<Rightarrow> string \<Rightarrow> string \<Rightarrow> unit script" where
  "copyFiles out files src dst =
     sc_then (sc_map (\<lambda>file. act out (Copy (src @ ''/'' @ file) (dst @ ''/'' @ file))) files) (\<lambda>_. sc_return ())"

definition copyDir :: "outside \<Rightarrow> string \<Rightarrow> string \<Rightarrow> unit script" where
  "copyDir out src dst = sc_then (act out (Copy src dst)) (\<lambda>_. sc_return ())"

definition checkoutBranch :: "outside \<Rightarrow> string \<Rightarrow> unit script" where
  "checkoutBranch out name = sc_then (act out (Exec (''git checkout '' @ name))) (\<lambda>_. sc_return ())"

text \<open>
  \<open>err.toString().search(...)\<close> is the position of the pattern or -1, so \<open>!\<close> of it holds only at position
  0; the text of an error begins with its name, so the error of \<open>git rm\<close> is always swallowed.
\<close>

definition checkoutOrphanBranch :: "outside \<Rightarrow> string \<Rightarrow> unit script" where
  "checkoutOrphanBranch out name = sc_then (act out (Exec (''git checkout --orphan '' @ name))) (\<lambda>_. \<lambda>h.
     (Inr (), h @ [Exec ''git rm -rf .'']))"

definition commitFiles :: "outside \<Rightarrow> string \<Rightarrow> unit script" where
  "commitFiles out message = sc_then (act out (Exec ''git add .'')) (\<lambda>_.
     sc_then (act out (Exec (''git commit -m '' @ [CHR 0x22] @ message @ [CHR 0x22]))) (\<lambda>_. sc_return ()))"

definition push_command :: "string \<Rightarrow> string \<Rightarrow> action" where
  "push_command remoteName branchName = Exec (''git push '' @ remoteName @ '' '' @ branchName)"

definition pushToRemote :: "outside \<Rightarrow> string \<Rightarrow> string \<Rightarrow> unit script" where
  "pushToRemote out remoteName branchName = sc_then (act out (push_command remoteName branchName)) (\<lambda>_. sc_return ())"

definition drop_git :: "string \<Rightarrow> string" where
  "drop_git s = (if suffix ''.git'' s then take (length s - 4) s else s)"

definition getTarballUrl :: "outside \<Rightarrow> string \<Rightarrow> string \<Rightarrow> string script" where
  "getTarballUrl out remoteName branchName =
     sc_then (act out (Exec (''git config --get remote.'' @ remoteName @ ''.url'')))
       (\<lambda>s. sc_return (drop_git (js_trim s) @ ''/tarball/'' @ branchName))"

definition delete_command :: "string \<Rightarrow> action" where
  "delete_command which = Exec (''git branch -D '' @ which)"

definition deleteBranch :: "outside \<Rightarrow> string \<Rightarrow> unit script" where
  "deleteBranch out which = sc_then (act out (delete_command which)) (\<lambda>_. sc_return ())"

section \<open>The script\<close>

definition apos :: "string \<Rightarrow> string" where
  "apos s = [CHR 0x27] @ s @ [CHR 0x27]"

definition ensure :: "string \<Rightarrow> bool \<Rightarrow> unit script" where
  "ensure message b = (if b then sc_return () else sc_reject (mk_error Error message))"

definition ensureCurrentBranchIsMaster :: "outside \<Rightarrow> unit script" where
  "ensureCurrentBranchIsMaster out =
     sc_then (isCurrentBranch out ''master'') (ensure (''Please switch to the '' @ apos ''master'' @ '' branch before running this script.''))"

definition ensureThereAreNoUncommittedChanges :: "outside \<Rightarrow> unit script" where
  "ensureThereAreNoUncommittedChanges out = sc_then (hasUncommittedChanges out)
     (\<lambda>b. ensure ''You have uncommitted changes. Please commit them before running this script.'' (\<not> b))"

definition ensureWorkingDirectoryIsClean :: "outside \<Rightarrow> string \<Rightarrow> unit script" where
  "ensureWorkingDirectoryIsClean out repoRoot =
     sc_then (isWorkingDirClean out repoRoot) (ensure (''Your working directory isn'' @ [CHR 0x27]
       @ ''t clean. Please clean your working directory (i.e., git clean -xdf) before running this script.''))"

definition ensureRepoIsTrackingTheGivenRemote :: "outside \<Rightarrow> string \<Rightarrow> unit script" where
  "ensureRepoIsTrackingTheGivenRemote out remoteName =
     sc_then (tracksRemote out remoteName) (ensure (''Please add '' @ apos remoteName @ '' to your repo remotes.''))"

definition ensurePackageExistsInRepo :: "outside \<Rightarrow> string \<Rightarrow> package \<Rightarrow> package script" where
  "ensurePackageExistsInRepo out repoRoot pkg = sc_then (tryPackageFolder out (pk_path pkg)) (\<lambda>_.
     sc_then (folderIsInRepo out (pk_path pkg) repoRoot) (\<lambda>b.
     sc_then (ensure (''The package folder '' @ apos (pk_path pkg) @ '' is not under the repo at '' @ repoRoot) b) (\<lambda>_. sc_return pkg)))"

definition setPackageNameAndVersion :: "(string \<Rightarrow> jsval option) \<Rightarrow> outside \<Rightarrow> package \<Rightarrow> package script" where
  "setPackageNameAndVersion json out pkg = sc_then (getPackageInfo json out (pk_path pkg))
     (\<lambda>(name, version). sc_return (pkg\<lparr>pk_name := name, pk_version := version\<rparr>))"

definition ensureStagingBranchDoesNotExist :: "outside \<Rightarrow> string \<Rightarrow> package \<Rightarrow> package script" where
  "ensureStagingBranchDoesNotExist out remoteName pkg =
     sc_then (localBranchExists out (stagingBranch pkg)) (\<lambda>localExists.
     sc_then (remoteBranchExists out remoteName (stagingBranch pkg)) (\<lambda>remoteExists.
     if localExists then sc_reject (mk_error Error (''Branch '' @ apos (stagingBranch pkg) @ '' already exists.''))
     else if remoteExists
     then sc_reject (mk_error Error (''Remote branch '' @ apos (remoteName @ ''/'' @ stagingBranch pkg) @ '' already exists.''))
     else sc_return pkg))"

definition createStagingFolder :: "outside \<Rightarrow> string \<Rightarrow> package \<Rightarrow> package script" where
  "createStagingFolder out tmpdir pkg = sc_then (createCleanDir out (stagingPath tmpdir pkg)) (\<lambda>_. sc_return pkg)"

definition stagePackageFiles :: "outside \<Rightarrow> string \<Rightarrow> string \<Rightarrow> package \<Rightarrow> unit script" where
  "stagePackageFiles out tmpdir repoRoot pkg = sc_then (getTrackedFiles out (pk_path pkg)) (\<lambda>files.
     sc_then (copyFiles out [''.gitattributes''] repoRoot (stagingPath tmpdir pkg)) (\<lambda>_.
     copyFiles out files (pk_path pkg) (stagingPath tmpdir pkg)))"

definition checkoutStagingBranch :: "outside \<Rightarrow> package \<Rightarrow> package script" where
  "checkoutStagingBranch out pkg = sc_then (checkoutOrphanBranch out (stagingBranch pkg)) (\<lambda>_. sc_return pkg)"

definition copyStagedFiles :: "outside \<Rightarrow> string \<Rightarrow> string \<Rightarrow> package \<Rightarrow> package script" where
  "copyStagedFiles out tmpdir repoRoot pkg = sc_then (copyDir out (stagingPath tmpdir pkg) repoRoot) (\<lambda>_. sc_return pkg)"

definition commitStagedFiles :: "outside \<Rightarrow> package \<Rightarrow> package script" where
  "commitStagedFiles out pkg = sc_then (commitFiles out (stagingBranch pkg)) (\<lambda>_. sc_return pkg)"

definition pushPackage :: "outside \<Rightarrow> string \<Rightarrow> package \<Rightarrow> package script" where
  "pushPackage out remoteName pkg = sc_then (pushToRemote out remoteName (stagingBranch pkg)) (\<lambda>_. sc_return pkg)"

text \<open>
  The packages are mutable objects: the chain that fills in their names hands them on, and the cleanup
  reads the same objects. A package whose chain did not get that far still has its empty name.
\<close>

fun prepare :: "(package \<Rightarrow> package script) \<Rightarrow> (package \<Rightarrow> unit script) \<Rightarrow> package list
    \<Rightarrow> action list \<Rightarrow> unit res \<times> package list \<times> action list" where
  "prepare named staged [] h = (Inr (), [], h)"
| "prepare named staged (pkg # pkgs) h = (case named pkg h of
       (Inl e, h1) \<Rightarrow> (Inl e, pkg # pkgs, h1)
     | (Inr pkg', h1) \<Rightarrow> (case staged pkg' h1 of
           (Inl e, h2) \<Rightarrow> (Inl e, pkg' # pkgs, h2)
         | (Inr _, h2) \<Rightarrow> (case prepare named staged pkgs h2 of (r, ps, h3) \<Rightarrow> (r, pkg' # ps, h3))))"

definition name_package :: "(string \<Rightarrow> jsval option) \<Rightarrow> outside \<Rightarrow> string \<Rightarrow> package \<Rightarrow> package script" where
  "name_package json out repoRoot pkg =
     sc_then (ensurePackageExistsInRepo out repoRoot pkg) (setPackageNameAndVersion json out)"

definition stage_package :: "outside \<Rightarrow> string \<Rightarrow> string \<Rightarrow> string \<Rightarrow> package \<Rightarrow> unit script" where
  "stage_package out tmpdir remoteName repoRoot pkg =
     sc_then (ensureStagingBranchDoesNotExist out remoteName pkg) (\<lambda>pkg.
     sc_then (createStagingFolder out tmpdir pkg) (stagePackageFiles out tmpdir repoRoot))"

definition publish_package :: "outside \<Rightarrow> string \<Rightarrow> string \<Rightarrow> string \<Rightarrow> package \<Rightarrow> string script" where
  "publish_package out tmpdir remoteName repoRoot pkg =
     sc_then (checkoutStagingBranch out pkg) (\<lambda>pkg.
     sc_then (copyStagedFiles out tmpdir repoRoot pkg) (\<lambda>pkg.
     sc_then (commitStagedFiles out pkg) (\<lambda>pkg.
     sc_then (pushPackage out remoteName pkg) (\<lambda>pkg. getTarballUrl out remoteName (stagingBranch pkg)))))"

definition preconditions :: "outside \<Rightarrow> string \<Rightarrow> string script" where
  "preconditions out remoteName =
     sc_then (getRepoRoot out) (\<lambda>repoRoot.
     sc_then (ensureCurrentBranchIsMaster out) (\<lambda>_.
     sc_then (ensureThereAreNoUncommittedChanges out) (\<lambda>_.
     sc_then (ensureWorkingDirectoryIsClean out repoRoot) (\<lambda>_.
     sc_then (ensureRepoIsTrackingTheGivenRemote out remoteName) (\<lambda>_.
     sc_then (fetchRemote out remoteName) (\<lambda>_. sc_return repoRoot))))))"

definition deleteStagingBranches :: "outside \<Rightarrow> package list \<Rightarrow> unit script" where
  "deleteStagingBranches out pkgs = sc_then (sc_map (\<lambda>pkg.
     sc_then (localBranchExists out (stagingBranch pkg)) (\<lambda>exists.
       if exists then deleteBranch out (stagingBranch pkg) else sc_return ())) pkgs) (\<lambda>_. sc_return ())"

definition cleanup :: "outside \<Rightarrow> package list \<Rightarrow> unit script" where
  "cleanup out pkgs = sc_then (checkoutBranch out ''master'') (\<lambda>_. deleteStagingBranches out pkgs)"

text \<open>Everything before \<open>finally\<close>: the outcome, and the packages as it leaves them.\<close>

definition release_main :: "(string \<Rightarrow> jsval option) \<Rightarrow> outside \<Rightarrow> string \<Rightarrow> string \<Rightarrow> string list
    \<Rightarrow> action list \<Rightarrow> string list res \<times> package list \<times> action list" where
  "release_main json out tmpdir remoteName folders h =
     (let pkgs = map Package folders in
      case preconditions out remoteName h of
        (Inl e, h1) \<Rightarrow> (Inl e, pkgs, h1)
      | (Inr repoRoot, h1) \<Rightarrow>
          (case prepare (name_package json out repoRoot) (stage_package out tmpdir remoteName repoRoot) pkgs h1 of
             (Inl e, pkgs', h2) \<Rightarrow> (Inl e, pkgs', h2)
           | (Inr _, pkgs', h2) \<Rightarrow>
               (case sc_map (publish_package out tmpdir remoteName repoRoot) pkgs' (h2 @ [Chdir repoRoot]) of
                  (r, h3) \<Rightarrow> (r, pkgs', h3))))"

definition release_npm :: "(string \<Rightarrow> jsval option) \<Rightarrow> outside \<Rightarrow> string \<Rightarrow> string \<Rightarrow> string list
    \<Rightarrow> action list \<Rightarrow> string list res \<times> action list" where
  "release_npm json out tmpdir remoteName folders h =
     (case release_main json out tmpdir remoteName folders h of
        (r, pkgs, h1) \<Rightarrow> sc_finally (\<lambda>h. (r, h)) (cleanup out pkgs) h1)"

section \<open>What a script does\<close>

text \<open>\<open>adds P m\<close>: the script only adds actions of the kind \<open>P\<close> to the history.\<close>

definition adds :: "(action \<Rightarrow> bool) \<Rightarrow> 'a script \<Rightarrow> bool" where
  "adds P m \<longleftrightarrow> (\<forall>h. \<exists>as. snd (m h) = h @ as \<and> list_all P as)"

named_theorems adds_rules \<open>how scripts add to their history\<close>

lemma adds_return [adds_rules]: "adds P (sc_return x)"
  and adds_reject [adds_rules]: "adds P (sc_reject e)"
  by (simp_all add: adds_def sc_defs)

lemma adds_act [adds_rules]: "P a \<Longrightarrow> adds P (act out a)"
  by (simp add: adds_def sc_defs)

lemma adds_then [adds_rules]:
  assumes "adds P m" and "\<And>x. adds P (f x)"
  shows "adds P (sc_then m f)"
  unfolding adds_def
proof
  fix h
  obtain r as where m: "m h = (r, h @ as)" "list_all P as"
    using assms(1) unfolding adds_def by (metis prod.collapse)
  show "\<exists>as. snd (sc_then m f h) = h @ as \<and> list_all P as"
  proof (cases r)
    case (Inl e)
    with m show ?thesis by (simp add: sc_then_def)
  next
    case (Inr x)
    from assms(2) [of x] obtain bs where "snd (f x (h @ as)) = (h @ as) @ bs" "list_all P bs"
      unfolding adds_def by blast
    with m Inr show ?thesis by (intro exI [of _ "as @ bs"]) (simp add: sc_then_def)
  qed
qed

lemma adds_map [adds_rules]: "(\<And>x. adds P (f x)) \<Longrightarrow> adds P (sc_map f xs)"
  by (induction xs) (simp_all add: adds_return adds_then)

lemma adds_if [adds_rules]: "adds P m \<Longrightarrow> adds P m' \<Longrightarrow> adds P (if b then m else m')"
  by simp

lemma adds_prepare:
  assumes "\<And>p. adds P (named p)" and "\<And>p. adds P (staged p)"
  shows "\<exists>as. snd (snd (prepare named staged pkgs h)) = h @ as \<and> list_all P as"
proof (induction pkgs arbitrary: h)
  case (Cons pkg pkgs)
  obtain r1 as where 1: "named pkg h = (r1, h @ as)" "list_all P as"
    using assms(1) [of pkg] unfolding adds_def by (metis prod.collapse)
  show ?case
  proof (cases r1)
    case (Inl e)
    with 1 show ?thesis by simp
  next
    case (Inr p)
    obtain r2 bs where 2: "staged p (h @ as) = (r2, h @ as @ bs)" "list_all P bs"
      using assms(2) [of p] unfolding adds_def by (metis append.assoc prod.collapse)
    obtain cs where 3: "snd (snd (prepare named staged pkgs (h @ as @ bs))) = h @ as @ bs @ cs" "list_all P cs"
      using Cons.IH [of "h @ as @ bs"] by auto
    show ?thesis
    proof (cases r2)
      case (Inl e)
      with 1 2 Inr show ?thesis by (intro exI [of _ "as @ bs"]) simp
    next
      case (Inr u)
      with 1 2 3 \<open>r1 = Inr p\<close> show ?thesis
        by (cases "prepare named staged pkgs (h @ as @ bs)") (intro exI [of _ "as @ bs @ cs"], simp)
    qed
  qed
qed simp

text \<open>The scripts that do not push.\<close>

definition no_push :: "action \<Rightarrow> bool" where
  "no_push a \<longleftrightarrow> (\<forall>remoteName branchName. a \<noteq> push_command remoteName branchName)"

lemma no_push_io [simp]: "no_push (Access p)" "no_push (ReadFile p)" "no_push (RemoveDir p)" "no_push (MakeDir p)"
    "no_push (Copy p q)" "no_push (Chdir p)"
  by (simp_all add: no_push_def push_command_def)

lemma no_push_exec [simp]: "take 5 c \<noteq> ''git p'' \<Longrightarrow> no_push (Exec c)"
  by (auto simp: no_push_def push_command_def)

lemma quiet_utils [adds_rules]:
  "adds no_push (getRepoRoot out)" "adds no_push (isCurrentBranch out b)" "adds no_push (hasUncommittedChanges out)"
  "adds no_push (isWorkingDirClean out root)" "adds no_push (tracksRemote out remote)" "adds no_push (fetchRemote out remote)"
  "adds no_push (tryPackageFolder out folder)" "adds no_push (folderIsInRepo out folder root)"
  "adds no_push (localBranchExists out name)" "adds no_push (remoteBranchExists out remote name)"
  "adds no_push (getTrackedFiles out folder)" "adds no_push (createCleanDir out path)" "adds no_push (copyFiles out files src dst)"
  "adds no_push (checkoutBranch out name)" "adds no_push (deleteBranch out name)" "adds no_push (ensure msg c)"
  unfolding getRepoRoot_def isCurrentBranch_def hasUncommittedChanges_def isWorkingDirClean_def tracksRemote_def fetchRemote_def
    tryPackageFolder_def folderIsInRepo_def localBranchExists_def remoteBranchExists_def getTrackedFiles_def createCleanDir_def
    copyFiles_def checkoutBranch_def deleteBranch_def delete_command_def ensure_def
  by (intro adds_rules; simp)+

lemma quiet_info [adds_rules]: "adds no_push (getPackageInfo json out folder)"
proof -
  have "adds no_push (case json data of
       None \<Rightarrow> sc_reject (mk_error SyntaxError ''Unexpected token'')
     | Some pkg \<Rightarrow> (case (js_member pkg ''name'', js_member pkg ''version'') of
           (Inr n, Inr v) \<Rightarrow> sc_return (js_string n, js_string v)
         | (Inl e, _) \<Rightarrow> sc_reject e
         | (_, Inl e) \<Rightarrow> sc_reject e))" for data
    by (auto split: option.splits sum.splits intro: adds_rules)
  then show ?thesis unfolding getPackageInfo_def by (intro adds_rules) simp_all
qed

lemma quiet_stages [adds_rules]:
  "adds no_push (preconditions out remote)" "adds no_push (stage_package out tmpdir remote root pkg)"
  "adds no_push (cleanup out pkgs)" "adds no_push (name_package json out root pkg)"
proof -
  show "adds no_push (preconditions out remote)"
    unfolding preconditions_def ensureCurrentBranchIsMaster_def ensureThereAreNoUncommittedChanges_def
      ensureWorkingDirectoryIsClean_def ensureRepoIsTrackingTheGivenRemote_def by (intro adds_rules)
  show "adds no_push (stage_package out tmpdir remote root pkg)"
    unfolding stage_package_def ensureStagingBranchDoesNotExist_def createStagingFolder_def stagePackageFiles_def
    by (intro adds_rules)
  show "adds no_push (cleanup out pkgs)"
    unfolding cleanup_def deleteStagingBranches_def by (intro adds_rules)
  have "adds no_push (case x of (name, version) \<Rightarrow> sc_return (p\<lparr>pk_name := name, pk_version := version\<rparr>))" for x and p :: package
    by (cases x) (simp add: adds_rules)
  then show "adds no_push (name_package json out root pkg)"
    unfolding name_package_def ensurePackageExistsInRepo_def setPackageNameAndVersion_def by (intro adds_rules)
qed

section \<open>Checks before pushes\<close>

definition heads :: action where
  "heads = Exec ''git for-each-ref --format=%(refname:short) refs/heads/''"

text \<open>In the history \<open>h\<close> the action was answered, and the answer has the property.\<close>

definition answered :: "outside \<Rightarrow> action list \<Rightarrow> action \<Rightarrow> (string \<Rightarrow> bool) \<Rightarrow> bool" where
  "answered out h a Q \<longleftrightarrow> (\<exists>pre s. prefix (pre @ [a]) h \<and> out pre a = Inr s \<and> Q s)"

definition release_checked :: "outside \<Rightarrow> string \<Rightarrow> action list \<Rightarrow> bool" where
  "release_checked out remoteName h \<longleftrightarrow>
     answered out h (Exec ''git rev-parse --abbrev-ref HEAD'') (\<lambda>s. js_trim s = ''master'')
     \<and> answered out h (Exec ''git status --porcelain --untracked-files=no'') (\<lambda>s. js_trim s = [])
     \<and> (\<exists>root. answered out h (Exec (''git -C '' @ root @ '' clean -xdn'')) (\<lambda>s. js_trim s = []))
     \<and> answered out h (Exec ''git remote'') (some_line remoteName)"

lemma answered_prefix: "answered out h a Q \<Longrightarrow> prefix h h' \<Longrightarrow> answered out h' a Q"
  unfolding answered_def using prefix_order.trans by blast

lemma release_checked_prefix: "release_checked out remoteName h \<Longrightarrow> prefix h h' \<Longrightarrow> release_checked out remoteName h'"
  unfolding release_checked_def using answered_prefix by blast

lemma adds_prefix: "adds P m \<Longrightarrow> m h = (r, h') \<Longrightarrow> prefix h h'"
  unfolding adds_def by (metis prefixI snd_conv)

lemma answered_act: "out h a = Inr s \<Longrightarrow> Q s \<Longrightarrow> answered out (h @ [a]) a Q"
  by (auto simp: answered_def)

lemma sc_then_InrE:
  assumes "sc_then m f h = (Inr y, h')"
  obtains x h1 where "m h = (Inr x, h1)" and "f x h1 = (Inr y, h')"
  using assms by (auto simp: sc_then_def split: prod.splits sum.splits)

lemma act_InrE:
  assumes "sc_then (act out a) f h = (Inr y, h')"
  obtains s where "out h a = Inr s" and "f s (h @ [a]) = (Inr y, h')"
  using assms by (auto simp: sc_then_def act_def split: sum.splits)

lemma ensure_Inr: "ensure msg b h = (Inr u, h') \<Longrightarrow> b \<and> h' = h"
  by (auto simp: ensure_def sc_defs split: if_splits)

lemma check_answered:
  assumes "sc_then (sc_then (act out a) (\<lambda>s. sc_return (g s))) (\<lambda>b. ensure msg (k b)) h = (Inr u, h')"
  shows "answered out h' a (\<lambda>s. k (g s)) \<and> prefix h h'"
  using assms by (auto simp: sc_then_def act_def sc_return_def ensure_def sc_reject_def answered_def split: sum.splits if_splits)

lemmas check_passed = check_answered [where k = "\<lambda>b. b"]

lemma preconditions_checked:
  assumes "preconditions out remoteName h = (Inr root, h')"
  shows "release_checked out remoteName h'"
proof -
  from assms obtain h1 h2 h3 h4 h5 where h: "getRepoRoot out h = (Inr root, h1)" "ensureCurrentBranchIsMaster out h1 = (Inr (), h2)"
    "ensureThereAreNoUncommittedChanges out h2 = (Inr (), h3)" "ensureWorkingDirectoryIsClean out root h3 = (Inr (), h4)"
    "ensureRepoIsTrackingTheGivenRemote out remoteName h4 = (Inr (), h5)" "fetchRemote out remoteName h5 = (Inr (), h')"
    unfolding preconditions_def by (elim sc_then_InrE) (auto simp: sc_return_def)
  have 1: "answered out h2 (Exec ''git rev-parse --abbrev-ref HEAD'') (\<lambda>s. js_trim s = ''master'')"
    using check_passed [OF h(2) [unfolded ensureCurrentBranchIsMaster_def isCurrentBranch_def]] by simp
  have 2: "answered out h3 (Exec ''git status --porcelain --untracked-files=no'') (\<lambda>s. js_trim s = [])" "prefix h2 h3"
    using check_answered [OF h(3) [unfolded ensureThereAreNoUncommittedChanges_def hasUncommittedChanges_def]] by simp_all
  have 3: "answered out h4 (Exec (''git -C '' @ root @ '' clean -xdn'')) (\<lambda>s. js_trim s = [])" "prefix h3 h4"
    using check_passed [OF h(4) [unfolded ensureWorkingDirectoryIsClean_def isWorkingDirClean_def]] by simp_all
  have 4: "answered out h5 (Exec ''git remote'') (some_line remoteName)" "prefix h4 h5"
    using check_passed [OF h(5) [unfolded ensureRepoIsTrackingTheGivenRemote_def tracksRemote_def]] by simp_all
  have 5: "prefix h5 h'" using adds_prefix [OF quiet_utils(6) h(6)] .
  then show ?thesis
    unfolding release_checked_def using 1 2 3 4 answered_prefix prefix_order.trans by meson
qed

lemma stage_package_checked:
  assumes "stage_package out tmpdir remoteName root pkg h = (Inr u, h')"
  shows "answered out h' heads (\<lambda>s. \<not> some_line (stagingBranch pkg) s)"
proof -
  from assms [unfolded stage_package_def] obtain p h1 where e: "ensureStagingBranchDoesNotExist out remoteName pkg h = (Inr p, h1)"
    and r: "sc_then (createStagingFolder out tmpdir p) (stagePackageFiles out tmpdir root) h1 = (Inr u, h')"
    by (rule sc_then_InrE)
  from e [unfolded ensureStagingBranchDoesNotExist_def] obtain l h2 where l: "localBranchExists out (stagingBranch pkg) h = (Inr l, h2)"
    and r2: "sc_then (remoteBranchExists out remoteName (stagingBranch pkg)) (\<lambda>remoteExists.
     if l then sc_reject (mk_error Error (''Branch '' @ apos (stagingBranch pkg) @ '' already exists.''))
     else if remoteExists
     then sc_reject (mk_error Error (''Remote branch '' @ apos (remoteName @ ''/'' @ stagingBranch pkg) @ '' already exists.''))
     else sc_return pkg) h2 = (Inr p, h1)"
    by (rule sc_then_InrE)
  from r2 obtain b where b: "remoteBranchExists out remoteName (stagingBranch pkg) h2 = (Inr b, h1)" "\<not> l"
    by (elim sc_then_InrE) (auto simp: sc_defs split: if_splits)
  from l b(2) have "answered out h2 heads (\<lambda>s. \<not> some_line (stagingBranch pkg) s)"
    by (auto simp: localBranchExists_def sc_defs answered_def heads_def split: sum.splits)
  moreover have "prefix h2 h1" using adds_prefix [OF quiet_utils(10) b(1)] .
  ultimately have "answered out h1 heads (\<lambda>s. \<not> some_line (stagingBranch pkg) s)" by (rule answered_prefix)
  moreover have "adds no_push (sc_then (createStagingFolder out tmpdir p) (stagePackageFiles out tmpdir root))"
    unfolding createStagingFolder_def stagePackageFiles_def by (intro adds_rules)
  then have "prefix h1 h'" using r by (rule adds_prefix)
  ultimately show ?thesis by (rule answered_prefix)
qed

lemma prepare_checked:
  assumes "prepare (name_package json out root) (stage_package out tmpdir remoteName root) pkgs h = (Inr (), ps, h')" and "p \<in> set ps"
  shows "answered out h' heads (\<lambda>s. \<not> some_line (stagingBranch p) s)"
  using assms
proof (induction pkgs arbitrary: h ps)
  case (Cons pkg pkgs)
  from Cons.prems(1) obtain q h1 h2 qs where q: "stage_package out tmpdir remoteName root q h1 = (Inr (), h2)"
    and r: "prepare (name_package json out root) (stage_package out tmpdir remoteName root) pkgs h2 = (Inr (), qs, h')" "ps = q # qs"
    by (auto split: prod.splits sum.splits)
  have "prefix h2 h'"
    using adds_prepare [where named = "name_package json out root" and staged = "stage_package out tmpdir remoteName root",
        OF quiet_stages(4) quiet_stages(2), of pkgs h2] r(1) by auto
  with stage_package_checked [OF q] have "answered out h' heads (\<lambda>s. \<not> some_line (stagingBranch q) s)" by (rule answered_prefix)
  with Cons.IH [OF r(1)] Cons.prems(2) r(2) show ?case by auto
qed simp

definition pushes_of :: "string \<Rightarrow> package list \<Rightarrow> action \<Rightarrow> bool" where
  "pushes_of remoteName pkgs a \<longleftrightarrow> no_push a \<or> (\<exists>p\<in>set pkgs. a = push_command remoteName (stagingBranch p))"

lemma adds_mono: "adds P m \<Longrightarrow> (\<And>a. P a \<Longrightarrow> Q a) \<Longrightarrow> adds Q m"
  unfolding adds_def list_all_iff by blast

lemma sc_then_return: "sc_then (sc_then m (\<lambda>x. sc_return (g x))) f = sc_then m (\<lambda>x. f (g x))"
  by (auto simp: sc_then_def sc_return_def fun_eq_iff split: prod.splits sum.splits)

lemma publish_pushes:
  assumes "pkg \<in> set pkgs"
  shows "adds (pushes_of remoteName pkgs) (publish_package out tmpdir remoteName root pkg)"
proof -
  have io: "pushes_of remoteName pkgs a" if "no_push a" for a using that by (simp add: pushes_of_def)
  have push: "pushes_of remoteName pkgs (push_command remoteName (stagingBranch pkg))" using assms by (auto simp: pushes_of_def)
  have orphan: "adds (pushes_of remoteName pkgs) (checkoutOrphanBranch out b)" for b
    unfolding checkoutOrphanBranch_def
    by (rule adds_then) (simp_all add: adds_rules io, simp add: adds_def io)
  show ?thesis
    unfolding publish_package_def checkoutStagingBranch_def copyStagedFiles_def copyDir_def commitStagedFiles_def commitFiles_def
      pushPackage_def pushToRemote_def getTarballUrl_def sc_then_return
    by (intro adds_then adds_act adds_return orphan io push; simp)
qed

lemma publish_all_pushes:
  "set qs \<subseteq> set pkgs \<Longrightarrow> adds (pushes_of remoteName pkgs) (sc_map (publish_package out tmpdir remoteName root) qs)"
  by (induction qs) (auto intro!: adds_then adds_return publish_pushes)

text \<open>After the main chain only the cleanup runs, and it does not push.\<close>

lemma release_npm_history:
  assumes "release_main json out tmpdir remoteName folders h0 = (r1, pkgs, h1)"
  shows "\<exists>cs. snd (release_npm json out tmpdir remoteName folders h0) = h1 @ cs \<and> list_all no_push cs"
proof -
  have "snd (release_npm json out tmpdir remoteName folders h0) = snd (cleanup out pkgs h1)"
    using assms by (simp add: release_npm_def sc_finally_def split: prod.splits sum.splits)
  with quiet_stages(3) [of out pkgs] show ?thesis unfolding adds_def by metis
qed

text \<open>C32: nothing is pushed unchecked. Whatever \<open>git\<close> and the file system answer, before a staging branch is pushed
  the script has been told that the current branch is master, that there are no uncommitted changes,
  that the working directory is clean, that the remote is known, and that no local branch matches the
  branch it pushes.\<close>

theorem release_pushes_checked:
  assumes "release_npm json out tmpdir remoteName folders [] = (r, h)" and "push_command remoteName b \<in> set h"
  shows "\<exists>pre post. h = pre @ push_command remoteName b # post \<and> release_checked out remoteName pre
    \<and> answered out pre heads (\<lambda>s. \<not> some_line b s)"
proof -
  obtain r1 pkgs h1 where m: "release_main json out tmpdir remoteName folders [] = (r1, pkgs, h1)"
    by (cases "release_main json out tmpdir remoteName folders []")
  obtain cs where cs: "h = h1 @ cs" "list_all no_push cs" using release_npm_history [OF m] assms(1) by auto
  have np: "push_command remoteName b \<notin> set as" if "list_all no_push as" for as
    using that by (auto simp: list_all_iff no_push_def)
  have mem: "push_command remoteName b \<in> set h1" using assms(2) cs np by auto
  obtain r2 h2 where p: "preconditions out remoteName [] = (r2, h2)" by (cases "preconditions out remoteName []")
  have q2: "list_all no_push h2" using quiet_stages(1) [of out remoteName] p unfolding adds_def by (metis append_Nil snd_conv)
  from mem np q2 m p obtain root where root: "r2 = Inr root" by (cases r2) (auto simp: release_main_def)
  obtain r3 ps h3 where pr: "prepare (name_package json out root) (stage_package out tmpdir remoteName root) (map Package folders) h2 = (r3, ps, h3)"
    by (cases "prepare (name_package json out root) (stage_package out tmpdir remoteName root) (map Package folders) h2")
  obtain as where as: "h3 = h2 @ as" "list_all no_push as"
    using adds_prepare [where named = "name_package json out root" and staged = "stage_package out tmpdir remoteName root",
        OF quiet_stages(4) quiet_stages(2), of "map Package folders" h2] pr by auto
  from mem np q2 as m p root pr have r3: "r3 = Inr ()" by (cases r3) (auto simp: release_main_def)
  obtain r4 h4 where pub: "sc_map (publish_package out tmpdir remoteName root) ps (h3 @ [Chdir root]) = (r4, h4)"
    by (cases "sc_map (publish_package out tmpdir remoteName root) ps (h3 @ [Chdir root])")
  then have h4: "h1 = h4" using m p root pr r3 by (simp add: release_main_def)
  have "\<exists>bs. snd (sc_map (publish_package out tmpdir remoteName root) ps (h3 @ [Chdir root])) = (h3 @ [Chdir root]) @ bs
      \<and> list_all (pushes_of remoteName ps) bs"
    using publish_all_pushes [of ps ps remoteName out tmpdir root] unfolding adds_def by blast
  then obtain bs where bs: "h1 = h3 @ [Chdir root] @ bs" "list_all (pushes_of remoteName ps) bs"
    unfolding pub h4 by auto
  have "push_command remoteName b \<in> set bs" using mem bs(1) as np q2 by (auto simp: push_command_def)
  then obtain b1 b2 where b12: "bs = b1 @ push_command remoteName b # b2" by (meson split_list)
  then have "pushes_of remoteName ps (push_command remoteName b)" using bs(2) by simp
  then obtain pkg where pkg: "pkg \<in> set ps" "b = stagingBranch pkg"
    by (auto simp: pushes_of_def no_push_def push_command_def)
  let ?pre = "h3 @ [Chdir root] @ b1"
  have "release_checked out remoteName ?pre"
    using preconditions_checked [of out remoteName "[]" root h2] p root as(1) release_checked_prefix by auto
  moreover have "answered out ?pre heads (\<lambda>s. \<not> some_line b s)"
    using prepare_checked [OF pr [unfolded r3] pkg(1)] pkg(2) answered_prefix by auto
  ultimately show ?thesis using cs(1) bs(1) b12 by (intro exI [of _ ?pre] exI [of _ "b2 @ cs"]) simp
qed

text \<open>A repository in which every check passes, with the given local branches.\<close>

definition sample_json :: "string \<Rightarrow> jsval option" where
  "sample_json s = (if s = ''{}'' then Some (JObj [(''name'', JStr ''p''), (''version'', JStr ''1'')]) else None)"

definition sample_repo :: "string \<Rightarrow> outside" where
  "sample_repo branches h a = (case a of
       Exec c \<Rightarrow>
         if a = heads then Inr branches
         else if c = ''git rev-parse --abbrev-ref HEAD'' then Inr ''master''
         else if c = ''git remote'' then Inr ''origin''
         else if c = ''git rev-parse --show-toplevel'' \<or> c = ''git -C f rev-parse --show-toplevel'' then Inr ''/r''
         else Inr []
     | ReadFile f \<Rightarrow> Inr ''{}''
     | _ \<Rightarrow> Inr [])"

theorem release_pushes_checked_witness:
  "\<exists>h pre post. snd (release_npm sample_json (sample_repo ''master'') ''/t'' ''origin'' [''f''] []) = h
    \<and> h = pre @ push_command ''origin'' ''p.1'' # post \<and> release_checked (sample_repo ''master'') ''origin'' pre
    \<and> answered (sample_repo ''master'') pre heads (\<lambda>s. \<not> some_line ''p.1'' s)"
proof -
  obtain r h where h: "release_npm sample_json (sample_repo ''master'') ''/t'' ''origin'' [''f''] [] = (r, h)"
    by fastforce
  have "push_command ''origin'' ''p.1'' \<in> set (snd (release_npm sample_json (sample_repo ''master'') ''/t'' ''origin'' [''f''] []))"
    by code_simp
  with h have "push_command ''origin'' ''p.1'' \<in> set h" by simp
  from release_pushes_checked [OF h this] h show ?thesis by auto
qed

section \<open>The cleanup\<close>

text \<open>The check that protects an existing branch does not protect it. When a local branch with the name of the
  staging branch exists, the script refuses to go on and pushes nothing, and its cleanup then deletes
  that branch.\<close>

lemma release_deletes_existing_branch:
  assumes "preconditions out remoteName [] = (Inr root, h1)" and "name_package json out root (Package f) h1 = (Inr pkg, h2)"
    and "\<And>h. \<exists>s. out h heads = Inr s \<and> some_line (stagingBranch pkg) s"
    and "\<And>h. returns (out h (Exec ''git for-each-ref --format=%(refname:short) refs/remotes/''))"
    and "\<And>h. returns (out h (Exec ''git checkout master''))"
  shows "\<exists>e h. release_npm json out tmpdir remoteName [f] [] = (Inl e, h) \<and> delete_command (stagingBranch pkg) \<in> set h
    \<and> list_all no_push h"
proof -
  have local: "localBranchExists out (stagingBranch pkg) h = (Inr True, h @ [heads])" for h
    using assms(3) [of h] by (auto simp: localBranchExists_def sc_defs heads_def split: sum.splits)
  have remote: "\<exists>x h'. remoteBranchExists out remoteName (stagingBranch pkg) h = (Inr x, h')" for h
    using assms(4) [of h] by (cases "out h (Exec ''git for-each-ref --format=%(refname:short) refs/remotes/'')")
      (simp_all add: remoteBranchExists_def sc_defs)
  have checkout: "checkoutBranch out ''master'' h = (Inr (), h @ [Exec ''git checkout master''])" for h
    using assms(5) [of h] by (cases "out h (Exec ''git checkout master'')") (simp_all add: checkoutBranch_def sc_defs)
  obtain e h3 where stage: "stage_package out tmpdir remoteName root pkg h2 = (Inl e, h3)"
    using remote [of "h2 @ [heads]"]
    by (auto simp: stage_package_def ensureStagingBranchDoesNotExist_def sc_then_def local sc_reject_def)
  have main: "release_main json out tmpdir remoteName [f] [] = (Inl e, [pkg], h3)"
    using assms(1,2) stage by (simp add: release_main_def)
  let ?h = "h3 @ [Exec ''git checkout master'', heads, delete_command (stagingBranch pkg)]"
  have "snd (cleanup out [pkg] h3) = ?h"
    by (cases "out (h3 @ [Exec ''git checkout master'', heads]) (delete_command (stagingBranch pkg))")
      (simp_all add: cleanup_def checkout deleteStagingBranches_def sc_then_def local deleteBranch_def act_def sc_return_def)
  then have r: "\<exists>e'. release_npm json out tmpdir remoteName [f] [] = (Inl e', ?h)"
    using main by (auto simp: release_npm_def sc_finally_def split: prod.splits sum.splits)
  have "list_all no_push h1" "\<exists>as. h2 = h1 @ as \<and> list_all no_push as" "\<exists>as. h3 = h2 @ as \<and> list_all no_push as"
    using quiet_stages(1) [of out remoteName] quiet_stages(4) [of json out root "Package f"]
      quiet_stages(2) [of out tmpdir remoteName root pkg] assms(1,2) stage
    unfolding adds_def by (metis append_Nil snd_conv)+
  then have "list_all no_push ?h" by (auto simp: heads_def delete_command_def)
  with r show ?thesis by auto
qed

lemma release_deletes_existing_branch_example:
  "\<exists>e h. release_npm sample_json (sample_repo ''p.1'') ''/t'' ''origin'' [''f''] [] = (Inl e, h) \<and> delete_command ''p.1'' \<in> set h"
proof -
  let ?out = "sample_repo ''p.1''"
  obtain h1 where 1: "preconditions ?out ''origin'' [] = (Inr ''/r'', h1)"
  proof -
    have "fst (preconditions ?out ''origin'' []) = Inr ''/r''" by code_simp
    then show ?thesis using that by (metis prod.collapse)
  qed
  have "fst (name_package sample_json ?out ''/r'' (Package ''f'') h) = Inr \<lparr>pk_path = ''f'', pk_name = ''p'', pk_version = ''1''\<rparr>" for h
    by (simp add: name_package_def ensurePackageExistsInRepo_def setPackageNameAndVersion_def tryPackageFolder_def folderIsInRepo_def
        getPackageInfo_def sample_json_def Package_def ensure_def sc_defs sample_repo_def heads_def js_trim_def is_space_def js_member_def)
  then obtain h2 where 2: "name_package sample_json ?out ''/r'' (Package ''f'') h1 = (Inr \<lparr>pk_path = ''f'', pk_name = ''p'', pk_version = ''1''\<rparr>, h2)"
    by (metis prod.collapse)
  have line: "some_line ''p.1'' ''p.1''" by code_simp
  have "\<exists>e h. release_npm sample_json ?out ''/t'' ''origin'' [''f''] [] = (Inl e, h)
      \<and> delete_command (stagingBranch \<lparr>pk_path = ''f'', pk_name = ''p'', pk_version = ''1''\<rparr>) \<in> set h \<and> list_all no_push h"
    by (rule release_deletes_existing_branch [OF 1 2]) (use line in \<open>simp_all add: sample_repo_def stagingBranch_def heads_def\<close>)
  then show ?thesis by (auto simp: stagingBranch_def)
qed

text \<open>A remote is recognised through a pattern in which its dots match anything.\<close>

lemma remote_name_pattern: "some_line ''my.fork'' ''my-fork'' \<and> ''my.fork'' \<noteq> ''my-fork''"
  by code_simp

end
