(* ===== verification/Bump_Version.thy ===== *)
theory Bump_Version
  imports Common_Core "HOL-Library.Countable"
begin

text \<open>
  The script that writes the version numbers into the files of the repository
  (\<open>build/release/bump_version/app.js\<close>): property paths, and the tasks that replace a property of a JSON
  file, a node or an attribute of an XML file, or the matches of a pattern. \<open>JSON\<close>, regular
  expressions, the XML packages and the file system are arguments; no two entries of the table of
  tasks name the same file, so they run one after the other here.
\<close>

section \<open>Property paths\<close>

text \<open>\<open>_getProp\<close>: the object that holds the last property, and its name.\<close>

fun getProp :: "jsval \<Rightarrow> string list \<Rightarrow> (jsval \<times> string) res" where
  "getProp obj [] = Inr (obj, ''undefined'')"
| "getProp obj [p] = Inr (obj, p)"
| "getProp obj (p # q # ps) = res_bind (js_member obj p) (\<lambda>v. getProp v (q # ps))"

definition getValue :: "jsval \<Rightarrow> string \<Rightarrow> jsval res" where
  "getValue obj propPath = res_bind (getProp obj (js_split ''.'' propPath)) (\<lambda>(target, name). js_member target name)"

text \<open>
  \<open>setValue\<close> writes through the reference \<open>_getProp\<close> found; here the changed object is rebuilt along the
  path. Only an object takes a new property: the code is strict. Paths do not lead through arrays.
\<close>

fun set_path :: "jsval \<Rightarrow> string list \<Rightarrow> jsval \<Rightarrow> jsval res" where
  "set_path obj [] val = Inr obj"
| "set_path obj [p] val = (case obj of
       JObj d \<Rightarrow> Inr (JObj (dset p val d))
     | _ \<Rightarrow> throw TypeError (''Cannot create property '' @ p))"
| "set_path obj (p # q # ps) val = (case obj of
       JObj d \<Rightarrow> res_bind (set_path (dget d p) (q # ps) val) (\<lambda>v. Inr (JObj (dset p v d)))
     | _ \<Rightarrow> throw TypeError (''Cannot read property '' @ q))"

definition setValue :: "jsval \<Rightarrow> string \<Rightarrow> jsval \<Rightarrow> jsval res" where
  "setValue obj propPath val = set_path obj (js_split ''.'' propPath) val"

section \<open>Tasks\<close>

text \<open>The replacement of a task: none, a property path in the versions, or a function of them.\<close>

datatype replacement =
    NoReplacement
  | VersionPath string
  | VersionFun "jsval \<Rightarrow> jsval res"

datatype task =
    Task string string search_spec replacement jsval
and search_spec =
    Pattern string
  | SubTasks "task list"

text \<open>
  \<open>be_xml attribute nsmap data selector value\<close> is the document with the first selected node or attribute
  replaced, \<open>None\<close> when nothing is selected; a selected element without text throws.
\<close>

record bump_env =
  be_json :: "string \<Rightarrow> jsval option"
  be_stringify :: "jsval \<Rightarrow> string"
  be_regex :: "string \<Rightarrow> string \<Rightarrow> string \<Rightarrow> string"
  be_xml :: "bool \<Rightarrow> jsval \<Rightarrow> string \<Rightarrow> string \<Rightarrow> string \<Rightarrow> string option res"
  be_versions :: jsval

type_synonym files = "string \<Rightarrow> string option"

text \<open>How a task ends: with its callback, without or with an error, or with an exception in a callback of the file system.\<close>

datatype task_end =
    Succeeded
  | Failed js_error
  | Crashed js_error

definition enoent :: "string \<Rightarrow> js_error" where
  "enoent path = mk_error Error (''ENOENT: no such file or directory, open '' @ path)"

text \<open>\<open>fs.readFile\<close>, a function of the text, \<open>fs.writeFile\<close>: \<open>None\<close> leaves the file as it is.\<close>

definition edit_file :: "string \<Rightarrow> (string \<Rightarrow> string option res) \<Rightarrow> files \<Rightarrow> files \<times> task_end" where
  "edit_file path f fs = (case fs path of
       None \<Rightarrow> (fs, Failed (enoent path))
     | Some data \<Rightarrow> (case f data of
           Inl e \<Rightarrow> (fs, Crashed e)
         | Inr None \<Rightarrow> (fs, Succeeded)
         | Inr (Some data') \<Rightarrow> (fs(path \<mapsto> data'), Succeeded)))"

definition jsonReplaceTask :: "bump_env \<Rightarrow> string \<Rightarrow> string \<Rightarrow> jsval \<Rightarrow> files \<Rightarrow> files \<times> task_end" where
  "jsonReplaceTask env path propPath value = edit_file path (\<lambda>data. case be_json env data of
       None \<Rightarrow> throw SyntaxError ''Unexpected token''
     | Some obj \<Rightarrow> res_bind (setValue obj propPath value) (\<lambda>obj'. Inr (Some (be_stringify env obj'))))"

definition xmlReplaceTask :: "bump_env \<Rightarrow> string \<Rightarrow> string \<Rightarrow> jsval \<Rightarrow> jsval \<Rightarrow> files \<Rightarrow> files \<times> task_end" where
  "xmlReplaceTask env path selector value nsmap =
     edit_file path (\<lambda>data. be_xml env False nsmap data selector (js_string value))"

definition xmlAttributeReplaceTask :: "bump_env \<Rightarrow> string \<Rightarrow> string \<Rightarrow> jsval \<Rightarrow> jsval \<Rightarrow> files \<Rightarrow> files \<times> task_end" where
  "xmlAttributeReplaceTask env path selector value nsmap =
     edit_file path (\<lambda>data. be_xml env True nsmap data selector (js_string value))"

definition regexReplaceTask :: "bump_env \<Rightarrow> string \<Rightarrow> string \<Rightarrow> jsval \<Rightarrow> files \<Rightarrow> files \<times> task_end" where
  "regexReplaceTask env path regex value = edit_file path (\<lambda>data. Inr (Some (be_regex env regex data (js_string value))))"

definition replace_value :: "bump_env \<Rightarrow> replacement \<Rightarrow> jsval res" where
  "replace_value env r = (case r of
       NoReplacement \<Rightarrow> Inr JUndef
     | VersionFun f \<Rightarrow> f (be_versions env)
     | VersionPath p \<Rightarrow> if p = [] then Inr (JStr []) else getValue (be_versions env) p)"

definition single_task :: "bump_env \<Rightarrow> string \<Rightarrow> string \<Rightarrow> string \<Rightarrow> jsval \<Rightarrow> jsval \<Rightarrow> files \<Rightarrow> files \<times> task_end" where
  "single_task env taskType path search value nsmap fs =
     (if taskType = ''jsonReplaceTask'' then jsonReplaceTask env path search value fs
      else if taskType = ''xmlReplaceTask'' then xmlReplaceTask env path search value nsmap fs
      else if taskType = ''xmlAttributeReplaceTask'' then xmlAttributeReplaceTask env path search value nsmap fs
      else if taskType = ''regexReplaceTask'' then regexReplaceTask env path search value fs
      else (fs, Crashed (mk_error TypeError ''Cannot read property call of undefined'')))"

text \<open>\<open>runTask\<close> and \<open>multiTask\<close>: the parts of a multi task run in series on its file, up to the first that fails.\<close>

fun runTask :: "bump_env \<Rightarrow> string option \<Rightarrow> task \<Rightarrow> files \<Rightarrow> files \<times> task_end"
  and multiTask :: "bump_env \<Rightarrow> string \<Rightarrow> task list \<Rightarrow> files \<Rightarrow> files \<times> task_end" where
  "runTask env outer (Task taskType filePath search replace nsmap) fs =
     (let path = (case outer of Some p \<Rightarrow> p | None \<Rightarrow> filePath) in
      case replace_value env replace of
        Inl e \<Rightarrow> (fs, Crashed e)
      | Inr value \<Rightarrow> (case search of
          SubTasks ts \<Rightarrow> if taskType = ''multiTask'' then multiTask env path ts fs
                        else (fs, Crashed (mk_error TypeError ''search is not a string''))
        | Pattern s \<Rightarrow> single_task env taskType path s value nsmap fs))"
| "multiTask env path [] fs = (fs, Succeeded)"
| "multiTask env path (t # ts) fs = (case runTask env (Some path) t fs of
       (fs', Succeeded) \<Rightarrow> multiTask env path ts fs'
     | (fs', r) \<Rightarrow> (fs', r))"

text \<open>
  \<open>main\<close>: a task that fails is reported and the others go on; an exception ends the process. The code starts
  all tasks at once; each has a file of its own, so they are taken one after the other here.
\<close>

fun bump_main :: "bump_env \<Rightarrow> task list \<Rightarrow> files \<Rightarrow> files \<times> js_error option" where
  "bump_main env [] fs = (fs, None)"
| "bump_main env (t # ts) fs = (case runTask env None t fs of
       (fs', Crashed e) \<Rightarrow> (fs', Some e)
     | (fs', _) \<Rightarrow> bump_main env ts fs')"

section \<open>Laws of property paths\<close>

text \<open>Reading along the parts of a path.\<close>

fun get_path :: "jsval \<Rightarrow> string list \<Rightarrow> jsval res" where
  "get_path obj [] = Inr obj"
| "get_path obj (p # ps) = res_bind (js_member obj p) (\<lambda>v. get_path v ps)"

lemma getProp_get_path:
  "ps \<noteq> [] \<Longrightarrow> res_bind (getProp obj ps) (\<lambda>(target, name). js_member target name) = get_path obj ps"
proof (induction obj ps rule: getProp.induct)
  case (2 obj p)
  then show ?case by (cases "js_member obj p") simp_all
next
  case (3 obj p q ps)
  then show ?case by (cases "js_member obj p") simp_all
qed simp

lemma getValue_get_path: "getValue obj propPath = get_path obj (js_split ''.'' propPath)"
  using getProp_get_path [of "js_split ''.'' propPath"] by (simp add: getValue_def js_split_single)

lemma set_path_get_path: "set_path obj ps v = Inr obj' \<Longrightarrow> ps \<noteq> [] \<Longrightarrow> get_path obj' ps = Inr v"
proof (induction obj ps v arbitrary: obj' rule: set_path.induct)
  case (2 obj p v)
  then show ?case by (cases obj) (auto simp: js_member_def)
next
  case (3 obj p q ps v)
  then obtain d w where "obj = JObj d" "set_path (dget d p) (q # ps) v = Inr w" "obj' = JObj (dset p w d)"
    by (cases obj) (auto simp: res_bind_Inr_iff)
  with "3.IH" show ?case by (simp add: js_member_def)
qed simp

text \<open>Two paths that part at some property.\<close>

definition apart :: "string list \<Rightarrow> string list \<Rightarrow> bool" where
  "apart ps qs \<longleftrightarrow> \<not> prefix ps qs \<and> \<not> prefix qs ps"

lemma set_path_other: "set_path obj ps v = Inr obj' \<Longrightarrow> apart ps qs \<Longrightarrow> get_path obj' qs = get_path obj qs"
proof (induction obj ps v arbitrary: obj' qs rule: set_path.induct)
  case (1 obj v)
  then show ?case by simp
next
  case (2 obj p v)
  then obtain d where "obj = JObj d" "obj' = JObj (dset p v d)" by (cases obj) auto
  moreover obtain r rs where "qs = r # rs" "r \<noteq> p" using "2.prems"(2) by (cases qs) (auto simp: apart_def)
  ultimately show ?case by (simp add: js_member_def)
next
  case (3 obj p q ps v)
  obtain d w where d: "obj = JObj d" "set_path (dget d p) (q # ps) v = Inr w" "obj' = JObj (dset p w d)"
    using "3.prems"(1) by (cases obj) (auto simp: res_bind_Inr_iff)
  obtain r rs where qs: "qs = r # rs" using "3.prems"(2) by (cases qs) (auto simp: apart_def)
  show ?case
  proof (cases "r = p")
    case True
    with "3.prems"(2) qs have "apart (q # ps) rs" by (simp add: apart_def)
    from "3.IH" [OF d(1) d(2) this] True qs d(1,3) show ?thesis by (simp add: js_member_def)
  next
    case False
    with qs d(1,3) show ?thesis by (simp add: js_member_def)
  qed
qed

section \<open>Bumping a JSON file\<close>

text \<open>The values \<open>JSON\<close> can write and read back: no functions, dates or \<open>undefined\<close>, and no key twice.\<close>

inductive json_value :: "jsval \<Rightarrow> bool" where
  json_null: "json_value JNull"
| json_bool: "json_value (JBool b)"
| json_num: "json_value (JNum n)"
| json_str: "json_value (JStr s)"
| json_arr: "(\<And>v. v \<in> set vs \<Longrightarrow> json_value v) \<Longrightarrow> json_value (JArr vs)"
| json_obj: "distinct (map fst d) \<Longrightarrow> (\<And>k v. map_of d k = Some v \<Longrightarrow> json_value v) \<Longrightarrow> json_value (JObj d)"

inductive_cases json_objE: "json_value (JObj d)"

lemma json_set: "json_value (JObj d) \<Longrightarrow> json_value v \<Longrightarrow> json_value (JObj (dset k v d))"
  by (auto elim!: json_objE intro!: json_obj distinct_update split: if_splits)

lemma set_path_json: "set_path obj ps v = Inr obj' \<Longrightarrow> json_value obj \<Longrightarrow> json_value v \<Longrightarrow> json_value obj'"
proof (induction obj ps v arbitrary: obj' rule: set_path.induct)
  case (2 obj p v)
  then show ?case by (cases obj) (auto intro: json_set)
next
  case (3 obj p q ps v)
  obtain d w where d: "obj = JObj d" "set_path (dget d p) (q # ps) v = Inr w" "obj' = JObj (dset p w d)"
    using "3.prems"(1) by (cases obj) (auto simp: res_bind_Inr_iff)
  have "dget d p \<noteq> JUndef" using d(2) by (cases ps) auto
  then have "json_value (dget d p)" using "3.prems"(2) d(1) by (auto simp: dget_def elim!: json_objE split: option.splits)
  from "3.IH" [OF d(1) d(2) this "3.prems"(3)] "3.prems"(2) d(1,3) show ?case by (auto intro: json_set)
qed simp

text \<open>The parts of a multi task that replace properties of a JSON file, each by a property of the versions.\<close>

definition json_task :: "string \<times> string \<Rightarrow> task" where
  "json_task pv = Task ''jsonReplaceTask'' [] (Pattern (fst pv)) (VersionPath (snd pv)) JUndef"

definition all_apart :: "string list \<Rightarrow> bool" where
  "all_apart ps \<longleftrightarrow> distinct ps \<and> (\<forall>p\<in>set ps. \<forall>q\<in>set ps. p \<noteq> q \<longrightarrow> apart (js_split ''.'' p) (js_split ''.'' q))"

lemma json_task_writes:
  assumes "runTask env (Some path) (json_task (p, v)) fs = (fs1, Succeeded)" and "v \<noteq> []"
    and "getValue (be_versions env) v = Inr val" and "fs path = Some data" and "be_json env data = Some obj"
  shows "\<exists>obj1. setValue obj p val = Inr obj1 \<and> fs1 = fs(path \<mapsto> be_stringify env obj1)"
  using assms
  by (auto simp: json_task_def replace_value_def single_task_def jsonReplaceTask_def edit_file_def res_bind_Inr_iff
      split: sum.splits option.splits)

text \<open>After a multi task on a JSON file has succeeded, the file parses, every property it names has the
  version text it should have, and every property apart from those is as before, provided the named
  paths lie apart, the versions are texts, and \<open>JSON.parse\<close> reads back what \<open>JSON.stringify\<close> wrote.\<close>

lemma json_file_bumped:
  assumes "multiTask env path (map json_task pvs) fs = (fs', Succeeded)" and "fs path = Some data" and "be_json env data = Some obj"
    and "json_value obj" and "\<And>v. json_value v \<Longrightarrow> be_json env (be_stringify env v) = Some v"
    and "all_apart (map fst pvs)"
    and "list_all (\<lambda>(p, v). v \<noteq> [] \<and> getValue (be_versions env) v = Inr (JStr (vs v))) pvs"
  shows "\<exists>data' obj'. fs' path = Some data' \<and> be_json env data' = Some obj'
    \<and> list_all (\<lambda>(p, v). getValue obj' p = Inr (JStr (vs v))) pvs
    \<and> (\<forall>q. list_all (\<lambda>(p, v). apart (js_split ''.'' p) (js_split ''.'' q)) pvs \<longrightarrow> getValue obj' q = getValue obj q)"
  using assms
proof (induction pvs arbitrary: fs data obj)
  case Nil
  then show ?case by simp
next
  case (Cons pv pvs)
  obtain p v where pv: "pv = (p, v)" by (cases pv)
  obtain fs1 where 1: "runTask env (Some path) (json_task (p, v)) fs = (fs1, Succeeded)"
    "multiTask env path (map json_task pvs) fs1 = (fs', Succeeded)"
    using Cons.prems(1) pv by (auto split: prod.splits task_end.splits)
  obtain obj1 where obj1: "setValue obj p (JStr (vs v)) = Inr obj1" "fs1 = fs(path \<mapsto> be_stringify env obj1)"
    using json_task_writes [OF 1(1) _ _ Cons.prems(2,3)] Cons.prems(7) pv by auto
  have js: "json_value obj1" using set_path_json Cons.prems(4) obj1(1) json_str by (auto simp: setValue_def)
  have fs1: "fs1 path = Some (be_stringify env obj1)" "be_json env (be_stringify env obj1) = Some obj1"
    using obj1(2) Cons.prems(5) [OF js] by simp_all
  have rest: "all_apart (map fst pvs)" "list_all (\<lambda>(p, v). v \<noteq> [] \<and> getValue (be_versions env) v = Inr (JStr (vs v))) pvs"
    using Cons.prems(6,7) by (simp_all add: all_apart_def)
  have out: "list_all (\<lambda>(q, w). apart (js_split ''.'' q) (js_split ''.'' p)) pvs"
    using Cons.prems(6) pv unfolding all_apart_def list_all_iff by force
  obtain data' obj' where r: "fs' path = Some data'" "be_json env data' = Some obj'"
    "list_all (\<lambda>(p, v). getValue obj' p = Inr (JStr (vs v))) pvs"
    "\<forall>q. list_all (\<lambda>(p, v). apart (js_split ''.'' p) (js_split ''.'' q)) pvs \<longrightarrow> getValue obj' q = getValue obj1 q"
    using Cons.IH [OF 1(2) fs1 js Cons.prems(5) rest] by blast
  have "getValue obj1 p = Inr (JStr (vs v))"
    using obj1(1) set_path_get_path by (simp add: setValue_def getValue_get_path js_split_single)
  with r(4) out have "getValue obj' p = Inr (JStr (vs v))" by simp
  moreover have "getValue obj1 q = getValue obj q" if "apart (js_split ''.'' p) (js_split ''.'' q)" for q
    using obj1(1) set_path_other [OF _ that] by (simp add: setValue_def getValue_get_path)
  ultimately show ?case using r pv by auto
qed

text \<open>An example of a writer and a reader that agree: values by their number.\<close>

instance jsval :: countable
  by countable_datatype

definition sample_bump :: bump_env where
  "sample_bump = \<lparr>be_json = (\<lambda>s. Some (from_nat (read_nat s))), be_stringify = (\<lambda>v. show_nat (to_nat v)),
     be_regex = (\<lambda>_ d _. d), be_xml = (\<lambda>_ _ _ _ _. Inr None),
     be_versions = JObj [(''node'', JObj [(''device'', JStr ''1''), (''common'', JStr ''2'')])]\<rparr>"

definition sample_package :: jsval where
  "sample_package = JObj [(''name'', JStr ''n''), (''version'', JStr ''0''), (''dependencies'', JObj [(''c'', JStr ''0'')])]"

lemma sample_bump_json: "be_json sample_bump (be_stringify sample_bump v) = Some v"
  by (simp add: sample_bump_def)

lemma json_file_bumped_example:
  "\<exists>fs' data' obj'. multiTask sample_bump ''f'' (map json_task [(''version'', ''node.device''), (''dependencies.c'', ''node.common'')])
       [''f'' \<mapsto> be_stringify sample_bump sample_package] = (fs', Succeeded)
    \<and> fs' ''f'' = Some data' \<and> be_json sample_bump data' = Some obj'
    \<and> getValue obj' ''version'' = Inr (JStr ''1'') \<and> getValue obj' ''dependencies.c'' = Inr (JStr ''2'')"
proof -
  let ?pvs = "[(''version'', ''node.device''), (''dependencies.c'', ''node.common'')]"
  let ?fs = "[''f'' \<mapsto> be_stringify sample_bump sample_package]"
  have splits: "js_split ''.'' ''version'' = [''version'']" "js_split ''.'' ''dependencies.c'' = [''dependencies'', ''c'']"
    "js_split ''.'' ''node.device'' = [''node'', ''device'']" "js_split ''.'' ''node.common'' = [''node'', ''common'']"
    by code_simp+
  have versions: "getValue (be_versions sample_bump) ''node.device'' = Inr (JStr ''1'')"
    "getValue (be_versions sample_bump) ''node.common'' = Inr (JStr ''2'')"
    by (simp_all add: getValue_get_path splits sample_bump_def js_member_def)
  have "json_value sample_package"
    unfolding sample_package_def by (auto intro!: json_value.intros split: if_splits)
  moreover have "all_apart (map fst ?pvs)" by (auto simp: all_apart_def splits apart_def)
  moreover have "snd (multiTask sample_bump ''f'' (map json_task ?pvs) ?fs) = Succeeded"
    by (simp add: json_task_def replace_value_def versions single_task_def jsonReplaceTask_def edit_file_def sample_bump_json
        setValue_def splits sample_package_def)
  then obtain fs' where fs': "multiTask sample_bump ''f'' (map json_task ?pvs) ?fs = (fs', Succeeded)" by (metis prod.collapse)
  ultimately have "\<exists>data' obj'. fs' ''f'' = Some data' \<and> be_json sample_bump data' = Some obj'
      \<and> list_all (\<lambda>(p, v). getValue obj' p = Inr (JStr (if v = ''node.device'' then ''1'' else ''2''))) ?pvs"
    using json_file_bumped [OF fs' _ sample_bump_json, of sample_package "\<lambda>v. if v = ''node.device'' then ''1'' else ''2''"] versions sample_bump_json
    by auto
  with fs' show ?thesis by auto
qed

end
