(* ===== verification/Bump_Inputs.thy ===== *)
theory Bump_Inputs
  imports Bump_Version
begin

text \<open>
  The data of the version bump: the tasks of \<open>build/release/bump_version/inputs.js\<close>, in their order, and
  the versions of \<open>versions.json\<close>, read as if the comment in it (which \<open>require\<close> rejects) were not there. In a pattern \<open>~\<close> stands for a backslash and \<open>`\<close> for a tabulator, which
  \<open>escaped\<close> puts in.
\<close>

section \<open>Kinds of tasks\<close>

definition escaped :: "string \<Rightarrow> string" where
  "escaped s = map (\<lambda>c. if c = CHR ''~'' then CHR 0x5C else if c = CHR 0x60 then CHR 0x09 else c) s"

text \<open>A replacement function joins texts and versions with \<open>+\<close>; the first part of each is a text.\<close>

datatype part = Lit string | Ver "string list"

fun part_text :: "jsval \<Rightarrow> part \<Rightarrow> string res" where
  "part_text versions (Lit s) = Inr s"
| "part_text versions (Ver path) = res_bind (get_path versions path) (\<lambda>v. Inr (js_string v))"

fun parts :: "part list \<Rightarrow> jsval \<Rightarrow> jsval res" where
  "parts [] versions = Inr (JStr [])"
| "parts (p # ps) versions = res_bind (part_text versions p) (\<lambda>s. res_bind (parts ps versions) (\<lambda>r. Inr (JStr (s @ js_string r))))"

definition regex_task :: "string \<Rightarrow> string \<Rightarrow> part list \<Rightarrow> task" where
  "regex_task file pattern ps = Task ''regexReplaceTask'' file (Pattern (escaped pattern)) (VersionFun (parts ps)) JUndef"

definition xml_task :: "string \<Rightarrow> jsval \<Rightarrow> string \<Rightarrow> string \<Rightarrow> task" where
  "xml_task file nsmap selector version = Task ''xmlReplaceTask'' file (Pattern selector) (VersionPath version) nsmap"

definition xml_attribute_task :: "string \<Rightarrow> jsval \<Rightarrow> string \<Rightarrow> string \<Rightarrow> task" where
  "xml_attribute_task file nsmap selector version =
     Task ''xmlAttributeReplaceTask'' file (Pattern selector) (VersionPath version) nsmap"

definition multi :: "string \<Rightarrow> task list \<Rightarrow> task" where
  "multi file ts = Task ''multiTask'' file (SubTasks ts) NoReplacement JUndef"

definition nuspec :: jsval where
  "nuspec = JObj [(''nu'', JStr ''http://schemas.microsoft.com/packaging/2013/05/nuspec.xsd'')]"

section \<open>The versions\<close>

definition versions_json :: jsval where
  "versions_json = JObj [
     (''c'', JObj [(''device'', JStr ''1.0.17'')]),
     (''c_arduino'', JObj [(''device'', JStr ''1.0.17'')]),
     (''c_nuget'', JObj [(''device'', JStr ''1.0.19'')]),
     (''csharp'', JObj [(''device'', JStr ''1.0.21''), (''devicepcl'', JStr ''1.0.21''), (''service'', JStr ''1.0.16'')]),
     (''java'', JObj [(''device'', JStr ''1.0.14''), (''service'', JStr ''1.0.10''), (''websocket'', JStr ''0.1.0'')]),
     (''node'', JObj [
       (''common'', JStr ''1.1.0-dtpreview''), (''amqp-base'', JStr ''1.1.0-dtpreview''), (''http-base'', JStr ''1.1.0-dtpreview''),
       (''mqtt-base'', JStr ''1.1.0-dtpreview''), (''device'', JStr ''1.1.0-dtpreview''), (''device-amqp'', JStr ''1.1.0-dtpreview''),
       (''device-http'', JStr ''1.1.0-dtpreview''), (''device-mqtt'', JStr ''1.1.0-dtpreview''), (''service'', JStr ''2.0.0-dtpreview''),
       (''node-red-contrib-azureiothubnode'', JStr ''0.1.0-dtpreview'')]),
     (''c_shared_utility_nuget'', JStr ''1.0.18''), (''uamqp_c_nuget'', JStr ''1.0.19''), (''umqtt_c_nuget'', JStr ''1.0.18''),
     (''iothub-diagnostics'', JStr ''1.1.0-dtpreview''), (''iothub-explorer'', JStr ''1.1.0-dtpreview''),
     (''device-explorer'', JStr ''1.0.13''), (''github-release'', JStr ''v1.0.10'')]"

section \<open>The tasks\<close>

definition device_explorer_inputs :: "task list" where
  "device_explorer_inputs = [
     regex_task ''tools/DeviceExplorer/DeviceExplorer/Properties/AssemblyInfo.cs'' ''(AssemblyInformationalVersion~(\").*(\"~)~])''
       [Lit ''$1'', Ver [''device-explorer''], Lit ''$2'']]"

definition c_inputs :: "task list" where
  "c_inputs = [
     regex_task ''build/docs/Doxyfile'' ''(PROJECT~_NUMBER)([ ]+~= )(.*)''
       [Lit ''$1'', Lit ''$2'', Ver [''c'', ''device'']],
     regex_task ''build/release/release_mbed.cmd'' ''(hg~_commit~_message~=)(\".*\")''
       [Lit ''$1'', Lit ''\"'', Ver [''c'', ''device''], Lit ''\"''],
     regex_task ''c/iothub_client/inc/iothub_client_version.h'' ''(IOTHUB~_SDK~_VERSION)([ ]+)(\".*\")''
       [Lit ''$1'', Lit ''$2'', Lit ''\"'', Ver [''c'', ''device''], Lit ''\"''],
     regex_task ''c/build_all/arduino_cc/base-libraries/AzureIoTHub/library.properties'' ''(version~=)(.*)''
       [Lit ''$1'', Ver [''c_arduino'', ''device'']],
     regex_task ''c/build_all/arduino_cc/base-libraries/AzureIoTHub/src/AzureIoTHub.h'' ''(AzureIoTHubVersion~=)([ ]+)(\".*\")''
       [Lit ''$1'', Lit ''$2'', Lit ''\"'', Ver [''c_arduino'', ''device''], Lit ''\"''],
     regex_task ''c/iothub_client/tests/version_ut/version_ut.cpp'' ''(~\".*~\")([ `]*~,[ `]*IOTHUB~_SDK~_VERSION)''
       [Lit ''\"'', Ver [''c'', ''device''], Lit ''\"$2''],
     regex_task ''c/iothub_client/tests/iothubclient_ll_u2b_ut/iothub_client_ll_u2b_ut.c'' ''(TEST~_IOTHUB~_SDK~_VERSION)([ ]+)(\".*\")''
       [Lit ''$1'', Lit ''$2'', Lit ''\"'', Ver [''c'', ''device''], Lit ''\"'']]"

definition c_nuget_inputs_1 :: "task list" where
  "c_nuget_inputs_1 = [
     multi ''c/build_all/packaging/windows/Microsoft.Azure.IoTHub.AmqpTransport.nuspec'' [
       xml_attribute_task [] nuspec ''//nu:package/nu:metadata/nu:dependencies/nu:dependency[@id = 'Microsoft.Azure.IoTHub.IoTHubClient']/@version''
         ''c_nuget.device'',
       xml_attribute_task [] nuspec ''//nu:package/nu:metadata/nu:dependencies/nu:dependency[@id = 'Microsoft.Azure.C.SharedUtility']/@version''
         ''c_shared_utility_nuget'',
       xml_attribute_task [] nuspec ''//nu:package/nu:metadata/nu:dependencies/nu:dependency[@id = 'Microsoft.Azure.Uamqp']/@version''
         ''uamqp_c_nuget'',
       xml_task [] nuspec ''//nu:package/nu:metadata/nu:version'' ''c_nuget.device''],
     multi ''c/build_all/packaging/windows/Microsoft.Azure.IoTHub.HttpTransport.nuspec'' [
       xml_task [] nuspec ''//nu:package/nu:metadata/nu:version'' ''c_nuget.device'',
       xml_attribute_task [] nuspec ''//nu:package/nu:metadata/nu:dependencies/nu:dependency[@id = 'Microsoft.Azure.IoTHub.IoTHubClient']/@version''
         ''c_nuget.device'',
       xml_attribute_task [] nuspec ''//nu:package/nu:metadata/nu:dependencies/nu:dependency[@id = 'Microsoft.Azure.C.SharedUtility']/@version''
         ''c_shared_utility_nuget''],
     multi ''c/build_all/packaging/windows/Microsoft.Azure.IoTHub.IoTHubClient.nuspec'' [
       xml_task [] nuspec ''//nu:package/nu:metadata/nu:version'' ''c_nuget.device'',
       xml_attribute_task [] nuspec ''//nu:package/nu:metadata/nu:dependencies/nu:dependency[@id = 'Microsoft.Azure.C.SharedUtility']/@version''
         ''c_shared_utility_nuget''],
     multi ''c/build_all/packaging/windows/Microsoft.Azure.IoTHub.MqttTransport.nuspec'' [
       xml_attribute_task [] nuspec ''//nu:package/nu:metadata/nu:dependencies/nu:dependency[@id = 'Microsoft.Azure.IoTHub.IoTHubClient']/@version''
         ''c_nuget.device'',
       xml_attribute_task [] nuspec ''//nu:package/nu:metadata/nu:dependencies/nu:dependency[@id = 'Microsoft.Azure.C.SharedUtility']/@version''
         ''c_shared_utility_nuget'',
       xml_attribute_task [] nuspec ''//nu:package/nu:metadata/nu:dependencies/nu:dependency[@id = 'Microsoft.Azure.umqtt']/@version''
         ''umqtt_c_nuget'',
       xml_task [] nuspec ''//nu:package/nu:metadata/nu:version'' ''c_nuget.device'']]"

definition c_nuget_inputs_2 :: "task list" where
  "c_nuget_inputs_2 = [
     multi ''c/build_all/packaging/windows/Microsoft.Azure.IoTHub.Serializer.nuspec'' [
       xml_attribute_task [] nuspec ''//nu:package/nu:metadata/nu:dependencies/nu:dependency[@id = 'Microsoft.Azure.C.SharedUtility']/@version''
         ''c_shared_utility_nuget'',
       xml_task [] nuspec ''//nu:package/nu:metadata/nu:version'' ''c_nuget.device''],
     multi ''c/iothub_client/samples/iothub_client_sample_amqp/windows/packages.config'' [
       xml_attribute_task [] JUndef ''//packages/package[@id = 'Microsoft.Azure.C.SharedUtility']/@version''
         ''c_shared_utility_nuget'',
       xml_attribute_task [] JUndef ''//packages/package[@id = 'Microsoft.Azure.IoTHub.AmqpTransport']/@version''
         ''c_nuget.device'',
       xml_attribute_task [] JUndef ''//packages/package[@id = 'Microsoft.Azure.IoTHub.IoTHubClient']/@version''
         ''c_nuget.device'',
       xml_attribute_task [] JUndef ''//packages/package[@id = 'Microsoft.Azure.uamqp']/@version'' ''uamqp_c_nuget''],
     multi ''c/iothub_client/samples/iothub_client_sample_amqp/windows/iothub_client_sample_amqp.vcxproj'' [
       regex_task [] ''(Microsoft.Azure.C.SharedUtility.)~d+.~d+.~d+'' [Lit ''$1'', Ver [''c_shared_utility_nuget'']],
       regex_task [] ''(Microsoft.Azure.IoTHub.IoTHubClient.)~d+.~d+.~d+'' [Lit ''$1'', Ver [''c_nuget'', ''device'']],
       regex_task [] ''(Microsoft.Azure.IoTHub.AmqpTransport.)~d+.~d+.~d+'' [Lit ''$1'', Ver [''c_nuget'', ''device'']],
       regex_task [] ''(Microsoft.Azure.uamqp.)~d+.~d+.~d+'' [Lit ''$1'', Ver [''uamqp_c_nuget'']]],
     multi ''c/iothub_client/samples/iothub_client_sample_http/windows/packages.config'' [
       xml_attribute_task [] JUndef ''//packages/package[@id = 'Microsoft.Azure.C.SharedUtility']/@version''
         ''c_shared_utility_nuget'',
       xml_attribute_task [] JUndef ''//packages/package[@id = 'Microsoft.Azure.IoTHub.HttpTransport']/@version''
         ''c_nuget.device'',
       xml_attribute_task [] JUndef ''//packages/package[@id = 'Microsoft.Azure.IoTHub.IoTHubClient']/@version''
         ''c_nuget.device''],
     multi ''c/iothub_client/samples/iothub_client_sample_http/windows/iothub_client_sample_http.vcxproj'' [
       regex_task [] ''(Microsoft.Azure.C.SharedUtility.)~d+.~d+.~d+'' [Lit ''$1'', Ver [''c_shared_utility_nuget'']],
       regex_task [] ''(Microsoft.Azure.IoTHub.IoTHubClient.)~d+.~d+.~d+'' [Lit ''$1'', Ver [''c_nuget'', ''device'']],
       regex_task [] ''(Microsoft.Azure.IoTHub.HttpTransport.)~d+.~d+.~d+'' [Lit ''$1'', Ver [''c_nuget'', ''device'']]]]"

definition c_nuget_inputs_3 :: "task list" where
  "c_nuget_inputs_3 = [
     multi ''c/iothub_client/samples/iothub_client_sample_http_shared/windows/packages.config'' [
       xml_attribute_task [] JUndef ''//packages/package[@id = 'Microsoft.Azure.C.SharedUtility']/@version''
         ''c_shared_utility_nuget'',
       xml_attribute_task [] JUndef ''//packages/package[@id = 'Microsoft.Azure.IoTHub.HttpTransport']/@version''
         ''c_nuget.device'',
       xml_attribute_task [] JUndef ''//packages/package[@id = 'Microsoft.Azure.IoTHub.IoTHubClient']/@version''
         ''c_nuget.device''],
     multi ''c/iothub_client/samples/iothub_client_sample_http_shared/windows/iothub_client_sample_http.vcxproj'' [
       regex_task [] ''(Microsoft.Azure.C.SharedUtility.)~d+.~d+.~d+'' [Lit ''$1'', Ver [''c_shared_utility_nuget'']],
       regex_task [] ''(Microsoft.Azure.IoTHub.IoTHubClient.)~d+.~d+.~d+'' [Lit ''$1'', Ver [''c_nuget'', ''device'']],
       regex_task [] ''(Microsoft.Azure.IoTHub.HttpTransport.)~d+.~d+.~d+'' [Lit ''$1'', Ver [''c_nuget'', ''device'']]],
     multi ''c/iothub_client/samples/iothub_client_sample_mqtt/windows/packages.config'' [
       xml_attribute_task [] JUndef ''//packages/package[@id = 'Microsoft.Azure.C.SharedUtility']/@version''
         ''c_shared_utility_nuget'',
       xml_attribute_task [] JUndef ''//packages/package[@id = 'Microsoft.Azure.IoTHub.MqttTransport']/@version''
         ''c_nuget.device'',
       xml_attribute_task [] JUndef ''//packages/package[@id = 'Microsoft.Azure.IoTHub.IoTHubClient']/@version''
         ''c_nuget.device'',
       xml_attribute_task [] JUndef ''//packages/package[@id = 'Microsoft.Azure.umqtt']/@version'' ''umqtt_c_nuget''],
     multi ''c/iothub_client/samples/iothub_client_sample_mqtt/windows/iothub_client_sample_mqtt.vcxproj'' [
       regex_task [] ''(Microsoft.Azure.C.SharedUtility.)~d+.~d+.~d+'' [Lit ''$1'', Ver [''c_shared_utility_nuget'']],
       regex_task [] ''(Microsoft.Azure.IoTHub.IoTHubClient.)~d+.~d+.~d+'' [Lit ''$1'', Ver [''c_nuget'', ''device'']],
       regex_task [] ''(Microsoft.Azure.IoTHub.MqttTransport.)~d+.~d+.~d+'' [Lit ''$1'', Ver [''c_nuget'', ''device'']],
       regex_task [] ''(Microsoft.Azure.umqtt.)~d+.~d+.~d+'' [Lit ''$1'', Ver [''umqtt_c_nuget'']]],
     multi ''c/iothub_client/samples/iothub_client_sample_upload_to_blob/windows/packages.config'' [
       xml_attribute_task [] JUndef ''//packages/package[@id = 'Microsoft.Azure.C.SharedUtility']/@version''
         ''c_shared_utility_nuget'',
       xml_attribute_task [] JUndef ''//packages/package[@id = 'Microsoft.Azure.IoTHub.HttpTransport']/@version''
         ''c_nuget.device'',
       xml_attribute_task [] JUndef ''//packages/package[@id = 'Microsoft.Azure.IoTHub.IoTHubClient']/@version''
         ''c_nuget.device'']]"

definition c_nuget_inputs_4 :: "task list" where
  "c_nuget_inputs_4 = [
     multi ''c/iothub_client/samples/iothub_client_sample_upload_to_blob/windows/iothub_client_sample_http.vcxproj'' [
       regex_task [] ''(Microsoft.Azure.C.SharedUtility.)~d+.~d+.~d+'' [Lit ''$1'', Ver [''c_shared_utility_nuget'']],
       regex_task [] ''(Microsoft.Azure.IoTHub.IoTHubClient.)~d+.~d+.~d+'' [Lit ''$1'', Ver [''c_nuget'', ''device'']],
       regex_task [] ''(Microsoft.Azure.IoTHub.HttpTransport.)~d+.~d+.~d+'' [Lit ''$1'', Ver [''c_nuget'', ''device'']]],
     multi ''c/iothub_client/samples/iothub_client_sample_x509/windows/packages.config'' [
       xml_attribute_task [] JUndef ''//packages/package[@id = 'Microsoft.Azure.C.SharedUtility']/@version''
         ''c_shared_utility_nuget'',
       xml_attribute_task [] JUndef ''//packages/package[@id = 'Microsoft.Azure.IoTHub.HttpTransport']/@version''
         ''c_nuget.device'',
       xml_attribute_task [] JUndef ''//packages/package[@id = 'Microsoft.Azure.IoTHub.IoTHubClient']/@version''
         ''c_nuget.device''],
     multi ''c/iothub_client/samples/iothub_client_sample_x509/windows/iothub_client_sample_x509.vcxproj'' [
       regex_task [] ''(Microsoft.Azure.C.SharedUtility.)~d+.~d+.~d+'' [Lit ''$1'', Ver [''c_shared_utility_nuget'']],
       regex_task [] ''(Microsoft.Azure.IoTHub.IoTHubClient.)~d+.~d+.~d+'' [Lit ''$1'', Ver [''c_nuget'', ''device'']],
       regex_task [] ''(Microsoft.Azure.IoTHub.HttpTransport.)~d+.~d+.~d+'' [Lit ''$1'', Ver [''c_nuget'', ''device'']]],
     multi ''c/serializer/samples/remote_monitoring/windows/packages.config'' [
       xml_attribute_task [] JUndef ''//packages/package[@id = 'Microsoft.Azure.C.SharedUtility']/@version''
         ''c_shared_utility_nuget'',
       xml_attribute_task [] JUndef ''//packages/package[@id = 'Microsoft.Azure.IoTHub.AmqpTransport']/@version''
         ''c_nuget.device'',
       xml_attribute_task [] JUndef ''//packages/package[@id = 'Microsoft.Azure.IoTHub.IoTHubClient']/@version''
         ''c_nuget.device'',
       xml_attribute_task [] JUndef ''//packages/package[@id = 'Microsoft.Azure.IoTHub.Serializer']/@version'' ''c_nuget.device'',
       xml_attribute_task [] JUndef ''//packages/package[@id = 'Microsoft.Azure.uamqp']/@version'' ''uamqp_c_nuget'']]"

definition c_nuget_inputs_5 :: "task list" where
  "c_nuget_inputs_5 = [
     multi ''c/serializer/samples/remote_monitoring/windows/remote_monitoring.vcxproj'' [
       regex_task [] ''(Microsoft.Azure.C.SharedUtility.)~d+.~d+.~d+'' [Lit ''$1'', Ver [''c_shared_utility_nuget'']],
       regex_task [] ''(Microsoft.Azure.IoTHub.IoTHubClient.)~d+.~d+.~d+'' [Lit ''$1'', Ver [''c_nuget'', ''device'']],
       regex_task [] ''(Microsoft.Azure.IoTHub.Serializer.)~d+.~d+.~d+'' [Lit ''$1'', Ver [''c_nuget'', ''device'']],
       regex_task [] ''(Microsoft.Azure.IoTHub.AmqpTransport.)~d+.~d+.~d+'' [Lit ''$1'', Ver [''c_nuget'', ''device'']],
       regex_task [] ''(Microsoft.Azure.uamqp.)~d+.~d+.~d+'' [Lit ''$1'', Ver [''uamqp_c_nuget'']]],
     multi ''c/serializer/samples/simplesample_amqp/windows/packages.config'' [
       xml_attribute_task [] JUndef ''//packages/package[@id = 'Microsoft.Azure.C.SharedUtility']/@version''
         ''c_shared_utility_nuget'',
       xml_attribute_task [] JUndef ''//packages/package[@id = 'Microsoft.Azure.IoTHub.AmqpTransport']/@version''
         ''c_nuget.device'',
       xml_attribute_task [] JUndef ''//packages/package[@id = 'Microsoft.Azure.IoTHub.IoTHubClient']/@version''
         ''c_nuget.device'',
       xml_attribute_task [] JUndef ''//packages/package[@id = 'Microsoft.Azure.IoTHub.Serializer']/@version'' ''c_nuget.device'',
       xml_attribute_task [] JUndef ''//packages/package[@id = 'Microsoft.Azure.uamqp']/@version'' ''uamqp_c_nuget''],
     multi ''c/serializer/samples/simplesample_amqp/windows/simplesample_amqp.vcxproj'' [
       regex_task [] ''(Microsoft.Azure.C.SharedUtility.)~d+.~d+.~d+'' [Lit ''$1'', Ver [''c_shared_utility_nuget'']],
       regex_task [] ''(Microsoft.Azure.IoTHub.IoTHubClient.)~d+.~d+.~d+'' [Lit ''$1'', Ver [''c_nuget'', ''device'']],
       regex_task [] ''(Microsoft.Azure.IoTHub.Serializer.)~d+.~d+.~d+'' [Lit ''$1'', Ver [''c_nuget'', ''device'']],
       regex_task [] ''(Microsoft.Azure.IoTHub.AmqpTransport.)~d+.~d+.~d+'' [Lit ''$1'', Ver [''c_nuget'', ''device'']],
       regex_task [] ''(Microsoft.Azure.uamqp.)~d+.~d+.~d+'' [Lit ''$1'', Ver [''uamqp_c_nuget'']]],
     multi ''c/serializer/samples/simplesample_http/windows/packages.config'' [
       xml_attribute_task [] JUndef ''//packages/package[@id = 'Microsoft.Azure.C.SharedUtility']/@version''
         ''c_shared_utility_nuget'',
       xml_attribute_task [] JUndef ''//packages/package[@id = 'Microsoft.Azure.IoTHub.HttpTransport']/@version''
         ''c_nuget.device'',
       xml_attribute_task [] JUndef ''//packages/package[@id = 'Microsoft.Azure.IoTHub.IoTHubClient']/@version''
         ''c_nuget.device'',
       xml_attribute_task [] JUndef ''//packages/package[@id = 'Microsoft.Azure.IoTHub.Serializer']/@version'' ''c_nuget.device'']]"

definition c_nuget_inputs_6 :: "task list" where
  "c_nuget_inputs_6 = [
     multi ''c/serializer/samples/simplesample_http/windows/simplesample_http.vcxproj'' [
       regex_task [] ''(Microsoft.Azure.C.SharedUtility.)~d+.~d+.~d+'' [Lit ''$1'', Ver [''c_shared_utility_nuget'']],
       regex_task [] ''(Microsoft.Azure.IoTHub.IoTHubClient.)~d+.~d+.~d+'' [Lit ''$1'', Ver [''c_nuget'', ''device'']],
       regex_task [] ''(Microsoft.Azure.IoTHub.Serializer.)~d+.~d+.~d+'' [Lit ''$1'', Ver [''c_nuget'', ''device'']],
       regex_task [] ''(Microsoft.Azure.IoTHub.HttpTransport.)~d+.~d+.~d+'' [Lit ''$1'', Ver [''c_nuget'', ''device'']]],
     multi ''c/serializer/samples/simplesample_mqtt/windows/packages.config'' [
       xml_attribute_task [] JUndef ''//packages/package[@id = 'Microsoft.Azure.C.SharedUtility']/@version''
         ''c_shared_utility_nuget'',
       xml_attribute_task [] JUndef ''//packages/package[@id = 'Microsoft.Azure.IoTHub.MqttTransport']/@version''
         ''c_nuget.device'',
       xml_attribute_task [] JUndef ''//packages/package[@id = 'Microsoft.Azure.IoTHub.IoTHubClient']/@version''
         ''c_nuget.device'',
       xml_attribute_task [] JUndef ''//packages/package[@id = 'Microsoft.Azure.IoTHub.Serializer']/@version'' ''c_nuget.device'',
       xml_attribute_task [] JUndef ''//packages/package[@id = 'Microsoft.Azure.umqtt']/@version'' ''umqtt_c_nuget''],
     multi ''c/serializer/samples/simplesample_mqtt/windows/simplesample_mqtt.vcxproj'' [
       regex_task [] ''(Microsoft.Azure.C.SharedUtility.)~d+.~d+.~d+'' [Lit ''$1'', Ver [''c_shared_utility_nuget'']],
       regex_task [] ''(Microsoft.Azure.IoTHub.IoTHubClient.)~d+.~d+.~d+'' [Lit ''$1'', Ver [''c_nuget'', ''device'']],
       regex_task [] ''(Microsoft.Azure.IoTHub.Serializer.)~d+.~d+.~d+'' [Lit ''$1'', Ver [''c_nuget'', ''device'']],
       regex_task [] ''(Microsoft.Azure.IoTHub.MqttTransport.)~d+.~d+.~d+'' [Lit ''$1'', Ver [''c_nuget'', ''device'']],
       regex_task [] ''(Microsoft.Azure.umqtt.)~d+.~d+.~d+'' [Lit ''$1'', Ver [''umqtt_c_nuget'']]],
     multi ''c/serializer/samples/temp_sensor_anomaly/windows/packages.config'' [
       xml_attribute_task [] JUndef ''//packages/package[@id = 'Microsoft.Azure.C.SharedUtility']/@version''
         ''c_shared_utility_nuget'',
       xml_attribute_task [] JUndef ''//packages/package[@id = 'Microsoft.Azure.IoTHub.HttpTransport']/@version''
         ''c_nuget.device'',
       xml_attribute_task [] JUndef ''//packages/package[@id = 'Microsoft.Azure.IoTHub.IoTHubClient']/@version''
         ''c_nuget.device'',
       xml_attribute_task [] JUndef ''//packages/package[@id = 'Microsoft.Azure.IoTHub.Serializer']/@version'' ''c_nuget.device'']]"

definition c_nuget_inputs_7 :: "task list" where
  "c_nuget_inputs_7 = [
     multi ''c/serializer/samples/temp_sensor_anomaly/windows/temp_sensor_anomaly.vcxproj'' [
       regex_task [] ''(Microsoft.Azure.C.SharedUtility.)~d+.~d+.~d+'' [Lit ''$1'', Ver [''c_shared_utility_nuget'']],
       regex_task [] ''(Microsoft.Azure.IoTHub.IoTHubClient.)~d+.~d+.~d+'' [Lit ''$1'', Ver [''c_nuget'', ''device'']],
       regex_task [] ''(Microsoft.Azure.IoTHub.Serializer.)~d+.~d+.~d+'' [Lit ''$1'', Ver [''c_nuget'', ''device'']],
       regex_task [] ''(Microsoft.Azure.IoTHub.HttpTransport.)~d+.~d+.~d+'' [Lit ''$1'', Ver [''c_nuget'', ''device'']]]]"

definition c_uamqp_inputs :: "task list" where
  "c_uamqp_inputs = [
     multi ''c/uamqp/build_all/Packaging/windows/Microsoft.Azure.uamqp.nuspec'' [
       xml_attribute_task [] nuspec ''//nu:package/nu:metadata/nu:dependencies/nu:dependency[@id = 'Microsoft.Azure.C.SharedUtility']/@version''
         ''c_shared_utility_nuget'',
       xml_task [] nuspec ''//nu:package/nu:metadata/nu:version'' ''uamqp_c_nuget'']]"

definition c_shared_utility_inputs :: "task list" where
  "c_shared_utility_inputs = [
     multi ''c/c-utility/build_all/Packaging/windows/Microsoft.Azure.C.SharedUtility.nuspec'' [
       xml_task [] nuspec ''//nu:package/nu:metadata/nu:version'' ''c_shared_utility_nuget'']]"

definition c_umqtt_inputs :: "task list" where
  "c_umqtt_inputs = [
     multi ''c/umqtt/build_all/Packaging/windows/Microsoft.Azure.umqtt.nuspec'' [
       xml_attribute_task [] nuspec ''//nu:package/nu:metadata/nu:dependencies/nu:dependency[@id = 'Microsoft.Azure.C.SharedUtility']/@version''
         ''c_shared_utility_nuget'',
       xml_task [] nuspec ''//nu:package/nu:metadata/nu:version'' ''umqtt_c_nuget'']]"

definition csharp_device_inputs :: "task list" where
  "csharp_device_inputs = [
     regex_task ''csharp/device/Microsoft.Azure.Devices.Client/Properties/AssemblyInfo.cs'' ''(AssemblyInformationalVersion~(\").*(\"~)~])''
       [Lit ''$1'', Ver [''csharp'', ''device''], Lit ''$2''],
     regex_task ''csharp/device/Microsoft.Azure.Devices.Client.PCL/Properties/AssemblyInfo.cs'' ''(AssemblyInformationalVersion~(\").*(\"~)~])''
       [Lit ''$1'', Ver [''csharp'', ''devicepcl''], Lit ''$2''],
     regex_task ''csharp/device/Microsoft.Azure.Devices.Client.WinRT/Properties/AssemblyInfo.cs'' ''(AssemblyInformationalVersion~(\").*(\"~)~])''
       [Lit ''$1'', Ver [''csharp'', ''device''], Lit ''$2''],
     regex_task ''csharp/device/Microsoft.Azure.Devices.Client/IotHubConnection.cs'' ''(UWPAssemblyVersion[ `]*=[ `]*\").*(\")''
       [Lit ''$1'', Ver [''csharp'', ''device''], Lit ''$2'']]"

definition csharp_service_inputs :: "task list" where
  "csharp_service_inputs = [
     regex_task ''csharp/service/Microsoft.Azure.Devices/Properties/AssemblyInfo.cs'' ''(AssemblyInformationalVersion~(\").*(\"~)~])''
       [Lit ''$1'', Ver [''csharp'', ''service''], Lit ''$2''],
     regex_task ''csharp/service/Microsoft.Azure.Devices.Uwp/Properties/AssemblyInfo.cs'' ''(AssemblyInformationalVersion~(\").*(\"~)~])''
       [Lit ''$1'', Ver [''csharp'', ''service''], Lit ''$2''],
     regex_task ''csharp/service/Microsoft.Azure.Devices/Common/Utils.cs'' ''(UWPAssemblyVersion[ `]*=[ `]*\").*(\")''
       [Lit ''$1'', Ver [''csharp'', ''service''], Lit ''$2'']]"

definition java_websocket_inputs :: "task list" where
  "java_websocket_inputs = [
     xml_task ''java/websocket-transport-layer/pom.xml'' JUndef ''//project/version'' ''java.websocket'']"

definition java_device_inputs :: "task list" where
  "java_device_inputs = [
     xml_task ''java/device/pom.xml'' JUndef ''//project/version'' ''java.device'',
     xml_task ''java/device/iothub-java-client/pom.xml'' JUndef ''//project/parent/version'' ''java.device'',
     multi ''java/device/samples/pom.xml'' [
       xml_task [] JUndef ''//project/parent/version'' ''java.device'',
       xml_task [] JUndef ''//project/dependencies/dependency[groupId = 'com.microsoft.azure.iothub-java-client']/version''
         ''java.device''],
     xml_task ''java/device/samples/handle-messages/pom.xml'' JUndef ''//project/parent/version'' ''java.device'',
     xml_task ''java/device/samples/send-event/pom.xml'' JUndef ''//project/parent/version'' ''java.device'',
     xml_task ''java/device/samples/send-serialized-event/pom.xml'' JUndef ''//project/parent/version''
       ''java.device'',
     xml_task ''java/device/samples/send-receive-sample/pom.xml'' JUndef ''//project/parent/version'' ''java.device'',
     regex_task ''java/device/iothub-java-client/src/main/java/com/microsoft/azure/iothub/transport/TransportUtils.java'' ''(clientVersion =)([ ]+)(\".*\")''
       [Lit ''$1'', Lit ''$2'', Lit ''\"'', Ver [''java'', ''device''], Lit ''\"'']]"

definition java_service_inputs :: "task list" where
  "java_service_inputs = [
     xml_task ''java/service/pom.xml'' JUndef ''//project/version'' ''java.service'',
     xml_task ''java/service/iothub-service-sdk/pom.xml'' JUndef ''//project/version'' ''java.service'',
     multi ''java/service/samples/pom.xml'' [
       xml_task [] JUndef ''//project/version'' ''java.service'',
       xml_task [] JUndef ''//project/dependencies/dependency[groupId = 'com.microsoft.azure.iot.service.sdk']/version''
         ''java.service'',
       xml_task [] JUndef ''//project/parent[groupId = 'com.microsoft.azure.iot.service.sdk']/version'' ''java.service''],
     multi ''java/service/samples/device-manager-sample/pom.xml'' [
       xml_task [] JUndef ''//project/version'' ''java.service'',
       xml_task [] JUndef ''//project/dependencies/dependency[groupId = 'com.microsoft.azure.iot.service.sdk']/version''
         ''java.service'',
       xml_task [] JUndef ''//project/parent[groupId = 'com.microsoft.azure.iot.service.sdk']/version'' ''java.service''],
     multi ''java/service/samples/service-client-sample/pom.xml'' [
       xml_task [] JUndef ''//project/version'' ''java.service'',
       xml_task [] JUndef ''//project/dependencies/dependency[groupId = 'com.microsoft.azure.iot.service.sdk']/version''
         ''java.service'',
       xml_task [] JUndef ''//project/parent[groupId = 'com.microsoft.azure.iot.service.sdk']/version'' ''java.service''],
     regex_task ''java/service/iothub-service-sdk/src/main/java/com/microsoft/azure/iot/service/transport/TransportUtils.java'' ''(serviceVersion =)([ ]+)(\".*\")''
       [Lit ''$1'', Lit ''$2'', Lit ''\"'', Ver [''java'', ''service''], Lit ''\"'']]"

definition node_inputs_1 :: "task list" where
  "node_inputs_1 = [
     Task ''jsonReplaceTask'' ''node/common/core/package.json'' (Pattern ''version'') (VersionPath ''node.common'') JUndef,
     multi ''node/common/transport/amqp/package.json'' [
       json_task (''version'', ''node.amqp-base''),
       json_task (''dependencies.azure-iot-common'', ''node.common'')],
     multi ''node/common/transport/http/package.json'' [
       json_task (''version'', ''node.http-base''),
       json_task (''dependencies.azure-iot-common'', ''node.common'')],
     regex_task ''node/device/readme.md'' ''(http~:~/~/azure.github.io~/azure-iot-sdks~/node~/api_reference~/azure-iot-device~/).*(~/index.html)''
       [Lit ''$1'', Ver [''node'', ''device''], Lit ''$2''],
     multi ''node/device/core/package.json'' [
       json_task (''version'', ''node.device''),
       json_task (''dependencies.azure-iot-common'', ''node.common''),
       json_task (''dependencies.azure-iot-http-base'', ''node.http-base'')],
     multi ''node/device/samples/package.json'' [
       json_task (''dependencies.azure-iot-device'', ''node.device''),
       json_task (''dependencies.azure-iot-device-amqp'', ''node.device-amqp''),
       json_task (''dependencies.azure-iot-device-http'', ''node.device-http''),
       json_task (''dependencies.azure-iot-device-mqtt'', ''node.device-mqtt'')],
     multi ''node/device/transport/amqp/package.json'' [
       json_task (''version'', ''node.device-amqp''),
       json_task (''dependencies.azure-iot-amqp-base'', ''node.amqp-base''),
       json_task (''dependencies.azure-iot-common'', ''node.common''),
       json_task (''dependencies.azure-iot-device'', ''node.device''),
       json_task (''devDependencies.azure-iothub'', ''node.service'')]]"

definition node_inputs_2 :: "task list" where
  "node_inputs_2 = [
     multi ''node/device/transport/http/package.json'' [
       json_task (''version'', ''node.device-http''),
       json_task (''dependencies.azure-iot-http-base'', ''node.http-base''),
       json_task (''dependencies.azure-iot-common'', ''node.common''),
       json_task (''dependencies.azure-iot-device'', ''node.device''),
       json_task (''devDependencies.azure-iothub'', ''node.service'')],
     multi ''node/device/transport/mqtt/package.json'' [
       json_task (''version'', ''node.device-mqtt''),
       json_task (''dependencies.azure-iot-common'', ''node.common''),
       json_task (''dependencies.azure-iot-device'', ''node.device'')],
     multi ''node/device/node-red/package.json'' [
       json_task (''version'', ''node.node-red-contrib-azureiothubnode''),
       json_task (''dependencies.azure-iot-device'', ''node.device''),
       json_task (''dependencies.azure-iot-device-amqp'', ''node.device-amqp''),
       json_task (''dependencies.azure-iot-device-http'', ''node.device-http''),
       json_task (''dependencies.azure-iot-device-mqtt'', ''node.device-mqtt'')],
     multi ''node/e2etests/package.json'' [
       json_task (''version'', ''node.device''),
       json_task (''dependencies.azure-iot-common'', ''node.common''),
       json_task (''dependencies.azure-iot-device'', ''node.device''),
       json_task (''dependencies.azure-iot-device-amqp'', ''node.device-amqp''),
       json_task (''dependencies.azure-iot-device-http'', ''node.device-http''),
       json_task (''dependencies.azure-iot-device-mqtt'', ''node.device-mqtt''),
       json_task (''dependencies.azure-iothub'', ''node.service'')]]"

definition node_inputs_3 :: "task list" where
  "node_inputs_3 = [
     multi ''node/service/package.json'' [
       json_task (''version'', ''node.service''),
       json_task (''dependencies.azure-iot-amqp-base'', ''node.amqp-base''),
       json_task (''dependencies.azure-iot-http-base'', ''node.http-base''),
       json_task (''dependencies.azure-iot-common'', ''node.common'')],
     Task ''jsonReplaceTask'' ''node/service/samples/package.json'' (Pattern ''dependencies.azure-iothub'') (VersionPath ''node.service'') JUndef,
     multi ''tools/iothub-explorer/package.json'' [
       json_task (''version'', ''iothub-explorer''),
       json_task (''dependencies.azure-iot-common'', ''node.common''),
       json_task (''dependencies.azure-iot-device'', ''node.device''),
       json_task (''dependencies.azure-iothub'', ''node.service'')],
     multi ''tools/iothub-diagnostics/package.json'' [
       json_task (''version'', ''iothub-diagnostics''),
       json_task (''dependencies.azure-iot-common'', ''node.common''),
       json_task (''dependencies.azure-iot-device'', ''node.device''),
       json_task (''dependencies.azure-iot-device-amqp'', ''node.device-amqp''),
       json_task (''dependencies.azure-iot-device-http'', ''node.device-http''),
       json_task (''dependencies.azure-iot-device-mqtt'', ''node.device-mqtt''),
       json_task (''dependencies.azure-iothub'', ''node.service'')]]"

definition bump_inputs :: "task list" where
  "bump_inputs = device_explorer_inputs @ c_inputs @ c_nuget_inputs_1 @ c_nuget_inputs_2 @ c_nuget_inputs_3 @ c_nuget_inputs_4 @ c_nuget_inputs_5 @ c_nuget_inputs_6 @ c_nuget_inputs_7
     @ c_uamqp_inputs @ c_shared_utility_inputs @ c_umqtt_inputs @ csharp_device_inputs @ csharp_service_inputs
     @ java_websocket_inputs @ java_device_inputs @ java_service_inputs @ node_inputs_1 @ node_inputs_2 @ node_inputs_3"

lemmas bump_inputs_defs = bump_inputs_def device_explorer_inputs_def c_inputs_def c_nuget_inputs_1_def c_nuget_inputs_2_def c_nuget_inputs_3_def c_nuget_inputs_4_def c_nuget_inputs_5_def c_nuget_inputs_6_def c_nuget_inputs_7_def
  c_uamqp_inputs_def c_shared_utility_inputs_def c_umqtt_inputs_def csharp_device_inputs_def csharp_service_inputs_def
  java_websocket_inputs_def java_device_inputs_def java_service_inputs_def node_inputs_1_def node_inputs_2_def node_inputs_3_def

end
