(* ===== verification/Bump_Release.thy ===== *)
theory Bump_Release
  imports Bump_Inputs
begin

text \<open>
  What the version bump does with its real data: the table of tasks is well formed, the run ends, every
  property of a package description that the table names gets the version meant for it, and the
  versions with which the packages refer to each other agree.
\<close>

section \<open>The table\<close>

text \<open>The file of a task, and what a task on a JSON file sets: properties with the paths of their versions.\<close>

fun task_file :: "task \<Rightarrow> string" where
  "task_file (Task taskType filePath search replace nsmap) = filePath"

fun json_part :: "task \<Rightarrow> (string \<times> string) list" where
  "json_part (Task taskType filePath (Pattern p) (VersionPath v) nsmap) = (if taskType = ''jsonReplaceTask'' then [(p, v)] else [])"
| "json_part _ = []"

fun package_parts :: "task \<Rightarrow> (string \<times> string) list" where
  "package_parts (Task taskType filePath (SubTasks ts) replace nsmap) = concat (map json_part ts)"
| "package_parts t = json_part t"

lemma task_simps [simp]:
  "task_file (regex_task f p ps) = f" "task_file (xml_task f n p v) = f" "task_file (xml_attribute_task f n p v) = f"
  "task_file (multi f ts) = f" "json_part (json_task pv) = [pv]"
  "json_part (regex_task f p ps) = []" "json_part (xml_task f n p v) = []" "json_part (xml_attribute_task f n p v) = []"
  "package_parts (multi f ts) = concat (map json_part ts)"
  "package_parts (regex_task f p ps) = []" "package_parts (xml_task f n p v) = []" "package_parts (xml_attribute_task f n p v) = []"
  by (simp_all add: regex_task_def xml_task_def xml_attribute_task_def multi_def json_task_def)

text \<open>The tasks on package descriptions, with the properties they set.\<close>

definition packages_of :: "task list \<Rightarrow> (string \<times> (string \<times> string) list) list" where
  "packages_of ts = map (\<lambda>t. (task_file t, package_parts t)) (filter (\<lambda>t. package_parts t \<noteq> []) ts)"

lemma packages_of_append: "packages_of (ts @ us) = packages_of ts @ packages_of us"
  by (simp add: packages_of_def)

definition packages :: "(string \<times> (string \<times> string) list) list" where
  "packages = packages_of bump_inputs"

definition node_file :: "string \<Rightarrow> bool" where
  "node_file f \<longleftrightarrow> (prefix ''node/'' f \<or> prefix ''tools/iothub-'' f) \<and> \<not> prefix ''node/device/readme'' f"

lemma no_packages:
  "packages_of device_explorer_inputs = []"
  "packages_of c_inputs = []"
  "packages_of c_nuget_inputs_1 = []"
  "packages_of c_nuget_inputs_2 = []"
  "packages_of c_nuget_inputs_3 = []"
  "packages_of c_nuget_inputs_4 = []"
  "packages_of c_nuget_inputs_5 = []"
  "packages_of c_nuget_inputs_6 = []"
  "packages_of c_nuget_inputs_7 = []"
  "packages_of c_uamqp_inputs = []"
  "packages_of c_shared_utility_inputs = []"
  "packages_of c_umqtt_inputs = []"
  "packages_of csharp_device_inputs = []"
  "packages_of csharp_service_inputs = []"
  "packages_of java_websocket_inputs = []"
  "packages_of java_device_inputs = []"
  "packages_of java_service_inputs = []"
  by (simp_all add: packages_of_def
      device_explorer_inputs_def c_inputs_def c_nuget_inputs_1_def c_nuget_inputs_2_def c_nuget_inputs_3_def c_nuget_inputs_4_def
      c_nuget_inputs_5_def c_nuget_inputs_6_def c_nuget_inputs_7_def c_uamqp_inputs_def c_shared_utility_inputs_def
      c_umqtt_inputs_def csharp_device_inputs_def csharp_service_inputs_def java_websocket_inputs_def java_device_inputs_def
      java_service_inputs_def)

lemma packages_node: "packages = packages_of (node_inputs_1 @ node_inputs_2 @ node_inputs_3)"
  unfolding packages_def bump_inputs_def packages_of_append no_packages by simp

lemma no_node_files:
  "list_all (\<lambda>t. \<not> node_file (task_file t)) device_explorer_inputs"
  "list_all (\<lambda>t. \<not> node_file (task_file t)) c_inputs"
  "list_all (\<lambda>t. \<not> node_file (task_file t)) c_nuget_inputs_1"
  "list_all (\<lambda>t. \<not> node_file (task_file t)) c_nuget_inputs_2"
  "list_all (\<lambda>t. \<not> node_file (task_file t)) c_nuget_inputs_3"
  "list_all (\<lambda>t. \<not> node_file (task_file t)) c_nuget_inputs_4"
  "list_all (\<lambda>t. \<not> node_file (task_file t)) c_nuget_inputs_5"
  "list_all (\<lambda>t. \<not> node_file (task_file t)) c_nuget_inputs_6"
  "list_all (\<lambda>t. \<not> node_file (task_file t)) c_nuget_inputs_7"
  "list_all (\<lambda>t. \<not> node_file (task_file t)) c_uamqp_inputs"
  "list_all (\<lambda>t. \<not> node_file (task_file t)) c_shared_utility_inputs"
  "list_all (\<lambda>t. \<not> node_file (task_file t)) c_umqtt_inputs"
  "list_all (\<lambda>t. \<not> node_file (task_file t)) csharp_device_inputs"
  "list_all (\<lambda>t. \<not> node_file (task_file t)) csharp_service_inputs"
  "list_all (\<lambda>t. \<not> node_file (task_file t)) java_websocket_inputs"
  "list_all (\<lambda>t. \<not> node_file (task_file t)) java_device_inputs"
  "list_all (\<lambda>t. \<not> node_file (task_file t)) java_service_inputs"
  by (simp_all add: node_file_def
      device_explorer_inputs_def c_inputs_def c_nuget_inputs_1_def c_nuget_inputs_2_def c_nuget_inputs_3_def c_nuget_inputs_4_def
      c_nuget_inputs_5_def c_nuget_inputs_6_def c_nuget_inputs_7_def c_uamqp_inputs_def c_shared_utility_inputs_def
      c_umqtt_inputs_def csharp_device_inputs_def csharp_service_inputs_def java_websocket_inputs_def java_device_inputs_def
      java_service_inputs_def)

text \<open>A task sets properties of a package description when its file is that of a Node package, and no other task does.\<close>

lemma package_tasks: "list_all (\<lambda>t. node_file (task_file t) \<longleftrightarrow> package_parts t \<noteq> []) bump_inputs"
proof -
  have other: "list_all (\<lambda>t. node_file (task_file t) \<longleftrightarrow> package_parts t \<noteq> []) ts"
    if "packages_of ts = []" and "list_all (\<lambda>t. \<not> node_file (task_file t)) ts" for ts
    using that by (auto simp: packages_of_def list_all_iff filter_empty_conv)
  have "list_all (\<lambda>t. node_file (task_file t) \<longleftrightarrow> package_parts t \<noteq> []) (node_inputs_1 @ node_inputs_2 @ node_inputs_3)"
    by (simp add: node_inputs_1_def node_inputs_2_def node_inputs_3_def node_file_def)
  then show ?thesis
    unfolding bump_inputs_def list_all_append
    by (intro conjI; (elim conjE)?) (assumption | (rule other, rule no_packages, rule no_node_files))+
qed

lemma distinct_packages: "distinct (map fst packages)"
  unfolding packages_node by code_simp

section \<open>Tasks keep to their file\<close>

lemma edit_file_frame: "g \<noteq> path \<Longrightarrow> fst (edit_file path f fs) g = fs g"
  by (simp add: edit_file_def split: option.split sum.split)

lemma single_task_frame: "g \<noteq> path \<Longrightarrow> fst (single_task env k path s value nsmap fs) g = fs g"
  by (simp add: single_task_def jsonReplaceTask_def xmlReplaceTask_def xmlAttributeReplaceTask_def regexReplaceTask_def
      edit_file_frame)

lemma task_frame:
  "g \<noteq> (case outer of Some p \<Rightarrow> p | None \<Rightarrow> task_file t) \<Longrightarrow> fst (runTask env outer t fs) g = fs g"
  "g \<noteq> path \<Longrightarrow> fst (multiTask env path ts fs) g = fs g"
proof (induction env outer t fs and env path ts fs rule: runTask_multiTask.induct)
  case (1 env outer taskType filePath search replace nsmap fs)
  then show ?case by (cases outer) (auto simp: single_task_frame Let_def split: sum.splits search_spec.splits)
next
  case (3 env path t ts fs)
  then show ?case by (auto split: prod.splits task_end.splits)
qed simp

text \<open>In a run without exception, the file of a task that no other task has is written by that task alone.\<close>

lemma bump_main_append:
  "bump_main env (ts @ us) fs = (case bump_main env ts fs of (fs', None) \<Rightarrow> bump_main env us fs' | r \<Rightarrow> r)"
  by (induction ts arbitrary: fs) (auto split: prod.splits task_end.splits)

lemma bump_main_frame: "g \<notin> task_file ` set ts \<Longrightarrow> fst (bump_main env ts fs) g = fs g"
proof (induction ts arbitrary: fs)
  case (Cons t ts)
  then show ?case using task_frame(1) [where g = g and outer = None and t = t and env = env and fs = fs] by (auto split: prod.splits task_end.splits)
qed simp

lemma bump_main_file:
  assumes "bump_main env ts fs = (fs', None)" and "t \<in> set ts"
    and "filter (\<lambda>u. task_file u = task_file t) ts = [t]"
  shows "\<exists>fs1. fs1 (task_file t) = fs (task_file t) \<and> fs' (task_file t) = fst (runTask env None t fs1) (task_file t)
    \<and> (\<forall>e. snd (runTask env None t fs1) \<noteq> Crashed e)"
proof -
  let ?f = "task_file t"
  obtain pre post where ts: "ts = pre @ t # post" using assms(2) by (auto dest: split_list)
  have pre: "?f \<notin> task_file ` set pre" and post: "?f \<notin> task_file ` set post"
    using assms(3) unfolding ts by (auto simp: append_eq_Cons_conv filter_empty_conv)
  obtain fs1 where fs1: "bump_main env pre fs = (fs1, None)" "bump_main env (t # post) fs1 = (fs', None)"
    using assms(1) unfolding ts bump_main_append by (auto split: prod.splits option.splits)
  obtain fs2 e where fs2: "runTask env None t fs1 = (fs2, e)" by (cases "runTask env None t fs1")
  with fs1(2) have "\<forall>x. e \<noteq> Crashed x" and "bump_main env post fs2 = (fs', None)" by (auto split: task_end.splits)
  then show ?thesis
    using bump_main_frame [OF pre, of env fs] bump_main_frame [OF post, of env fs2] fs1(1) fs2
    by (intro exI [of _ fs1]) simp
qed

lemma filter_distinct_key: "distinct (map f xs) \<Longrightarrow> x \<in> set xs \<Longrightarrow> filter (\<lambda>y. f y = f x) xs = [x]"
proof (induction xs)
  case (Cons y ys)
  then show ?case by (auto simp: filter_empty_conv image_iff)
qed simp

lemma package_task_alone:
  assumes "t \<in> set bump_inputs" and "package_parts t \<noteq> []"
  shows "filter (\<lambda>u. task_file u = task_file t) bump_inputs = [t]"
proof -
  let ?pk = "filter (\<lambda>u. package_parts u \<noteq> []) bump_inputs"
  have "distinct (map task_file ?pk)"
    using distinct_packages by (simp add: packages_def packages_of_def comp_def)
  then have "filter (\<lambda>u. task_file u = task_file t) ?pk = [t]"
    using assms by (intro filter_distinct_key) simp_all
  moreover have "package_parts u \<noteq> []" if "u \<in> set bump_inputs" "task_file u = task_file t" for u
    using package_tasks assms that unfolding list_all_iff by metis
  then have "filter (\<lambda>u. task_file u = task_file t) bump_inputs = filter (\<lambda>u. task_file u = task_file t) ?pk"
    by (auto simp: filter_filter intro!: filter_cong)
  ultimately show ?thesis by simp
qed

section \<open>Properties that can be set\<close>

text \<open>Every object on the way to the last property of a path is there.\<close>

fun holds_path :: "jsval \<Rightarrow> string list \<Rightarrow> bool" where
  "holds_path obj [] \<longleftrightarrow> True"
| "holds_path obj [p] \<longleftrightarrow> (case obj of JObj d \<Rightarrow> True | _ \<Rightarrow> False)"
| "holds_path obj (p # q # ps) \<longleftrightarrow> (case obj of JObj d \<Rightarrow> holds_path (dget d p) (q # ps) | _ \<Rightarrow> False)"

lemma set_path_holds: "holds_path obj ps \<Longrightarrow> \<exists>obj'. set_path obj ps v = Inr obj'"
proof (induction obj ps rule: holds_path.induct)
  case (3 obj p q ps)
  then show ?case by (cases obj) (auto simp: res_bind_Inr_iff)
qed (auto split: jsval.splits)

lemma set_path_keeps_holds:
  "set_path obj ps v = Inr obj' \<Longrightarrow> apart ps qs \<Longrightarrow> holds_path obj qs \<Longrightarrow> holds_path obj' qs"
proof (induction obj ps v arbitrary: obj' qs rule: set_path.induct)
  case (2 obj p v)
  then obtain d where "obj = JObj d" "obj' = JObj (dset p v d)" by (cases obj) auto
  moreover obtain r rs where "qs = r # rs" "r \<noteq> p" using "2.prems"(2) by (cases qs) (auto simp: apart_def)
  ultimately show ?case using "2.prems"(3) by (cases rs) simp_all
next
  case (3 obj p q ps v)
  obtain d w where d: "obj = JObj d" "set_path (dget d p) (q # ps) v = Inr w" "obj' = JObj (dset p w d)"
    using "3.prems"(1) by (cases obj) (auto simp: res_bind_Inr_iff)
  obtain r rs where qs: "qs = r # rs" using "3.prems"(2) by (cases qs) (auto simp: apart_def)
  show ?case
  proof (cases rs)
    case Nil
    with qs d(3) show ?thesis by simp
  next
    case (Cons r' rs')
    show ?thesis
    proof (cases "r = p")
      case True
      with "3.prems"(2) qs have "apart (q # ps) rs" by (simp add: apart_def)
      from "3.IH" [OF d(1) d(2) this] True qs Cons d(1,3) "3.prems"(3) show ?thesis by simp
    next
      case False
      with qs Cons d(1,3) "3.prems"(3) show ?thesis by simp
    qed
  qed
qed simp

section \<open>The versions of the table\<close>

lemma version_values:
  "getValue versions_json ''c_nuget.device'' = Inr (JStr ''1.0.19'')"
  "getValue versions_json ''c_shared_utility_nuget'' = Inr (JStr ''1.0.18'')"
  "getValue versions_json ''uamqp_c_nuget'' = Inr (JStr ''1.0.19'')"
  "getValue versions_json ''umqtt_c_nuget'' = Inr (JStr ''1.0.18'')"
  "getValue versions_json ''java.websocket'' = Inr (JStr ''0.1.0'')"
  "getValue versions_json ''java.device'' = Inr (JStr ''1.0.14'')"
  "getValue versions_json ''java.service'' = Inr (JStr ''1.0.10'')"
  "getValue versions_json ''node.common'' = Inr (JStr ''1.1.0-dtpreview'')"
  "getValue versions_json ''node.amqp-base'' = Inr (JStr ''1.1.0-dtpreview'')"
  "getValue versions_json ''node.http-base'' = Inr (JStr ''1.1.0-dtpreview'')"
  "getValue versions_json ''node.device'' = Inr (JStr ''1.1.0-dtpreview'')"
  "getValue versions_json ''node.device-amqp'' = Inr (JStr ''1.1.0-dtpreview'')"
  "getValue versions_json ''node.device-http'' = Inr (JStr ''1.1.0-dtpreview'')"
  "getValue versions_json ''node.device-mqtt'' = Inr (JStr ''1.1.0-dtpreview'')"
  "getValue versions_json ''node.service'' = Inr (JStr ''2.0.0-dtpreview'')"
  "getValue versions_json ''node.node-red-contrib-azureiothubnode'' = Inr (JStr ''0.1.0-dtpreview'')"
  "getValue versions_json ''iothub-explorer'' = Inr (JStr ''1.1.0-dtpreview'')"
  "getValue versions_json ''iothub-diagnostics'' = Inr (JStr ''1.1.0-dtpreview'')"
  by code_simp+

lemma version_parts:
  "get_path versions_json [''device-explorer''] = Inr (JStr ''1.0.13'')"
  "get_path versions_json [''c'', ''device''] = Inr (JStr ''1.0.17'')"
  "get_path versions_json [''c_arduino'', ''device''] = Inr (JStr ''1.0.17'')"
  "get_path versions_json [''c_shared_utility_nuget''] = Inr (JStr ''1.0.18'')"
  "get_path versions_json [''c_nuget'', ''device''] = Inr (JStr ''1.0.19'')"
  "get_path versions_json [''uamqp_c_nuget''] = Inr (JStr ''1.0.19'')"
  "get_path versions_json [''umqtt_c_nuget''] = Inr (JStr ''1.0.18'')"
  "get_path versions_json [''csharp'', ''device''] = Inr (JStr ''1.0.21'')"
  "get_path versions_json [''csharp'', ''devicepcl''] = Inr (JStr ''1.0.21'')"
  "get_path versions_json [''csharp'', ''service''] = Inr (JStr ''1.0.16'')"
  "get_path versions_json [''java'', ''device''] = Inr (JStr ''1.0.14'')"
  "get_path versions_json [''java'', ''service''] = Inr (JStr ''1.0.10'')"
  "get_path versions_json [''node'', ''device''] = Inr (JStr ''1.1.0-dtpreview'')"
  by (simp_all add: versions_json_def js_member_def)

text \<open>A replacement has a value; a task without JSON has one of the other three kinds.\<close>

definition resolves :: "jsval \<Rightarrow> replacement \<Rightarrow> bool" where
  "resolves versions r \<longleftrightarrow> (case r of
       NoReplacement \<Rightarrow> True
     | VersionFun f \<Rightarrow> returns (f versions)
     | VersionPath p \<Rightarrow> p \<noteq> [] \<and> returns (getValue versions p))"

definition plain_kind :: "string \<Rightarrow> bool" where
  "plain_kind k \<longleftrightarrow> k = ''xmlReplaceTask'' \<or> k = ''xmlAttributeReplaceTask'' \<or> k = ''regexReplaceTask''"

fun plain_task :: "jsval \<Rightarrow> task \<Rightarrow> bool" where
  "plain_task versions (Task k f (Pattern s) r n) \<longleftrightarrow> plain_kind k \<and> resolves versions r"
| "plain_task versions (Task k f (SubTasks ts) r n) \<longleftrightarrow> k = ''multiTask'' \<and> resolves versions r \<and> (\<forall>t\<in>set ts. plain_task versions t)"

lemma plain_table:
  "list_all (plain_task versions_json) device_explorer_inputs"
  "list_all (plain_task versions_json) c_inputs"
  "list_all (plain_task versions_json) c_nuget_inputs_1"
  "list_all (plain_task versions_json) c_nuget_inputs_2"
  "list_all (plain_task versions_json) c_nuget_inputs_3"
  "list_all (plain_task versions_json) c_nuget_inputs_4"
  "list_all (plain_task versions_json) c_nuget_inputs_5"
  "list_all (plain_task versions_json) c_nuget_inputs_6"
  "list_all (plain_task versions_json) c_nuget_inputs_7"
  "list_all (plain_task versions_json) c_uamqp_inputs"
  "list_all (plain_task versions_json) c_shared_utility_inputs"
  "list_all (plain_task versions_json) c_umqtt_inputs"
  "list_all (plain_task versions_json) csharp_device_inputs"
  "list_all (plain_task versions_json) csharp_service_inputs"
  "list_all (plain_task versions_json) java_websocket_inputs"
  "list_all (plain_task versions_json) java_device_inputs"
  "list_all (plain_task versions_json) java_service_inputs"
  by (simp_all add: multi_def regex_task_def xml_task_def xml_attribute_task_def plain_kind_def resolves_def
      version_values version_parts
      device_explorer_inputs_def c_inputs_def c_nuget_inputs_1_def c_nuget_inputs_2_def c_nuget_inputs_3_def c_nuget_inputs_4_def
      c_nuget_inputs_5_def c_nuget_inputs_6_def c_nuget_inputs_7_def c_uamqp_inputs_def c_shared_utility_inputs_def
      c_umqtt_inputs_def csharp_device_inputs_def csharp_service_inputs_def java_websocket_inputs_def java_device_inputs_def
      java_service_inputs_def
      del: get_path.simps)

lemma resolves_value: "be_versions env = versions \<Longrightarrow> resolves versions r \<Longrightarrow> \<exists>x. replace_value env r = Inr x"
  by (auto simp: resolves_def replace_value_def returns_def split: replacement.splits sum.splits)

lemma single_no_crash:
  assumes "plain_kind k" and "\<And>b n d s x. returns (be_xml env b n d s x)"
  shows "snd (single_task env k path s value nsmap fs) \<noteq> Crashed e"
proof -
  have "snd (edit_file path f fs) \<noteq> Crashed e" if "\<And>data. returns (f data)" for f
    using that by (auto simp: edit_file_def split: option.splits sum.splits) (metis returns_Inl that)
  then show ?thesis
    using assms by (auto simp: plain_kind_def single_task_def xmlReplaceTask_def xmlAttributeReplaceTask_def regexReplaceTask_def)
qed

lemma plain_no_crash:
  assumes xml: "\<And>b n d s x. returns (be_xml env b n d s x)" and env: "be_versions env = versions"
  shows "plain_task versions t \<Longrightarrow> snd (runTask env outer t fs) \<noteq> Crashed e"
    and "list_all (plain_task versions) ts \<Longrightarrow> snd (multiTask env path ts fs) \<noteq> Crashed e"
  using env
proof (induction env\<equiv>env outer t fs and env\<equiv>env path ts fs rule: runTask_multiTask.induct)
  case (1 outer k f search r n fs)
  then obtain x where x: "replace_value env r = Inr x" using resolves_value by (cases search) fastforce+
  show ?case
  proof (cases search)
    case (Pattern s)
    with 1 x xml single_no_crash show ?thesis by (simp add: Let_def)
  next
    case (SubTasks ts)
    with 1 x show ?thesis by (simp add: Let_def list_all_iff)
  qed
next
  case (3 path t ts fs)
  then show ?case by (auto split: prod.splits task_end.splits)
qed simp

lemma bump_main_ends:
  "(\<And>t fs. t \<in> set ts \<Longrightarrow> \<forall>e. snd (runTask env None t fs) \<noteq> Crashed e) \<Longrightarrow> \<exists>fs'. bump_main env ts fs = (fs', None)"
proof (induction ts arbitrary: fs)
  case (Cons t ts)
  obtain fs1 r where "runTask env None t fs = (fs1, r)" by (cases "runTask env None t fs")
  moreover from this have "\<forall>e. r \<noteq> Crashed e" using Cons.prems [of t fs] by simp
  ultimately show ?case using Cons.IH [of fs1] Cons.prems by (cases r) auto
qed simp

section \<open>The package descriptions\<close>

text \<open>The names of the packages, from the descriptions themselves.\<close>

definition package_names :: "(string \<times> string) list" where
  "package_names = [
     (''node/common/core/package.json'', ''azure-iot-common''),
     (''node/common/transport/amqp/package.json'', ''azure-iot-amqp-base''),
     (''node/common/transport/http/package.json'', ''azure-iot-http-base''),
     (''node/device/core/package.json'', ''azure-iot-device''),
     (''node/device/transport/amqp/package.json'', ''azure-iot-device-amqp''),
     (''node/device/transport/http/package.json'', ''azure-iot-device-http''),
     (''node/device/transport/mqtt/package.json'', ''azure-iot-device-mqtt''),
     (''node/service/package.json'', ''azure-iothub'')]"

definition version_text :: "string \<Rightarrow> string" where
  "version_text v = (case getValue versions_json v of Inr (JStr s) \<Rightarrow> s | _ \<Rightarrow> [])"

text \<open>The version path of a package, and the properties that refer to a package.\<close>

definition version_path :: "string \<Rightarrow> string option" where
  "version_path f = (case map_of packages f of Some pvs \<Rightarrow> map_of pvs ''version'' | None \<Rightarrow> None)"

definition refers :: "string \<Rightarrow> string \<Rightarrow> bool" where
  "refers name p \<longleftrightarrow> js_split ''.'' p = [''dependencies'', name] \<or> js_split ''.'' p = [''devDependencies'', name]"

lemmas node_defs = node_inputs_1_def node_inputs_2_def node_inputs_3_def

lemma package_shapes: "list_all (\<lambda>t. package_parts t \<noteq> [] \<longrightarrow> t = multi (task_file t) (map json_task (package_parts t))
    \<or> (\<exists>p v. package_parts t = [(p, v)] \<and> t = Task ''jsonReplaceTask'' (task_file t) (Pattern p) (VersionPath v) JUndef))
  (node_inputs_1 @ node_inputs_2 @ node_inputs_3)"
  by (simp add: node_defs)

lemma other_node_tasks: "list_all (\<lambda>t. package_parts t = [] \<longrightarrow> plain_task versions_json t) (node_inputs_1 @ node_inputs_2 @ node_inputs_3)"
  by (simp add: node_defs) (simp add: regex_task_def plain_kind_def resolves_def version_parts del: get_path.simps)

lemma package_versions: "list_all (\<lambda>(f, pvs). list_all (\<lambda>(p, v). v \<noteq> [] \<and> getValue versions_json v = Inr (JStr (version_text v))) pvs) packages"
  unfolding packages_node by (simp add: packages_of_def node_defs version_values version_text_def)

lemma property_splits:
  "js_split ''.'' ''version'' = [''version'']"
  "js_split ''.'' ''dependencies.azure-iot-common'' = [''dependencies'', ''azure-iot-common'']"
  "js_split ''.'' ''dependencies.azure-iot-http-base'' = [''dependencies'', ''azure-iot-http-base'']"
  "js_split ''.'' ''dependencies.azure-iot-device'' = [''dependencies'', ''azure-iot-device'']"
  "js_split ''.'' ''dependencies.azure-iot-device-amqp'' = [''dependencies'', ''azure-iot-device-amqp'']"
  "js_split ''.'' ''dependencies.azure-iot-device-http'' = [''dependencies'', ''azure-iot-device-http'']"
  "js_split ''.'' ''dependencies.azure-iot-device-mqtt'' = [''dependencies'', ''azure-iot-device-mqtt'']"
  "js_split ''.'' ''dependencies.azure-iot-amqp-base'' = [''dependencies'', ''azure-iot-amqp-base'']"
  "js_split ''.'' ''devDependencies.azure-iothub'' = [''devDependencies'', ''azure-iothub'']"
  "js_split ''.'' ''dependencies.azure-iothub'' = [''dependencies'', ''azure-iothub'']"
  by code_simp+

lemma package_apart: "list_all (\<lambda>(f, pvs). all_apart (map fst pvs)) packages"
  unfolding packages_node by (simp add: packages_of_def node_defs all_apart_def apart_def property_splits)

definition name_paths :: "(string \<times> string) list" where
  "name_paths = [
     (''azure-iot-common'', ''node.common''),
     (''azure-iot-amqp-base'', ''node.amqp-base''),
     (''azure-iot-http-base'', ''node.http-base''),
     (''azure-iot-device'', ''node.device''),
     (''azure-iot-device-amqp'', ''node.device-amqp''),
     (''azure-iot-device-http'', ''node.device-http''),
     (''azure-iot-device-mqtt'', ''node.device-mqtt''),
     (''azure-iothub'', ''node.service'')]"

lemma named_versions: "map (\<lambda>(f, name). (name, version_path f)) package_names = map (\<lambda>(name, v). (name, Some v)) name_paths"
  unfolding version_path_def packages_node by (simp add: packages_of_def node_defs package_names_def name_paths_def)

lemma named_references: "list_all (\<lambda>(g, pvs). list_all (\<lambda>(p, v). list_all (\<lambda>(name, w). refers name p \<longrightarrow> v = w) name_paths) pvs) packages"
  unfolding packages_node by (simp add: packages_of_def node_defs refers_def property_splits name_paths_def)

section \<open>The run\<close>

text \<open>A package description is ready when it parses and has the objects that hold the properties to set.\<close>

definition package_ready :: "bump_env \<Rightarrow> files \<Rightarrow> string \<times> (string \<times> string) list \<Rightarrow> bool" where
  "package_ready env fs pk \<longleftrightarrow> (\<exists>data obj. fs (fst pk) = Some data \<and> be_json env data = Some obj \<and> json_value obj
     \<and> list_all (\<lambda>(p, v). holds_path obj (js_split ''.'' p)) (snd pk))"

definition property_of :: "bump_env \<Rightarrow> files \<Rightarrow> string \<Rightarrow> string \<Rightarrow> jsval option" where
  "property_of env fs f p = (case fs f of None \<Rightarrow> None | Some data \<Rightarrow> (case be_json env data of
       None \<Rightarrow> None | Some obj \<Rightarrow> (case getValue obj p of Inl e \<Rightarrow> None | Inr v \<Rightarrow> Some v)))"

lemma package_succeeds:
  assumes "fs path = Some data" and "be_json env data = Some obj" and "json_value obj"
    and "\<And>v. json_value v \<Longrightarrow> be_json env (be_stringify env v) = Some v" and "all_apart (map fst pvs)"
    and "list_all (\<lambda>(p, v). v \<noteq> [] \<and> getValue (be_versions env) v = Inr (JStr (vs v))) pvs"
    and "list_all (\<lambda>(p, v). holds_path obj (js_split ''.'' p)) pvs"
  shows "\<exists>fs'. multiTask env path (map json_task pvs) fs = (fs', Succeeded)"
  using assms
proof (induction pvs arbitrary: fs data obj)
  case (Cons pv pvs)
  obtain p v where pv: "pv = (p, v)" by (cases pv)
  obtain obj1 where obj1: "set_path obj (js_split ''.'' p) (JStr (vs v)) = Inr obj1"
    using set_path_holds Cons.prems(7) pv by fastforce
  then have run: "runTask env (Some path) (json_task (p, v)) fs = (fs(path \<mapsto> be_stringify env obj1), Succeeded)"
    using Cons.prems(1,2,6) pv
    by (simp add: json_task_def replace_value_def single_task_def jsonReplaceTask_def edit_file_def setValue_def)
  have js: "json_value obj1" using set_path_json [OF obj1 Cons.prems(3)] json_str by blast
  have "list_all (\<lambda>(q, w). apart (js_split ''.'' p) (js_split ''.'' q)) pvs"
    using Cons.prems(5) pv unfolding all_apart_def list_all_iff by force
  then have "list_all (\<lambda>(q, w). holds_path obj1 (js_split ''.'' q)) pvs"
    using Cons.prems(7) set_path_keeps_holds [OF obj1] unfolding list_all_iff by fastforce
  moreover have "all_apart (map fst pvs)" using Cons.prems(5) by (simp add: all_apart_def)
  moreover have "list_all (\<lambda>(p, v). v \<noteq> [] \<and> getValue (be_versions env) v = Inr (JStr (vs v))) pvs"
    using Cons.prems(6) by simp
  ultimately obtain fs' where "multiTask env path (map json_task pvs) (fs(path \<mapsto> be_stringify env obj1)) = (fs', Succeeded)"
    using Cons.IH [of "fs(path \<mapsto> be_stringify env obj1)", OF fun_upd_same Cons.prems(4) [OF js] js Cons.prems(4)] by blast
  with run pv show ?case by simp
qed simp

lemma package_task_runs:
  assumes "t \<in> set bump_inputs" and "package_parts t \<noteq> []"
  shows "runTask env None t fs = multiTask env (task_file t) (map json_task (package_parts t)) fs"
proof -
  have "t \<in> set (node_inputs_1 @ node_inputs_2 @ node_inputs_3)"
    using assms no_packages unfolding bump_inputs_def packages_of_def by (auto simp: filter_empty_conv)
  with package_shapes assms(2) consider "t = multi (task_file t) (map json_task (package_parts t))"
    | p v where "package_parts t = [(p, v)]" "t = Task ''jsonReplaceTask'' (task_file t) (Pattern p) (VersionPath v) JUndef"
    unfolding list_all_iff by blast
  then show ?thesis
  proof cases
    case 1
    have "runTask env None (multi f ts) fs = multiTask env f ts fs" for f ts by (simp add: multi_def replace_value_def)
    then show ?thesis using arg_cong [OF 1, of "\<lambda>u. runTask env None u fs"] by (rule trans [rotated])
  next
    case 2
    have "runTask env None (Task ''jsonReplaceTask'' f (Pattern p) (VersionPath v) JUndef) fs = multiTask env f [json_task (p, v)] fs" for f
      by (auto simp: json_task_def split: prod.split task_end.split sum.split)
    from arg_cong [OF 2(2), of "\<lambda>u. runTask env None u fs"] this show ?thesis unfolding 2(1) list.map by (rule trans)
  qed
qed

lemma other_task_plain:
  assumes "t \<in> set bump_inputs" and "package_parts t = []"
  shows "plain_task versions_json t"
proof (cases "t \<in> set (node_inputs_1 @ node_inputs_2 @ node_inputs_3)")
  case True
  with other_node_tasks assms(2) show ?thesis unfolding list_all_iff by blast
next
  case False
  with assms(1) plain_table show ?thesis unfolding bump_inputs_def list_all_iff by auto
qed

lemma package_of_task: "t \<in> set bump_inputs \<Longrightarrow> package_parts t \<noteq> [] \<Longrightarrow> (task_file t, package_parts t) \<in> set packages"
  by (auto simp: packages_def packages_of_def)

lemma package_after_run:
  assumes env: "be_versions env = versions_json" and json: "\<And>v. json_value v \<Longrightarrow> be_json env (be_stringify env v) = Some v"
    and ready: "package_ready env fs (task_file t, package_parts t)" and t: "t \<in> set bump_inputs" "package_parts t \<noteq> []"
  shows "\<exists>fs'. runTask env None t fs = (fs', Succeeded)
    \<and> list_all (\<lambda>(p, v). property_of env fs' (task_file t) p = Some (JStr (version_text v))) (package_parts t)"
proof -
  obtain data obj where o: "fs (task_file t) = Some data" "be_json env data = Some obj" "json_value obj"
    "list_all (\<lambda>(p, v). holds_path obj (js_split ''.'' p)) (package_parts t)"
    using ready by (auto simp: package_ready_def)
  note pk = package_of_task [OF t]
  have v: "list_all (\<lambda>(p, v). v \<noteq> [] \<and> getValue (be_versions env) v = Inr (JStr (version_text v))) (package_parts t)"
    and a: "all_apart (map fst (package_parts t))"
    using package_versions package_apart pk env unfolding list_all_iff by auto
  obtain fs' where fs': "multiTask env (task_file t) (map json_task (package_parts t)) fs = (fs', Succeeded)"
    using package_succeeds [of fs "task_file t" data env obj "package_parts t" version_text, OF o(1-3) json a v o(4)] by blast
  with json_file_bumped [of env "task_file t" "package_parts t" fs fs' data obj version_text, OF fs' o(1-3) json a v]
    package_task_runs [OF t] show ?thesis
    by (auto simp: property_of_def list_all_iff split_beta)
qed

lemma bump_main_prefix:
  assumes "\<And>pre t post fs1. ts = pre @ t # post \<Longrightarrow> (task_file t \<notin> task_file ` set pre \<Longrightarrow> fs1 (task_file t) = fs (task_file t))
      \<Longrightarrow> \<forall>e. snd (runTask env None t fs1) \<noteq> Crashed e"
  shows "ts = pre @ post \<Longrightarrow> \<exists>fs'. bump_main env pre fs = (fs', None)"
proof (induction pre arbitrary: post rule: rev_induct)
  case (snoc t pre)
  then obtain fs1 where fs1: "bump_main env pre fs = (fs1, None)" by (metis append.assoc)
  have "\<forall>e. snd (runTask env None t fs1) \<noteq> Crashed e"
    using assms [of pre t post fs1] snoc.prems bump_main_frame [of "task_file t" pre env fs] fs1 by simp
  with fs1 show ?case
    unfolding bump_main_append by (cases "runTask env None t fs1") (auto split: task_end.splits)
qed simp

lemma bump_release_ends:
  assumes env: "be_versions env = versions_json" and json: "\<And>v. json_value v \<Longrightarrow> be_json env (be_stringify env v) = Some v"
    and xml: "\<And>b n d s x. returns (be_xml env b n d s x)" and ready: "list_all (package_ready env fs) packages"
  shows "\<exists>fs'. bump_main env bump_inputs fs = (fs', None)"
proof (rule bump_main_prefix [of bump_inputs fs env bump_inputs "[]"])
  fix pre t post fs1
  assume ts: "bump_inputs = pre @ t # post" and same: "task_file t \<notin> task_file ` set pre \<Longrightarrow> fs1 (task_file t) = fs (task_file t)"
  have t: "t \<in> set bump_inputs" unfolding ts by simp
  show "\<forall>e. snd (runTask env None t fs1) \<noteq> Crashed e"
  proof (cases "package_parts t = []")
    case True
    with plain_no_crash(1) [OF xml env other_task_plain [OF t]] show ?thesis by blast
  next
    case False
    have "filter (\<lambda>u. task_file u = task_file t) pre = []"
      using package_task_alone [OF t False] unfolding ts by (auto simp: append_eq_Cons_conv)
    then have "task_file t \<notin> task_file ` set pre" by (auto simp: filter_empty_conv)
    moreover have "package_ready env fs (task_file t, package_parts t)"
      using ready package_of_task [OF t False] by (simp add: list_all_iff)
    ultimately have "package_ready env fs1 (task_file t, package_parts t)" using same by (simp add: package_ready_def)
    with package_after_run [OF env json _ t False] show ?thesis by fastforce
  qed
qed simp

lemma package_after_bump:
  assumes env: "be_versions env = versions_json" and json: "\<And>v. json_value v \<Longrightarrow> be_json env (be_stringify env v) = Some v"
    and ready: "package_ready env fs (f, pvs)" and run: "bump_main env bump_inputs fs = (fs', None)" and pk: "(f, pvs) \<in> set packages"
  shows "list_all (\<lambda>(p, v). property_of env fs' f p = Some (JStr (version_text v))) pvs"
proof -
  obtain t where t: "t \<in> set bump_inputs" "package_parts t \<noteq> []" "f = task_file t" "pvs = package_parts t"
    using pk by (auto simp: packages_def packages_of_def)
  obtain fs1 where fs1: "fs1 f = fs f" "fs' f = fst (runTask env None t fs1) f"
    using bump_main_file [OF run t(1) package_task_alone [OF t(1,2)]] t(3) by auto
  then have "package_ready env fs1 (task_file t, package_parts t)" using ready t(3,4) by (simp add: package_ready_def)
  from package_after_run [OF env json this t(1,2)] fs1(2) t(3,4) show ?thesis
    by (auto simp: property_of_def list_all_iff)
qed

lemma reference_version:
  assumes "(f, name) \<in> set package_names" and "(g, qvs) \<in> set packages" and "(q, w) \<in> set qvs" and "refers name q"
  shows "\<exists>pvs. (f, pvs) \<in> set packages \<and> (''version'', w) \<in> set pvs"
proof -
  have "(name, version_path f) \<in> set (map (\<lambda>(f, name). (name, version_path f)) package_names)" using assms(1) by force
  then obtain v where v: "(name, v) \<in> set name_paths" "version_path f = Some v" unfolding named_versions by auto
  moreover have "w = v" using named_references v(1) assms(2-4) unfolding list_all_iff by fastforce
  ultimately show ?thesis by (auto simp: version_path_def dest!: map_of_SomeD split: option.splits)
qed


definition sample_release :: bump_env where
  "sample_release = sample_bump\<lparr>be_versions := versions_json\<rparr>"

definition empty_package :: jsval where
  "empty_package = JObj [(''version'', JStr []), (''dependencies'', JObj []), (''devDependencies'', JObj [])]"

definition sample_tree :: files where
  "sample_tree = (\<lambda>f. Some (be_stringify sample_release empty_package))"

lemma sample_release_json: "be_json sample_release (be_stringify sample_release v) = Some v"
  using sample_bump_json by (simp add: sample_release_def)

lemma sample_tree_ready: "list_all (package_ready sample_release sample_tree) packages"
proof -
  have "json_value empty_package"
    unfolding empty_package_def by (auto intro!: json_value.intros split: if_splits)
  moreover have "list_all (\<lambda>(f, pvs). list_all (\<lambda>(p, v). holds_path empty_package (js_split ''.'' p)) pvs) packages"
    unfolding packages_node
    by (simp add: packages_of_def node_defs property_splits) (simp add: empty_package_def dget_def)
  ultimately show ?thesis
    by (fastforce simp: package_ready_def list_all_iff sample_tree_def sample_release_json)
qed


end
