(* ===== verification/Sample_Twin.thy ===== *)
theory Sample_Twin
  imports Device_Twin Device_Client
begin

text \<open>
  \<open>node/device/samples/simple_sample_device_twin.js\<close>, the application on top of the twin: four listeners for changes of the desired
  properties, one of which keeps a list of modules from the changes it hears. The listeners run on the events that the twin of
  \<open>Device_Twin\<close> emits; the console is a list of lines.
\<close>

section \<open>The listeners\<close>

record twin_sample =
  sm_modules :: "jsval dict"
  sm_lines :: "string list"

definition console :: "string list \<Rightarrow> twin_sample \<Rightarrow> twin_sample" where
  "console ls s = s\<lparr>sm_lines := sm_lines s @ ls\<rparr>"

text \<open>\<open>Object.keys\<close> with the values of the keys.\<close>

fun js_entries :: "jsval \<Rightarrow> (string \<times> jsval) list res" where
  "js_entries JUndef = throw TypeError ''Cannot convert undefined or null to object''"
| "js_entries JNull = throw TypeError ''Cannot convert undefined or null to object''"
| "js_entries (JObj d) = Inr d"
| "js_entries (JArr vs) = Inr (zip (map show_nat [0..<length vs]) vs)"
| "js_entries (JStr s) = Inr (zip (map show_nat [0..<length s]) (map (\<lambda>c. JStr [c]) s))"
| "js_entries (JBuf s) = Inr (zip (map show_nat [0..<length s]) (map (\<lambda>c. JNum (int (of_char c))) s))"
| "js_entries _ = Inr []"

text \<open>\<open>twin.properties.desired\<close> and a member of it.\<close>

definition desired_member :: "twin \<Rightarrow> string \<Rightarrow> jsval res" where
  "desired_member tw name =
     res_bind (js_member (twin_object tw) ''properties'') (\<lambda>ps. res_bind (js_member ps ''desired'') (\<lambda>d. js_member d name))"

definition onDesired :: "twin_env \<Rightarrow> jsval \<Rightarrow> twin_sample \<Rightarrow> twin_sample" where
  "onDesired env delta s = console [''new desired properties received:'', te_stringify env delta] s"

definition onClimate :: "twin \<Rightarrow> jsval \<Rightarrow> twin_sample \<Rightarrow> twin_sample res" where
  "onClimate tw delta s =
     res_bind (js_member delta ''minTemperature'') (\<lambda>lo.
       if truthy lo \<or> truthy (jget delta ''maxTemperature'') then
         res_bind (desired_member tw ''climate'') (\<lambda>climate.
         res_bind (js_member climate ''minTemperature'') (\<lambda>tmin.
           Inr (console [''updating desired temp:'', ''min temp = '' @ js_string tmin,
                  ''max temp = '' @ js_string (jget climate ''maxTemperature'')] s)))
       else Inr s)"

definition onFan :: "jsval \<Rightarrow> twin_sample \<Rightarrow> twin_sample" where
  "onFan fanOn s = console [''setting fan state to '' @ js_string fanOn] s"

text \<open>\<open>moduleList[key]\<close> as a condition: the list is a plain object and inherits the members of every object.\<close>

definition known_module :: "jsval dict \<Rightarrow> string \<Rightarrow> bool" where
  "known_module ml key \<longleftrightarrow> (if has_key key ml then truthy (dget ml key) else key \<in> set object_prototype)"

definition onModule :: "twin_env \<Rightarrow> twin \<Rightarrow> string \<times> jsval \<Rightarrow> twin_sample \<Rightarrow> twin_sample res" where
  "onModule env tw kv s = (case kv of (key, v) \<Rightarrow>
     if v = JNull \<and> known_module (sm_modules s) key
     then Inr (console [''deleting module '' @ key] (s\<lparr>sm_modules := AList.delete key (sm_modules s)\<rparr>))
     else if truthy v then
       res_bind (desired_member tw ''modules'') (\<lambda>ms.
       res_bind (js_member ms key) (\<lambda>whole.
         Inr ((console [(if known_module (sm_modules s) key then ''updating module '' else ''adding module '') @ key @ '':'',
                        te_stringify env v] s)\<lparr>sm_modules := dset key whole (sm_modules s)\<rparr>)))
     else Inr s)"

fun onModule_all :: "twin_env \<Rightarrow> twin \<Rightarrow> (string \<times> jsval) list \<Rightarrow> twin_sample \<Rightarrow> twin_sample res" where
  "onModule_all env tw [] s = Inr s"
| "onModule_all env tw (kv # kvs) s = res_bind (onModule env tw kv s) (onModule_all env tw kvs)"

definition onModules :: "twin_env \<Rightarrow> twin \<Rightarrow> jsval \<Rightarrow> twin_sample \<Rightarrow> twin_sample res" where
  "onModules env tw delta s = res_bind (js_entries delta) (\<lambda>kvs. onModule_all env tw kvs s)"

section \<open>The application\<close>

text \<open>The event that is listened for in the third place is spelled as in the source.\<close>

definition fan_event :: string where
  "fan_event = ''properties.desired.climate.hvac.sytemControl''"

fun hear :: "twin_env \<Rightarrow> twin \<Rightarrow> twin_effect \<Rightarrow> twin_sample \<Rightarrow> twin_sample res" where
  "hear env tw (TwinEmit ev v) s =
     (if ev = ''properties.desired'' then Inr (onDesired env v s)
      else if ev = ''properties.desired.climate'' then onClimate tw v s
      else if ev = fan_event then Inr (onFan v s)
      else if ev = ''properties.desired.modules'' then onModules env tw v s
      else Inr s)"
| "hear env tw (TwinThrow e) s = Inl e"
| "hear env tw _ s = Inr s"

fun hear_all :: "twin_env \<Rightarrow> twin \<Rightarrow> twin_effect list \<Rightarrow> twin_sample \<Rightarrow> twin_sample res" where
  "hear_all env tw [] s = Inr s"
| "hear_all env tw (e # es) s = res_bind (hear env tw e s) (hear_all env tw es)"

text \<open>
  The callback of \<open>getTwin\<close>: the listeners are added and the state is reported; the events for properties that are set already
  follow on the next tick.
\<close>

definition sample_patch :: jsval where
  "sample_patch = JObj [(''firmwareVersion'', JStr ''1.2.1''),
     (''weather'', JObj [(''temperature'', JNum 72), (''humidity'', JNum 17)])]"

definition sample_events :: "string list" where
  "sample_events = [''properties.desired'', ''properties.desired.climate'', fan_event, ''properties.desired.modules'']"

definition sample_gotTwin :: "twin_env \<Rightarrow> twin \<Rightarrow> nat \<Rightarrow> (twin \<times> twin_sample \<times> twin_effect list) res" where
  "sample_gotTwin env tw done =
     (let (tw1, es) = Twin_updateReportedProperties env tw sample_patch done in
      res_bind (hear_all env tw1 (concat (map (Twin_handleNewListener env tw) sample_events)) \<lparr>sm_modules = [], sm_lines = [''twin created'']\<rparr>)
        (\<lambda>s. Inr (tw1, s, es)))"

text \<open>A patch of the service: the twin merges it, then the listeners hear the events.\<close>

definition sample_post :: "twin_env \<Rightarrow> jsval \<Rightarrow> twin \<times> twin_sample \<Rightarrow> (twin \<times> twin_sample) res" where
  "sample_post env body ts =
     (let (tw, es) = Twin_onServicePost env (fst ts) body in res_bind (hear_all env tw es (snd ts)) (\<lambda>s. Inr (tw, s)))"

fun sample_posts :: "twin_env \<Rightarrow> jsval list \<Rightarrow> twin \<times> twin_sample \<Rightarrow> (twin \<times> twin_sample) res" where
  "sample_posts env [] ts = Inr ts"
| "sample_posts env (b # bs) ts = res_bind (sample_post env b ts) (sample_posts env bs)"

section \<open>What the application relies on\<close>

text \<open>
  The documented behaviour of the packages behind the twin: \<open>_.merge\<close> is recursive and skips undefined members, the walk of \<open>traverse\<close>
  visits every member once and removes the null ones, \<open>_.at\<close> follows a path of names.
\<close>

definition lodash_merges :: "twin_env \<Rightarrow> bool" where
  "lodash_merges env \<longleftrightarrow> (\<forall>d p. \<exists>m. te_merge env (JObj d) (JObj p) = JObj m \<and> (\<forall>k.
     (dget p k = JUndef \<longrightarrow> dget m k = dget d k) \<and> (dget p k = JNull \<longrightarrow> dget m k = JNull)
     \<and> (\<forall>q. dget p k = JObj q \<longrightarrow> dget m k = te_merge env (case dget d k of JObj x \<Rightarrow> JObj x | _ \<Rightarrow> JObj []) (JObj q))))"

definition traverse_prunes :: "twin_env \<Rightarrow> bool" where
  "traverse_prunes env \<longleftrightarrow> te_prune env JUndef = JUndef \<and> (\<forall>v. te_prune env (te_prune env v) = te_prune env v)
     \<and> (\<forall>m. \<exists>m'. te_prune env (JObj m) = JObj m'
          \<and> (\<forall>k. dget m' k = (if dget m k = JNull then JUndef else te_prune env (dget m k))))"

definition plain_name :: "string \<Rightarrow> bool" where
  "plain_name n \<longleftrightarrow> n \<noteq> [] \<and> CHR ''.'' \<notin> set n"

definition traverse_visits :: "twin_env \<Rightarrow> bool" where
  "traverse_visits env \<longleftrightarrow> (\<forall>d n. plain_name n \<longrightarrow>
     filter (\<lambda>p. js_join ''.'' p = n) (te_paths env (JObj d)) = (if has_key n d then [[n]] else []))"

definition lodash_at :: "twin_env \<Rightarrow> bool" where
  "lodash_at env \<longleftrightarrow> (\<forall>v ks. ks \<noteq> [] \<and> list_all plain_name ks \<longrightarrow> te_at env v (js_join ''.'' ks) = foldl jget v ks)"

section \<open>Merging\<close>

fun is_obj :: "jsval \<Rightarrow> bool" where
  "is_obj (JObj d) = True"
| "is_obj _ = False"

lemma is_obj_conv: "is_obj v \<longleftrightarrow> (\<exists>d. v = JObj d)"
  by (cases v) auto

abbreviation obj_or_empty :: "jsval \<Rightarrow> jsval" where
  "obj_or_empty v \<equiv> (case v of JObj x \<Rightarrow> JObj x | _ \<Rightarrow> JObj [])"

lemma merged_member:
  assumes "lodash_merges env" and "traverse_prunes env"
  shows "\<exists>d'. Twin_mergePatch env (JObj d) (JObj p) = JObj d' \<and> (\<forall>k.
     (dget p k = JUndef \<longrightarrow> te_prune env (dget d k) = dget d k \<longrightarrow> dget d k \<noteq> JNull \<longrightarrow> dget d' k = dget d k)
     \<and> (dget p k = JNull \<longrightarrow> dget d' k = JUndef)
     \<and> (\<forall>q. dget p k = JObj q \<longrightarrow> dget d' k = Twin_mergePatch env (obj_or_empty (dget d k)) (JObj q)))"
proof -
  obtain m where m: "te_merge env (JObj d) (JObj p) = JObj m"
    "\<And>k. dget p k = JUndef \<Longrightarrow> dget m k = dget d k" "\<And>k. dget p k = JNull \<Longrightarrow> dget m k = JNull"
    "\<And>k q. dget p k = JObj q \<Longrightarrow> dget m k = te_merge env (obj_or_empty (dget d k)) (JObj q)"
    using assms(1) unfolding lodash_merges_def by blast
  obtain d' where d': "te_prune env (JObj m) = JObj d'" "\<And>k. dget d' k = (if dget m k = JNull then JUndef else te_prune env (dget m k))"
    using assms(2) unfolding traverse_prunes_def by blast
  have obj: "te_merge env (obj_or_empty v) (JObj q) \<noteq> JNull" for v q
    using assms(1) unfolding lodash_merges_def by (cases v) (simp_all, (metis jsval.distinct)+)
  show ?thesis using m d' obj by (intro exI [of _ d']) (auto simp: Twin_mergePatch_def)
qed

lemma merged_is_obj:
  assumes "lodash_merges env" and "traverse_prunes env"
  shows "is_obj (Twin_mergePatch env (obj_or_empty v) (JObj q))"
proof -
  have "is_obj (Twin_mergePatch env (JObj d) (JObj q))" for d using merged_member [OF assms, of d q] by auto
  then show ?thesis by (cases v) simp_all
qed

lemma pruned_again: "traverse_prunes env \<Longrightarrow> te_prune env (Twin_mergePatch env d p) = Twin_mergePatch env d p"
  by (simp add: traverse_prunes_def Twin_mergePatch_def)

lemma pruned_member:
  assumes "traverse_prunes env" and "te_prune env (JObj d) = JObj d"
  shows "te_prune env (dget d k) = dget d k" and "dget d k \<noteq> JNull"
proof -
  obtain d' where "te_prune env (JObj d) = JObj d'" "\<forall>k. dget d' k = (if dget d k = JNull then JUndef else te_prune env (dget d k))"
    using assms(1) unfolding traverse_prunes_def by blast
  then have "dget d k = (if dget d k = JNull then JUndef else te_prune env (dget d k))" using assms(2) by simp
  then show "te_prune env (dget d k) = dget d k" "dget d k \<noteq> JNull" by (metis jsval.distinct)+
qed

section \<open>The list of modules\<close>

definition sound_module :: "jsval \<Rightarrow> bool" where
  "sound_module v \<longleftrightarrow> v = JUndef \<or> is_obj v"

lemma sound_falsy: "sound_module v \<Longrightarrow> falsy v \<Longrightarrow> v = JUndef"
  by (auto simp: sound_module_def is_obj_conv)

lemma dget_delete [simp]: "dget (AList.delete k d) j = (if j = k then JUndef else dget d j)"
  by (simp add: dget_def delete_conv')

lemma onModule_all_result:
  assumes "desired_member tw ''modules'' = Inr (JObj ms)" and "distinct (map fst kvs)" and "list_all (\<lambda>(k, v). v = JNull \<or> sound_module v) kvs"
    and "\<And>k. sound_module (dget (sm_modules s) k)" and "\<And>k. sound_module (dget ms k)"
  shows "\<exists>s'. onModule_all env tw kvs s = Inr s' \<and> (\<forall>k. dget (sm_modules s') k
      = (case map_of kvs k of None \<Rightarrow> dget (sm_modules s) k | Some JNull \<Rightarrow> JUndef | Some JUndef \<Rightarrow> dget (sm_modules s) k | Some v \<Rightarrow> dget ms k))"
  using assms(2-4)
proof (induction kvs arbitrary: s)
  case (Cons kv kvs)
  obtain key v where kv: "kv = (key, v)" by (cases kv)
  have v: "v = JNull \<or> sound_module v" and kvs: "list_all (\<lambda>(k, v). v = JNull \<or> sound_module v) kvs" "distinct (map fst kvs)"
    and key: "key \<notin> fst ` set kvs" using Cons.prems(1,2) by (simp_all add: kv)
  have one: "\<exists>s1. onModule env tw kv s = Inr s1 \<and> (\<forall>k. dget (sm_modules s1) k = (if k \<noteq> key then dget (sm_modules s) k
      else if v = JNull then JUndef else if v = JUndef then dget (sm_modules s) k else dget ms k))"
  proof (cases "v = JNull")
    case True
    have "dget (sm_modules s) key = JUndef" if "\<not> known_module (sm_modules s) key"
      using that sound_falsy [OF Cons.prems(3) [of key]] by (auto simp: known_module_def has_key_def dget_def split: if_splits)
    with True show ?thesis by (auto simp: onModule_def kv console_def)
  next
    case False
    with v assms(1) show ?thesis by (auto simp: onModule_def kv console_def sound_module_def is_obj_conv js_member_def)
  qed
  then obtain s1 where s1: "onModule env tw kv s = Inr s1" "\<And>k. dget (sm_modules s1) k = (if k \<noteq> key then dget (sm_modules s) k
      else if v = JNull then JUndef else if v = JUndef then dget (sm_modules s) k else dget ms k)" by blast
  have "sound_module (dget (sm_modules s1) k)" for k using Cons.prems(3) assms(5) by (simp add: s1(2)) (simp add: sound_module_def)
  from Cons.IH [OF kvs(2,1) this] obtain s' where s': "onModule_all env tw kvs s1 = Inr s'" "\<And>k. dget (sm_modules s') k
      = (case map_of kvs k of None \<Rightarrow> dget (sm_modules s1) k | Some JNull \<Rightarrow> JUndef | Some JUndef \<Rightarrow> dget (sm_modules s1) k | Some v \<Rightarrow> dget ms k)"
    by blast
  have "map_of kvs key = None" using key by (simp add: map_of_eq_None_iff)
  then have "dget (sm_modules s') k = (case map_of (kv # kvs) k of None \<Rightarrow> dget (sm_modules s) k | Some JNull \<Rightarrow> JUndef
      | Some JUndef \<Rightarrow> dget (sm_modules s) k | Some v \<Rightarrow> dget ms k)" for k
    by (simp add: s'(2) s1(2) kv split: option.split jsval.split)
  with s1(1) s'(1) show ?case by auto
qed simp

section \<open>The events of a patch\<close>

fun is_modules :: "twin_effect \<Rightarrow> bool" where
  "is_modules (TwinEmit ev v) \<longleftrightarrow> ev = ''properties.desired.modules''"
| "is_modules _ \<longleftrightarrow> False"

definition calm :: "twin_env \<Rightarrow> twin \<Rightarrow> twin_effect \<Rightarrow> bool" where
  "calm env tw e \<longleftrightarrow> (\<forall>s. \<exists>s'. hear env tw e s = Inr s' \<and> sm_modules s' = sm_modules s)"

lemma hear_all_append: "hear_all env tw (es @ fs) s = res_bind (hear_all env tw es s) (hear_all env tw fs)"
proof (induction es arbitrary: s)
  case (Cons e es)
  then show ?case by (cases "hear env tw e s") simp_all
qed simp

lemma hear_all_calm: "\<forall>e\<in>set es. calm env tw e \<Longrightarrow> \<exists>s'. hear_all env tw es s = Inr s' \<and> sm_modules s' = sm_modules s"
proof (induction es arbitrary: s)
  case (Cons e es)
  have "calm env tw e" using Cons.prems by simp
  then obtain s1 where "hear env tw e s = Inr s1" "sm_modules s1 = sm_modules s" unfolding calm_def by blast
  with Cons.IH [of s1] Cons.prems show ?case by auto
qed simp

lemma hear_all_one:
  assumes "filter is_modules es = [e]" and "\<forall>e\<in>set es. \<not> is_modules e \<longrightarrow> calm env tw e"
    and "\<And>s1. sm_modules s1 = sm_modules s \<Longrightarrow> \<exists>s2. hear env tw e s1 = Inr s2 \<and> Q (sm_modules s2)"
  shows "\<exists>s'. hear_all env tw es s = Inr s' \<and> Q (sm_modules s')"
proof -
  obtain xs ys where es: "es = xs @ e # ys" "\<forall>x\<in>set xs. \<not> is_modules x" "filter is_modules ys = []"
    using assms(1) by (auto simp: filter_eq_Cons_iff)
  then have calm: "\<forall>x\<in>set xs. calm env tw x" "\<forall>y\<in>set ys. calm env tw y" using assms(2) by (auto simp: filter_empty_conv)
  obtain s1 where s1: "hear_all env tw xs s = Inr s1" "sm_modules s1 = sm_modules s" using hear_all_calm [OF calm(1)] by blast
  obtain s2 where s2: "hear env tw e s1 = Inr s2" "Q (sm_modules s2)" using assms(3) [OF s1(2)] by blast
  obtain s3 where "hear_all env tw ys s2 = Inr s3" "sm_modules s3 = sm_modules s2" using hear_all_calm [OF calm(2)] by blast
  with s1 s2 show ?thesis by (auto simp: es(1) hear_all_append)
qed

lemma calm_other: "ev \<notin> {''properties.desired.climate'', ''properties.desired.modules''} \<Longrightarrow> calm env tw (TwinEmit ev v)"
  by (simp add: calm_def onDesired_def onFan_def console_def)

lemma calm_climate:
  assumes "v \<noteq> JUndef" and "v \<noteq> JNull" and "is_obj v \<Longrightarrow> \<exists>c. desired_member tw ''climate'' = Inr (JObj c)"
  shows "calm env tw (TwinEmit ''properties.desired.climate'' v)"
proof (cases v)
  case (JObj d)
  with assms(3) obtain c where "desired_member tw ''climate'' = Inr (JObj c)" by auto
  with JObj show ?thesis by (simp add: calm_def onClimate_def js_member_def console_def)
qed (use assms(1,2) in \<open>simp_all add: calm_def onClimate_def js_member_def\<close>)

lemma filter_modules_paths:
  "filter is_modules (concat (map (\<lambda>p. let path = js_join ''.'' p in
       if path \<noteq> [] then [TwinEmit (''properties.desired.'' @ path) (f path)] else []) ps))
   = map (\<lambda>p. TwinEmit ''properties.desired.modules'' (f ''modules'')) (filter (\<lambda>p. js_join ''.'' p = ''modules'') ps)"
  by (induction ps) (auto simp: Let_def)

lemma at_plain: "lodash_at env \<Longrightarrow> plain_name n \<Longrightarrow> te_at env v n = jget v n"
  unfolding lodash_at_def by (drule spec [of _ v], drule spec [of _ "[n]"]) simp

lemma plain_names: "plain_name ''modules''" "plain_name ''climate''"
  by (simp_all add: plain_name_def)

lemma fire_modules:
  assumes "traverse_visits env" and "lodash_at env"
  shows "filter is_modules (Twin_fireChangeEvents env (JObj p))
    = (if has_key ''modules'' p then [TwinEmit ''properties.desired.modules'' (dget p ''modules'')] else [])"
proof -
  have "filter (\<lambda>q. js_join ''.'' q = ''modules'') (te_paths env (JObj p)) = (if has_key ''modules'' p then [[''modules'']] else [])"
    using assms(1) plain_names(1) unfolding traverse_visits_def by blast
  then show ?thesis
    using at_plain [OF assms(2) plain_names(1), of "JObj p"] by (simp add: Twin_fireChangeEvents_def filter_modules_paths)
qed

lemma fire_climate:
  assumes "traverse_visits env" and "lodash_at env" and "TwinEmit ''properties.desired.climate'' v \<in> set (Twin_fireChangeEvents env (JObj p))"
  shows "has_key ''climate'' p \<and> v = dget p ''climate''"
proof -
  obtain q where q: "q \<in> set (te_paths env (JObj p))" "js_join ''.'' q = ''climate''" "v = te_at env (JObj p) ''climate''"
    using assms(3) by (auto simp: Twin_fireChangeEvents_def Let_def split: if_splits)
  moreover have "filter (\<lambda>q. js_join ''.'' q = ''climate'') (te_paths env (JObj p)) = (if has_key ''climate'' p then [[''climate'']] else [])"
    using assms(1) plain_names(2) unfolding traverse_visits_def by blast
  ultimately have "has_key ''climate'' p" by (auto simp: filter_empty_conv split: if_splits)
  with q(3) at_plain [OF assms(2) plain_names(2), of "JObj p"] show ?thesis by simp
qed

lemma fire_only_emits: "e \<in> set (Twin_fireChangeEvents env d) \<Longrightarrow> \<exists>ev v. e = TwinEmit ev v"
  by (auto simp: Twin_fireChangeEvents_def Let_def split: if_splits)

section \<open>The list follows the twin\<close>

text \<open>A patch whose modules, when there are any, are objects or null, and that does not delete the climate as a whole.\<close>

definition module_patch :: "jsval dict \<Rightarrow> bool" where
  "module_patch p \<longleftrightarrow> (has_key ''climate'' p \<longrightarrow> dget p ''climate'' \<notin> {JUndef, JNull})
     \<and> (has_key ''modules'' p \<longrightarrow> (case dget p ''modules'' of
           JObj delta \<Rightarrow> distinct (map fst delta) \<and> list_all (\<lambda>(k, v). v = JNull \<or> is_obj v) delta
         | _ \<Rightarrow> False))"

fun posts_patch :: "twin_env \<Rightarrow> jsval \<Rightarrow> bool" where
  "posts_patch env body = (case te_parse env (ascii_text body) of Some (JObj p) \<Rightarrow> module_patch p | _ \<Rightarrow> False)"

definition desired_modules :: "twin \<Rightarrow> jsval" where
  "desired_modules tw = (case tw_properties tw of Some (reported, desired) \<Rightarrow> jget desired ''modules'' | None \<Rightarrow> JUndef)"

definition lists_modules :: "twin_env \<Rightarrow> twin \<Rightarrow> twin_sample \<Rightarrow> bool" where
  "lists_modules env tw s \<longleftrightarrow> (\<exists>reported d. tw_properties tw = Some (reported, JObj d))
     \<and> te_prune env (desired_modules tw) = desired_modules tw \<and> sound_module (desired_modules tw)
     \<and> (\<forall>k. sound_module (jget (desired_modules tw) k) \<and> dget (sm_modules s) k = jget (desired_modules tw) k)"

lemma desired_member_simp [simp]:
  "tw_properties tw = Some (reported, JObj d) \<Longrightarrow> desired_member tw n = Inr (dget d n)"
  by (simp add: desired_member_def twin_object_def js_member_def)

lemma post_calm:
  assumes "traverse_visits env" and "lodash_at env" and "lodash_merges env" and "traverse_prunes env" and "module_patch p"
    and "tw_properties tw = Some (reported, Twin_mergePatch env (JObj d) (JObj p))"
    and "e \<in> set (Twin_fireChangeEvents env (JObj p))" and "\<not> is_modules e"
  shows "calm env tw e"
proof -
  obtain ev v where e: "e = TwinEmit ev v" using fire_only_emits assms(7) by blast
  show ?thesis
  proof (cases "ev = ''properties.desired.climate''")
    case True
    with fire_climate [OF assms(1,2)] assms(7) e have v: "has_key ''climate'' p" "v = dget p ''climate''" by auto
    obtain d' where d': "Twin_mergePatch env (JObj d) (JObj p) = JObj d'"
      "\<And>q. dget p ''climate'' = JObj q \<Longrightarrow> dget d' ''climate'' = Twin_mergePatch env (obj_or_empty (dget d ''climate'')) (JObj q)"
      using merged_member [OF assms(3,4), of d p] by blast
    have "is_obj (dget d' ''climate'')" if "is_obj v"
      using that d'(2) merged_is_obj [OF assms(3,4)] v(2) by (auto simp: is_obj_conv)
    with v assms(5,6) d'(1) True e show ?thesis
      by (auto simp: module_patch_def is_obj_conv intro!: calm_climate)
  next
    case False
    with assms(8) e show ?thesis by (simp add: calm_other)
  qed
qed

lemma dget_absent: "\<not> has_key k d \<Longrightarrow> dget d k = JUndef"
  by (simp add: has_key_def dget_def)

lemma sound_not_null: "sound_module v \<Longrightarrow> v \<noteq> JNull"
  by (auto simp: sound_module_def)

text \<open>The modules after a patch of modules: what the twin holds, and what the listener makes of its list.\<close>

lemma modules_merged:
  assumes "lodash_merges env" and "traverse_prunes env" and "list_all (\<lambda>(k, v). v = JNull \<or> is_obj v) delta"
    and "te_prune env m = m" and "sound_module m" and "\<And>k. sound_module (jget m k)"
  shows "\<exists>ms. Twin_mergePatch env (obj_or_empty m) (JObj delta) = JObj ms \<and> te_prune env (JObj ms) = JObj ms
    \<and> (\<forall>k. sound_module (dget ms k) \<and> (map_of delta k = None \<longrightarrow> dget ms k = jget m k) \<and> (map_of delta k = Some JNull \<longrightarrow> dget ms k = JUndef))"
proof -
  obtain x where x: "obj_or_empty m = JObj x" "\<And>k. jget m k = dget x k" "\<And>k. te_prune env (dget x k) = dget x k"
    using assms(4,5) pruned_member(1) [OF assms(2)] assms(2) by (auto simp: sound_module_def is_obj_conv traverse_prunes_def)
  have xk: "sound_module (dget x k)" for k using assms(6) x(2) by simp
  obtain ms where ms: "Twin_mergePatch env (JObj x) (JObj delta) = JObj ms" "\<And>k. dget delta k = JUndef \<Longrightarrow> dget ms k = dget x k"
    "\<And>k. dget delta k = JNull \<Longrightarrow> dget ms k = JUndef" "\<And>k q. dget delta k = JObj q \<Longrightarrow> is_obj (dget ms k)"
    using merged_member [OF assms(1,2), of x delta] x(3) sound_not_null [OF xk] merged_is_obj [OF assms(1,2)] by (auto simp del: jsval.case)
  have "map_of delta k = None \<or> map_of delta k = Some JNull \<or> (\<exists>q. map_of delta k = Some (JObj q))" for k
    using assms(3) by (cases "map_of delta k") (auto simp: list_all_iff is_obj_conv dest: map_of_SomeD)
  then have "dget delta k = JUndef \<or> dget delta k = JNull \<or> (\<exists>q. dget delta k = JObj q)" for k
    by (metis dget_def option.case)
  then have "sound_module (dget ms k)" for k using ms(2-4) [of k] xk [of k] by (metis sound_module_def)
  moreover have "te_prune env (JObj ms) = JObj ms" using ms(1) pruned_again [OF assms(2)] by metis
  ultimately show ?thesis using ms(1-3) x(1,2) by (auto simp: dget_def [of delta])
qed

lemma modules_heard:
  assumes "tw_properties tw = Some (reported, JObj d)" and "dget d ''modules'' = JObj ms" and "distinct (map fst delta)"
    and "list_all (\<lambda>(k, v). v = JNull \<or> is_obj v) delta" and "\<And>k. sound_module (dget (sm_modules s) k)"
    and "\<And>k. sound_module (dget ms k) \<and> (map_of delta k = None \<longrightarrow> dget ms k = dget (sm_modules s) k) \<and> (map_of delta k = Some JNull \<longrightarrow> dget ms k = JUndef)"
  shows "\<exists>s'. hear env tw (TwinEmit ''properties.desired.modules'' (JObj delta)) s = Inr s' \<and> (\<forall>k. dget (sm_modules s') k = dget ms k)"
proof -
  have "list_all (\<lambda>(k, v). v = JNull \<or> sound_module v) delta" using assms(4) by (auto simp: list_all_iff sound_module_def)
  then obtain s' where s': "onModule_all env tw delta s = Inr s'" "\<And>k. dget (sm_modules s') k = (case map_of delta k of
      None \<Rightarrow> dget (sm_modules s) k | Some JNull \<Rightarrow> JUndef | Some JUndef \<Rightarrow> dget (sm_modules s) k | Some v \<Rightarrow> dget ms k)"
    using onModule_all_result [of tw ms delta s env] assms by auto
  have "dget (sm_modules s') k = dget ms k" for k
  proof (cases "map_of delta k")
    case None
    then show ?thesis using s'(2) assms(6) [of k] by simp
  next
    case (Some v)
    then have "v = JNull \<or> is_obj v" using assms(4) by (auto simp: list_all_iff dest: map_of_SomeD)
    with Some s'(2) [of k] assms(6) [of k] show ?thesis by (auto simp: is_obj_conv)
  qed
  with s'(1) show ?thesis by (simp add: onModules_def fan_event_def)
qed

lemma post_lists:
  assumes "lodash_merges env" and "traverse_prunes env" and "traverse_visits env" and "lodash_at env"
    and "posts_patch env body" and "lists_modules env tw s"
  shows "\<exists>tw' s'. sample_post env body (tw, s) = Inr (tw', s') \<and> lists_modules env tw' s'"
proof -
  obtain p where p: "te_parse env (ascii_text body) = Some (JObj p)" "module_patch p"
    using assms(5) by (auto split: option.splits jsval.splits)
  obtain reported d where d: "tw_properties tw = Some (reported, JObj d)" using assms(6) by (auto simp: lists_modules_def)
  obtain d' where d': "Twin_mergePatch env (JObj d) (JObj p) = JObj d'" "\<And>k. dget p k = JUndef \<Longrightarrow> te_prune env (dget d k) = dget d k
      \<Longrightarrow> dget d k \<noteq> JNull \<Longrightarrow> dget d' k = dget d k"
    "\<And>k q. dget p k = JObj q \<Longrightarrow> dget d' k = Twin_mergePatch env (obj_or_empty (dget d k)) (JObj q)"
    using merged_member [OF assms(1,2), of d p] by blast
  define tw' where "tw' = tw\<lparr>tw_properties := Some (reported, JObj d')\<rparr>"
  have tw': "tw_properties tw' = Some (reported, JObj d')" "desired_modules tw' = dget d' ''modules''"
    by (simp_all add: tw'_def desired_modules_def)
  have inv: "te_prune env (dget d ''modules'') = dget d ''modules''" "sound_module (dget d ''modules'')"
    "\<And>k. sound_module (jget (dget d ''modules'') k)" "\<And>k. dget (sm_modules s) k = jget (dget d ''modules'') k"
    using assms(6) d by (simp_all add: lists_modules_def desired_modules_def)
  let ?es = "Twin_fireChangeEvents env (JObj p)"
  have post: "sample_post env body (tw, s) = res_bind (hear_all env tw' ?es s) (\<lambda>s. Inr (tw', s))"
    by (simp add: sample_post_def Twin_onServicePost_def p d tw'_def d'(1))
  have calm: "\<forall>e\<in>set ?es. \<not> is_modules e \<longrightarrow> calm env tw' e"
    using post_calm [OF assms(3,4,1,2) p(2), of tw' reported d] tw'(1) d'(1) by simp
  show ?thesis
  proof (cases "has_key ''modules'' p")
    case False
    then have "dget d' ''modules'' = dget d ''modules''" using d'(2) inv(1) sound_not_null [OF inv(2)] dget_absent by blast
    moreover have "\<forall>e\<in>set ?es. calm env tw' e" using calm fire_modules [OF assms(3,4), of p] False by (auto simp: filter_empty_conv)
    then obtain s' where "hear_all env tw' ?es s = Inr s'" "sm_modules s' = sm_modules s" using hear_all_calm by blast
    ultimately show ?thesis using post inv tw' by (auto simp: lists_modules_def)
  next
    case True
    then obtain delta where delta: "dget p ''modules'' = JObj delta" "distinct (map fst delta)" "list_all (\<lambda>(k, v). v = JNull \<or> is_obj v) delta"
      using p(2) by (auto simp: module_patch_def split: jsval.splits)
    obtain ms where ms: "dget d' ''modules'' = JObj ms" "te_prune env (JObj ms) = JObj ms" "\<And>k. sound_module (dget ms k)
        \<and> (map_of delta k = None \<longrightarrow> dget ms k = jget (dget d ''modules'') k) \<and> (map_of delta k = Some JNull \<longrightarrow> dget ms k = JUndef)"
      using modules_merged [OF assms(1,2) delta(3) inv(1-3)] d'(3) [OF delta(1)] by auto
    have hears: "\<exists>s2. hear env tw' (TwinEmit ''properties.desired.modules'' (dget p ''modules'')) s1 = Inr s2
        \<and> (\<forall>k. dget (sm_modules s2) k = dget ms k)" if "sm_modules s1 = sm_modules s" for s1
      using modules_heard [OF tw'(1) ms(1) delta(2,3), of s1 env] that inv(3,4) ms(3) delta(1) by simp
    have "filter is_modules ?es = [TwinEmit ''properties.desired.modules'' (dget p ''modules'')]"
      using fire_modules [OF assms(3,4), of p] True by simp
    from hear_all_one [OF this calm hears] obtain s' where
      "hear_all env tw' ?es s = Inr s'" "\<forall>k. dget (sm_modules s') k = dget ms k" by blast
    then show ?thesis using post tw' ms by (auto simp: lists_modules_def sound_module_def)
  qed
qed

section \<open>Properties\<close>

text \<open>A twin as \<open>getTwin\<close> hands it over: without null members, and with objects as modules.\<close>

definition object_modules :: "jsval \<Rightarrow> bool" where
  "object_modules v \<longleftrightarrow> (case v of
       JUndef \<Rightarrow> True | JObj ms \<Rightarrow> distinct (map fst ms) \<and> list_all (\<lambda>(k, v). is_obj v) ms | _ \<Rightarrow> False)"

definition twin_with_modules :: "twin_env \<Rightarrow> twin \<Rightarrow> bool" where
  "twin_with_modules env tw \<longleftrightarrow> (case tw_properties tw of
       Some (reported, desired) \<Rightarrow> is_obj desired \<and> te_prune env desired = desired \<and> object_modules (jget desired ''modules'')
     | None \<Rightarrow> False)"

lemma at_path: "lodash_at env \<Longrightarrow> ks \<noteq> [] \<Longrightarrow> list_all plain_name ks \<Longrightarrow> te_at env v (js_join ''.'' ks) = foldl jget v ks"
  by (simp add: lodash_at_def)

lemma at_desired:
  assumes "lodash_at env" and "tw_properties tw = Some (reported, JObj d)" and "plain_name n"
  shows "te_at env (twin_object tw) (''properties.desired.'' @ n) = dget d n"
  using at_path [OF assms(1), of "[''properties'', ''desired'', n]" "twin_object tw"] assms(2,3)
  by (simp add: plain_name_def twin_object_def)

lemma listeners_added:
  assumes "lodash_at env" and "tw_properties tw = Some (reported, JObj d)"
  shows "filter is_modules (concat (map (Twin_handleNewListener env tw) sample_events))
      = (if truthy (dget d ''modules'') then [TwinEmit ''properties.desired.modules'' (dget d ''modules'')] else [])"
    and "\<forall>e\<in>set (concat (map (Twin_handleNewListener env tw) sample_events)). \<not> is_modules e \<longrightarrow>
      (\<exists>ev v. e = TwinEmit ev v \<and> (ev = ''properties.desired.climate'' \<longrightarrow> truthy v \<and> v = dget d ''climate''))"
  using at_desired [OF assms plain_names(1)] at_desired [OF assms plain_names(2)]
  by (auto simp: sample_events_def Twin_handleNewListener_def fan_event_def Let_def)

lemma start_calm:
  assumes "lodash_at env" and "tw_properties tw = Some (reported, JObj d)" and "tw_properties tw' = Some (reported, JObj d)"
    and "e \<in> set (concat (map (Twin_handleNewListener env tw) sample_events))" and "\<not> is_modules e"
  shows "calm env tw' e"
proof -
  obtain ev v where ev: "e = TwinEmit ev v" "ev = ''properties.desired.climate'' \<longrightarrow> truthy v \<and> v = dget d ''climate''"
    using listeners_added(2) [OF assms(1,2)] assms(4,5) by blast
  show ?thesis
  proof (cases "ev = ''properties.desired.climate''")
    case True
    with ev have v: "truthy v" "v = dget d ''climate''" by auto
    have "calm env tw' (TwinEmit ''properties.desired.climate'' v)"
      by (rule calm_climate) (use v assms(3) in \<open>auto simp: is_obj_conv\<close>)
    with True ev(1) show ?thesis by simp
  next
    case False
    with ev(1) assms(5) show ?thesis by (simp add: calm_other)
  qed
qed

lemma start_lists:
  assumes "traverse_prunes env" and "lodash_at env" and "tw_receiver tw" and "twin_with_modules env tw"
  shows "\<exists>tw' s' es. sample_gotTwin env tw n = Inr (tw', s', es) \<and> lists_modules env tw' s'"
proof -
  obtain reported d where d: "tw_properties tw = Some (reported, JObj d)" "te_prune env (JObj d) = JObj d"
    using assms(4) by (auto simp: twin_with_modules_def is_obj_conv split: option.splits)
  define tw' where "tw' = fst (Twin_updateReportedProperties env tw sample_patch n)"
  have tw': "tw_properties tw' = Some (reported, JObj d)"
    using assms(3) d by (simp add: tw'_def Twin_updateReportedProperties_def Twin_sendTwinRequest_def)
  let ?es = "concat (map (Twin_handleNewListener env tw) sample_events)" and ?s = "\<lparr>sm_modules = [], sm_lines = [''twin created'']\<rparr>"
  have got: "sample_gotTwin env tw n = res_bind (hear_all env tw' ?es ?s)
      (\<lambda>s. Inr (tw', s, snd (Twin_updateReportedProperties env tw sample_patch n)))"
    by (simp add: sample_gotTwin_def tw'_def case_prod_beta)
  have calm: "\<forall>e\<in>set ?es. \<not> is_modules e \<longrightarrow> calm env tw' e" using start_calm [OF assms(2) d(1) tw'] by blast
  have pruned: "te_prune env (dget d ''modules'') = dget d ''modules''" using pruned_member(1) [OF assms(1) d(2)] .
  consider (none) "dget d ''modules'' = JUndef"
    | (some) ms where "dget d ''modules'' = JObj ms" "distinct (map fst ms)" "list_all (\<lambda>(k, v). is_obj v) ms"
    using assms(4) d(1) by (auto simp: twin_with_modules_def object_modules_def split: jsval.splits)
  then show ?thesis
  proof cases
    case none
    then have "\<forall>e\<in>set ?es. calm env tw' e"
      using calm listeners_added(1) [OF assms(2) d(1)] by (simp add: filter_empty_conv)
    from hear_all_calm [OF this, of ?s] obtain s' where "hear_all env tw' ?es ?s = Inr s'" "sm_modules s' = []" by auto
    with got tw' none pruned show ?thesis by (auto simp: lists_modules_def desired_modules_def sound_module_def)
  next
    case some
    have obj: "is_obj v" if "map_of ms k = Some v" for k v using map_of_SomeD [OF that] some(3) by (auto simp: list_all_iff)
    have ms: "sound_module (dget ms k) \<and> (map_of ms k = None \<longrightarrow> dget ms k = JUndef) \<and> map_of ms k \<noteq> Some JNull" for k
      using obj [of k] by (cases "map_of ms k") (auto simp: dget_def sound_module_def)
    have "list_all (\<lambda>(k, v). v = JNull \<or> is_obj v) ms" using some(3) by (auto simp: list_all_iff)
    then have hears: "\<exists>s2. hear env tw' (TwinEmit ''properties.desired.modules'' (JObj ms)) s1 = Inr s2 \<and> (\<forall>k. dget (sm_modules s2) k = dget ms k)"
      if "sm_modules s1 = sm_modules ?s" for s1
      using modules_heard [OF tw' some(1,2), of s1 env] that ms by (simp add: sound_module_def)
    have "filter is_modules ?es = [TwinEmit ''properties.desired.modules'' (JObj ms)]"
      using listeners_added(1) [OF assms(2) d(1)] some(1) by simp
    from hear_all_one [OF this calm hears] obtain s' where "hear_all env tw' ?es ?s = Inr s'" "\<forall>k. dget (sm_modules s') k = dget ms k" by blast
    with got tw' some(1) pruned ms show ?thesis by (auto simp: lists_modules_def desired_modules_def sound_module_def)
  qed
qed

lemma posts_list:
  assumes "lodash_merges env" and "traverse_prunes env" and "traverse_visits env" and "lodash_at env"
    and "list_all (posts_patch env) bodies" and "lists_modules env tw s"
  shows "\<exists>tw' s'. sample_posts env bodies (tw, s) = Inr (tw', s') \<and> lists_modules env tw' s'"
  using assms(5,6)
proof (induction bodies arbitrary: tw s)
  case (Cons b bs)
  then obtain tw1 s1 where "sample_post env b (tw, s) = Inr (tw1, s1)" "lists_modules env tw1 s1"
    using post_lists [OF assms(1-4), of b tw s] by (auto simp del: posts_patch.simps)
  with Cons.IH [of tw1 s1] Cons.prems(1) show ?case by simp
qed auto


text \<open>A reference implementation of the packages, for which the assumptions hold.\<close>

fun deep_merge :: "jsval \<Rightarrow> jsval \<Rightarrow> jsval"
  and merge_fields :: "jsval dict \<Rightarrow> jsval dict \<Rightarrow> jsval dict" where
  "deep_merge dest (JObj p) = JObj (merge_fields (case dest of JObj x \<Rightarrow> x | _ \<Rightarrow> []) p)"
| "deep_merge dest v = (if v = JUndef then dest else v)"
| "merge_fields d [] = d"
| "merge_fields d ((k, v) # p) = dset k (deep_merge (dget d k) v) (merge_fields d p)"

fun deep_prune :: "jsval \<Rightarrow> jsval"
  and prune_fields :: "jsval dict \<Rightarrow> jsval dict" where
  "deep_prune (JObj d) = JObj (prune_fields d)"
| "deep_prune v = v"
| "prune_fields [] = []"
| "prune_fields ((k, v) # d) = (k, if v = JNull then JUndef else deep_prune v) # prune_fields d"

fun top_paths :: "jsval \<Rightarrow> string list list" where
  "top_paths (JObj d) = map (\<lambda>k. [k]) (remdups (map fst d))"
| "top_paths _ = []"

definition reference_env :: "jsval \<Rightarrow> twin_env" where
  "reference_env patch = \<lparr>te_parse = (\<lambda>_. Some patch), te_stringify = js_string, te_merge = deep_merge, te_prune = deep_prune,
     te_paths = top_paths, te_at = (\<lambda>v path. foldl jget v (js_split ''.'' path))\<rparr>"

lemma dget_merge_fields: "dget (merge_fields d p) k = (case map_of p k of None \<Rightarrow> dget d k | Some v \<Rightarrow> deep_merge (dget d k) v)"
  by (induction p) auto

lemma reference_merges: "lodash_merges (reference_env patch)"
  unfolding lodash_merges_def
proof (intro allI)
  fix d p
  show "\<exists>m. te_merge (reference_env patch) (JObj d) (JObj p) = JObj m \<and> (\<forall>k.
     (dget p k = JUndef \<longrightarrow> dget m k = dget d k) \<and> (dget p k = JNull \<longrightarrow> dget m k = JNull)
     \<and> (\<forall>q. dget p k = JObj q \<longrightarrow> dget m k = te_merge (reference_env patch) (obj_or_empty (dget d k)) (JObj q)))"
    by (intro exI [of _ "merge_fields d p"] conjI allI)
      (auto simp: reference_env_def dget_merge_fields dget_def [of p] split: option.splits jsval.splits)
qed

lemma deep_prune_null: "deep_prune v = JNull \<longleftrightarrow> v = JNull"
  by (cases v) simp_all

lemma deep_prune_idem: "deep_prune (deep_prune v) = deep_prune v" "prune_fields (prune_fields d) = prune_fields d"
  by (induction v and d rule: deep_prune_prune_fields.induct) (auto simp: deep_prune_null)

lemma dget_prune_fields: "dget (prune_fields d) k = (if dget d k = JNull then JUndef else deep_prune (dget d k))"
proof (induction d)
  case (Cons kv d)
  then show ?case by (cases kv) simp
qed simp

lemma reference_prunes: "traverse_prunes (reference_env patch)"
  by (auto simp: traverse_prunes_def reference_env_def deep_prune_idem dget_prune_fields)

lemma filter_remdups_eq: "filter (\<lambda>x. x = a) (remdups xs) = (if a \<in> set xs then [a] else [])"
  by (induction xs) auto

lemma reference_visits: "traverse_visits (reference_env patch)"
  by (simp add: traverse_visits_def reference_env_def filter_map comp_def has_key_iff filter_remdups_eq)

lemma reference_at: "lodash_at (reference_env patch)"
  unfolding lodash_at_def
proof (intro allI impI)
  fix v ks assume ks: "ks \<noteq> [] \<and> list_all plain_name ks"
  then have "js_split ''.'' (js_join ''.'' ks) = ks"
    unfolding js_split_single by (intro split_on_join) (auto simp: list_all_iff plain_name_def)
  then show "te_at (reference_env patch) v (js_join ''.'' ks) = foldl jget v ks" by (simp add: reference_env_def)
qed

definition wifi_patch :: jsval where
  "wifi_patch = JObj [(''modules'', JObj [(''wifi'', JObj [(''channel'', JNum 6)]), (''climate'', JNull)])]"

definition wifi_twin :: twin where
  "wifi_twin = Twin\<lparr>tw_receiver := True, tw_properties := Some (JObj [], JObj [(''modules'', JObj [(''climate'', JObj [])])])\<rparr>"


section \<open>What the application does not survive\<close>

text \<open>The service deletes the modules as a whole: the twin is updated, but the listener throws on the null it is given.\<close>

lemma modules_deleted_throws:
  "hear env tw (TwinEmit ''properties.desired.modules'' JNull) s = throw TypeError ''Cannot convert undefined or null to object''"
  by (simp add: onModules_def fan_event_def)

text \<open>A module that is replaced by zero, an empty text or false stays in the list with its old value.\<close>

lemma falsy_module_stays: "v \<noteq> JNull \<Longrightarrow> falsy v \<Longrightarrow> onModule env tw (key, v) s = Inr s"
  by (simp add: onModule_def)

end
