(* ===== verification/Sample_Firmware.thy ===== *)
theory Sample_Firmware
  imports Common_Core
begin

text \<open>
  \<open>node/device/samples/dmpatterns_fwupdate_device.js\<close>: a device that updates its firmware when its method \<open>firmwareUpdate\<close> is called, and
  tells the hub of every phase through the reported properties of its twin.

  A function that ends by calling its callback is a function from the state to the new state and the calls it makes, in
  the order of time. The package \<open>async\<close> is the argument \<open>wfall\<close> (its \<open>waterfall\<close>); the answers of the hub and the clock are
  functions of the number of reports made before.
\<close>

section \<open>State and tasks\<close>

datatype report_answer = Reported | TwinFails js_error | UpdateFails js_error

record fw =
  fw_asked :: nat
  fw_patches :: "jsval list"
  fw_lines :: "string list"

datatype fw_call = Call "js_error option" "jsval list" | Throws js_error

text \<open>A task of a waterfall gets the arguments that come before its callback.\<close>

type_synonym task = "jsval list \<Rightarrow> fw \<Rightarrow> fw \<times> fw_call list"
type_synonym waterfall = "task list \<Rightarrow> fw \<Rightarrow> fw \<times> fw_call list"

record fw_env =
  fe_answer :: "nat \<Rightarrow> report_answer"
  fe_now :: "nat \<Rightarrow> string"
  fe_stringify :: "jsval \<Rightarrow> string"

definition fw_log :: "string \<Rightarrow> fw \<Rightarrow> fw" where
  "fw_log l w = w\<lparr>fw_lines := fw_lines w @ [l]\<rparr>"

definition fw_patch :: "jsval \<Rightarrow> jsval" where
  "fw_patch v = JObj [(''iothubDM'', JObj [(''firmwareUpdate'', v)])]"

definition reportFWUpdateThroughTwin :: "fw_env \<Rightarrow> jsval \<Rightarrow> fw \<Rightarrow> fw \<times> fw_call list" where
  "reportFWUpdateThroughTwin env v w =
     (let w1 = (fw_log (fe_stringify env (fw_patch v)) w)\<lparr>fw_asked := Suc (fw_asked w)\<rparr> in
      case fe_answer env (fw_asked w) of
        TwinFails e \<Rightarrow> (w1, [Call (Some e) []])
      | UpdateFails e \<Rightarrow> (w1\<lparr>fw_patches := fw_patches w1 @ [fw_patch v]\<rparr>, [Call (Some e) []])
      | Reported \<Rightarrow> (w1\<lparr>fw_patches := fw_patches w1 @ [fw_patch v]\<rparr>, [Call None []]))"

definition fw_phase :: "string \<Rightarrow> string \<Rightarrow> fw_env \<Rightarrow> task" where
  "fw_phase status time env args w = reportFWUpdateThroughTwin env (JObj [(''status'', JStr status), (time, JStr (fe_now env (fw_asked w)))]) w"

text \<open>The simulated work: a line, and a timer that calls back.\<close>

definition fw_work :: "string \<Rightarrow> task" where
  "fw_work line args w = (fw_log line w, [Call None []])"

text \<open>The callback of a waterfall runs for each of its calls.\<close>

fun on_calls :: "(js_error option \<Rightarrow> fw \<Rightarrow> fw \<times> fw_call list) \<Rightarrow> fw_call list \<Rightarrow> fw \<Rightarrow> fw \<times> fw_call list" where
  "on_calls f [] w = (w, [])"
| "on_calls f (Throws e # cs) w = (w, [Throws e])"
| "on_calls f (Call err args # cs) w = (let (w1, c1) = f err w; (w2, c2) = on_calls f cs w1 in (w2, c1 @ c2))"

section \<open>The phases\<close>

text \<open>The error that the failure report ends with hides the one that caused it.\<close>

definition downloadImage :: "waterfall \<Rightarrow> fw_env \<Rightarrow> string \<Rightarrow> fw \<Rightarrow> fw \<times> fw_call list" where
  "downloadImage wfall env uri w =
     (let (w1, calls) = wfall [fw_phase ''downloading'' ''startedDownloadingTime'' env, fw_work (''Downloading image from URI: '' @ uri),
            fw_phase ''download complete'' ''downloadCompleteTime'' env] w in
      on_calls (\<lambda>err w. if err \<noteq> None then reportFWUpdateThroughTwin env (JObj [(''status'', JStr ''Download image failed'')]) w
                      else (w, [Call None [JStr ''[Fake firmware image data]'']])) calls w1)"

text \<open>
  \<open>applyImage(imageData, callback)\<close>: called with its callback alone, it takes that for the image and has none. After a failure
  it calls back at once, and again when the failure report ends.
\<close>

definition apply_callback :: "jsval list \<Rightarrow> js_error option \<Rightarrow> fw_call list" where
  "apply_callback args err = (if args = [] then [Throws (mk_error TypeError ''callback is not a function'')] else [Call err []])"

definition apply_finished :: "fw_env \<Rightarrow> jsval list \<Rightarrow> js_error option \<Rightarrow> fw \<Rightarrow> fw \<times> fw_call list" where
  "apply_finished env args err w =
     (if err \<noteq> None then
        (let (w1, calls) = reportFWUpdateThroughTwin env (JObj [(''status'', JStr ''Apply image failed'')]) w;
             (w2, later) = on_calls (\<lambda>err w. (w, apply_callback args err)) calls w1
         in (w2, apply_callback args None @ later))
      else (w, apply_callback args None))"

definition applyImage :: "waterfall \<Rightarrow> fw_env \<Rightarrow> task" where
  "applyImage wfall env args w =
     (let (w1, calls) = wfall [fw_phase ''applying'' ''startedApplyingImage'' env, fw_work ''Applying firmware image'',
            fw_phase ''apply firmware image complete'' ''lastFirmwareUpdate'' env] w in
      on_calls (apply_finished env args) calls w1)"

definition initiateFirmwareUpdateFlow :: "waterfall \<Rightarrow> fw_env \<Rightarrow> string \<Rightarrow> fw \<Rightarrow> fw \<times> fw_call list" where
  "initiateFirmwareUpdateFlow wfall env uri w =
     (let (w1, calls) = wfall [\<lambda>args. downloadImage wfall env uri, applyImage wfall env] w in
      on_calls (\<lambda>err w. ((case err of Some e \<Rightarrow> fw_log (''Error : '' @ err_message e) w | None \<Rightarrow> w), [Call err []])) calls w1)"

section \<open>The method\<close>

text \<open>\<open>url.parse(uri).protocol\<close>: the letters, digits, dots, plus and minus signs before the first colon, in lower case.\<close>

definition scheme_char :: "char \<Rightarrow> bool" where
  "scheme_char c \<longleftrightarrow> is_alnum c \<or> c \<in> set ''.+-''"

definition url_protocol :: "string \<Rightarrow> jsval" where
  "url_protocol uri = (let s = takeWhile scheme_char (js_trim uri); rest = dropWhile scheme_char (js_trim uri) in
     if s \<noteq> [] \<and> prefix '':'' rest then JStr (to_lower s @ '':'') else JNull)"

definition onFirmwareUpdate :: "waterfall \<Rightarrow> fw_env \<Rightarrow> jsval \<Rightarrow> fw \<Rightarrow> ((int \<times> string) \<times> fw \<times> fw_call list) res" where
  "onFirmwareUpdate wfall env payload w =
     res_bind (js_member payload ''fwPackageUri'') (\<lambda>v. case v of
       JStr uri \<Rightarrow>
         if url_protocol uri \<noteq> JStr ''https:'' then Inr ((400, ''Invalid URL format.  Must use https:// protocol.''), w, [])
         else (let (w1, calls) = initiateFirmwareUpdateFlow wfall env uri w;
                   (w2, _) = on_calls (\<lambda>err w. (if err = None then fw_log ''Completed firmwareUpdate flow'' w else w, [])) calls w1
               in Inr ((200, ''Firmware update started.''), w2, calls))
     | _ \<Rightarrow> throw TypeError ''Parameter url must be a string'')"

section \<open>The service\<close>

text \<open>
  \<open>node/service/samples/dmpatterns_fwupdate_service.js\<close>, and \<open>dmpatterns_reboot_service.js\<close> with another last line: the method is invoked, then
  the reported properties are shown. The answers of the service are arguments; the state is used for its lines.
\<close>

definition invokeMethod :: "(jsval \<Rightarrow> string) \<Rightarrow> js_error + jsval \<Rightarrow> task" where
  "invokeMethod stringify out args w = (case out of
       Inl e \<Rightarrow> (fw_log (stringify JUndef) w, [Call (Some e) []])
     | Inr result \<Rightarrow> (fw_log (stringify result) w, [Call None []]))"

definition displayStatus :: "js_error + jsval \<Rightarrow> task" where
  "displayStatus out args w = (case out of
       Inl e \<Rightarrow> (w, [Call (Some e) []])
     | Inr twin \<Rightarrow>
         (case res_bind (js_member twin ''properties'') (\<lambda>ps. js_member ps ''reported'') of
            Inl e \<Rightarrow> (w, [Throws e])
          | Inr reported \<Rightarrow> (fw_log (js_string reported) w, [Call None []])))"

definition service_flow :: "waterfall \<Rightarrow> (jsval \<Rightarrow> string) \<Rightarrow> string \<Rightarrow> js_error + jsval \<Rightarrow> js_error + jsval \<Rightarrow> fw \<Rightarrow> fw" where
  "service_flow wfall stringify complete methodOut twinOut w =
     (let (w1, calls) = wfall [invokeMethod stringify methodOut, displayStatus twinOut] w in
      fst (on_calls (\<lambda>err w. (fw_log (case err of Some e \<Rightarrow> err_message e | None \<Rightarrow> complete) w, [])) calls w1))"

section \<open>What the device relies on\<close>

text \<open>
  The documented behaviour of \<open>waterfall\<close>, for tasks that call back once: the results of a task are the arguments of the next, an
  error ends the series at once, and the callback gets the result of the last task. An exception is not caught.
\<close>

definition waterfall_ok :: "waterfall \<Rightarrow> bool" where
  "waterfall_ok wfall \<longleftrightarrow> (\<forall>t w w' err args. t [] w = (w', [Call err args]) \<longrightarrow> wfall [t] w = (w', [Call err args]))
     \<and> (\<forall>t t2 ts w w' args. t [] w = (w', [Call None args]) \<longrightarrow> wfall (t # t2 # ts) w = wfall ((\<lambda>_. t2 args) # ts) w')
     \<and> (\<forall>t ts w w' e args. t [] w = (w', [Call (Some e) args]) \<longrightarrow> wfall (t # ts) w = (w', [Call (Some e) args]))
     \<and> (\<forall>t ts w w' e. t [] w = (w', [Throws e]) \<longrightarrow> wfall (t # ts) w = (w', [Throws e]))"

lemma waterfall_simps:
  assumes "waterfall_ok wfall"
  shows "t [] w = (w', [Call err args]) \<Longrightarrow> wfall [t] w = (w', [Call err args])"
    and "t [] w = (w', [Call None args]) \<Longrightarrow> wfall (t # t2 # ts) w = wfall ((\<lambda>_. t2 args) # ts) w'"
    and "t [] w = (w', [Call (Some e) args]) \<Longrightarrow> wfall (t # ts) w = (w', [Call (Some e) args])"
    and "t [] w = (w', [Throws ex]) \<Longrightarrow> wfall (t # ts) w = (w', [Throws ex])"
proof -
  note c = assms [unfolded waterfall_ok_def]
  note r = c [THEN conjunct1, rule_format] c [THEN conjunct2, THEN conjunct1, rule_format]
    c [THEN conjunct2, THEN conjunct2, THEN conjunct1, rule_format] c [THEN conjunct2, THEN conjunct2, THEN conjunct2, rule_format]
  show "t [] w = (w', [Call err args]) \<Longrightarrow> wfall [t] w = (w', [Call err args])" by (rule r(1))
  show "t [] w = (w', [Call None args]) \<Longrightarrow> wfall (t # t2 # ts) w = wfall ((\<lambda>_. t2 args) # ts) w'" by (rule r(2))
  show "t [] w = (w', [Call (Some e) args]) \<Longrightarrow> wfall (t # ts) w = (w', [Call (Some e) args])" by (rule r(3))
  show "t [] w = (w', [Throws ex]) \<Longrightarrow> wfall (t # ts) w = (w', [Throws ex])" by (rule r(4))
qed

text \<open>A report of a status as the hub gets it, and what a report leaves.\<close>

definition phase_patch :: "fw_env \<Rightarrow> string \<Rightarrow> string \<Rightarrow> nat \<Rightarrow> jsval" where
  "phase_patch env status time n = fw_patch (JObj [(''status'', JStr status), (time, JStr (fe_now env n))])"

definition fw_reported :: "fw_env \<Rightarrow> jsval \<Rightarrow> fw \<Rightarrow> fw" where
  "fw_reported env p w = w\<lparr>fw_asked := Suc (fw_asked w), fw_patches := fw_patches w @ [p], fw_lines := fw_lines w @ [fe_stringify env p]\<rparr>"

lemma phase_reported:
  "fe_answer env (fw_asked w) = Reported \<Longrightarrow>
     fw_phase status time env args w = (fw_reported env (phase_patch env status time (fw_asked w)) w, [Call None []])"
  by (simp add: fw_phase_def reportFWUpdateThroughTwin_def phase_patch_def fw_reported_def fw_log_def Let_def)

text \<open>A waterfall of a report, some work and another report, when both reports are accepted.\<close>

definition phase_done :: "fw_env \<Rightarrow> string \<Rightarrow> string \<Rightarrow> string \<Rightarrow> string \<Rightarrow> string \<Rightarrow> fw \<Rightarrow> fw" where
  "phase_done env s1 t1 line s2 t2 w =
     fw_reported env (phase_patch env s2 t2 (Suc (fw_asked w))) (fw_log line (fw_reported env (phase_patch env s1 t1 (fw_asked w)) w))"

lemma phase_waterfall:
  assumes "waterfall_ok wfall" and "fe_answer env (fw_asked w) = Reported" and "fe_answer env (Suc (fw_asked w)) = Reported"
  shows "wfall [fw_phase s1 t1 env, fw_work line, fw_phase s2 t2 env] w = (phase_done env s1 t1 line s2 t2 w, [Call None []])"
proof -
  let ?w1 = "fw_reported env (phase_patch env s1 t1 (fw_asked w)) w"
  have "wfall [fw_phase s1 t1 env, fw_work line, fw_phase s2 t2 env] w = wfall [\<lambda>_. fw_work line [], fw_phase s2 t2 env] ?w1"
    by (rule waterfall_simps(2) [OF assms(1)]) (simp add: phase_reported assms(2))
  also have "\<dots> = wfall [\<lambda>_. fw_phase s2 t2 env []] (fw_log line ?w1)"
    by (rule waterfall_simps(2) [OF assms(1)]) (simp add: fw_work_def)
  also have "\<dots> = (phase_done env s1 t1 line s2 t2 w, [Call None []])"
    by (rule waterfall_simps(1) [OF assms(1)]) (use assms(3) in \<open>simp add: phase_reported phase_done_def fw_log_def fw_reported_def\<close>)
  finally show ?thesis .
qed

lemma phase_waterfall_fails:
  assumes "waterfall_ok wfall" and "fe_answer env (fw_asked w) = UpdateFails e"
  shows "wfall (fw_phase s1 t1 env # ts) w = (fw_reported env (phase_patch env s1 t1 (fw_asked w)) w, [Call (Some e) []])"
  by (rule waterfall_simps(3) [OF assms(1)])
    (simp add: fw_phase_def reportFWUpdateThroughTwin_def phase_patch_def fw_reported_def fw_log_def assms(2) Let_def)

section \<open>Properties\<close>

text \<open>C38: the firmware update. When the method is called with a package address that is not \<open>https\<close>, the answer is 400 and nothing is
  reported or updated. Otherwise the answer is 200 and, when the hub accepts every report, exactly four patches are
  reported in this order (downloading, download complete, applying, apply complete), each with its time under its own name,
  the image is downloaded from the given address before it is applied, and the callback of the flow runs exactly once, without
  an error.\<close>

theorem firmware_update_reports:
  assumes "waterfall_ok wfall" and "\<And>n. fe_answer env n = Reported" and "jget payload ''fwPackageUri'' = JStr uri" and "fw_asked w = 0"
  shows "let p1 = phase_patch env ''downloading'' ''startedDownloadingTime'' 0; p2 = phase_patch env ''download complete'' ''downloadCompleteTime'' 1;
      p3 = phase_patch env ''applying'' ''startedApplyingImage'' 2; p4 = phase_patch env ''apply firmware image complete'' ''lastFirmwareUpdate'' 3 in
    if url_protocol uri \<noteq> JStr ''https:''
    then onFirmwareUpdate wfall env payload w = Inr ((400, ''Invalid URL format.  Must use https:// protocol.''), w, [])
    else \<exists>w'. onFirmwareUpdate wfall env payload w = Inr ((200, ''Firmware update started.''), w', [Call None []])
       \<and> fw_patches w' = fw_patches w @ [p1, p2, p3, p4]
       \<and> fw_lines w' = fw_lines w @ [fe_stringify env p1, ''Downloading image from URI: '' @ uri, fe_stringify env p2,
            fe_stringify env p3, ''Applying firmware image'', fe_stringify env p4, ''Completed firmwareUpdate flow'']"
proof -
  have member: "js_member payload ''fwPackageUri'' = Inr (JStr uri)" using assms(3) by (cases payload) (simp_all add: js_member_def)
  let ?w1 = "phase_done env ''downloading'' ''startedDownloadingTime'' (''Downloading image from URI: '' @ uri) ''download complete'' ''downloadCompleteTime'' w"
  let ?w2 = "phase_done env ''applying'' ''startedApplyingImage'' ''Applying firmware image'' ''apply firmware image complete'' ''lastFirmwareUpdate'' ?w1"
  have w1: "downloadImage wfall env uri w = (?w1, [Call None [JStr ''[Fake firmware image data]'']])"
    using phase_waterfall [where w = w, OF assms(1,2,2)] by (simp add: downloadImage_def)
  have w2: "applyImage wfall env [JStr ''[Fake firmware image data]''] ?w1 = (?w2, [Call None []])"
    using phase_waterfall [where w = ?w1, OF assms(1,2,2)] by (simp add: applyImage_def apply_finished_def apply_callback_def)
  have "wfall [\<lambda>args. downloadImage wfall env uri, applyImage wfall env] w
      = wfall [\<lambda>_. applyImage wfall env [JStr ''[Fake firmware image data]'']] ?w1"
    by (rule waterfall_simps(2) [OF assms(1)]) (rule w1)
  also have "\<dots> = (?w2, [Call None []])" by (rule waterfall_simps(1) [OF assms(1)]) (rule w2)
  finally have "initiateFirmwareUpdateFlow wfall env uri w = (?w2, [Call None []])" by (simp add: initiateFirmwareUpdateFlow_def)
  then show ?thesis using assms(4)
    by (simp add: onFirmwareUpdate_def member fw_log_def phase_done_def fw_reported_def Let_def eval_nat_numeral)
qed

text \<open>A reference waterfall, for which the assumptions hold.\<close>

fun run_waterfall :: "jsval list \<Rightarrow> waterfall" where
  "run_waterfall args [] w = (w, [Call None args])"
| "run_waterfall args (t # ts) w = (case t args w of
       (w', [Call None xs]) \<Rightarrow> run_waterfall xs ts w'
     | (w', cs) \<Rightarrow> (w', cs))"

lemma run_waterfall_args: "run_waterfall [] ((\<lambda>_. t args) # ts) w = run_waterfall args (t # ts) w"
  by simp

lemma run_waterfall_ok: "waterfall_ok (run_waterfall [])"
  unfolding waterfall_ok_def
proof (intro conjI allI impI)
  fix t :: task and w w' err args assume "t [] w = (w', [Call err args])"
  then show "run_waterfall [] [t] w = (w', [Call err args])" by (cases err) simp_all
qed simp_all

definition firmware_env :: fw_env where
  "firmware_env = \<lparr>fe_answer = \<lambda>_. Reported, fe_now = show_nat, fe_stringify = js_string\<rparr>"

theorem firmware_update_reports_witness:
  "\<exists>w'. onFirmwareUpdate (run_waterfall []) firmware_env (JObj [(''fwPackageUri'', JStr ''https://f'')]) \<lparr>fw_asked = 0, fw_patches = [], fw_lines = []\<rparr>
      = Inr ((200, ''Firmware update started.''), w', [Call None []]) \<and> length (fw_patches w') = 4"
proof -
  have "url_protocol ''https://f'' = JStr ''https:''"
    by (simp add: url_protocol_def js_trim_def is_space_def scheme_char_def is_alnum_def to_lower_def lower_char_def)
  with firmware_update_reports [of "run_waterfall []" firmware_env "JObj [(''fwPackageUri'', JStr ''https://f'')]" "''https://f''"
      "\<lparr>fw_asked = 0, fw_patches = [], fw_lines = []\<rparr>", OF run_waterfall_ok]
  show ?thesis by (auto simp: firmware_env_def Let_def)
qed

section \<open>What goes wrong\<close>

text \<open>A download whose first report the hub refuses, while it accepts the report of the failure: the image is applied all the same, and
  the flow ends in an exception because \<open>applyImage\<close> is called without an image.\<close>

lemma failed_download_is_applied:
  assumes "waterfall_ok wfall" and "fe_answer env 0 = UpdateFails e" and "\<And>n. 0 < n \<Longrightarrow> fe_answer env n = Reported" and "fw_asked w = 0"
  shows "\<exists>w'. initiateFirmwareUpdateFlow wfall env uri w = (w', [Throws (mk_error TypeError ''callback is not a function'')])
    \<and> phase_patch env ''apply firmware image complete'' ''lastFirmwareUpdate'' 3 \<in> set (fw_patches w')"
proof -
  have "\<exists>w1. downloadImage wfall env uri w = (w1, [Call None []]) \<and> fw_asked w1 = 2"
    using phase_waterfall_fails [where w = w and env = env and e = e, OF assms(1)] assms(2-4)
    by (simp add: downloadImage_def reportFWUpdateThroughTwin_def fw_reported_def fw_log_def Let_def)
  then obtain w1 where w1: "downloadImage wfall env uri w = (w1, [Call None []])" "fw_asked w1 = 2" by blast
  let ?w2 = "phase_done env ''applying'' ''startedApplyingImage'' ''Applying firmware image'' ''apply firmware image complete'' ''lastFirmwareUpdate'' w1"
  have w2: "applyImage wfall env [] w1 = (?w2, [Throws (mk_error TypeError ''callback is not a function'')])"
    using phase_waterfall [where w = w1 and env = env, OF assms(1)] assms(3) w1(2)
    by (simp add: applyImage_def apply_finished_def apply_callback_def)
  have "wfall [\<lambda>args. downloadImage wfall env uri, applyImage wfall env] w = wfall [\<lambda>_. applyImage wfall env []] w1"
    by (rule waterfall_simps(2) [OF assms(1)]) (rule w1(1))
  also have "\<dots> = (?w2, [Throws (mk_error TypeError ''callback is not a function'')])" by (rule waterfall_simps(4) [OF assms(1)]) (rule w2)
  finally show ?thesis using w1(2) by (simp add: initiateFirmwareUpdateFlow_def phase_done_def fw_reported_def eval_nat_numeral)
qed

text \<open>A failure while the image is applied calls the callback of \<open>applyImage\<close> twice: first without an error.\<close>

lemma failed_apply_calls_twice:
  assumes "waterfall_ok wfall" and "fe_answer env (fw_asked w) = UpdateFails e" and "fe_answer env (Suc (fw_asked w)) = Reported"
  shows "snd (applyImage wfall env [img] w) = [Call None [], Call None []]"
  using phase_waterfall_fails [OF assms(1,2)] assms(3)
  by (simp add: applyImage_def apply_finished_def apply_callback_def reportFWUpdateThroughTwin_def fw_reported_def fw_log_def Let_def)

text \<open>The service sample announces completion once the twin was read, whatever the device answered (a refused update included) and
  whatever its twin reports.\<close>

lemma service_announces_completion:
  assumes "waterfall_ok wfall"
  shows "last (fw_lines (service_flow wfall stringify complete (Inr result) (Inr (JObj [(''properties'', JObj [(''reported'', reported)])])) w)) = complete"
proof -
  let ?twin = "JObj [(''properties'', JObj [(''reported'', reported)])]" and ?w1 = "fw_log (stringify result) w"
  have "wfall [invokeMethod stringify (Inr result), displayStatus (Inr ?twin)] w = wfall [\<lambda>_. displayStatus (Inr ?twin) []] ?w1"
    by (rule waterfall_simps(2) [OF assms]) (simp add: invokeMethod_def)
  also have "\<dots> = (fw_log (js_string reported) ?w1, [Call None []])"
    by (rule waterfall_simps(1) [OF assms]) (simp add: displayStatus_def js_member_def)
  finally show ?thesis by (simp add: service_flow_def fw_log_def)
qed

end
