(* ===== verification/Sample_Devices.thy ===== *)
theory Sample_Devices
  imports Device_Client
begin

text \<open>
  Sample applications of a device (\<open>node/device/samples\<close>): the connection loop that \<open>simple_sample_device.js\<close> shares with its variants
  for a token and for a certificate, the command handler of \<open>remote_monitoring.js\<close> and the methods of \<open>device_methods.js\<close>.
\<close>

section \<open>The connection loop\<close>

text \<open>
  Each successful call of \<open>connectCallback\<close> starts an interval timer, numbered in order, and adds a listener for messages, errors
  and disconnections; the listener for disconnections knows the timer of its own call. \<open>sd_opening\<close> counts the calls of \<open>open\<close>
  that have not called back.
\<close>

record sample_device =
  sd_opening :: nat
  sd_timers :: "nat list"
  sd_next :: nat
  sd_messages :: nat
  sd_errors :: nat
  sd_disconnects :: "nat list"
  sd_sent :: nat

definition sample_device_start :: sample_device where
  "sample_device_start = \<lparr>sd_opening = 1, sd_timers = [], sd_next = 0, sd_messages = 0, sd_errors = 0, sd_disconnects = [], sd_sent = 0\<rparr>"

definition connectCallback :: "js_error option \<Rightarrow> sample_device \<Rightarrow> sample_device" where
  "connectCallback err s = (case err of
       Some e \<Rightarrow> s
     | None \<Rightarrow> s\<lparr>sd_messages := Suc (sd_messages s), sd_timers := sd_next s # sd_timers s, sd_next := Suc (sd_next s),
                sd_errors := Suc (sd_errors s), sd_disconnects := sd_disconnects s @ [sd_next s]\<rparr>)"

text \<open>The listener for disconnections: \<open>clearInterval\<close>, \<open>removeAllListeners\<close>, \<open>open\<close>.\<close>

definition onDisconnect :: "nat \<Rightarrow> sample_device \<Rightarrow> sample_device" where
  "onDisconnect timer s = s\<lparr>sd_timers := removeAll timer (sd_timers s), sd_messages := 0, sd_errors := 0, sd_disconnects := [],
     sd_opening := Suc (sd_opening s)\<rparr>"

definition onTimer :: "sample_device \<Rightarrow> sample_device" where
  "onTimer s = s\<lparr>sd_sent := Suc (sd_sent s)\<rparr>"

datatype sample_event = Opened "js_error option" | Disconnect | Timer nat

text \<open>An event runs every listener that is attached when it is emitted.\<close>

inductive sample_runs :: "sample_device \<Rightarrow> sample_event list \<Rightarrow> sample_device \<Rightarrow> bool" for s where
  sample_refl: "sample_runs s [] s"
| sample_opened: "sample_runs s es s1 \<Longrightarrow> 0 < sd_opening s1 \<Longrightarrow>
    sample_runs s (es @ [Opened err]) (connectCallback err (s1\<lparr>sd_opening := sd_opening s1 - 1\<rparr>))"
| sample_disconnect: "sample_runs s es s1 \<Longrightarrow> sample_runs s (es @ [Disconnect]) (foldl (\<lambda>s t. onDisconnect t s) s1 (sd_disconnects s1))"
| sample_timer: "sample_runs s es s1 \<Longrightarrow> t \<in> set (sd_timers s1) \<Longrightarrow> sample_runs s (es @ [Timer t]) (onTimer s1)"

definition one_sender :: "sample_device \<Rightarrow> bool" where
  "one_sender s \<longleftrightarrow> sd_disconnects s = sd_timers s \<and> length (sd_timers s) + sd_opening s \<le> 1
     \<and> sd_messages s = length (sd_timers s) \<and> sd_errors s = length (sd_timers s)"

lemma short_list: "length xs + n \<le> 1 \<Longrightarrow> xs = [] \<or> (\<exists>x. xs = [x] \<and> n = 0)"
  by (cases xs) auto

lemma one_sender_opening: "one_sender s \<Longrightarrow> 0 < sd_opening s \<Longrightarrow> sd_timers s = [] \<and> sd_opening s = 1"
  by (cases "sd_timers s") (auto simp: one_sender_def)

text \<open>However often the connection is lost and opened again, at most one timer sends messages, every attached listener belongs to the
  connection of that timer, and no listener is attached twice.\<close>

lemma sample_single_sender:
  assumes "sample_runs sample_device_start es s"
  shows "one_sender s"
  using assms
proof induction
  case sample_refl
  show ?case by (simp add: one_sender_def sample_device_start_def)
next
  case (sample_opened es s1 err)
  note one_sender_opening [OF sample_opened.IH sample_opened.hyps(2)]
  with sample_opened.IH show ?case by (simp add: one_sender_def connectCallback_def split: option.split)
next
  case (sample_disconnect es s1)
  from sample_disconnect.IH show ?case
    using short_list [of "sd_timers s1" "sd_opening s1"] by (auto simp: one_sender_def onDisconnect_def)
next
  case (sample_timer es s1 t)
  then show ?case by (simp add: one_sender_def onTimer_def)
qed

text \<open>A connection that cannot be opened again is given up: nothing happens any more.\<close>

lemma sample_gives_up:
  assumes "sample_runs sample_device_start es s" and "0 < sd_opening s"
  shows "let s' = connectCallback (Some e) (s\<lparr>sd_opening := sd_opening s - 1\<rparr>) in
    sd_opening s' = 0 \<and> sd_timers s' = [] \<and> sd_disconnects s' = []"
proof -
  note one = sample_single_sender [OF assms(1)]
  from one_sender_opening [OF one assms(2)] one show ?thesis by (simp add: one_sender_def connectCallback_def)
qed

section \<open>Remote monitoring\<close>

text \<open>
  The listener for messages: a body that is no JSON, or a command without the parameters it needs, throws inside the \<open>try\<close> and is
  rejected. The state is the temperature to report.
\<close>

definition command_temperature :: "(string \<Rightarrow> jsval option) \<Rightarrow> jsval \<Rightarrow> jsval \<Rightarrow> jsval res" where
  "command_temperature json temperature data = (case json (js_string data) of
       None \<Rightarrow> throw SyntaxError ''Unexpected token''
     | Some command \<Rightarrow>
         res_bind (js_member command ''Name'') (\<lambda>name.
           if name = JStr ''SetTemperature''
           then js_member (jget command ''Parameters'') ''Temperature''
           else Inr temperature))"

definition remote_onMessage :: "(string \<Rightarrow> jsval option) \<Rightarrow> jsval \<Rightarrow> message \<Rightarrow> jsval \<times> input" where
  "remote_onMessage json temperature msg = (case command_temperature json temperature (Message_getData msg) of
       Inr t \<Rightarrow> (t, IComplete msg (UserCb 0))
     | Inl e \<Rightarrow> (temperature, IReject msg (UserCb 1)))"

text \<open>Every message is settled exactly once: it is completed when it is a command, also one of another name, and rejected otherwise,
  which leaves the temperature as it was; a \<open>SetTemperature\<close> with parameters sets it.\<close>

lemma remote_settles:
  "remote_onMessage json t msg = (case json (js_string (msg_data msg)) of
      Some (JObj command) \<Rightarrow>
        if dget command ''Name'' \<noteq> JStr ''SetTemperature'' then (t, IComplete msg (UserCb 0))
        else if dget command ''Parameters'' \<in> {JUndef, JNull} then (t, IReject msg (UserCb 1))
        else (jget (dget command ''Parameters'') ''Temperature'', IComplete msg (UserCb 0))
    | Some JUndef \<Rightarrow> (t, IReject msg (UserCb 1)) | Some JNull \<Rightarrow> (t, IReject msg (UserCb 1)) | None \<Rightarrow> (t, IReject msg (UserCb 1))
    | Some v \<Rightarrow> (t, IComplete msg (UserCb 0)))"
  by (auto simp: remote_onMessage_def command_temperature_def Message_getData_def js_member_def split: option.split jsval.split)

text \<open>A \<open>SetTemperature\<close> without a number of degrees is completed, and the temperature to report is lost.\<close>

lemma remote_loses_temperature:
  "json (js_string (msg_data msg)) = Some (JObj [(''Name'', JStr ''SetTemperature''), (''Parameters'', JObj [])]) \<Longrightarrow>
     remote_onMessage json t msg = (JUndef, IComplete msg (UserCb 0))"
  by (simp add: remote_settles)

section \<open>Device methods\<close>

text \<open>\<open>onConnect\<close> of \<open>device_methods.js\<close>: the second handler is named by a function that does not exist.\<close>

definition methods_onConnect :: "js_error option \<Rightarrow> client \<Rightarrow> client \<times> effect list \<times> js_error option" where
  "methods_onConnect err c = (case err of
       Some e \<Rightarrow> (c, [], None)
     | None \<Rightarrow> (case Client_onDeviceMethod c (JStr ''getDeviceLog'') (JFun 0) of
           Inl e \<Rightarrow> (c, [], Some e)
         | Inr (c1, es) \<Rightarrow> (c1, es, Some (mk_error ReferenceError ''onLockDoor is not defined''))))"

lemma lockDoor_never_registered:
  assumes "\<not> has_key ''lockDoor'' (cl_methods c)"
  shows "snd (snd (methods_onConnect None c)) \<noteq> None \<and> \<not> has_key ''lockDoor'' (cl_methods (fst (methods_onConnect err c)))"
  using assms
  by (auto simp: methods_onConnect_def Client_onDeviceMethod_def res_bind_Inr_iff validateDeviceMethodInputs_def object_prototype_def
      client_connectReceiver_def Let_def split: sum.splits if_splits option.splits)

end
