(* ===== verification/Sample_Jobs.thy ===== *)
theory Sample_Jobs
  imports Common_Message
begin

text \<open>
  The samples that follow a job of the service by polling: \<open>monitorJob\<close> of \<open>node/service/samples/schedule_job.js\<close> and the
  import of \<open>node/service/samples/registry_bulk_sample.js\<close>. A tick of the interval timer asks for the job; the answers arrive at any
  later time, in any order, so several may be under way.
\<close>

section \<open>Polling\<close>

record job_poll =
  jp_interval :: bool
  jp_asked :: nat
  jp_results :: "jsval list"
  jp_lines :: "string list"

definition poll_start :: job_poll where
  "poll_start = \<lparr>jp_interval = True, jp_asked = 0, jp_results = [], jp_lines = []\<rparr>"

definition poll_tick :: "job_poll \<Rightarrow> job_poll" where
  "poll_tick s = s\<lparr>jp_asked := Suc (jp_asked s)\<rparr>"

definition poll_line :: "string \<Rightarrow> job_poll \<Rightarrow> job_poll" where
  "poll_line l s = s\<lparr>jp_lines := jp_lines s @ [l]\<rparr>"

text \<open>The callback of \<open>getJob\<close> in \<open>monitorJob\<close>.\<close>

definition job_over :: "jsval \<Rightarrow> bool" where
  "job_over status \<longleftrightarrow> status \<in> {JStr ''completed'', JStr ''failed'', JStr ''cancelled''}"

definition monitor_answer :: "string \<Rightarrow> js_error + jsval \<Rightarrow> job_poll \<Rightarrow> job_poll" where
  "monitor_answer jobId out s = (let s = s\<lparr>jp_asked := jp_asked s - 1\<rparr> in case out of
       Inl err \<Rightarrow> poll_line (''Could not get job status: '' @ err_message err) s
     | Inr result \<Rightarrow>
         (let s1 = poll_line (''Job: '' @ jobId @ '' - status: '' @ js_string (jget result ''status'')) s in
          if job_over (jget result ''status'') then s1\<lparr>jp_interval := False, jp_results := jp_results s1 @ [result]\<rparr> else s1))"

definition crlf :: string where
  "crlf = [CHR 0x0D, CHR 0x0A]"

definition rule_line :: string where
  "rule_line = ''--------------'' @ crlf"

text \<open>The one of the bulk sample: only a completed job ends it, and there is no callback.\<close>

definition import_answer :: "string \<Rightarrow> js_error + jsval \<Rightarrow> job_poll \<Rightarrow> job_poll" where
  "import_answer jobId out s = (let s = s\<lparr>jp_asked := jp_asked s - 1\<rparr> in case out of
       Inl err \<Rightarrow> poll_line (''Could not get job status: '' @ err_message err @ '' : '' @ js_string (dget (err_props err) ''responseBody'')) s
     | Inr result \<Rightarrow>
         (let s1 = poll_line (rule_line @ ''job '' @ jobId @ '' status:'' @ crlf @ rule_line @ js_string result) s in
          if jget result ''status'' = JStr ''completed'' then s1\<lparr>jp_interval := False\<rparr> else s1))"

datatype poll_event = Tick | Answer "js_error + jsval"

inductive polls :: "(js_error + jsval \<Rightarrow> job_poll \<Rightarrow> job_poll) \<Rightarrow> job_poll \<Rightarrow> poll_event list \<Rightarrow> job_poll \<Rightarrow> bool" for answer s where
  polls_refl: "polls answer s [] s"
| polls_tick: "polls answer s es s1 \<Longrightarrow> jp_interval s1 \<Longrightarrow> polls answer s (es @ [Tick]) (poll_tick s1)"
| polls_answer: "polls answer s es s1 \<Longrightarrow> 0 < jp_asked s1 \<Longrightarrow> polls answer s (es @ [Answer out]) (answer out s1)"

section \<open>Properties\<close>

text \<open>Ticks and answers alternate when every answer comes before the next tick.\<close>

fun alternates :: "bool \<Rightarrow> poll_event list \<Rightarrow> bool" where
  "alternates b [] = True"
| "alternates b (Tick # es) \<longleftrightarrow> \<not> b \<and> alternates True es"
| "alternates b (Answer out # es) \<longleftrightarrow> b \<and> alternates False es"

fun asked_after :: "bool \<Rightarrow> poll_event list \<Rightarrow> bool" where
  "asked_after b [] = b"
| "asked_after b (Tick # es) = asked_after True es"
| "asked_after b (Answer out # es) = asked_after False es"

lemma alternates_append: "alternates b (es @ fs) \<longleftrightarrow> alternates b es \<and> alternates (asked_after b es) fs"
  by (induction b es rule: alternates.induct) auto

lemma asked_after_append: "asked_after b (es @ fs) = asked_after (asked_after b es) fs"
  by (induction b es rule: asked_after.induct) auto

lemma monitor_run:
  assumes "polls (monitor_answer jobId) poll_start es s"
  shows "(jp_interval s \<longleftrightarrow> jp_results s = []) \<and> list_all (\<lambda>r. job_over (jget r ''status'')) (jp_results s)"
  using assms by induction (auto simp: poll_start_def poll_tick_def monitor_answer_def poll_line_def Let_def split: sum.splits)

lemma monitor_prompt:
  assumes "polls (monitor_answer jobId) poll_start es s" and "alternates False es"
  shows "jp_asked s = (if asked_after False es then 1 else 0) \<and> length (jp_results s) \<le> 1 \<and> (0 < jp_asked s \<longrightarrow> jp_results s = [])"
  using assms
proof induction
  case (polls_tick es s1)
  then show ?case using monitor_run [OF polls_tick.hyps(1)] by (auto simp: poll_tick_def alternates_append asked_after_append)
next
  case (polls_answer es s1 out)
  then show ?case
    by (auto simp: alternates_append asked_after_append monitor_answer_def poll_line_def Let_def split: sum.splits if_splits)
qed (simp add: poll_start_def)

text \<open>The monitor of a job. In every run the callback gets only results of a job that is over, and the timer runs exactly until the
  first of them; when every answer comes before the next tick of the timer, the callback runs at most once; and as long as the timer
  runs, an answer with such a result is enough for the callback.\<close>

lemma monitor_calls_back:
  assumes "polls (monitor_answer jobId) poll_start es s"
  shows "(jp_interval s \<longleftrightarrow> jp_results s = []) \<and> list_all (\<lambda>r. job_over (jget r ''status'')) (jp_results s)"
    and "alternates False es \<Longrightarrow> length (jp_results s) \<le> 1"
    and "jp_interval s \<Longrightarrow> job_over (jget result ''status'') \<Longrightarrow>
      \<exists>s'. polls (monitor_answer jobId) poll_start (es @ [Tick] @ [Answer (Inr result)]) s' \<and> jp_results s' = [result] \<and> \<not> jp_interval s'"
proof -
  show "(jp_interval s \<longleftrightarrow> jp_results s = []) \<and> list_all (\<lambda>r. job_over (jget r ''status'')) (jp_results s)" using monitor_run [OF assms] .
  show "alternates False es \<Longrightarrow> length (jp_results s) \<le> 1" using monitor_prompt [OF assms] by simp
  assume i: "jp_interval s" and r: "job_over (jget result ''status'')"
  have "polls (monitor_answer jobId) poll_start (es @ [Tick] @ [Answer (Inr result)]) (monitor_answer jobId (Inr result) (poll_tick s))"
    using polls_answer [OF polls_tick [OF assms i], of "Inr result"] by (simp add: poll_tick_def)
  moreover have "jp_results s = []" using monitor_run [OF assms] i by simp
  ultimately show "\<exists>s'. polls (monitor_answer jobId) poll_start (es @ [Tick] @ [Answer (Inr result)]) s' \<and> jp_results s' = [result] \<and> \<not> jp_interval s'"
    using r by (intro exI [of _ "monitor_answer jobId (Inr result) (poll_tick s)"])
      (simp add: monitor_answer_def poll_line_def poll_tick_def Let_def)
qed

section \<open>What goes wrong\<close>

text \<open>When two questions are under way as the job ends, the callback runs for both answers.\<close>

lemma slow_answers_call_twice:
  assumes "job_over (jget result ''status'')"
  shows "\<exists>s. polls (monitor_answer jobId) poll_start [Tick, Tick, Answer (Inr result), Answer (Inr result)] s \<and> jp_results s = [result, result]"
proof -
  let ?s = "poll_tick (poll_tick poll_start)" and ?a = "monitor_answer jobId (Inr result)"
  have 1: "polls (monitor_answer jobId) poll_start [Tick] (poll_tick poll_start)"
    using polls_tick [OF polls_refl, of poll_start] by (simp add: poll_start_def)
  have 2: "polls (monitor_answer jobId) poll_start [Tick, Tick] ?s"
    using polls_tick [OF 1] by (simp add: poll_start_def poll_tick_def)
  have 3: "polls (monitor_answer jobId) poll_start [Tick, Tick, Answer (Inr result)] (?a ?s)"
    using polls_answer [OF 2, of "Inr result"] by (simp add: poll_start_def poll_tick_def)
  have "jp_asked (?a ?s) = 1" by (simp add: monitor_answer_def poll_tick_def poll_start_def poll_line_def Let_def)
  with polls_answer [OF 3, of "Inr result"] have "polls (monitor_answer jobId) poll_start [Tick, Tick, Answer (Inr result), Answer (Inr result)] (?a (?a ?s))"
    by simp
  moreover have "jp_results (?a (?a ?s)) = [result, result]"
    using assms by (simp add: monitor_answer_def poll_tick_def poll_start_def poll_line_def Let_def)
  ultimately show ?thesis by blast
qed

text \<open>The import that fails is followed for ever: no answer but a completed job stops the timer.\<close>

fun not_completed :: "poll_event \<Rightarrow> bool" where
  "not_completed (Answer (Inr result)) \<longleftrightarrow> jget result ''status'' \<noteq> JStr ''completed''"
| "not_completed _ \<longleftrightarrow> True"

lemma failed_import_never_ends:
  assumes "polls (import_answer jobId) poll_start es s" and "list_all not_completed es"
  shows "jp_interval s"
  using assms
  by induction (auto simp: poll_start_def poll_tick_def import_answer_def poll_line_def Let_def split: sum.splits)

end
