(* ===== verification/Fix_Crlf.thy ===== *)
theory Fix_Crlf
  imports Common_Core
begin

text \<open>
  \<open>build/docs/fix-crlf.js\<close>: the documentation files that git reports as changed get carriage return and line feed at every line
  end. The output of git and the file system are arguments; the files of one run are independent, so they are handled in turn.
\<close>

section \<open>Line ends\<close>

abbreviation CR :: char where "CR \<equiv> CHR 0x0D"
abbreviation LF :: char where "LF \<equiv> CHR 0x0A"

text \<open>\<open>data.replace(/(?:\r\n|\r|\n)/g, '\r\n')\<close>: at each position the longer alternative is tried first.\<close>

definition skip_lf :: "string \<Rightarrow> string" where
  "skip_lf cs = (case cs of [] \<Rightarrow> [] | d # ds \<Rightarrow> if d = LF then ds else cs)"

lemma skip_lf_length [termination_simp]: "length (skip_lf cs) < Suc (length cs)"
  by (simp add: skip_lf_def split: list.split)

lemma skip_lf_simps [simp]: "skip_lf [] = []" "skip_lf (LF # cs) = cs" "c \<noteq> LF \<Longrightarrow> skip_lf (c # cs) = c # cs"
  by (simp_all add: skip_lf_def)

fun crlf_text :: "string \<Rightarrow> string" where
  "crlf_text [] = []"
| "crlf_text (c # cs) =
     (if c = CR then CR # LF # crlf_text (skip_lf cs)
      else if c = LF then CR # LF # crlf_text cs
      else c # crlf_text cs)"

text \<open>The lines of a text, whatever ends them, and the text with a given line end.\<close>

fun text_lines :: "string \<Rightarrow> string list" where
  "text_lines [] = [[]]"
| "text_lines (c # cs) =
     (if c = CR then [] # text_lines (skip_lf cs)
      else if c = LF then [] # text_lines cs
      else (case text_lines cs of [] \<Rightarrow> [[c]] | l # ls \<Rightarrow> (c # l) # ls))"

lemma text_lines_not_Nil [simp]: "text_lines s \<noteq> []"
  by (cases s) (auto split: list.splits)

lemma text_lines_plain: "\<forall>l\<in>set (text_lines s). CR \<notin> set l \<and> LF \<notin> set l"
proof (induction s rule: text_lines.induct)
  case (2 c cs)
  then show ?case by (cases "text_lines cs") (auto split: list.splits)
qed simp

text \<open>The replacement joins the lines of the text with the one line end.\<close>

lemma crlf_text_join: "crlf_text s = js_join [CR, LF] (text_lines s)"
proof (induction s rule: crlf_text.induct)
  case (2 c cs)
  obtain l ls where l: "text_lines cs = l # ls" by (cases "text_lines cs") auto
  have glue: "js_join [CR, LF] ((c # l) # ls) = c # js_join [CR, LF] (l # ls)" by (cases ls) simp_all
  show ?case using 2 l glue by (auto simp: js_join_Cons)
qed simp

lemma text_lines_line: "CR \<notin> set l \<Longrightarrow> LF \<notin> set l \<Longrightarrow> text_lines (l @ CR # LF # s) = l # text_lines s"
  by (induction l) auto

lemma text_lines_last: "CR \<notin> set l \<Longrightarrow> LF \<notin> set l \<Longrightarrow> text_lines l = [l]"
  by (induction l) auto

lemma text_lines_join:
  "ls \<noteq> [] \<Longrightarrow> \<forall>l\<in>set ls. CR \<notin> set l \<and> LF \<notin> set l \<Longrightarrow> text_lines (js_join [CR, LF] ls) = ls"
proof (induction ls)
  case (Cons l ls)
  then show ?case by (cases "ls = []") (simp_all add: text_lines_last text_lines_line js_join_Cons)
qed simp

lemma text_lines_crlf: "text_lines (crlf_text s) = text_lines s"
  unfolding crlf_text_join by (rule text_lines_join) (simp_all add: text_lines_plain)

lemma crlf_text_idem: "crlf_text (crlf_text s) = crlf_text s"
  by (simp add: crlf_text_join [of "crlf_text s"] text_lines_crlf) (simp add: crlf_text_join)

section \<open>The script\<close>

text \<open>\<open>path.trim().length > 0\<close> fails.\<close>

definition blank_path :: "string \<Rightarrow> bool" where
  "blank_path path \<longleftrightarrow> js_trim path = []"

text \<open>An error of git is reported with a method that \<open>console\<close> does not have.\<close>

definition getModifiedDocs :: "js_error + string \<Rightarrow> string list res" where
  "getModifiedDocs out = (case out of
       Inl err \<Rightarrow> throw TypeError ''console.err is not a function''
     | Inr stdout \<Rightarrow> Inr (filter (\<lambda>path. \<not> blank_path path) (map (drop 3) (js_split [LF] stdout))))"

type_synonym doc_files = "string \<Rightarrow> string option"

text \<open>\<open>readFile\<close> fails for a file that is not there, \<open>writeFile\<close> with the given error.\<close>

definition fixCRLF :: "(string \<Rightarrow> js_error option) \<Rightarrow> string \<Rightarrow> doc_files \<Rightarrow> doc_files \<times> js_error option" where
  "fixCRLF writeErr path files = (case files path of
       None \<Rightarrow> (files, Some (mk_error Error (''ENOENT: no such file or directory, open '' @ path)))
     | Some data \<Rightarrow> (case writeErr path of
           Some e \<Rightarrow> (files, Some e)
         | None \<Rightarrow> (files(path \<mapsto> crlf_text data), None)))"

fun fix_all :: "(string \<Rightarrow> js_error option) \<Rightarrow> string list \<Rightarrow> doc_files \<Rightarrow> doc_files \<times> (string \<times> js_error) list" where
  "fix_all writeErr [] files = (files, [])"
| "fix_all writeErr (path # paths) files =
     (let (files1, err) = fixCRLF writeErr path files; (files2, errs) = fix_all writeErr paths files1
      in (files2, (case err of Some e \<Rightarrow> [(path, e)] | None \<Rightarrow> []) @ errs))"

definition crlf_main :: "(string \<Rightarrow> js_error option) \<Rightarrow> js_error + string \<Rightarrow> doc_files \<Rightarrow> (doc_files \<times> (string \<times> js_error) list) res" where
  "crlf_main writeErr out files = res_bind (getModifiedDocs out) (\<lambda>paths. Inr (fix_all writeErr paths files))"

section \<open>Properties\<close>

text \<open>The output of \<open>git status -s\<close>: two letters and a space before each path, and a line end after it.\<close>

definition git_status :: "(string \<times> string) list \<Rightarrow> string" where
  "git_status entries = concat (map (\<lambda>(xy, path). xy @ '' '' @ path @ [LF]) entries)"

definition git_entry :: "string \<times> string \<Rightarrow> bool" where
  "git_entry e \<longleftrightarrow> length (fst e) = 2 \<and> LF \<notin> set (fst e) \<and> LF \<notin> set (snd e) \<and> \<not> blank_path (snd e)"

lemma split_git_status:
  "list_all git_entry entries \<Longrightarrow> js_split [LF] (git_status entries) = map (\<lambda>(xy, path). xy @ '' '' @ path) entries @ [[]]"
proof (induction entries)
  case Nil
  then show ?case by (simp add: git_status_def js_split_single)
next
  case (Cons e es)
  obtain xy path where e: "e = (xy, path)" by (cases e)
  have "split_on (\<lambda>c. c = LF) ((xy @ '' '' @ path) @ LF # git_status es) = (xy @ '' '' @ path) # split_on (\<lambda>c. c = LF) (git_status es)"
    by (rule split_on_append) (use Cons.prems e in \<open>auto simp: git_entry_def\<close>)
  with Cons e show ?case by (simp add: git_status_def js_split_single)
qed

lemma modified_docs: "list_all git_entry entries \<Longrightarrow> getModifiedDocs (Inr (git_status entries)) = Inr (map snd entries)"
proof -
  assume e: "list_all git_entry entries"
  have "map (drop 3) (js_split [LF] (git_status entries)) = map snd entries @ [[]]"
    using e unfolding split_git_status [OF e] map_append by (induction entries) (auto simp: git_entry_def)
  moreover have "filter (\<lambda>path. \<not> blank_path path) (map snd entries) = map snd entries"
    using e by (induction entries) (auto simp: git_entry_def)
  ultimately show ?thesis by (simp add: getModifiedDocs_def blank_path_def [of "[]"] js_trim_def)
qed

lemma fix_all_files:
  "fst (fix_all (\<lambda>_. None) paths files) = (\<lambda>p. if p \<in> set paths then map_option crlf_text (files p) else files p)"
proof (induction paths arbitrary: files)
  case (Cons path paths)
  show ?case
    by (cases "files path") (auto simp: fixCRLF_def case_prod_beta Let_def Cons.IH fun_eq_iff crlf_text_idem)
qed simp

lemma fix_all_errors:
  "distinct paths \<Longrightarrow> map fst (snd (fix_all (\<lambda>_. None) paths files)) = filter (\<lambda>p. files p = None) paths"
proof (induction paths arbitrary: files)
  case (Cons p ps)
  have "filter (\<lambda>q. (files(p := x)) q = None) ps = filter (\<lambda>q. files q = None) ps" for x
    using Cons.prems by (intro filter_cong) auto
  with Cons show ?case by (cases "files p") (simp_all add: fixCRLF_def case_prod_beta Let_def)
qed simp

text \<open>The script normalises line ends and nothing else. Given the output of git for any list of changed paths, and a file system
  that can be written, every listed file that exists has afterwards exactly the lines it had, joined by carriage return and line
  feed; every other file is as it was; the paths that could not be read are the listed ones that do not exist; and a second run
  changes nothing.\<close>

lemma crlf_normalises:
  assumes "list_all git_entry entries" and "distinct (map snd entries)"
  shows "\<exists>files' errs. crlf_main (\<lambda>_. None) (Inr (git_status entries)) files = Inr (files', errs)
    \<and> (\<forall>p. files' p = (if p \<in> set (map snd entries) then map_option (\<lambda>data. js_join [CR, LF] (text_lines data)) (files p) else files p))
    \<and> (\<forall>p. map_option text_lines (files' p) = map_option text_lines (files p))
    \<and> map fst errs = filter (\<lambda>p. files p = None) (map snd entries)
    \<and> fst (fix_all (\<lambda>_. None) (map snd entries) files') = files'"
proof -
  let ?ps = "map snd entries"
  obtain files' errs where r: "fix_all (\<lambda>_. None) ?ps files = (files', errs)" by (cases "fix_all (\<lambda>_. None) ?ps files")
  have files': "files' = (\<lambda>p. if p \<in> set ?ps then map_option crlf_text (files p) else files p)"
    using fix_all_files [of ?ps files] r by simp
  have "fst (fix_all (\<lambda>_. None) ?ps files') = files'"
    unfolding fix_all_files by (auto simp: files' fun_eq_iff option.map_comp comp_def crlf_text_idem)
  moreover have "map_option text_lines (files' p) = map_option text_lines (files p)" for p
    by (simp add: files' option.map_comp comp_def text_lines_crlf)
  moreover have "files' p = (if p \<in> set ?ps then map_option (\<lambda>data. js_join [CR, LF] (text_lines data)) (files p) else files p)" for p
    by (simp only: files' crlf_text_join [abs_def])
  moreover have "crlf_main (\<lambda>_. None) (Inr (git_status entries)) files = Inr (files', errs)"
    by (simp add: crlf_main_def modified_docs [OF assms(1)] r)
  ultimately show ?thesis using fix_all_errors [OF assms(2), of files] r by auto
qed

lemma crlf_normalises_example:
  "\<exists>files' errs. crlf_main (\<lambda>_. None) (Inr (git_status [('' M'', ''a.md'')])) [''a.md'' \<mapsto> [CHR ''x'', LF, CHR ''y'']] = Inr (files', errs)
    \<and> files' ''a.md'' = Some [CHR ''x'', CR, LF, CHR ''y'']"
proof -
  have e: "list_all git_entry [('' M'', ''a.md'')]" "distinct (map snd [('' M'', ''a.md'')])"
    by (simp_all add: git_entry_def blank_path_def js_trim_def is_space_def)
  from crlf_normalises [OF e, of "[''a.md'' \<mapsto> [CHR ''x'', LF, CHR ''y'']]"] show ?thesis by auto
qed

end
