(* ===== verification/Spec2Isabelle.thy ===== *)
theory Spec2Isabelle
  imports Device_Client Device_Twin Device_Services Device_Mqtt Device_Http Service_Rest Amqp_Transports
    Client_Outbox Client_Renewal Telemetry Twin_Mqtt Method_Mqtt Explorer_Loops Explorer_Simulate Explorer_Monitor Diagnostics Node_Red Release_Npm Bump_Release
    Sample_Twin Sample_Firmware Sample_Devices Sample_Jobs Fix_Crlf
begin

text \<open>
  A verification development for the Node.js SDK of Azure IoT Hub (\<open>src/node\<close>), the command line tools built
  on it (\<open>src/tools\<close>), the sample applications that carry logic of their own and the scripts
  that release and document it (\<open>src/build\<close>).

  \<^bold>\<open>The program.\<close> A \<^emph>\<open>device\<close> application uses a client (\<open>node/device/core/lib/client.js\<close>) over one of
  three transports (HTTP, AMQP, MQTT), each in a package of its own under \<open>node/device/transport\<close>; a
  \<^emph>\<open>service\<close> application uses a messaging client, a registry, a job client and queries
  (\<open>node/service/lib\<close>). Both rest on \<open>node/common\<close>: connection strings, shared access signatures,
  messages, the AMQP and HTTP base transports. A client parses a connection string, creates a signature
  from its key, gives its transport a configuration with the token, renews the token before it expires,
  and hands messages, method calls, twin requests and uploads to the transport, whose answers come back
  through callbacks and events. \<open>iothub-explorer\<close> is a set of commands over the service library, with a
  session kept in a file; the Node-RED node drives a device client.

  \<^bold>\<open>How code becomes definitions.\<close> A JavaScript value is a \<^typ>\<open>jsval\<close>; \<open>truthy\<close>, \<open>typeof\<close> and string
  conversion are functions on it, and a property that is missing reads as \<open>undefined\<close>. An object with
  known fields is a record, a plain object an association list in the order of insertion. A function
  that throws returns \<^typ>\<open>'a res\<close> with the error on the left. A function that mutates \<open>this\<close> takes and
  returns the state; calls into a library and calls of callbacks are the effects it returns, in order.
  A callback the code hands to a library is a definition of its own, named after the code that passes it
  (\<open>..._onResponse\<close>, \<open>..._onConnected\<close>, \<open>..._onSuback\<close>), applied to the state at the time it runs, so that
  any interleaving of callbacks is a sequence of events. Definitions carry the names of the source;
  methods of a class are written \<open>Class_method\<close>, and where two packages have a class of the same name
  the prefix \<open>Device\<close> or \<open>Service\<close> tells them apart.

  \<^bold>\<open>Parameters.\<close> What is not in the repository is an argument: the HMAC of \<open>crypto\<close>, the clock, \<open>uuid\<close>,
  \<open>JSON.parse\<close> and \<open>JSON.stringify\<close>, the merge functions of lodash and traverse, the storage package. The
  \<open>mqtt\<close>, \<open>amqp10\<close>, \<open>https\<close> and \<open>node-schedule\<close> libraries are present through the calls they get and the
  events they emit. The state machine library \<open>machina\<close> is used through its documented \<open>handle\<close>,
  \<open>transition\<close> and \<open>deferUntilTransition\<close>; the order in which it replays deferred inputs is left open.

  \<^bold>\<open>Theories.\<close>

  \<^item> \<open>Prelude\<close>, \<open>JS_Strings\<close>: values, dictionaries, errors and results; \<open>split\<close>, \<open>encodeURIComponent\<close>,
    decimal numbers, UTF-8 and their laws.

  \<^item> \<open>Common_Core\<close>: \<open>dictionary.js\<close>, \<open>connection_string.js\<close>, \<open>endpoint.js\<close>, \<open>authorization.js\<close>,
    \<open>shared_access_signature.js\<close> of the three packages. The locale \<open>keyed_format\<close> has the laws of a text
    of separated \<open>key=value\<close> pairs and is interpreted for both formats; from it come the round trips of
    connection strings and of signatures.

  \<^item> \<open>Common_Message\<close>: messages, custom properties, result classes, conversion to AMQP messages, requests
    and responses of the HTTP base. A response calls back once, with the whole body.

  \<^item> \<open>Error_Translation\<close>: the translation tables from HTTP, MQTT, AMQP and REST errors to the error
    classes of the SDK, with the locale \<open>error_translator\<close> for what all of them promise.

  \<^item> \<open>Device_Client\<close>: the constructor, the state machine with its five states, the receiver set-up, the
    renewal timer and the public methods. A data request is passed to the transport exactly once or still
    kept; data goes to the transport in the state connected only; closing ends in the state disconnected;
    a token update ends connected with the new token.

  \<^item> \<open>Client_Outbox\<close>: the abstract outbox that the state machine of the client refines, with the forward
    simulation.

  \<^item> \<open>Device_Twin\<close>: \<open>twin.js\<close>. Request identifiers strictly increase, a response completes the request
    with its identifier and no other, and a request completes once, by response or by timeout.

  \<^item> \<open>Device_Services\<close>: method requests and responses, blob upload. A method call is answered at most
    once; an upload that got its address notifies the service exactly once, whatever the upload gave.

  \<^item> \<open>Event_Listeners\<close>, \<open>Device_Mqtt\<close>: event emitters, and \<open>mqtt_base.js\<close>, \<open>mqtt.js\<close>, \<open>mqtt_receiver.js\<close>,
    \<open>mqtt-twin-receiver.js\<close>, \<open>mqtt_ws.js\<close>. The locale \<open>listener_driven\<close> is the contract of a resource that is
    attached while somebody listens, interpreted for the MQTT receiver.

  \<^item> \<open>Twin_Mqtt\<close>: the twin, the MQTT transport and its twin receiver joined into one system with the hub, over
    one connection. Each request is published once, with its own identifier, and an answer of the hub ends
    the request it belongs to and no other.

  \<^item> \<open>Method_Mqtt\<close>: a direct method from the topic of the call to the topic of its answer. A handler that
    calls \<open>send\<close> gets exactly one answer published, with the identifier of the call.

  \<^item> \<open>Device_Http\<close>: \<open>http.js\<close> and \<open>http_receiver.js\<close>. At most one timer polls, none after the last
    listener went, and one poll drains the queue of messages.

  \<^item> \<open>Service_Rest\<close>: \<open>rest_api_client.js\<close>, \<open>registry.js\<close>, \<open>job_client.js\<close>, \<open>query.js\<close>, \<open>device_method.js\<close>,
    \<open>twin.js\<close>, \<open>device.js\<close>. The locale \<open>rest_operation\<close> is what the REST client needs of an operation; it is
    interpreted for the registry, the job client, device methods and twins, and gives that no call that
    passed its checks throws later and that every request is signed for the time it is made.

  \<^item> \<open>Common_Amqp\<close>: \<open>amqp.js\<close> and \<open>amqp_receiver.js\<close> over the promises of the AMQP library, settled in any
    order. The locale \<open>amqp_ledger\<close> turns a conservation law of one event into that of a run; its two
    interpretations are that callbacks and messages are neither lost nor repeated.

  \<^item> \<open>Amqp_Transports\<close>: the AMQP transports of device and service and the messaging client of the service.
    The service's connection renews its token for ever with one timer.

  \<^item> \<open>Device_System\<close>: the client with its transports. The configuration has the type the transports expect,
    its token outlives the renewal, and it is what MQTT, AMQP and HTTP present to the hub.

  \<^item> \<open>Client_Renewal\<close>: the renewal of the token from the timer of the client to the wire. The locale
    \<open>renewable_transport\<close> is what the client needs of a transport, interpreted for MQTT, AMQP and HTTP: after any
    number of renewals the hub gets the token that a new client would have.

  \<^item> \<open>Telemetry\<close>: the events of the application from \<open>sendEvent\<close> to the wire. The locale \<open>event_transport\<close>, interpreted for MQTT
    and HTTP, gives that along every run of the client each event handed over becomes exactly one packet that carries
    it, because a connection is always asked for first; it covers the runs in which the token is not changed.

  \<^item> \<open>Explorer_Common\<close>, \<open>Explorer_Commands\<close>, \<open>Explorer_Laws\<close>: the commands of \<open>tools/iothub-explorer\<close> as
    computations over a world with a clock, files, a terminal and the services. The locales \<open>cmd_contract\<close>
    and \<open>rest_contract\<close> say what a relation between worlds must satisfy to hold of every command; their
    interpretations give that every request of a registry command is signed with the token of the session
    or of \<open>--login\<close>, and that such a command writes no file. A session that \<open>login\<close> started is the one
    later commands use.

  \<^item> \<open>Explorer_Loops\<close>: the loop of \<open>query-job\<close> over the pages of an answer, which ends and prints every job.

  \<^item> \<open>Explorer_Simulate\<close>: \<open>simulate-device\<close>, with the running simulation as a step relation.

  \<^item> \<open>Explorer_Monitor\<close>: the four monitors; with a device as argument \<open>monitor-events\<close> prints its events and no
    others.

  \<^item> \<open>Diagnostics\<close>: \<open>tools/iothub-diagnostics\<close>, the exchange of a message over each transport. The calls of
    the callback of a test are counted; a finished sequence of tests deletes its device.

  \<^item> \<open>Node_Red\<close>: the node of \<open>node/device/node-red\<close>. At most one client is open, and payloads are neither lost
    in silence nor sent twice.

  \<^item> \<open>Release_Npm\<close>: the script \<open>release_npm\<close>. Nothing is pushed before every check of the repository passed.

  \<^item> \<open>Bump_Version\<close>, \<open>Bump_Inputs\<close>, \<open>Bump_Release\<close>: the script \<open>bump_version\<close>, its table of tasks with the
    versions, and what a run over that table does: it ends without an exception, a package description
    ends with exactly the versions asked for, and packages refer to each other with the versions they have.

  \<^item> \<open>Sample_Twin\<close>: the sample application of the twin (\<open>simple_sample_device_twin.js\<close>) on top of \<open>Device_Twin\<close>. The list of modules it keeps
    from the changes it hears is always that of the twin.

  \<^item> \<open>Sample_Firmware\<close>: the firmware update of \<open>dmpatterns_fwupdate_device.js\<close> and the service side of it, over the waterfall of the package
    \<open>async\<close> as a parameter: what is reported, in which order, and how a failure goes wrong.

  \<^item> \<open>Sample_Devices\<close>, \<open>Sample_Jobs\<close>: the reconnection loop of \<open>simple_sample_device.js\<close> (one timer sends, however often it reconnects),
    the command handler of \<open>remote_monitoring.js\<close>, \<open>device_methods.js\<close>, and the polling of \<open>schedule_job.js\<close> and \<open>registry_bulk_sample.js\<close>.

  \<^item> \<open>Fix_Crlf\<close>: the script \<open>build/docs/fix-crlf.js\<close>, which leaves every line as it was and is idempotent.

  \<^bold>\<open>Fuel.\<close> \<open>fetch_all\<close>, the loop an application writes over \<open>Query.next\<close>, has fuel, since a service may never
  send a last page; as many steps as there are pages are shown to be enough. The loops of the commands
  over pages and over the state of a job (\<open>print_pages\<close>, \<open>poll_job\<close>) have fuel for the same reason: for
  \<open>query-job\<close> fuel for as many pages as there are is shown to be enough, and what is proved of the requests of
  these commands holds for every fuel. Every other recursion is structural or has a termination proof.

  \<^bold>\<open>Flaws.\<close> Some lemmas state what the code does against its intention: a failed implicit connection
  keeps its message (\<open>client_failed_open_keeps_event\<close>), timers that survive (\<open>client_close_leaves_timer\<close>,
  \<open>service_reconnect_leaks_timer\<close>, \<open>http_cron_never_cancelled\<close>), subscriptions and links that are lost
  (\<open>mqtt_unsubscribe_race\<close>, \<open>mqtt_twin_receiver_detaches_early\<close>, \<open>amqp_receiver_never_renewed\<close>,
  \<open>amqp_receiver_loses_errors\<close>), callbacks that run twice (\<open>mqtt_connect_done_twice\<close>,
  \<open>amqp_sender_error_repeats_done\<close>), errors that lose their kind (\<open>twin_string_status_generic\<close>), a loop
  that does not end (\<open>query_missing_token_never_ends\<close>), a transport that ignores its address
  (\<open>service_ws_connects_over_amqp\<close>), commands that cannot work (\<open>device_key_unreachable\<close>,
  \<open>import_devices_loses_job\<close>, \<open>session_method_fails\<close>, \<open>login_duration_appended\<close>), a token that is printed
  (\<open>get_twin_prints_token\<close>), a branch that is deleted (\<open>release_deletes_existing_branch\<close>), an image that is applied after a failed
  download (\<open>failed_download_is_applied\<close>).

  \<^bold>\<open>Limits.\<close> A number is an integer: the SDK computes with times, counts and status codes. A character is
  one of the 256 of \<^typ>\<open>char\<close>, so percent encoding covers code points below 256. The callbacks of a
  command run in the order in which it registers them, and steps that a script runs in parallel in the
  order of its arguments. Not modelled: the lists of exports (\<open>common.js\<close>, \<open>iothub.js\<close>), debug output
  and the logger, the dispatcher of \<open>iothub-explorer\<close>, which only names the commands, the documentation template (a fork of the one of jsdoc),
  the samples that show a single call, the measurements of the others (fractional random numbers), the script around the certificate package,
  the user interface library that one sample carries, and the SDKs in other languages.
\<close>

end
